(* ===== verification/Prelude.thy ===== *)
theory Prelude
  imports Main "HOL-Library.Multiset"
begin

text \<open>
  Shared ground of the development: the collections of simplification rules the
  component theories fill, the list operations that several components use (the search
  from the end of a slice, the removal of one index, the first index with a least key)
  and their lemmas, and the names of the Go types that every component mentions.
\<close>

named_theorems group_simps \<open>observations of candidates and groups under the grouper operations\<close>
named_theorems detect_simps \<open>the detector state under one emitted signal\<close>
named_theorems queue_simps \<open>unfolding of the persistence queue's operations\<close>
named_theorems bpf_simps \<open>unfolding of the instruction builders\<close>

text \<open>A Go \<open>error\<close> that is not nil is its message; a fallible operation returns a sum.\<close>

type_synonym go_error = string

text \<open>
  A \<open>time.Time\<close> is the instant it denotes, in nanoseconds since the zero time (so
  \<open>IsZero\<close> is equality with 0); a \<open>time.Duration\<close> is a signed 64-bit count of
  nanoseconds.
\<close>

type_synonym go_time = int
type_synonym duration = int

abbreviation IsZero :: "go_time \<Rightarrow> bool" where
  "IsZero t \<equiv> t = 0"

abbreviation max_duration :: duration where
  "max_duration \<equiv> 9223372036854775807"

abbreviation min_duration :: duration where
  "min_duration \<equiv> - 9223372036854775808"

text \<open>\<open>t.Sub(u)\<close> saturates at the ends of the 64-bit range.\<close>

definition time_Sub :: "go_time \<Rightarrow> go_time \<Rightarrow> duration" where
  "time_Sub t u = max min_duration (min max_duration (t - u))"

abbreviation second :: duration where
  "second \<equiv> 1000000000"

abbreviation minute :: duration where
  "minute \<equiv> 60 * second"

lemma time_Sub_mono: "t \<le> t' \<Longrightarrow> time_Sub t u \<le> time_Sub t' u"
  by (simp add: time_Sub_def min_def max_def)

lemma time_Sub_le_iff:
  "min_duration \<le> d \<Longrightarrow> d < max_duration \<Longrightarrow> time_Sub t u \<le> d \<longleftrightarrow> t - u \<le> d"
  by (auto simp: time_Sub_def min_def max_def)

lemma time_Sub_ge_iff:
  "min_duration < d \<Longrightarrow> d \<le> max_duration \<Longrightarrow> d \<le> time_Sub t u \<longleftrightarrow> d \<le> t - u"
  by (auto simp: time_Sub_def min_def max_def)

section \<open>The last index with a property\<close>

text \<open>The loop \<open>for index := len(xs)-1; index >= 0; index--\<close> that breaks at the first hit.\<close>

fun find_last_from :: "('a \<Rightarrow> bool) \<Rightarrow> 'a list \<Rightarrow> nat \<Rightarrow> nat option" where
  "find_last_from P xs 0 = None"
| "find_last_from P xs (Suc n) = (if P (xs ! n) then Some n else find_last_from P xs n)"

definition find_last :: "('a \<Rightarrow> bool) \<Rightarrow> 'a list \<Rightarrow> nat option" where
  "find_last P xs = find_last_from P xs (length xs)"

lemma find_last_from_Some:
  "find_last_from P xs n = Some i \<Longrightarrow> i < n \<and> P (xs ! i) \<and> (\<forall>j. i < j \<and> j < n \<longrightarrow> \<not> P (xs ! j))"
  by (induction n) (auto simp: less_Suc_eq split: if_splits)

lemma find_last_from_None: "find_last_from P xs n = None \<longleftrightarrow> (\<forall>i<n. \<not> P (xs ! i))"
  by (induction n) (auto simp: less_Suc_eq split: if_splits)

lemma find_last_Some:
  "find_last P xs = Some i \<Longrightarrow> i < length xs \<and> P (xs ! i) \<and> (\<forall>j. i < j \<and> j < length xs \<longrightarrow> \<not> P (xs ! j))"
  unfolding find_last_def by (rule find_last_from_Some)

lemma find_last_None: "find_last P xs = None \<longleftrightarrow> (\<forall>x\<in>set xs. \<not> P x)"
  unfolding find_last_def find_last_from_None by (metis in_set_conv_nth)

section \<open>Removing one index, and the first index with a least key\<close>

definition remove_nth :: "nat \<Rightarrow> 'a list \<Rightarrow> 'a list" where
  "remove_nth i xs = take i xs @ drop (Suc i) xs"

lemma length_remove_nth [simp]: "i < length xs \<Longrightarrow> length (remove_nth i xs) = length xs - 1"
  by (simp add: remove_nth_def)

lemma set_remove_nth_subset: "set (remove_nth i xs) \<subseteq> set xs"
  by (auto simp: remove_nth_def dest: in_set_takeD in_set_dropD)

lemma split_at_nth: "i < length xs \<Longrightarrow> xs = take i xs @ xs ! i # drop (Suc i) xs"
  by (rule id_take_nth_drop)

lemma mset_remove_nth: "i < length xs \<Longrightarrow> mset xs = add_mset (xs ! i) (mset (remove_nth i xs))"
  by (subst (1) split_at_nth [of i xs]) (simp_all add: remove_nth_def del: append_take_drop_id)

lemma sum_list_map_mset: "sum_list (map f xs) = sum_mset (image_mset f (mset xs))"
  by (simp flip: mset_map sum_mset_sum_list)

lemma sum_list_remove_nth:
  fixes f :: "'a \<Rightarrow> 'b :: comm_monoid_add"
  shows "i < length xs \<Longrightarrow> sum_list (map f xs) = f (xs ! i) + sum_list (map f (remove_nth i xs))"
  unfolding sum_list_map_mset by (subst mset_remove_nth [of i xs]) auto

lemma sum_list_update_nth_add:
  fixes f :: "'a \<Rightarrow> 'b :: comm_monoid_add"
  assumes i: "i < length xs"
  shows "sum_list (map f (xs[i := y])) + f (xs ! i) = sum_list (map f xs) + f y"
proof -
  have "sum_list (map f xs) = sum_list (map f (take i xs)) + (f (xs ! i) + sum_list (map f (drop (Suc i) xs)))"
    by (subst (1) split_at_nth [OF i]) (simp add: del: append_take_drop_id)
  moreover have "sum_list (map f (xs[i := y])) =
      sum_list (map f (take i xs)) + (f y + sum_list (map f (drop (Suc i) xs)))"
    using i by (simp add: upd_conv_take_nth_drop)
  ultimately show ?thesis by (simp add: ac_simps)
qed

lemma sum_list_update_nth:
  fixes f :: "'a \<Rightarrow> 'b :: ab_group_add"
  shows "i < length xs \<Longrightarrow>
    sum_list (map f (xs[i := y])) = sum_list (map f xs) - f (xs ! i) + f y"
  using sum_list_update_nth_add [of i xs f y] by (simp add: algebra_simps)

lemma mset_concat_map_update:
  assumes "i < length xs"
  shows "mset (concat (map f (xs[i := y]))) + mset (f (xs ! i)) = mset (concat (map f xs)) + mset (f y)"
  using assms by (induction xs arbitrary: i) (auto simp: nth_Cons split: nat.splits)

lemma mset_concat_remove_nth:
  "i < length xs \<Longrightarrow>
    mset (concat (map f xs)) = mset (f (xs ! i)) + mset (concat (map f (remove_nth i xs)))"
  by (subst (1) split_at_nth [of i xs])
    (simp_all add: remove_nth_def del: append_take_drop_id)

lemma mset_concat_filter_partition:
  "mset (concat (map f xs)) =
    mset (concat (map f (filter P xs))) + mset (concat (map f (filter (\<lambda>x. \<not> P x) xs)))"
  by (induction xs) auto

lemma sum_list_filter_partition:
  fixes f :: "'a \<Rightarrow> 'b :: comm_monoid_add"
  shows "sum_list (map f xs) =
    sum_list (map f (filter P xs)) + sum_list (map f (filter (\<lambda>x. \<not> P x) xs))"
  by (induction xs) (auto simp: ac_simps)

lemma sum_list_filter_le:
  fixes f :: "'a \<Rightarrow> nat"
  shows "sum_list (map f (filter P xs)) \<le> sum_list (map f xs)"
  by (induction xs) auto

text \<open>
  The scan \<open>oldest := 0; for i := 1; i < len; i++ if key(i) < key(oldest) then oldest = i\<close>.
\<close>

fun least_index_from :: "('a \<Rightarrow> 'k :: linorder) \<Rightarrow> 'a list \<Rightarrow> nat \<Rightarrow> nat" where
  "least_index_from key xs 0 = 0"
| "least_index_from key xs (Suc n) =
     (let b = least_index_from key xs n
      in if key (xs ! Suc n) < key (xs ! b) then Suc n else b)"

definition least_index :: "('a \<Rightarrow> 'k :: linorder) \<Rightarrow> 'a list \<Rightarrow> nat" where
  "least_index key xs = least_index_from key xs (length xs - 1)"

lemma least_index_from_le: "least_index_from key xs n \<le> n"
  by (induction n) (auto simp: Let_def)

lemma least_index_from_least:
  "i \<le> n \<Longrightarrow> key (xs ! least_index_from key xs n) \<le> key (xs ! i)"
  by (induction n) (auto simp: Let_def le_Suc_eq dest: order.strict_implies_order order_trans)

lemma least_index_less: "xs \<noteq> [] \<Longrightarrow> least_index key xs < length xs"
  using least_index_from_le [of key xs "length xs - 1"]
  by (cases xs) (auto simp: least_index_def)

lemma least_index_least: "x \<in> set xs \<Longrightarrow> key (xs ! least_index key xs) \<le> key x"
  by (auto simp: least_index_def in_set_conv_nth intro: least_index_from_least)

section \<open>Small list facts\<close>

lemma list_all_foldl_invariant:
  "P s \<Longrightarrow> (\<And>s x. P s \<Longrightarrow> x \<in> set xs \<Longrightarrow> P (f s x)) \<Longrightarrow> P (foldl f s xs)"
  by (induction xs arbitrary: s) auto

lemma sum_list_ge_length:
  "\<forall>x\<in>set xs. (1::nat) \<le> f x \<Longrightarrow> length xs \<le> sum_list (map f xs)"
  by (induction xs) (auto intro: add_mono)

lemma drop_subset_mset: "mset (drop n xs) \<subseteq># mset xs"
  by (metis append_take_drop_id mset_append mset_subset_eq_add_right)

end
