(* ===== verification/GoLib.thy ===== *)
theory GoLib
  imports Prelude
begin

text \<open>
  The functions of Go's standard library that the program calls, on strings as the bytes of
  their UTF-8 encoding: prefixes, substrings and cutting (\<open>strings\<close>), the case mappings as
  far as a comparison with ASCII text sees them, \<open>filepath.Base\<close> and \<open>filepath.Clean\<close>,
  decimal printing (\<open>%d\<close>, \<open>strconv.Itoa\<close>), \<open>net.JoinHostPort\<close>, and the contract of
  \<open>sort.Slice\<close>, which promises a sorted permutation and no more.
\<close>

section \<open>Prefixes, suffixes, substrings\<close>

fun HasPrefix :: "string \<Rightarrow> string \<Rightarrow> bool" where
  "HasPrefix s [] = True"
| "HasPrefix [] (p # ps) = False"
| "HasPrefix (c # s) (p # ps) = (c = p \<and> HasPrefix s ps)"

definition HasSuffix :: "string \<Rightarrow> string \<Rightarrow> bool" where
  "HasSuffix s p = HasPrefix (rev s) (rev p)"

fun Contains :: "string \<Rightarrow> string \<Rightarrow> bool" where
  "Contains [] p = (p = [])"
| "Contains (c # s) p = (HasPrefix (c # s) p \<or> Contains s p)"

lemma HasPrefix_iff: "HasPrefix s p \<longleftrightarrow> (\<exists>r. s = p @ r)"
  by (induction s p rule: HasPrefix.induct) auto

lemma HasSuffix_iff: "HasSuffix s p \<longleftrightarrow> (\<exists>r. s = r @ p)"
  unfolding HasSuffix_def HasPrefix_iff by (metis rev_append rev_rev_ident)

lemma Contains_iff: "Contains s p \<longleftrightarrow> (\<exists>a b. s = a @ p @ b)"
proof (induction s)
  case (Cons c s)
  have "(\<exists>a b. c # s = a @ p @ b) \<longleftrightarrow> HasPrefix (c # s) p \<or> (\<exists>a b. s = a @ p @ b)"
    unfolding HasPrefix_iff by (auto simp: Cons_eq_append_conv)
  with Cons.IH show ?case by simp
qed auto

definition TrimPrefix :: "string \<Rightarrow> string \<Rightarrow> string" where
  "TrimPrefix s p = (if HasPrefix s p then drop (length p) s else s)"

definition TrimSuffix :: "string \<Rightarrow> string \<Rightarrow> string" where
  "TrimSuffix s p = (if HasSuffix s p then take (length s - length p) s else s)"

text \<open>\<open>strings.Cut(s, sep)\<close> at a one-byte separator: the parts around its first occurrence.\<close>

fun Cut :: "char \<Rightarrow> string \<Rightarrow> string \<times> string \<times> bool" where
  "Cut sep [] = ([], [], False)"
| "Cut sep (c # s) =
     (if c = sep then ([], s, True)
      else case Cut sep s of (a, b, found) \<Rightarrow> (c # a, b, found))"

lemma Cut_found: "Cut sep s = (a, b, True) \<Longrightarrow> s = a @ sep # b \<and> sep \<notin> set a"
  by (induction s arbitrary: a) (auto split: if_splits prod.splits)

lemma Cut_not_found: "Cut sep s = (a, b, False) \<Longrightarrow> a = s \<and> b = [] \<and> sep \<notin> set s"
  by (induction s arbitrary: a b) (auto split: if_splits prod.splits)

fun Split :: "char \<Rightarrow> string \<Rightarrow> string list" where
  "Split sep [] = [[]]"
| "Split sep (c # s) =
     (if c = sep then [] # Split sep s
      else case Split sep s of [] \<Rightarrow> [[c]] | w # ws \<Rightarrow> (c # w) # ws)"

fun Join :: "string \<Rightarrow> string list \<Rightarrow> string" where
  "Join sep [] = []"
| "Join sep [w] = w"
| "Join sep (w # v # ws) = w @ sep @ Join sep (v # ws)"

lemma Split_nonempty: "Split sep s \<noteq> []"
  by (induction s) (auto split: list.splits)

lemma Join_Cons: "ws \<noteq> [] \<Longrightarrow> Join sep (w # ws) = w @ sep @ Join sep ws"
  by (cases ws) auto

lemma Join_Split: "Join [sep] (Split sep s) = s"
proof (induction s)
  case (Cons c s)
  obtain w ws where ws: "Split sep s = w # ws"
    using Split_nonempty [of sep s] by (cases "Split sep s") auto
  show ?case
  proof (cases "c = sep")
    case True
    with Cons.IH ws show ?thesis by simp
  next
    case False
    with Cons.IH ws show ?thesis by (cases ws) auto
  qed
qed simp

lemma Split_no_sep: "w \<in> set (Split sep s) \<Longrightarrow> sep \<notin> set w"
  by (induction s arbitrary: w) (auto split: if_splits list.splits)

lemma Split_word: "c \<notin> set w \<Longrightarrow> Split c w = [w]"
  by (induction w) auto

lemma Split_word_sep: "c \<notin> set w \<Longrightarrow> Split c (w @ c # s) = w # Split c s"
  by (induction w) auto

lemma Split_Join: "xs \<noteq> [] \<Longrightarrow> \<forall>w\<in>set xs. c \<notin> set w \<Longrightarrow> Split c (Join [c] xs) = xs"
proof (induction xs)
  case (Cons w xs)
  then show ?case
    by (cases "xs = []") (auto simp: Split_word Join_Cons Split_word_sep)
qed simp

section \<open>Case\<close>

abbreviation byte :: "char \<Rightarrow> nat" where
  "byte c \<equiv> of_char c"

definition lower_char :: "char \<Rightarrow> char" where
  "lower_char c = (if 65 \<le> byte c \<and> byte c \<le> 90 then char_of (byte c + 32) else c)"

text \<open>
  \<open>strings.ToLower\<close>, as far as it is observed here: every caller compares the result with
  ASCII text. Besides the ASCII letters the only runes whose lower case is ASCII are the Kelvin
  sign (bytes E2 84 AA) and the dotted capital I (bytes C4 B0). A rune that maps to another
  non-ASCII rune is left as it is.
\<close>

fun ToLower :: "string \<Rightarrow> string" where
  "ToLower [] = []"
| "ToLower (c # s) =
     (if c = CHR 0xE2 \<and> take 2 s = [CHR 0x84, CHR 0xAA] then CHR ''k'' # ToLower (drop 2 s)
      else if c = CHR 0xC4 \<and> take 1 s = [CHR 0xB0] then CHR ''i'' # ToLower (drop 1 s)
      else lower_char c # ToLower s)"

text \<open>
  Simple case folding, as \<open>strings.EqualFold\<close> and a \<open>(?i)\<close> regular expression apply it: the
  Kelvin sign folds to \<open>k\<close> and the long s (bytes C5 BF) to \<open>s\<close>.
\<close>

fun fold_case :: "string \<Rightarrow> string" where
  "fold_case [] = []"
| "fold_case (c # s) =
     (if c = CHR 0xE2 \<and> take 2 s = [CHR 0x84, CHR 0xAA] then CHR ''k'' # fold_case (drop 2 s)
      else if c = CHR 0xC5 \<and> take 1 s = [CHR 0xBF] then CHR ''s'' # fold_case (drop 1 s)
      else lower_char c # fold_case s)"

definition EqualFold :: "string \<Rightarrow> string \<Rightarrow> bool" where
  "EqualFold s t = (fold_case s = fold_case t)"

section \<open>White space\<close>

text \<open>The number of bytes of the white-space rune a string starts with, 0 if it starts with none.\<close>

definition space_len :: "string \<Rightarrow> nat" where
  "space_len s =
     (case s of [] \<Rightarrow> 0
      | c # r \<Rightarrow>
          if c \<in> {CHR 0x09, CHR 0x0A, CHR 0x0B, CHR 0x0C, CHR 0x0D, CHR '' ''} then 1
          else if c = CHR 0xC2 \<and> take 1 r \<in> {[CHR 0x85], [CHR 0xA0]} then 2
          else if c = CHR 0xE1 \<and> take 2 r = [CHR 0x9A, CHR 0x80] then 3
          else if c = CHR 0xE2 \<and> length r \<ge> 2 \<and> r ! 0 = CHR 0x80 \<and>
            (128 \<le> byte (r ! 1) \<and> byte (r ! 1) \<le> 138 \<or> r ! 1 \<in> {CHR 0xA8, CHR 0xA9, CHR 0xAF}) then 3
          else if c = CHR 0xE2 \<and> take 2 r = [CHR 0x81, CHR 0x9F] then 3
          else if c = CHR 0xE3 \<and> take 2 r = [CHR 0x80, CHR 0x80] then 3
          else 0)"

lemma space_len_Nil [simp]: "space_len [] = 0"
  by (simp add: space_len_def)

lemma space_len_shrinks: "0 < space_len s \<Longrightarrow> length s - space_len s < length s"
  by (cases s) auto

text \<open>\<open>strings.Fields\<close>: the maximal runs of non-space; \<open>acc\<close> is the current run, reversed.\<close>

function fields_from :: "string \<Rightarrow> string \<Rightarrow> string list" where
  "fields_from acc s =
     (if s = [] then (if acc = [] then [] else [rev acc])
      else if space_len s > 0
        then (if acc = [] then [] else [rev acc]) @ fields_from [] (drop (space_len s) s)
      else fields_from (hd s # acc) (tl s))"
  by pat_completeness auto
termination
  by (relation "measure (\<lambda>(acc, s). length s)") auto

declare fields_from.simps [simp del]

definition Fields :: "string \<Rightarrow> string list" where
  "Fields s = fields_from [] s"

text \<open>
  \<open>strings.TrimSpace\<close>: drop the leading white space; at the end, drop everything after the
  last non-space byte. \<open>pend\<close> is the white space read since then.
\<close>

function trim_left :: "string \<Rightarrow> string" where
  "trim_left s = (if space_len s > 0 then trim_left (drop (space_len s) s) else s)"
  by pat_completeness auto
termination
  by (relation "measure length") (auto simp: space_len_shrinks)

declare trim_left.simps [simp del]

function trim_right_from :: "string \<Rightarrow> string \<Rightarrow> string" where
  "trim_right_from pend s =
     (if s = [] then []
      else if space_len s > 0
        then trim_right_from (pend @ take (space_len s) s) (drop (space_len s) s)
      else pend @ hd s # trim_right_from [] (tl s))"
  by pat_completeness auto
termination
  by (relation "measure (\<lambda>(pend, s). length s)") auto

declare trim_right_from.simps [simp del]

definition TrimSpace :: "string \<Rightarrow> string" where
  "TrimSpace s = trim_right_from [] (trim_left s)"

section \<open>Decimal numbers\<close>

definition digit_char :: "nat \<Rightarrow> char" where
  "digit_char n = char_of (48 + n)"

fun nat_decimal :: "nat \<Rightarrow> string" where
  "nat_decimal n =
     (if n < 10 then [digit_char n] else nat_decimal (n div 10) @ [digit_char (n mod 10)])"

declare nat_decimal.simps [simp del]

definition Itoa :: "int \<Rightarrow> string" where
  "Itoa i = (if i < 0 then CHR ''-'' # nat_decimal (nat (- i)) else nat_decimal (nat i))"

definition decimal_value :: "string \<Rightarrow> nat" where
  "decimal_value s = foldl (\<lambda>v c. 10 * v + (of_char c - 48)) 0 s"

lemma of_digit_char: "n < 10 \<Longrightarrow> (of_char (digit_char n) :: nat) = 48 + n"
  by (simp add: digit_char_def)

lemma decimal_value_nat_decimal: "decimal_value (nat_decimal n) = n"
proof (induction n rule: nat_decimal.induct)
  case (1 n)
  show ?case
  proof (cases "n < 10")
    case True
    then show ?thesis
      by (subst nat_decimal.simps) (simp add: decimal_value_def of_digit_char)
  next
    case False
    then have "decimal_value (nat_decimal n) = 10 * decimal_value (nat_decimal (n div 10)) + n mod 10"
      by (subst nat_decimal.simps) (simp add: decimal_value_def of_digit_char)
    with "1.IH" [OF False] show ?thesis by simp
  qed
qed

lemma nat_decimal_digits: "c \<in> set (nat_decimal n) \<Longrightarrow> c \<in> digit_char ` {0..<10}"
proof (induction n rule: nat_decimal.induct)
  case (1 n)
  show ?case
  proof (cases "n < 10")
    case True
    with 1 show ?thesis by (subst (asm) nat_decimal.simps) auto
  next
    case False
    with "1.prems" have "c \<in> set (nat_decimal (n div 10)) \<or> c = digit_char (n mod 10)"
      by (subst (asm) nat_decimal.simps) auto
    with "1.IH" [OF False] show ?thesis by auto
  qed
qed

lemma nat_decimal_nonempty: "nat_decimal n \<noteq> []"
  by (subst nat_decimal.simps) simp

lemma digit_range: "c \<in> digit_char ` {0..<10} \<Longrightarrow> 48 \<le> byte c \<and> byte c \<le> 57"
  by (auto simp: of_digit_char)

lemma nat_decimal_not_in: "byte c < 48 \<or> 57 < byte c \<Longrightarrow> c \<notin> set (nat_decimal n)"
  using nat_decimal_digits digit_range by fastforce

lemma Itoa_inj: "Itoa i = Itoa j \<Longrightarrow> i = j"
proof -
  assume eq: "Itoa i = Itoa j"
  have minus: "CHR ''-'' \<notin> set (nat_decimal n)" for n
    by (rule nat_decimal_not_in) simp
  have val: "n = m" if "nat_decimal n = nat_decimal m" for n m
    using that decimal_value_nat_decimal by metis
  from eq minus show ?thesis
    unfolding Itoa_def
    by (auto split: if_splits dest!: val) (metis list.set_intros(1))+
qed

lemma Itoa_no_colon: "CHR '':'' \<notin> set (Itoa i)"
  using nat_decimal_not_in [of "CHR '':''"] by (auto simp: Itoa_def)

text \<open>The key \<open>"%d:%s"\<close> determines both of its parts.\<close>

lemma append_sep_inj:
  "x \<notin> set a \<Longrightarrow> x \<notin> set b \<Longrightarrow> a @ x # s = b @ x # t \<longleftrightarrow> a = b \<and> s = t"
proof (induction a arbitrary: b)
  case Nil
  then show ?case by (cases b) auto
next
  case (Cons c a)
  then show ?case by (cases b) auto
qed

lemma append_sep_inj_last:
  "x \<notin> set c \<Longrightarrow> x \<notin> set d \<Longrightarrow> a @ x # c = b @ x # d \<longleftrightarrow> a = b \<and> c = d"
  using append_sep_inj [of x "rev c" "rev d" "rev a" "rev b"]
  by (metis append.assoc append_Cons append_Nil rev.simps(2) rev_append rev_rev_ident set_rev)

section \<open>Paths\<close>

definition trim_slashes :: "string \<Rightarrow> string" where
  "trim_slashes p = rev (dropWhile (\<lambda>c. c = CHR ''/'') (rev p))"

text \<open>\<open>filepath.Base\<close>.\<close>

definition Base :: "string \<Rightarrow> string" where
  "Base p =
     (if p = [] then ''.''
      else let b = rev (takeWhile (\<lambda>c. c \<noteq> CHR ''/'') (rev (trim_slashes p)))
           in if b = [] then ''/'' else b)"

text \<open>
  \<open>filepath.Clean\<close>: the elements between slashes, with empty and \<open>.\<close> elements dropped and
  each \<open>..\<close> removing the element before it, or itself at the root. The stack is reversed.
\<close>

definition clean_elem :: "bool \<Rightarrow> string list \<Rightarrow> string \<Rightarrow> string list" where
  "clean_elem rooted out w =
     (if w = [] \<or> w = ''.'' then out
      else if w = ''..'' then
        (case out of
           [] \<Rightarrow> if rooted then [] else [''..'']
         | v # vs \<Rightarrow> if v = ''..'' then ''..'' # out else vs)
      else w # out)"

definition IsAbs :: "string \<Rightarrow> bool" where
  "IsAbs p = HasPrefix p ''/''"

definition Clean :: "string \<Rightarrow> string" where
  "Clean p =
     (let rooted = IsAbs p;
          out = foldl (clean_elem rooted) [] (Split CHR ''/'' p);
          body = Join ''/'' (rev out)
      in if rooted then ''/'' @ body else if body = [] then ''.'' else body)"

text \<open>\<open>filepath.Join\<close> of two elements, of which the first is not empty where it is called.\<close>

definition path_Join :: "string list \<Rightarrow> string" where
  "path_Join es =
     (let ne = filter (\<lambda>e. e \<noteq> []) es in if ne = [] then [] else Clean (Join ''/'' ne))"

definition JoinHostPort :: "string \<Rightarrow> string \<Rightarrow> string" where
  "JoinHostPort host port =
     (if CHR '':'' \<in> set host then ''['' @ host @ '']:'' @ port else host @ '':'' @ port)"

section \<open>The contract of \<open>sort.Slice\<close>\<close>

text \<open>
  \<open>sort.Slice\<close> permutes the slice so that it is sorted by the key; equal keys may come out
  in any order. The model takes the sorting function as an argument, and its theorems hold
  for every function that keeps this contract. \<open>sort.SliceStable\<close> is \<open>sort_key\<close>.
\<close>

definition sorts_by :: "('a \<Rightarrow> 'k :: linorder) \<Rightarrow> ('a list \<Rightarrow> 'a list) \<Rightarrow> bool" where
  "sorts_by key srt \<longleftrightarrow> (\<forall>xs. mset (srt xs) = mset xs \<and> sorted (map key (srt xs)))"

lemma sorts_by_sort_key: "sorts_by key (sort_key key)"
  by (simp add: sorts_by_def)

lemma sorts_by_mset: "sorts_by key srt \<Longrightarrow> mset (srt xs) = mset xs"
  by (simp add: sorts_by_def)

lemma sorts_by_set: "sorts_by key srt \<Longrightarrow> set (srt xs) = set xs"
  by (metis sorts_by_mset set_mset_mset)

lemma sorts_by_length: "sorts_by key srt \<Longrightarrow> length (srt xs) = length xs"
  by (metis sorts_by_mset size_mset)

lemma sorts_by_sorted: "sorts_by key srt \<Longrightarrow> sorted (map key (srt xs))"
  by (simp add: sorts_by_def)

lemma sorts_by_Nil_iff: "sorts_by key srt \<Longrightarrow> srt xs = [] \<longleftrightarrow> xs = []"
  by (metis length_0_conv sorts_by_length)

end
