(* ===== verification/Events.thy ===== *)
theory Events
  imports GoLib Complex_Main "HOL-Library.Word"
begin

text \<open>
  The normalized event (\<open>internal/events/event.go\<close>) that every collector emits and every
  later stage reads, the dynamic values of its metadata map, and its validation.
\<close>

section \<open>Metadata values\<close>

text \<open>
  The dynamic types that occur under \<open>map[string]any\<close>: JSON gives null, booleans, strings,
  floating-point numbers, lists and maps; the collectors store integers of several widths. A
  finite \<open>float64\<close> is the rational it denotes. A Go map is an association list with
  distinct keys, because its iteration order is not observable in the operations below.
\<close>

datatype any_value =
    VNil
  | VBool bool
  | VString string
  | VInt int
  | VInt32 int
  | VInt64 int
  | VUint "64 word"
  | VUint32 "32 word"
  | VUint64 "64 word"
  | VFloat rat
  | VStrings "string list"
  | VList "any_value list"
  | VMap "(string \<times> any_value) list"

text \<open>A nil map (\<open>None\<close>) reads like an empty one.\<close>

type_synonym metadata = "(string \<times> any_value) list option"

definition meta_get :: "metadata \<Rightarrow> string \<Rightarrow> any_value option" where
  "meta_get m k = (case m of None \<Rightarrow> None | Some kvs \<Rightarrow> map_of kvs k)"

section \<open>Event types\<close>

type_synonym event_type = string

definition TypeExecve :: event_type where "TypeExecve = ''execve''"
definition TypeConnect :: event_type where "TypeConnect = ''connect''"
definition TypeFileWrite :: event_type where "TypeFileWrite = ''file_write''"
definition TypeChmod :: event_type where "TypeChmod = ''chmod''"
definition TypeSensitiveRead :: event_type where "TypeSensitiveRead = ''sensitive_read''"
definition TypeFileLifecycle :: event_type where "TypeFileLifecycle = ''file_lifecycle''"
definition TypePrivilegeChange :: event_type where "TypePrivilegeChange = ''privilege_change''"
definition TypeNamespaceChange :: event_type where "TypeNamespaceChange = ''namespace_change''"
definition TypeProcessAccess :: event_type where "TypeProcessAccess = ''process_access''"
definition TypeNetworkServer :: event_type where "TypeNetworkServer = ''network_server''"
definition TypeKernelTamper :: event_type where "TypeKernelTamper = ''kernel_tamper''"

lemmas type_defs = TypeExecve_def TypeConnect_def TypeFileWrite_def TypeChmod_def
  TypeSensitiveRead_def TypeFileLifecycle_def TypePrivilegeChange_def TypeNamespaceChange_def
  TypeProcessAccess_def TypeNetworkServer_def TypeKernelTamper_def

section \<open>The event\<close>

record event =
  EventID :: string
  Timestamp :: go_time
  Host :: string
  ContainerID :: string
  ContainerName :: string
  PID :: int
  PPID :: int
  UID :: int
  ProcessName :: string
  ParentProcessName :: string
  EventType :: event_type
  ExecutablePath :: string
  CommandLine :: "string list"
  CWD :: string
  FilePath :: string
  RemoteAddr :: string
  RemotePort :: int
  Metadata :: metadata

text \<open>The zero value of the struct, from which concrete events are built.\<close>

definition zero_event :: event where
  "zero_event = \<lparr>EventID = [], Timestamp = 0, Host = [], ContainerID = [], ContainerName = [],
     PID = 0, PPID = 0, UID = 0, ProcessName = [], ParentProcessName = [], EventType = [],
     ExecutablePath = [], CommandLine = [], CWD = [], FilePath = [], RemoteAddr = [],
     RemotePort = 0, Metadata = None\<rparr>"

section \<open>Validation\<close>

definition Validate :: "event \<Rightarrow> go_error option" where
  "Validate e =
     (if EventID e = [] then Some ''event_id is required''
      else if IsZero (Timestamp e) then Some ''timestamp is required''
      else if Host e = [] then Some ''host is required''
      else if EventType e = [] then Some ''event_type is required''
      else if ProcessName e = [] then Some ''process_name is required''
      else None)"

text \<open>
  \<open>LoadJSON\<close>. Decoding is \<open>encoding/json\<close>'s: the decoder is a parameter that yields its
  own error or the decoded slice. The loop then stops at the first invalid event.
\<close>

fun validate_from :: "nat \<Rightarrow> event list \<Rightarrow> go_error option" where
  "validate_from i [] = None"
| "validate_from i (e # es) =
     (case Validate e of
        Some err \<Rightarrow> Some (''event '' @ Itoa (int i) @ '': '' @ err)
      | None \<Rightarrow> validate_from (Suc i) es)"

definition LoadJSON :: "('r \<Rightarrow> go_error + event list) \<Rightarrow> 'r \<Rightarrow> go_error + event list" where
  "LoadJSON decode reader =
     (case decode reader of
        Inl err \<Rightarrow> Inl (''decode normalized events: '' @ err)
      | Inr loaded \<Rightarrow>
          (case validate_from 0 loaded of Some err \<Rightarrow> Inl err | None \<Rightarrow> Inr loaded))"

definition valid_event :: "event \<Rightarrow> bool" where
  "valid_event e \<longleftrightarrow> EventID e \<noteq> [] \<and> Timestamp e \<noteq> 0 \<and> Host e \<noteq> [] \<and>
     EventType e \<noteq> [] \<and> ProcessName e \<noteq> []"

lemma Validate_None_iff: "Validate e = None \<longleftrightarrow> valid_event e"
  by (simp add: Validate_def valid_event_def)

lemma validate_from_None_iff: "validate_from i es = None \<longleftrightarrow> (\<forall>e\<in>set es. valid_event e)"
proof (induction es arbitrary: i)
  case (Cons e es)
  then show ?case by (cases "Validate e") (auto simp flip: Validate_None_iff)
qed simp

lemma validate_from_Some:
  "validate_from i es = Some err \<Longrightarrow>
    \<exists>k m. k < length es \<and> (\<forall>j<k. valid_event (es ! j)) \<and> Validate (es ! k) = Some m \<and>
      err = ''event '' @ Itoa (int (i + k)) @ '': '' @ m"
proof (induction es arbitrary: i)
  case (Cons e es)
  show ?case
  proof (cases "Validate e")
    case None
    with Cons.prems have "validate_from (Suc i) es = Some err" by simp
    from Cons.IH [OF this] obtain k m where
      k: "k < length es" "\<forall>j<k. valid_event (es ! j)" "Validate (es ! k) = Some m"
        "err = ''event '' @ Itoa (int (Suc i + k)) @ '': '' @ m" by blast
    with None show ?thesis
      by (intro exI [of _ "Suc k"] exI [of _ m])
        (auto simp: nth_Cons Validate_None_iff split: nat.splits)
  next
    case (Some m)
    with Cons.prems show ?thesis by (intro exI [of _ 0] exI [of _ m]) auto
  qed
qed simp

section \<open>Typed metadata reads\<close>

text \<open>
  The readers that \<open>detect/rules.go\<close> and \<open>compress/compressor.go\<close> both define, with the
  same bodies. A failed type assertion gives the zero value. \<open>uint64\<close> of a \<open>float64\<close>
  truncates; above the range the language leaves the result to the implementation, so the
  model leaves it unspecified and every theorem holds whatever it is.
\<close>

definition metadataString :: "event \<Rightarrow> string \<Rightarrow> string" where
  "metadataString e k = (case meta_get (Metadata e) k of Some (VString s) \<Rightarrow> s | _ \<Rightarrow> [])"

definition metadataBool :: "event \<Rightarrow> string \<Rightarrow> bool" where
  "metadataBool e k = (case meta_get (Metadata e) k of Some (VBool b) \<Rightarrow> b | _ \<Rightarrow> False)"

definition uint64_of_float :: "rat \<Rightarrow> 64 word" where
  "uint64_of_float f =
     (if f < 18446744073709551616 then word_of_int \<lfloor>f\<rfloor> else undefined)"

definition metadataUint64 :: "event \<Rightarrow> string \<Rightarrow> 64 word" where
  "metadataUint64 e k =
     (case meta_get (Metadata e) k of
        Some (VUint64 v) \<Rightarrow> v
      | Some (VUint v) \<Rightarrow> v
      | Some (VInt v) \<Rightarrow> if v < 0 then 0 else word_of_int v
      | Some (VInt64 v) \<Rightarrow> if v < 0 then 0 else word_of_int v
      | Some (VFloat f) \<Rightarrow> if f < 0 then 0 else uint64_of_float f
      | _ \<Rightarrow> 0)"

definition mutationSucceeded :: "event \<Rightarrow> bool" where
  "mutationSucceeded e \<longleftrightarrow> metadataString e ''outcome'' \<noteq> ''failed''"

definition fileWriteChanged :: "event \<Rightarrow> bool" where
  "fileWriteChanged e =
     (if \<not> mutationSucceeded e then False
      else case meta_get (Metadata e) ''written_bytes'' of
          None \<Rightarrow> True
        | Some (VInt c) \<Rightarrow> c > 0
        | Some (VInt64 c) \<Rightarrow> c > 0
        | Some (VFloat c) \<Rightarrow> c > 0
        | Some _ \<Rightarrow> False)"

definition remoteEndpoint :: "event \<Rightarrow> string" where
  "remoteEndpoint e = JoinHostPort (RemoteAddr e) (Itoa (RemotePort e))"

section \<open>Process names both packages classify\<close>

definition isShell :: "string \<Rightarrow> bool" where
  "isShell name \<longleftrightarrow> Base name \<in> {''sh'', ''bash'', ''dash'', ''zsh''}"

definition isDownloadTool :: "string \<Rightarrow> bool" where
  "isDownloadTool name \<longleftrightarrow> Base name \<in> {''curl'', ''wget''}"

text \<open>
  The argument after the first \<open>-o\<close> or \<open>-O\<close> that has one; \<open>none\<close> is what the package
  returns without it (the empty string in \<open>detect\<close>, \<open>a file\<close> in \<open>compress\<close>).
\<close>

fun download_output :: "string \<Rightarrow> string list \<Rightarrow> string" where
  "download_output none (a # b # r) =
     (if a = ''-o'' \<or> a = ''-O'' then b else download_output none (b # r))"
| "download_output none _ = none"

end
