(* ===== verification/Bpf.thy ===== *)
theory Bpf
  imports Prelude "HOL-Library.Word"
begin

text \<open>
  The eBPF machine that the collectors of \<open>internal/ebpf\<close> generate code for: the constructors of
  the \<open>asm\<close> package they use, registers that hold numbers or typed pointers, the 512-byte stack
  byte by byte, the maps, and the kernel helpers with what they return as the argument \<open>E\<close>. A
  program that reads an uninitialised register or stack byte, leaves the stack, misaligns an
  access, or jumps to a label that does not follow has no result (\<open>None\<close>).
\<close>

type_synonym bytes = "8 word list"

section \<open>Little-endian numbers\<close>

fun to_le :: "nat \<Rightarrow> 64 word \<Rightarrow> bytes" where
  "to_le 0 x = []"
| "to_le (Suc n) x = ucast x # to_le n (drop_bit 8 x)"

fun from_le :: "bytes \<Rightarrow> 64 word" where
  "from_le [] = 0"
| "from_le (b # bs) = ucast b + push_bit 8 (from_le bs)"

section \<open>Instructions\<close>

datatype reg = R0 | R1 | R2 | R3 | R4 | R5 | R6 | R7 | R8 | R9 | RFP

datatype msize = Half | W32 | DWord

fun msize_bytes :: "msize \<Rightarrow> nat" where
  "msize_bytes Half = 2"
| "msize_bytes W32 = 4"
| "msize_bytes DWord = 8"

datatype helper =
    FnKtimeGetNs | FnGetCurrentPidTgid | FnGetCurrentUidGid | FnGetCurrentComm
  | FnProbeReadKernel | FnProbeReadUser | FnProbeReadUserStr
  | FnMapLookupElem | FnMapUpdateElem | FnMapDeleteElem | FnRingbufOutput

datatype instruction =
    MovReg reg reg
  | MovImm reg int
  | AddImm reg int
  | RShImm reg nat
  | LoadMem reg reg int msize
  | StoreMem reg int reg msize
  | StoreImm reg int int msize
  | StoreXAdd reg reg msize
  | LoadMapPtr reg int
  | JEqImm reg int string
  | JNEImm reg int string
  | JLEImm reg int string
  | JSLTImm reg int string
  | Ja string
  | Call helper
  | Return

text \<open>An instruction carries the symbol it defines, if any.\<close>

type_synonym instructions = "(string option \<times> instruction) list"

abbreviation plain :: "instruction list \<Rightarrow> instructions" where
  "plain is \<equiv> map (Pair None) is"

abbreviation WithSymbol :: "instruction \<Rightarrow> string \<Rightarrow> string option \<times> instruction" where
  "WithSymbol i l \<equiv> (Some l, i)"

section \<open>State\<close>

datatype val =
    Uninit
  | Num "64 word"
  | Ctx
  | Stack int
  | MapPtr int
  | HashValue int "64 word"
  | CounterValue int

text \<open>
  A ring buffer with the samples output so far, a hash map from 8-byte keys to values of a fixed
  size, and an array of one 8-byte counter.
\<close>

datatype bpf_map =
    RingBuf "bytes list"
  | HashMap nat "64 word \<Rightarrow> bytes option"
  | CounterArray "64 word"

record machine =
  m_regs :: "reg \<Rightarrow> val"
  m_stack :: "int \<Rightarrow> 8 word option"
  m_maps :: "int \<Rightarrow> bpf_map option"

text \<open>
  What one invocation sees of the kernel: the two words of the tracepoint context (for
  \<open>sys_enter\<close> the saved registers and the system call number, for \<open>sys_exit\<close> the saved registers
  and the returned value), the results of the helpers, and the error codes of a map update and of
  a ring-buffer output, 0 for success.
\<close>

record env =
  e_pt_regs :: "64 word"
  e_id :: "64 word"
  e_ktime :: "64 word"
  e_pid_tgid :: "64 word"
  e_uid_gid :: "64 word"
  e_comm :: bytes
  e_kernel :: "64 word \<Rightarrow> nat \<Rightarrow> bytes"
  e_user :: "64 word \<Rightarrow> nat \<Rightarrow> bytes"
  e_user_str :: "64 word \<Rightarrow> nat \<Rightarrow> bytes"
  e_update_err :: "64 word"
  e_output_err :: "64 word"

text \<open>A helper that fills a buffer of \<open>n\<close> bytes writes all of it, zeros after a fault.\<close>

definition fit :: "nat \<Rightarrow> bytes \<Rightarrow> bytes" where
  "fit n bs = take n bs @ replicate (n - length bs) 0"

section \<open>The stack\<close>

definition mem_write :: "(int \<Rightarrow> 8 word option) \<Rightarrow> int \<Rightarrow> bytes \<Rightarrow> int \<Rightarrow> 8 word option" where
  "mem_write m a bs = (\<lambda>i. if a \<le> i \<and> i < a + int (length bs) then Some (bs ! nat (i - a)) else m i)"

fun mem_read :: "(int \<Rightarrow> 8 word option) \<Rightarrow> int \<Rightarrow> nat \<Rightarrow> bytes option" where
  "mem_read m a 0 = Some []"
| "mem_read m a (Suc n) =
     (case m a of
        None \<Rightarrow> None
      | Some b \<Rightarrow> map_option ((#) b) (mem_read m (a + 1) n))"

definition in_stack :: "int \<Rightarrow> nat \<Rightarrow> bool" where
  "in_stack a n \<longleftrightarrow> - 512 \<le> a \<and> a + int n \<le> 0"

definition access_ok :: "int \<Rightarrow> nat \<Rightarrow> bool" where
  "access_ok a n \<longleftrightarrow> in_stack a n \<and> a mod int n = 0"

section \<open>Steps\<close>

definition set_reg :: "reg \<Rightarrow> val \<Rightarrow> machine \<Rightarrow> machine" where
  "set_reg r v s = s\<lparr>m_regs := (m_regs s)(r := v)\<rparr>"

text \<open>A call returns in \<open>R0\<close> and destroys the argument registers.\<close>

definition call_return :: "val \<Rightarrow> machine \<Rightarrow> machine" where
  "call_return v s =
     s\<lparr>m_regs := (m_regs s)(R0 := v, R1 := Uninit, R2 := Uninit, R3 := Uninit, R4 := Uninit, R5 := Uninit)\<rparr>"

definition fill :: "machine \<Rightarrow> int \<Rightarrow> nat \<Rightarrow> bytes \<Rightarrow> val \<Rightarrow> machine option" where
  "fill s a n bs r =
     (if in_stack a n then Some (call_return r (s\<lparr>m_stack := mem_write (m_stack s) a bs\<rparr>)) else None)"

definition call_probe :: "(64 word \<Rightarrow> nat \<Rightarrow> bytes) \<Rightarrow> machine \<Rightarrow> machine option" where
  "call_probe rd s =
     (case (m_regs s R1, m_regs s R2, m_regs s R3) of
        (Stack a, Num n, Num p) \<Rightarrow> fill s a (unat n) (fit (unat n) (rd p (unat n))) (Num 0)
      | _ \<Rightarrow> None)"

definition call_lookup :: "machine \<Rightarrow> machine option" where
  "call_lookup s =
     (case (m_regs s R1, m_regs s R2) of
        (MapPtr fd, Stack a) \<Rightarrow>
          (case m_maps s fd of
             Some (HashMap n m) \<Rightarrow>
               (case mem_read (m_stack s) a 8 of
                  Some k \<Rightarrow>
                    Some (call_return (if m (from_le k) = None then Num 0 else HashValue fd (from_le k)) s)
                | None \<Rightarrow> None)
           | Some (CounterArray c) \<Rightarrow>
               (case mem_read (m_stack s) a 4 of
                  Some k \<Rightarrow> Some (call_return (if from_le k = 0 then CounterValue fd else Num 0) s)
                | None \<Rightarrow> None)
           | _ \<Rightarrow> None)
      | _ \<Rightarrow> None)"

definition call_update :: "env \<Rightarrow> machine \<Rightarrow> machine option" where
  "call_update E s =
     (case (m_regs s R1, m_regs s R2, m_regs s R3, m_regs s R4) of
        (MapPtr fd, Stack a, Stack v, Num flags) \<Rightarrow>
          (case m_maps s fd of
             Some (HashMap n m) \<Rightarrow>
               (case (mem_read (m_stack s) a 8, mem_read (m_stack s) v n) of
                  (Some k, Some bs) \<Rightarrow>
                    Some (call_return (Num (e_update_err E))
                      (if e_update_err E = 0
                       then s\<lparr>m_maps := (m_maps s)(fd \<mapsto> HashMap n (m(from_le k \<mapsto> bs)))\<rparr> else s))
                | _ \<Rightarrow> None)
           | _ \<Rightarrow> None)
      | _ \<Rightarrow> None)"

definition call_delete :: "machine \<Rightarrow> machine option" where
  "call_delete s =
     (case (m_regs s R1, m_regs s R2) of
        (MapPtr fd, Stack a) \<Rightarrow>
          (case m_maps s fd of
             Some (HashMap n m) \<Rightarrow>
               (case mem_read (m_stack s) a 8 of
                  Some k \<Rightarrow>
                    Some (call_return (Num 0) (s\<lparr>m_maps := (m_maps s)(fd \<mapsto> HashMap n (m(from_le k := None)))\<rparr>))
                | None \<Rightarrow> None)
           | _ \<Rightarrow> None)
      | _ \<Rightarrow> None)"

definition call_output :: "env \<Rightarrow> machine \<Rightarrow> machine option" where
  "call_output E s =
     (case (m_regs s R1, m_regs s R2, m_regs s R3, m_regs s R4) of
        (MapPtr fd, Stack a, Num n, Num flags) \<Rightarrow>
          (case m_maps s fd of
             Some (RingBuf out) \<Rightarrow>
               (case mem_read (m_stack s) a (unat n) of
                  Some bs \<Rightarrow>
                    Some (call_return (Num (e_output_err E))
                      (if e_output_err E = 0
                       then s\<lparr>m_maps := (m_maps s)(fd \<mapsto> RingBuf (out @ [bs]))\<rparr> else s))
                | None \<Rightarrow> None)
           | _ \<Rightarrow> None)
      | _ \<Rightarrow> None)"

fun call_step :: "env \<Rightarrow> helper \<Rightarrow> machine \<Rightarrow> machine option" where
  "call_step E FnKtimeGetNs s = Some (call_return (Num (e_ktime E)) s)"
| "call_step E FnGetCurrentPidTgid s = Some (call_return (Num (e_pid_tgid E)) s)"
| "call_step E FnGetCurrentUidGid s = Some (call_return (Num (e_uid_gid E)) s)"
| "call_step E FnGetCurrentComm s =
     (case (m_regs s R1, m_regs s R2) of
        (Stack a, Num n) \<Rightarrow> fill s a (unat n) (fit (unat n) (e_comm E)) (Num 0)
      | _ \<Rightarrow> None)"
| "call_step E FnProbeReadKernel s = call_probe (e_kernel E) s"
| "call_step E FnProbeReadUser s = call_probe (e_user E) s"
| "call_step E FnProbeReadUserStr s =
     (case (m_regs s R1, m_regs s R2, m_regs s R3) of
        (Stack a, Num n, Num p) \<Rightarrow>
          (let bs = take (unat n) (e_user_str E p (unat n))
           in fill s a (unat n) bs (Num (of_nat (length bs))))
      | _ \<Rightarrow> None)"
| "call_step E FnMapLookupElem s = call_lookup s"
| "call_step E FnMapUpdateElem s = call_update E s"
| "call_step E FnMapDeleteElem s = call_delete s"
| "call_step E FnRingbufOutput s = call_output E s"

definition load_value :: "env \<Rightarrow> machine \<Rightarrow> val \<Rightarrow> int \<Rightarrow> nat \<Rightarrow> 64 word option" where
  "load_value E s p off n =
     (case p of
        Ctx \<Rightarrow> if n = 8 \<and> off = 0 then Some (e_pt_regs E) else if n = 8 \<and> off = 8 then Some (e_id E) else None
      | Stack a \<Rightarrow>
          if access_ok (a + off) n then map_option from_le (mem_read (m_stack s) (a + off) n) else None
      | HashValue fd k \<Rightarrow>
          (case m_maps s fd of
             Some (HashMap vs m) \<Rightarrow>
               (case m k of
                  Some bs \<Rightarrow>
                    if 0 \<le> off \<and> off mod int n = 0 \<and> nat off + n \<le> length bs
                    then Some (from_le (take n (drop (nat off) bs))) else None
                | None \<Rightarrow> None)
           | _ \<Rightarrow> None)
      | _ \<Rightarrow> None)"

definition store_value :: "machine \<Rightarrow> val \<Rightarrow> int \<Rightarrow> nat \<Rightarrow> 64 word \<Rightarrow> machine option" where
  "store_value s p off n x =
     (case p of
        Stack a \<Rightarrow>
          if access_ok (a + off) n then Some (s\<lparr>m_stack := mem_write (m_stack s) (a + off) (to_le n x)\<rparr>) else None
      | _ \<Rightarrow> None)"

text \<open>The instructions other than jumps and \<open>Return\<close>.\<close>

fun bpf_step :: "env \<Rightarrow> instruction \<Rightarrow> machine \<Rightarrow> machine option" where
  "bpf_step E (MovReg d r) s = (if m_regs s r = Uninit then None else Some (set_reg d (m_regs s r) s))"
| "bpf_step E (MovImm d k) s = Some (set_reg d (Num (word_of_int k)) s)"
| "bpf_step E (AddImm d k) s =
     (case m_regs s d of
        Num x \<Rightarrow> Some (set_reg d (Num (x + word_of_int k)) s)
      | Stack a \<Rightarrow> Some (set_reg d (Stack (a + k)) s)
      | _ \<Rightarrow> None)"
| "bpf_step E (RShImm d k) s =
     (case m_regs s d of Num x \<Rightarrow> Some (set_reg d (Num (drop_bit k x)) s) | _ \<Rightarrow> None)"
| "bpf_step E (LoadMem d r off sz) s =
     (case load_value E s (m_regs s r) off (msize_bytes sz) of
        Some x \<Rightarrow> Some (set_reg d (Num x) s)
      | None \<Rightarrow> None)"
| "bpf_step E (StoreMem d off r sz) s =
     (case m_regs s r of Num x \<Rightarrow> store_value s (m_regs s d) off (msize_bytes sz) x | _ \<Rightarrow> None)"
| "bpf_step E (StoreImm d off k sz) s = store_value s (m_regs s d) off (msize_bytes sz) (word_of_int k)"
| "bpf_step E (StoreXAdd d r sz) s =
     (case (m_regs s d, m_regs s r) of
        (CounterValue fd, Num x) \<Rightarrow>
          (case m_maps s fd of
             Some (CounterArray c) \<Rightarrow>
               if sz = DWord then Some (s\<lparr>m_maps := (m_maps s)(fd \<mapsto> CounterArray (c + x))\<rparr>) else None
           | _ \<Rightarrow> None)
      | _ \<Rightarrow> None)"
| "bpf_step E (LoadMapPtr d fd) s = Some (set_reg d (MapPtr fd) s)"
| "bpf_step E (Call h) s = call_step E h s"
| "bpf_step E _ s = None"

text \<open>A comparison with an immediate; a pointer into a map value is not null.\<close>

definition imm_word :: "int \<Rightarrow> 64 word" where
  "imm_word k = word_of_int k"

fun jump_test :: "instruction \<Rightarrow> machine \<Rightarrow> (bool \<times> string) option" where
  "jump_test (Ja l) s = Some (True, l)"
| "jump_test (JEqImm r k l) s =
     (case m_regs s r of
        Num x \<Rightarrow> Some (x = imm_word k, l)
      | HashValue _ _ \<Rightarrow> if k = 0 then Some (False, l) else None
      | CounterValue _ \<Rightarrow> if k = 0 then Some (False, l) else None
      | _ \<Rightarrow> None)"
| "jump_test (JNEImm r k l) s = (case m_regs s r of Num x \<Rightarrow> Some (x \<noteq> imm_word k, l) | _ \<Rightarrow> None)"
| "jump_test (JLEImm r k l) s = (case m_regs s r of Num x \<Rightarrow> Some (x \<le> imm_word k, l) | _ \<Rightarrow> None)"
| "jump_test (JSLTImm r k l) s = (case m_regs s r of Num x \<Rightarrow> Some (sint x < sint (imm_word k), l) | _ \<Rightarrow> None)"
| "jump_test _ s = None"

fun is_jump :: "instruction \<Rightarrow> bool" where
  "is_jump (Ja _) = True"
| "is_jump (JEqImm _ _ _) = True"
| "is_jump (JNEImm _ _ _) = True"
| "is_jump (JLEImm _ _ _) = True"
| "is_jump (JSLTImm _ _ _) = True"
| "is_jump _ = False"

section \<open>Programs\<close>

text \<open>The code that follows the definition of a label; nothing when it is not defined there.\<close>

fun at_label :: "string \<Rightarrow> instructions \<Rightarrow> instructions" where
  "at_label l [] = []"
| "at_label l ((mark, i) # rest) = (if mark = Some l then (mark, i) # rest else at_label l rest)"

lemma at_label_length: "length (at_label l p) \<le> length p"
  by (induction l p rule: at_label.induct) auto

function bpf_exec :: "env \<Rightarrow> instructions \<Rightarrow> machine \<Rightarrow> (int \<Rightarrow> bpf_map option) option" where
  "bpf_exec E [] s = None"
| "bpf_exec E ((mark, i) # rest) s =
     (if i = Return then (case m_regs s R0 of Num _ \<Rightarrow> Some (m_maps s) | _ \<Rightarrow> None)
      else if is_jump i then
        (case jump_test i s of
           Some (taken, l) \<Rightarrow> bpf_exec E (if taken then at_label l rest else rest) s
         | None \<Rightarrow> None)
      else
        (case bpf_step E i s of
           Some s' \<Rightarrow> bpf_exec E rest s'
         | None \<Rightarrow> None))"
  by pat_completeness auto
termination
  by (relation "measure (\<lambda>(E, p, s). length p)") (auto simp: le_imp_less_Suc at_label_length)

text \<open>A program starts with the context in \<open>R1\<close> and the frame pointer; nothing else is set.\<close>

definition start :: "(int \<Rightarrow> bpf_map option) \<Rightarrow> machine" where
  "start maps = \<lparr>m_regs = (\<lambda>_. Uninit)(R1 := Ctx, RFP := Stack 0), m_stack = (\<lambda>_. None), m_maps = maps\<rparr>"

definition bpf_run :: "env \<Rightarrow> instructions \<Rightarrow> (int \<Rightarrow> bpf_map option) \<Rightarrow> (int \<Rightarrow> bpf_map option) option" where
  "bpf_run E prog maps = bpf_exec E prog (start maps)"

section \<open>The check of the control flow\<close>

text \<open>
  The first pass of the kernel's verifier: a jump to an undefined symbol does not assemble, an
  instruction that no path reaches rejects the program, and control may not run off its end.
  \<open>live\<close> says whether the instruction before falls through, \<open>targets\<close> which labels live jumps
  have named so far.
\<close>

fun jump_label :: "instruction \<Rightarrow> string option" where
  "jump_label (Ja l) = Some l"
| "jump_label (JEqImm _ _ l) = Some l"
| "jump_label (JNEImm _ _ l) = Some l"
| "jump_label (JLEImm _ _ l) = Some l"
| "jump_label (JSLTImm _ _ l) = Some l"
| "jump_label _ = None"

fun falls_through :: "instruction \<Rightarrow> bool" where
  "falls_through (Ja _) = False"
| "falls_through Return = False"
| "falls_through _ = True"

definition labels :: "instructions \<Rightarrow> string list" where
  "labels p = List.map_filter fst p"

fun reach_check :: "bool \<Rightarrow> string list \<Rightarrow> instructions \<Rightarrow> bool" where
  "reach_check live targets [] = (\<not> live)"
| "reach_check live targets ((mark, i) # rest) =
     ((live \<or> (case mark of None \<Rightarrow> False | Some l \<Rightarrow> l \<in> set targets)) \<and>
      (case jump_label i of
         None \<Rightarrow> reach_check (falls_through i) targets rest
       | Some l \<Rightarrow> l \<in> set (labels rest) \<and> reach_check (falls_through i) (l # targets) rest))"

definition check_cfg :: "instructions \<Rightarrow> bool" where
  "check_cfg p \<longleftrightarrow> distinct (labels p) \<and> reach_check True [] p"

end
