(* ===== verification/Ebpf_Records.thy ===== *)
theory Ebpf_Records
  imports Bpf GoLib
begin

unbundle bit_operations_syntax

text \<open>
  The records that the eBPF programs pass through the ring buffers (\<open>internal/ebpf/*_linux.go\<close>):
  their layouts in the order of the struct fields, and the decoders, which accept exactly the size
  of the struct and read it as packed little-endian numbers and byte arrays.
\<close>

definition filenameSize :: nat where "filenameSize = 256"
definition commSize :: nat where "commSize = 16"
definition lifecyclePathSize :: nat where "lifecyclePathSize = 128"
definition sockaddrStorageSize :: nat where "sockaddrStorageSize = 32"

text \<open>The descriptor that stands for the working directory.\<close>

definition atFDCWD :: int where "atFDCWD = - 100"

lemmas size_defs = filenameSize_def commSize_def lifecyclePathSize_def sockaddrStorageSize_def

section \<open>Layouts\<close>

text \<open>\<open>binary.Size\<close> of a struct without alignment gaps, from the sizes of its fields.\<close>

definition binary_Size :: "nat list \<Rightarrow> nat" where
  "binary_Size layout = sum_list layout"

definition execve_layout :: "nat list" where
  "execve_layout = [8, 4, 4, commSize, filenameSize]"

definition syscall_layout :: "nat list" where
  "syscall_layout = [8, 8, 8, 4, 4, commSize]"

definition connect_layout :: "nat list" where
  "connect_layout = syscall_layout @ [sockaddrStorageSize]"

definition fileWrite_layout :: "nat list" where
  "fileWrite_layout = syscall_layout @ [4, 4, 8]"

definition chmod_layout :: "nat list" where
  "chmod_layout = syscall_layout @ [filenameSize, 4, 4, 4, 4]"

definition sensitiveRead_layout :: "nat list" where
  "sensitiveRead_layout = syscall_layout @ [filenameSize, 4, 4, 8]"

definition fileLifecycle_layout :: "nat list" where
  "fileLifecycle_layout = syscall_layout @ [lifecyclePathSize, lifecyclePathSize, 4, 4, 4, 4]"

definition networkServer_layout :: "nat list" where
  "networkServer_layout = syscall_layout @ [sockaddrStorageSize, 4, 4, 4, 4]"

definition behaviorSyscall_layout :: "nat list" where
  "behaviorSyscall_layout = syscall_layout @ [4, 4, 8, 8, 8]"

lemmas layout_defs = execve_layout_def syscall_layout_def connect_layout_def fileWrite_layout_def
  chmod_layout_def sensitiveRead_layout_def fileLifecycle_layout_def networkServer_layout_def
  behaviorSyscall_layout_def

section \<open>Records\<close>

record execveRecord =
  x_KernelTimestampNS :: "64 word"
  x_PID :: "32 word"
  x_UID :: "32 word"
  x_Comm :: bytes
  x_Filename :: bytes

text \<open>The fields that the records of completed system calls share come first in each of them.\<close>

record syscallRecord =
  KernelTimestampNS :: "64 word"
  CompletionKernelTimestampNS :: "64 word"
  ReturnValue :: "64 word"
  raw_PID :: "32 word"
  raw_UID :: "32 word"
  Comm :: bytes

record connectRecord = syscallRecord +
  co_Sockaddr :: bytes

record fileWriteRecord = syscallRecord +
  fw_FD :: "32 word"
  fw_Syscall :: "32 word"
  fw_RequestedCount :: "64 word"

record chmodRecord = syscallRecord +
  ch_FilePath :: bytes
  ch_FD :: "32 word"
  ch_Mode :: "32 word"
  ch_Syscall :: "32 word"

record sensitiveReadRecord = syscallRecord +
  sr_FilePath :: bytes
  sr_FD :: "32 word"
  sr_Syscall :: "32 word"
  sr_Flags :: "64 word"

record fileLifecycleRecord = syscallRecord +
  fl_SourcePath :: bytes
  fl_TargetPath :: bytes
  fl_SourceFD :: "32 word"
  fl_TargetFD :: "32 word"
  fl_Syscall :: "32 word"

record networkServerRecord = syscallRecord +
  ns_Sockaddr :: bytes
  ns_FD :: "32 word"
  ns_Backlog :: "32 word"
  ns_Syscall :: "32 word"

record behaviorSyscallRecord = syscallRecord +
  bs_Syscall :: "32 word"
  bs_Args :: "64 word list"

section \<open>Decoding\<close>

text \<open>A field at an offset: numbers are little-endian, arrays are copied.\<close>

definition field_at :: "bytes \<Rightarrow> nat \<Rightarrow> nat \<Rightarrow> bytes" where
  "field_at raw k n = take n (drop k raw)"

definition u64_at :: "bytes \<Rightarrow> nat \<Rightarrow> 64 word" where
  "u64_at raw k = from_le (field_at raw k 8)"

definition u32_at :: "bytes \<Rightarrow> nat \<Rightarrow> 32 word" where
  "u32_at raw k = ucast (from_le (field_at raw k 4))"

text \<open>
  The size test of every decoder, with its message; the read that follows cannot fail on the right
  number of bytes.
\<close>

definition check_size :: "string \<Rightarrow> nat list \<Rightarrow> bytes \<Rightarrow> 'a \<Rightarrow> string + 'a" where
  "check_size what layout raw decoded =
     (if length raw \<noteq> binary_Size layout
      then Inl (''decode '' @ what @ '' record: size '' @ Itoa (int (length raw)) @ '', want '' @
        Itoa (int (binary_Size layout)))
      else Inr decoded)"

definition decodeExecveRecord :: "bytes \<Rightarrow> string + execveRecord" where
  "decodeExecveRecord raw = check_size ''execve'' execve_layout raw
     \<lparr>x_KernelTimestampNS = u64_at raw 0, x_PID = u32_at raw 8, x_UID = u32_at raw 12,
      x_Comm = field_at raw 16 16, x_Filename = field_at raw 32 256\<rparr>"

definition decode_syscall :: "bytes \<Rightarrow> syscallRecord" where
  "decode_syscall raw =
     \<lparr>KernelTimestampNS = u64_at raw 0, CompletionKernelTimestampNS = u64_at raw 8,
      ReturnValue = u64_at raw 16, raw_PID = u32_at raw 24, raw_UID = u32_at raw 28,
      Comm = field_at raw 32 16\<rparr>"

definition decodeConnectRecord :: "bytes \<Rightarrow> string + connectRecord" where
  "decodeConnectRecord raw = check_size ''connect'' connect_layout raw
     (syscallRecord.extend (decode_syscall raw) (connectRecord.fields (field_at raw 48 32)))"

definition decodeFileWriteRecord :: "bytes \<Rightarrow> string + fileWriteRecord" where
  "decodeFileWriteRecord raw = check_size ''file write'' fileWrite_layout raw
     (syscallRecord.extend (decode_syscall raw)
       (fileWriteRecord.fields (u32_at raw 48) (u32_at raw 52) (u64_at raw 56)))"

definition decodeChmodRecord :: "bytes \<Rightarrow> string + chmodRecord" where
  "decodeChmodRecord raw = check_size ''chmod'' chmod_layout raw
     (syscallRecord.extend (decode_syscall raw)
       (chmodRecord.fields (field_at raw 48 256) (u32_at raw 304) (u32_at raw 308) (u32_at raw 312)))"

definition decodeSensitiveReadRecord :: "bytes \<Rightarrow> string + sensitiveReadRecord" where
  "decodeSensitiveReadRecord raw = check_size ''sensitive read'' sensitiveRead_layout raw
     (syscallRecord.extend (decode_syscall raw)
       (sensitiveReadRecord.fields (field_at raw 48 256) (u32_at raw 304) (u32_at raw 308)
         (u64_at raw 312)))"

definition decodeFileLifecycleRecord :: "bytes \<Rightarrow> string + fileLifecycleRecord" where
  "decodeFileLifecycleRecord raw = check_size ''file lifecycle'' fileLifecycle_layout raw
     (syscallRecord.extend (decode_syscall raw)
       (fileLifecycleRecord.fields (field_at raw 48 128) (field_at raw 176 128) (u32_at raw 304)
         (u32_at raw 308) (u32_at raw 312)))"

definition decodeNetworkServerRecord :: "bytes \<Rightarrow> string + networkServerRecord" where
  "decodeNetworkServerRecord raw = check_size ''network server'' networkServer_layout raw
     (syscallRecord.extend (decode_syscall raw)
       (networkServerRecord.fields (field_at raw 48 32) (u32_at raw 80) (u32_at raw 84)
         (u32_at raw 88)))"

definition decodeBehaviorSyscallRecord :: "bytes \<Rightarrow> string + behaviorSyscallRecord" where
  "decodeBehaviorSyscallRecord raw = check_size ''behavior syscall'' behaviorSyscall_layout raw
     (syscallRecord.extend (decode_syscall raw)
       (behaviorSyscallRecord.fields (u32_at raw 48) [u64_at raw 56, u64_at raw 64, u64_at raw 72]))"

text \<open>\<open>cString\<close>: the bytes before the first zero, or all of them.\<close>

definition cString :: "bytes \<Rightarrow> string" where
  "cString raw = map (\<lambda>b. char_of (unat b)) (takeWhile (\<lambda>b. b \<noteq> 0) raw)"

section \<open>Round trips\<close>

lemma length_to_le [simp]: "length (to_le n x) = n"
  by (induction n arbitrary: x) auto

lemma length_fit [simp]: "length (fit n bs) = n"
  by (simp add: fit_def)

lemma length_field_at [simp]: "length (field_at raw k n) = min n (length raw - k)"
  by (simp add: field_at_def min.commute)

lemma from_le_to_le: "from_le (to_le n x) = take_bit (8 * n) x"
proof (induction n arbitrary: x)
  case (Suc n)
  have "ucast (ucast x :: 8 word) = take_bit 8 x"
    by (simp add: unsigned_ucast_eq)
  have "from_le (to_le (Suc n) x) = ucast (ucast x :: 8 word) + push_bit 8 (take_bit (8 * n) (drop_bit 8 x))"
    by (simp add: Suc)
  also have "\<dots> = take_bit (8 * Suc n) x"
  proof (rule bit_eqI)
    fix i assume "possible_bit TYPE(64 word) i"
    then have i: "i < 64" by simp
    have dis: "(ucast (ucast x :: 8 word) :: 64 word) AND push_bit 8 (take_bit (8 * n) (drop_bit 8 x)) = 0"
      by (rule bit_eqI) (auto simp: bit_and_iff bit_push_bit_iff bit_simps)
    then have "ucast (ucast x :: 8 word) + push_bit 8 (take_bit (8 * n) (drop_bit 8 x)) =
        ucast (ucast x :: 8 word) OR push_bit 8 (take_bit (8 * n) (drop_bit 8 x))"
      by (rule disjunctive_add_eq_or)
    then show "bit (ucast (ucast x :: 8 word) + push_bit 8 (take_bit (8 * n) (drop_bit 8 x))) i =
        bit (take_bit (8 * Suc n) x) i"
      using i by (auto simp: bit_simps)
  qed
  finally show ?case .
qed simp

lemma from_le_to_le_8 [simp]: "from_le (to_le 8 x) = x"
  by (simp add: from_le_to_le take_bit_word_eq_self)

lemma from_le_to_le_4 [simp]: "ucast (from_le (to_le 4 x)) = (ucast x :: 32 word)"
  by (simp add: from_le_to_le) (rule bit_eqI, auto simp: bit_simps)

lemma ucast_ucast_32 [simp]: "ucast (ucast (w :: 32 word) :: 64 word) = w"
  by (rule bit_eqI) (auto simp: bit_simps)

end
