(* ===== verification/Ebpf_Proc.thy ===== *)
theory Ebpf_Proc
  imports Events Ebpf_Records
begin

text \<open>
  What the collectors read under \<open>/proc\<close> (\<open>execve_linux.go\<close>, \<open>syscall_linux.go\<close>,
  \<open>container_linux.go\<close>): the parsers of \<open>status\<close>, \<open>stat\<close> and \<open>cgroup\<close>, the resolution of paths
  against a process, and the cache of container metadata. The file system is the argument \<open>F\<close>;
  the order in which a range over the cache visits its keys is an argument of the eviction.
\<close>

record proc_fs =
  ReadFile :: "string \<Rightarrow> string option"
  Readlink :: "string \<Rightarrow> string option"

section \<open>Numbers\<close>

text \<open>\<open>strconv.Atoi\<close> on a 64-bit platform.\<close>

definition all_digits :: "string \<Rightarrow> bool" where
  "all_digits s \<longleftrightarrow> s \<noteq> [] \<and> list_all (\<lambda>c. 48 \<le> byte c \<and> byte c \<le> 57) s"

definition Atoi :: "string \<Rightarrow> int option" where
  "Atoi s =
     (let neg = HasPrefix s ''-'';
          body = (if neg \<or> HasPrefix s ''+'' then drop 1 s else s);
          v = (if neg then - int (decimal_value body) else int (decimal_value body))
      in if all_digits body \<and> - (2 ^ 63) \<le> v \<and> v < 2 ^ 63 then Some v else None)"

section \<open>Processes\<close>

definition proc_path :: "string \<Rightarrow> int \<Rightarrow> string list \<Rightarrow> string" where
  "proc_path procRoot pid names = path_Join ([procRoot, Itoa pid] @ names)"

fun ppid_lines :: "string list \<Rightarrow> int" where
  "ppid_lines [] = 0"
| "ppid_lines (line # lines) =
     (if \<not> HasPrefix line ''PPid:'' then ppid_lines lines
      else if length (Fields line) \<noteq> 2 then 0
      else case Atoi (Fields line ! 1) of None \<Rightarrow> 0 | Some ppid \<Rightarrow> ppid)"

definition readProcPPID :: "proc_fs \<Rightarrow> string \<Rightarrow> int \<Rightarrow> int" where
  "readProcPPID F procRoot pid =
     (case ReadFile F (proc_path procRoot pid [''status'']) of
        None \<Rightarrow> 0
      | Some contents \<Rightarrow> ppid_lines (Split CHR 0x0A contents))"

definition readProcComm :: "proc_fs \<Rightarrow> string \<Rightarrow> int \<Rightarrow> string" where
  "readProcComm F procRoot pid =
     (if pid \<le> 0 then []
      else case ReadFile F (proc_path procRoot pid [''comm'']) of
        None \<Rightarrow> [] | Some contents \<Rightarrow> TrimSpace contents)"

definition readProcCWD :: "proc_fs \<Rightarrow> string \<Rightarrow> int \<Rightarrow> string" where
  "readProcCWD F procRoot pid =
     (if pid \<le> 0 then []
      else case Readlink F (proc_path procRoot pid [''cwd'']) of None \<Rightarrow> [] | Some cwd \<Rightarrow> cwd)"

definition readProcExe :: "proc_fs \<Rightarrow> string \<Rightarrow> int \<Rightarrow> string" where
  "readProcExe F procRoot pid =
     (if pid \<le> 0 then []
      else case Readlink F (proc_path procRoot pid [''exe'']) of None \<Rightarrow> [] | Some executable \<Rightarrow> executable)"

definition readProcFD :: "proc_fs \<Rightarrow> string \<Rightarrow> int \<Rightarrow> int \<Rightarrow> string" where
  "readProcFD F procRoot pid fd =
     (if pid \<le> 0 \<or> fd < 0 then []
      else case Readlink F (proc_path procRoot pid [''fd'', Itoa fd]) of
        None \<Rightarrow> []
      | Some path \<Rightarrow> if \<not> IsAbs path then [] else Clean path)"

definition resolveProcPath :: "proc_fs \<Rightarrow> string \<Rightarrow> int \<Rightarrow> int \<Rightarrow> string \<Rightarrow> string" where
  "resolveProcPath F procRoot pid dirfd path =
     (if path = [] then []
      else if IsAbs path then Clean path
      else
        (let base = (if dirfd \<noteq> atFDCWD then readProcFD F procRoot pid dirfd else readProcCWD F procRoot pid)
         in if base = [] \<or> \<not> IsAbs base then [] else Clean (path_Join [base, path])))"

text \<open>What follows the last closing parenthesis of \<open>stat\<close>; the start time is field 22 of the line.\<close>

definition after_last :: "char \<Rightarrow> string \<Rightarrow> string option" where
  "after_last c s = (if c \<in> set s then Some (rev (takeWhile (\<lambda>d. d \<noteq> c) (rev s))) else None)"

definition readProcStartTime :: "proc_fs \<Rightarrow> string \<Rightarrow> int \<Rightarrow> string" where
  "readProcStartTime F procRoot pid =
     (case ReadFile F (proc_path procRoot pid [''stat'']) of
        None \<Rightarrow> []
      | Some contents \<Rightarrow>
          (case after_last CHR '')'' contents of
             None \<Rightarrow> []
           | Some rest \<Rightarrow> if length (Fields rest) \<le> 19 then [] else Fields rest ! 19))"

section \<open>Containers\<close>

record containerMetadata =
  cm_id :: string
  cm_hostname :: string

definition no_container :: containerMetadata where
  "no_container = \<lparr>cm_id = [], cm_hostname = []\<rparr>"

definition is_hex :: "char \<Rightarrow> bool" where
  "is_hex c \<longleftrightarrow> 48 \<le> byte c \<and> byte c \<le> 57 \<or> 97 \<le> byte c \<and> byte c \<le> 102"

text \<open>
  The two patterns, on the component folded to lower case: a runtime's name and a dash, then 12 to
  64 hex digits, then at most \<open>.scope\<close>; or 64 hex digits. The digits are the result.
\<close>

definition runtime_prefixes :: "string list" where
  "runtime_prefixes = [''docker-'', ''cri-containerd-'', ''containerd-'', ''crio-'', ''libpod-'']"

definition runtimeContainerComponent :: "string \<Rightarrow> string option" where
  "runtimeContainerComponent component =
     (let k = fold_case component in
      case find (HasPrefix k) runtime_prefixes of
        None \<Rightarrow> None
      | Some p \<Rightarrow>
          (let h = TrimSuffix (drop (length p) k) ''.scope''
           in if list_all is_hex h \<and> 12 \<le> length h \<and> length h \<le> 64 then Some h else None))"

definition bareContainerComponent :: "string \<Rightarrow> bool" where
  "bareContainerComponent component =
     (let k = fold_case component in length k = 64 \<and> list_all is_hex k)"

fun container_component :: "string list \<Rightarrow> string option" where
  "container_component [] = None"
| "container_component (c # cs) =
     (case runtimeContainerComponent c of
        Some h \<Rightarrow> Some (ToLower h)
      | None \<Rightarrow> if bareContainerComponent c then Some (ToLower c) else container_component cs)"

fun container_lines :: "string list \<Rightarrow> string" where
  "container_lines [] = []"
| "container_lines (line # lines) =
     (case container_component (Split CHR ''/'' line) of
        Some h \<Rightarrow> h
      | None \<Rightarrow> container_lines lines)"

definition readProcContainerID :: "proc_fs \<Rightarrow> string \<Rightarrow> int \<Rightarrow> string" where
  "readProcContainerID F procRoot pid =
     (case ReadFile F (proc_path procRoot pid [''cgroup'']) of
        None \<Rightarrow> []
      | Some contents \<Rightarrow> container_lines (Split CHR 0x0A contents))"

definition maxContainerHostnameBytes :: nat where "maxContainerHostnameBytes = 256"

definition readProcContainerHostname :: "proc_fs \<Rightarrow> string \<Rightarrow> int \<Rightarrow> string" where
  "readProcContainerHostname F procRoot pid =
     (case ReadFile F (proc_path procRoot pid [''root'', ''etc'', ''hostname'']) of
        None \<Rightarrow> []
      | Some contents \<Rightarrow> TrimSpace (take maxContainerHostnameBytes contents))"

definition readProcContainerMetadata :: "proc_fs \<Rightarrow> string \<Rightarrow> int \<Rightarrow> containerMetadata" where
  "readProcContainerMetadata F procRoot pid =
     (let id = readProcContainerID F procRoot pid
      in if id = [] then no_container
         else \<lparr>cm_id = id, cm_hostname = readProcContainerHostname F procRoot pid\<rparr>)"

section \<open>The cache\<close>

record containerCacheEntry =
  ce_metadata :: containerMetadata
  ce_startTime :: string
  ce_expiresAt :: go_time

record containerMetadataCache =
  cc_entries :: "int \<rightharpoonup> containerCacheEntry"
  cc_maxEntries :: int
  cc_ttl :: duration

definition defaultContainerCacheEntries :: int where "defaultContainerCacheEntries = 4096"
definition defaultContainerCacheTTL :: duration where "defaultContainerCacheTTL = 30 * second"

definition newContainerMetadataCache :: containerMetadataCache where
  "newContainerMetadataCache =
     \<lparr>cc_entries = Map.empty, cc_maxEntries = defaultContainerCacheEntries, cc_ttl = defaultContainerCacheTTL\<rparr>"

definition entry_expired :: "go_time \<Rightarrow> (int \<rightharpoonup> containerCacheEntry) \<Rightarrow> int \<Rightarrow> bool" where
  "entry_expired now entries pid =
     (case entries pid of None \<Rightarrow> False | Some e \<Rightarrow> \<not> now < ce_expiresAt e)"

text \<open>\<open>order1\<close> and \<open>order2\<close> are the orders in which the two loops visit the keys.\<close>

definition evictOne ::
  "int list \<Rightarrow> int list \<Rightarrow> go_time \<Rightarrow> (int \<rightharpoonup> containerCacheEntry) \<Rightarrow> (int \<rightharpoonup> containerCacheEntry)" where
  "evictOne order1 order2 now entries =
     (case find (entry_expired now entries) order1 of
        Some pid \<Rightarrow> entries(pid := None)
      | None \<Rightarrow> (case order2 of [] \<Rightarrow> entries | pid # _ \<Rightarrow> entries(pid := None)))"

definition cache_hit :: "containerMetadataCache \<Rightarrow> int \<Rightarrow> string \<Rightarrow> go_time \<Rightarrow> containerMetadata option" where
  "cache_hit cache pid startTime now =
     (case cc_entries cache pid of
        None \<Rightarrow> None
      | Some e \<Rightarrow> if ce_startTime e = startTime \<and> now < ce_expiresAt e then Some (ce_metadata e) else None)"

text \<open>An order of the keys has the length of the map, which the test of the bound uses.\<close>

definition cache_lookup ::
  "proc_fs \<Rightarrow> string \<Rightarrow> go_time \<Rightarrow> int list \<Rightarrow> int list \<Rightarrow> int \<Rightarrow> containerMetadataCache \<Rightarrow>
     containerMetadata \<times> containerMetadataCache" where
  "cache_lookup F procRoot now order1 order2 pid cache =
     (let startTime = readProcStartTime F procRoot pid in
      if startTime = [] then (readProcContainerMetadata F procRoot pid, cache)
      else case cache_hit cache pid startTime now of
        Some metadata \<Rightarrow> (metadata, cache)
      | None \<Rightarrow>
          (let metadata = readProcContainerMetadata F procRoot pid;
               entries = (if int (length order1) \<ge> cc_maxEntries cache
                 then evictOne order1 order2 now (cc_entries cache) else cc_entries cache);
               entry = \<lparr>ce_metadata = metadata, ce_startTime = startTime, ce_expiresAt = now + cc_ttl cache\<rparr>
           in (metadata, cache\<lparr>cc_entries := entries(pid \<mapsto> entry)\<rparr>)))"

text \<open>The event is left alone without a process; a nil cache reads \<open>/proc\<close> every time.\<close>

definition enrichContainerMetadata ::
  "proc_fs \<Rightarrow> string \<Rightarrow> go_time \<Rightarrow> int list \<Rightarrow> int list \<Rightarrow> int \<Rightarrow> containerMetadataCache option \<Rightarrow> event \<Rightarrow>
     event \<times> containerMetadataCache option" where
  "enrichContainerMetadata F procRoot now order1 order2 pid cache e =
     (if pid \<le> 0 then (e, cache)
      else
        (let (metadata, cache') =
           (case cache of
              Some c \<Rightarrow> (case cache_lookup F procRoot now order1 order2 pid c of (md, c') \<Rightarrow> (md, Some c'))
            | None \<Rightarrow> (readProcContainerMetadata F procRoot pid, None))
         in (if cm_id metadata = [] then e
             else e\<lparr>ContainerID := cm_id metadata, ContainerName := cm_hostname metadata\<rparr>, cache')))"

end
