(* ===== verification/Bpf_Programs.thy ===== *)
theory Bpf_Programs
  imports Ebpf_Records
begin

text \<open>
  The generators of the eBPF programs (\<open>internal/ebpf\<close>): the constants of the two ABIs, the
  shared pieces, and for every collector its program on \<open>sys_enter\<close> and the one on \<open>sys_exit\<close>.
  The argument \<open>A\<close> is the ABI the build selects.
\<close>

section \<open>ABI constants\<close>

record abi =
  syscallArg0Offset :: int
  syscallArg1Offset :: int
  syscallArg2Offset :: int
  syscallArg3Offset :: int
  execveSyscallNumber :: int
  connectSyscallNumber :: int
  openSyscallNumber :: int
  openatSyscallNumber :: int
  openat2SyscallNumber :: int
  hasOpenSyscall :: bool
  writeSyscallNumber :: int
  pwriteSyscallNumber :: int
  writevSyscallNumber :: int
  pwritevSyscallNumber :: int
  pwritev2SyscallNumber :: int
  chmodSyscallNumber :: int
  fchmodSyscallNumber :: int
  fchmodatSyscallNumber :: int
  fchmodat2SyscallNumber :: int
  hasChmodSyscall :: bool
  renameSyscallNumber :: int
  renameatSyscallNumber :: int
  renameat2SyscallNumber :: int
  unlinkSyscallNumber :: int
  unlinkatSyscallNumber :: int
  mkdirSyscallNumber :: int
  mkdiratSyscallNumber :: int
  symlinkSyscallNumber :: int
  symlinkatSyscallNumber :: int
  linkSyscallNumber :: int
  linkatSyscallNumber :: int
  truncateSyscallNumber :: int
  ftruncateSyscallNumber :: int
  hasLegacyPathSyscalls :: bool
  setuidSyscallNumber :: int
  setgidSyscallNumber :: int
  setreuidSyscallNumber :: int
  setregidSyscallNumber :: int
  setgroupsSyscallNumber :: int
  setresuidSyscallNumber :: int
  setresgidSyscallNumber :: int
  capsetSyscallNumber :: int
  prctlSyscallNumber :: int
  pivotRootSyscallNumber :: int
  chrootSyscallNumber :: int
  mountSyscallNumber :: int
  umount2SyscallNumber :: int
  unshareSyscallNumber :: int
  setnsSyscallNumber :: int
  ptraceSyscallNumber :: int
  processVMReadvSyscallNumber :: int
  processVMWritevSyscallNumber :: int
  bindSyscallNumber :: int
  listenSyscallNumber :: int
  initModuleSyscallNumber :: int
  deleteModuleSyscallNumber :: int
  kexecLoadSyscallNumber :: int
  finitModuleSyscallNumber :: int
  bpfSyscallNumber :: int

definition amd64 :: abi where
  "amd64 =
    \<lparr>syscallArg0Offset = 112, syscallArg1Offset = 104, syscallArg2Offset = 96,
     syscallArg3Offset = 56, execveSyscallNumber = 59, connectSyscallNumber = 42,
     openSyscallNumber = 2, openatSyscallNumber = 257, openat2SyscallNumber = 437,
     hasOpenSyscall = True, writeSyscallNumber = 1, pwriteSyscallNumber = 18,
     writevSyscallNumber = 20, pwritevSyscallNumber = 296, pwritev2SyscallNumber = 328,
     chmodSyscallNumber = 90, fchmodSyscallNumber = 91, fchmodatSyscallNumber = 268,
     fchmodat2SyscallNumber = 452, hasChmodSyscall = True, renameSyscallNumber = 82,
     renameatSyscallNumber = 264, renameat2SyscallNumber = 316, unlinkSyscallNumber = 87,
     unlinkatSyscallNumber = 263, mkdirSyscallNumber = 83, mkdiratSyscallNumber = 258,
     symlinkSyscallNumber = 88, symlinkatSyscallNumber = 266, linkSyscallNumber = 86,
     linkatSyscallNumber = 265, truncateSyscallNumber = 76, ftruncateSyscallNumber = 77,
     hasLegacyPathSyscalls = True, setuidSyscallNumber = 105, setgidSyscallNumber = 106,
     setreuidSyscallNumber = 113, setregidSyscallNumber = 114, setgroupsSyscallNumber = 116,
     setresuidSyscallNumber = 117, setresgidSyscallNumber = 119, capsetSyscallNumber = 126,
     prctlSyscallNumber = 157, pivotRootSyscallNumber = 155, chrootSyscallNumber = 161,
     mountSyscallNumber = 165, umount2SyscallNumber = 166, unshareSyscallNumber = 272,
     setnsSyscallNumber = 308, ptraceSyscallNumber = 101, processVMReadvSyscallNumber = 310,
     processVMWritevSyscallNumber = 311, bindSyscallNumber = 49, listenSyscallNumber = 50,
     initModuleSyscallNumber = 175, deleteModuleSyscallNumber = 176,
     kexecLoadSyscallNumber = 246, finitModuleSyscallNumber = 313, bpfSyscallNumber = 321\<rparr>"

definition arm64 :: abi where
  "arm64 =
    \<lparr>syscallArg0Offset = 0, syscallArg1Offset = 8, syscallArg2Offset = 16,
     syscallArg3Offset = 24, execveSyscallNumber = 221, connectSyscallNumber = 203,
     openSyscallNumber = 0, openatSyscallNumber = 56, openat2SyscallNumber = 437,
     hasOpenSyscall = False, writeSyscallNumber = 64, pwriteSyscallNumber = 68,
     writevSyscallNumber = 66, pwritevSyscallNumber = 70, pwritev2SyscallNumber = 287,
     chmodSyscallNumber = 0, fchmodSyscallNumber = 52, fchmodatSyscallNumber = 53,
     fchmodat2SyscallNumber = 452, hasChmodSyscall = False, renameSyscallNumber = 9001,
     renameatSyscallNumber = 38, renameat2SyscallNumber = 276, unlinkSyscallNumber = 9002,
     unlinkatSyscallNumber = 35, mkdirSyscallNumber = 9003, mkdiratSyscallNumber = 34,
     symlinkSyscallNumber = 9004, symlinkatSyscallNumber = 36, linkSyscallNumber = 9005,
     linkatSyscallNumber = 37, truncateSyscallNumber = 45, ftruncateSyscallNumber = 46,
     hasLegacyPathSyscalls = False, setuidSyscallNumber = 146, setgidSyscallNumber = 144,
     setreuidSyscallNumber = 145, setregidSyscallNumber = 143, setgroupsSyscallNumber = 159,
     setresuidSyscallNumber = 147, setresgidSyscallNumber = 149, capsetSyscallNumber = 91,
     prctlSyscallNumber = 167, pivotRootSyscallNumber = 41, chrootSyscallNumber = 51,
     mountSyscallNumber = 40, umount2SyscallNumber = 39, unshareSyscallNumber = 97,
     setnsSyscallNumber = 268, ptraceSyscallNumber = 117, processVMReadvSyscallNumber = 270,
     processVMWritevSyscallNumber = 271, bindSyscallNumber = 200, listenSyscallNumber = 201,
     initModuleSyscallNumber = 105, deleteModuleSyscallNumber = 106,
     kexecLoadSyscallNumber = 104, finitModuleSyscallNumber = 273, bpfSyscallNumber = 280\<rparr>"

definition sockaddrFamilySize :: int where "sockaddrFamilySize = 2"
definition sockaddrIPv4Size :: int where "sockaddrIPv4Size = 16"
definition sockaddrIPv6Size :: int where "sockaddrIPv6Size = 28"
definition addressFamilyIPv4 :: int where "addressFamilyIPv4 = 2"
definition addressFamilyIPv6 :: int where "addressFamilyIPv6 = 10"

section \<open>Shared pieces\<close>

record ProgramSpec =
  ps_Name :: string
  Instructions :: instructions

definition countRingBufferDrop :: "int \<Rightarrow> int \<Rightarrow> instructions" where
  "countRingBufferDrop dropCounterFD keyOffset = plain
     [JEqImm R0 0 ''exit'',
      StoreImm RFP keyOffset 0 W32,
      LoadMapPtr R1 dropCounterFD,
      MovReg R2 RFP,
      AddImm R2 keyOffset,
      Call FnMapLookupElem,
      JEqImm R0 0 ''exit'',
      MovImm R1 1,
      StoreXAdd R0 R1 DWord]"

definition countCorrelationDrop :: "int \<Rightarrow> int \<Rightarrow> instructions" where
  "countCorrelationDrop dropCounterFD keyOffset = countRingBufferDrop dropCounterFD keyOffset"

definition storePendingSyscall :: "int \<Rightarrow> int \<Rightarrow> int \<Rightarrow> instructions" where
  "storePendingSyscall mapFD keyOffset recordStart = plain
     [LoadMapPtr R1 mapFD,
      MovReg R2 RFP,
      AddImm R2 keyOffset,
      MovReg R3 RFP,
      AddImm R3 recordStart,
      MovImm R4 0,
      Call FnMapUpdateElem]"

text \<open>The loop over the 8-byte words of the record that zeroes it, and the one that copies it.\<close>

definition zero_record :: "int \<Rightarrow> nat \<Rightarrow> instructions" where
  "zero_record recordStart words = plain (map (\<lambda>k. StoreMem RFP (recordStart + 8 * int k) R0 DWord) [0..<words])"

definition copy_record :: "int \<Rightarrow> nat \<Rightarrow> instructions" where
  "copy_record recordStart words = plain (concat (map (\<lambda>k.
     [LoadMem R7 R0 (8 * int k) DWord, StoreMem RFP (recordStart + 8 * int k) R7 DWord]) [0..<words]))"

definition record_words :: "nat \<Rightarrow> nat" where
  "record_words recordSize = (recordSize + 7) div 8"

definition completedSyscallProgramSpecWithExitFilter ::
  "string \<Rightarrow> int \<Rightarrow> int \<Rightarrow> int \<Rightarrow> nat \<Rightarrow> int \<Rightarrow> int \<Rightarrow> instructions \<Rightarrow> ProgramSpec" where
  "completedSyscallProgramSpecWithExitFilter name ringBufferFD dropCounterFD pendingFD recordSize
       completionTimestampOffset returnValueOffset beforeOutput =
     (let recordStart = - int recordSize; keyOffset = recordStart - 8; tempValue = keyOffset - 8
      in \<lparr>ps_Name = name, Instructions =
        plain
          [MovReg R6 R1,
           LoadMem R8 R6 8 DWord,
           Call FnGetCurrentPidTgid,
           StoreMem RFP keyOffset R0 DWord,
           LoadMapPtr R1 pendingFD,
           MovReg R2 RFP,
           AddImm R2 keyOffset,
           Call FnMapLookupElem,
           JEqImm R0 0 ''exit''] @
        copy_record recordStart (record_words recordSize) @
        plain
          [StoreMem RFP (recordStart + returnValueOffset) R8 DWord,
           Call FnKtimeGetNs,
           StoreMem RFP (recordStart + completionTimestampOffset) R0 DWord,
           LoadMapPtr R1 pendingFD,
           MovReg R2 RFP,
           AddImm R2 keyOffset,
           Call FnMapDeleteElem] @
        beforeOutput @
        plain
          [LoadMapPtr R1 ringBufferFD,
           MovReg R2 RFP,
           AddImm R2 recordStart,
           MovImm R3 (int recordSize),
           MovImm R4 0,
           Call FnRingbufOutput] @
        countRingBufferDrop dropCounterFD tempValue @
        [WithSymbol (MovImm R0 0) ''exit'', (None, Return)]\<rparr>)"

definition completedSyscallProgramSpec ::
  "string \<Rightarrow> int \<Rightarrow> int \<Rightarrow> int \<Rightarrow> nat \<Rightarrow> int \<Rightarrow> int \<Rightarrow> ProgramSpec" where
  "completedSyscallProgramSpec name ringBufferFD dropCounterFD pendingFD recordSize
       completionTimestampOffset returnValueOffset =
     completedSyscallProgramSpecWithExitFilter name ringBufferFD dropCounterFD pendingFD recordSize
       completionTimestampOffset returnValueOffset []"

definition readRegisterArgument :: "reg \<Rightarrow> int \<Rightarrow> reg \<Rightarrow> int \<Rightarrow> int \<Rightarrow> msize \<Rightarrow> instructions" where
  "readRegisterArgument ctx registerOffset frame tempOffset destinationOffset width = plain
     [LoadMem R3 ctx 0 DWord,
      AddImm R3 registerOffset,
      MovReg R1 frame,
      AddImm R1 tempOffset,
      MovImm R2 8,
      Call FnProbeReadKernel,
      LoadMem R7 frame tempOffset DWord,
      StoreMem frame destinationOffset R7 width]"

definition readPathArgumentSized :: "reg \<Rightarrow> int \<Rightarrow> reg \<Rightarrow> int \<Rightarrow> int \<Rightarrow> nat \<Rightarrow> instructions" where
  "readPathArgumentSized ctx registerOffset frame tempOffset destinationOffset width = plain
     [LoadMem R3 ctx 0 DWord,
      AddImm R3 registerOffset,
      MovReg R1 frame,
      AddImm R1 tempOffset,
      MovImm R2 8,
      Call FnProbeReadKernel,
      LoadMem R3 frame tempOffset DWord,
      MovReg R1 frame,
      AddImm R1 destinationOffset,
      MovImm R2 (int width),
      Call FnProbeReadUserStr]"

definition readPathArgument :: "reg \<Rightarrow> int \<Rightarrow> reg \<Rightarrow> int \<Rightarrow> int \<Rightarrow> instructions" where
  "readPathArgument ctx registerOffset frame tempOffset destinationOffset =
     readPathArgumentSized ctx registerOffset frame tempOffset destinationOffset filenameSize"

section \<open>execve\<close>

definition execveProgramSpec :: "abi \<Rightarrow> int \<Rightarrow> int \<Rightarrow> ProgramSpec" where
  "execveProgramSpec A ringBufferFD dropCounterFD =
     (let recordSize = binary_Size execve_layout; recordStart = - int recordSize;
          tempPointer = recordStart - 8; commOffset = 16; fileOffset = 32
      in \<lparr>ps_Name = ''rg_execve'', Instructions =
        plain
          [MovReg R6 R1,
           LoadMem R7 R6 8 DWord,
           JNEImm R7 (execveSyscallNumber A) ''exit'',
           MovImm R0 0] @
        zero_record recordStart (record_words recordSize) @
        plain
          [Call FnKtimeGetNs,
           StoreMem RFP recordStart R0 DWord,
           Call FnGetCurrentPidTgid,
           RShImm R0 32,
           StoreMem RFP (recordStart + 8) R0 W32,
           Call FnGetCurrentUidGid,
           StoreMem RFP (recordStart + 12) R0 W32,
           MovReg R1 RFP,
           AddImm R1 (recordStart + commOffset),
           MovImm R2 (int commSize),
           Call FnGetCurrentComm,
           LoadMem R3 R6 0 DWord,
           AddImm R3 (syscallArg0Offset A),
           MovReg R1 RFP,
           AddImm R1 tempPointer,
           MovImm R2 8,
           Call FnProbeReadKernel,
           LoadMem R3 RFP tempPointer DWord,
           MovReg R1 RFP,
           AddImm R1 (recordStart + fileOffset),
           MovImm R2 (int filenameSize),
           Call FnProbeReadUserStr,
           LoadMapPtr R1 ringBufferFD,
           MovReg R2 RFP,
           AddImm R2 recordStart,
           MovImm R3 (int recordSize),
           MovImm R4 0,
           Call FnRingbufOutput] @
        countRingBufferDrop dropCounterFD tempPointer @
        [WithSymbol (MovImm R0 0) ''exit'', (None, Return)]\<rparr>)"

section \<open>connect\<close>

definition connectEnterProgramSpec :: "abi \<Rightarrow> int \<Rightarrow> int \<Rightarrow> ProgramSpec" where
  "connectEnterProgramSpec A pendingFD correlationDropCounterFD =
     (let pidOffset = 24; uidOffset = 28; commOffset = 32; sockaddrOffset = 48;
          recordSize = binary_Size connect_layout; recordStart = - int recordSize;
          keyOffset = recordStart - 8; tempPointer = keyOffset - 8
      in \<lparr>ps_Name = ''rg_connect_enter'', Instructions =
        plain
          [MovReg R6 R1,
           LoadMem R7 R6 8 DWord,
           JNEImm R7 (connectSyscallNumber A) ''exit'',
           MovImm R0 0] @
        zero_record recordStart (record_words recordSize) @
        plain
          [Call FnKtimeGetNs,
           StoreMem RFP recordStart R0 DWord,
           Call FnGetCurrentPidTgid,
           StoreMem RFP keyOffset R0 DWord,
           RShImm R0 32,
           StoreMem RFP (recordStart + pidOffset) R0 W32,
           Call FnGetCurrentUidGid,
           StoreMem RFP (recordStart + uidOffset) R0 W32,
           MovReg R1 RFP,
           AddImm R1 (recordStart + commOffset),
           MovImm R2 (int commSize),
           Call FnGetCurrentComm,
           LoadMem R3 R6 0 DWord,
           AddImm R3 (syscallArg1Offset A),
           MovReg R1 RFP,
           AddImm R1 tempPointer,
           MovImm R2 8,
           Call FnProbeReadKernel,
           LoadMem R3 RFP tempPointer DWord,
           MovReg R1 RFP,
           AddImm R1 (recordStart + sockaddrOffset),
           MovImm R2 sockaddrFamilySize,
           Call FnProbeReadUser,
           LoadMem R7 RFP (recordStart + sockaddrOffset) Half,
           JEqImm R7 addressFamilyIPv4 ''read_ipv4'',
           JEqImm R7 addressFamilyIPv6 ''read_ipv6'',
           Ja ''exit''] @
        [WithSymbol (LoadMem R3 RFP tempPointer DWord) ''read_ipv4''] @
        plain
          [MovReg R1 RFP,
           AddImm R1 (recordStart + sockaddrOffset),
           MovImm R2 sockaddrIPv4Size,
           Call FnProbeReadUser,
           Ja ''emit''] @
        [WithSymbol (LoadMem R3 RFP tempPointer DWord) ''read_ipv6''] @
        plain
          [MovReg R1 RFP,
           AddImm R1 (recordStart + sockaddrOffset),
           MovImm R2 sockaddrIPv6Size,
           Call FnProbeReadUser,
           Ja ''emit''] @
        [WithSymbol (MovImm R0 0) ''emit''] @
        storePendingSyscall pendingFD keyOffset recordStart @
        countCorrelationDrop correlationDropCounterFD tempPointer @
        [WithSymbol (MovImm R0 0) ''exit'', (None, Return)]\<rparr>)"

definition connectExitProgramSpec :: "int \<Rightarrow> int \<Rightarrow> int \<Rightarrow> ProgramSpec" where
  "connectExitProgramSpec ringBufferFD dropCounterFD pendingFD =
     completedSyscallProgramSpec ''rg_connect_exit'' ringBufferFD dropCounterFD pendingFD
       (binary_Size connect_layout) 8 16"

section \<open>file_write\<close>

definition fileWriteEnterProgramSpec :: "abi \<Rightarrow> int \<Rightarrow> int \<Rightarrow> int \<Rightarrow> ProgramSpec" where
  "fileWriteEnterProgramSpec A pendingFD correlationDropCounterFD ignoredPID =
     (let pidOffset = 24; uidOffset = 28; commOffset = 32; fdOffset = 48; syscallOffset = 52;
          countOffset = 56; recordSize = binary_Size fileWrite_layout; recordStart = - int recordSize;
          keyOffset = recordStart - 8; tempValue = keyOffset - 8
      in \<lparr>ps_Name = ''rg_write_enter'', Instructions =
        plain
          [MovReg R6 R1,
           LoadMem R8 R6 8 DWord,
           JEqImm R8 (writeSyscallNumber A) ''capture'',
           JEqImm R8 (pwriteSyscallNumber A) ''capture'',
           JEqImm R8 (writevSyscallNumber A) ''capture'',
           JEqImm R8 (pwritevSyscallNumber A) ''capture'',
           JEqImm R8 (pwritev2SyscallNumber A) ''capture'',
           Ja ''exit''] @
        [WithSymbol (MovImm R0 0) ''capture''] @
        zero_record recordStart (record_words recordSize) @
        plain
          [StoreMem RFP (recordStart + syscallOffset) R8 W32,
           Call FnKtimeGetNs,
           StoreMem RFP recordStart R0 DWord,
           Call FnGetCurrentPidTgid,
           StoreMem RFP keyOffset R0 DWord,
           RShImm R0 32] @
        (if ignoredPID > 0 then plain [JEqImm R0 ignoredPID ''exit''] else []) @
        plain
          [StoreMem RFP (recordStart + pidOffset) R0 W32,
           Call FnGetCurrentUidGid,
           StoreMem RFP (recordStart + uidOffset) R0 W32,
           MovReg R1 RFP,
           AddImm R1 (recordStart + commOffset),
           MovImm R2 (int commSize),
           Call FnGetCurrentComm] @
        readRegisterArgument R6 (syscallArg0Offset A) RFP tempValue (recordStart + fdOffset) W32 @
        plain
          [LoadMem R7 RFP (recordStart + fdOffset) W32,
           JLEImm R7 2 ''exit''] @
        readRegisterArgument R6 (syscallArg2Offset A) RFP tempValue (recordStart + countOffset) DWord @
        storePendingSyscall pendingFD keyOffset recordStart @
        countCorrelationDrop correlationDropCounterFD tempValue @
        [WithSymbol (MovImm R0 0) ''exit'', (None, Return)]\<rparr>)"

definition fileWriteExitProgramSpec :: "int \<Rightarrow> int \<Rightarrow> int \<Rightarrow> int \<Rightarrow> ProgramSpec" where
  "fileWriteExitProgramSpec ringBufferFD dropCounterFD pendingFD minBytes =
     completedSyscallProgramSpecWithExitFilter ''rg_write_exit'' ringBufferFD dropCounterFD pendingFD
       (binary_Size fileWrite_layout) 8 16
       (if minBytes > 0 then plain [JSLTImm R8 minBytes ''exit''] else [])"

section \<open>chmod\<close>

definition chmodEnterProgramSpec :: "abi \<Rightarrow> int \<Rightarrow> int \<Rightarrow> ProgramSpec" where
  "chmodEnterProgramSpec A pendingFD correlationDropCounterFD =
     (let pidOffset = 24; uidOffset = 28; commOffset = 32; pathOffset = 48; fdOffset = 304;
          modeOffset = 308; syscallOffset = 312; recordSize = binary_Size chmod_layout;
          recordStart = - int recordSize; keyOffset = recordStart - 8; tempValue = keyOffset - 8
      in \<lparr>ps_Name = ''rg_chmod_enter'', Instructions =
        plain
          [MovReg R6 R1,
           LoadMem R8 R6 8 DWord] @
        (if hasChmodSyscall A then plain [JEqImm R8 (chmodSyscallNumber A) ''capture''] else []) @
        plain
          [JEqImm R8 (fchmodSyscallNumber A) ''capture'',
           JEqImm R8 (fchmodatSyscallNumber A) ''capture'',
           JEqImm R8 (fchmodat2SyscallNumber A) ''capture'',
           Ja ''exit''] @
        [WithSymbol (MovImm R0 0) ''capture''] @
        zero_record recordStart (record_words recordSize) @
        plain
          [StoreMem RFP (recordStart + syscallOffset) R8 W32,
           Call FnKtimeGetNs,
           StoreMem RFP recordStart R0 DWord,
           Call FnGetCurrentPidTgid,
           StoreMem RFP keyOffset R0 DWord,
           RShImm R0 32,
           StoreMem RFP (recordStart + pidOffset) R0 W32,
           Call FnGetCurrentUidGid,
           StoreMem RFP (recordStart + uidOffset) R0 W32,
           MovReg R1 RFP,
           AddImm R1 (recordStart + commOffset),
           MovImm R2 (int commSize),
           Call FnGetCurrentComm,
           JEqImm R8 (fchmodSyscallNumber A) ''fchmod_fd''] @
        (if hasChmodSyscall A then plain [JEqImm R8 (chmodSyscallNumber A) ''chmod_path''] else []) @
        readRegisterArgument R6 (syscallArg0Offset A) RFP tempValue (recordStart + fdOffset) W32 @
        readPathArgument R6 (syscallArg1Offset A) RFP tempValue (recordStart + pathOffset) @
        readRegisterArgument R6 (syscallArg2Offset A) RFP tempValue (recordStart + modeOffset) W32 @
        plain [Ja ''emit''] @
        (if hasChmodSyscall A then
           [WithSymbol (MovImm R0 0) ''chmod_path''] @
           readPathArgument R6 (syscallArg0Offset A) RFP tempValue (recordStart + pathOffset) @
           readRegisterArgument R6 (syscallArg1Offset A) RFP tempValue (recordStart + modeOffset) W32 @
           plain [Ja ''emit'']
         else []) @
        [WithSymbol (MovImm R0 0) ''fchmod_fd''] @
        readRegisterArgument R6 (syscallArg0Offset A) RFP tempValue (recordStart + fdOffset) W32 @
        readRegisterArgument R6 (syscallArg1Offset A) RFP tempValue (recordStart + modeOffset) W32 @
        [WithSymbol (MovImm R0 0) ''emit''] @
        storePendingSyscall pendingFD keyOffset recordStart @
        countCorrelationDrop correlationDropCounterFD tempValue @
        [WithSymbol (MovImm R0 0) ''exit'', (None, Return)]\<rparr>)"

definition chmodExitProgramSpec :: "int \<Rightarrow> int \<Rightarrow> int \<Rightarrow> ProgramSpec" where
  "chmodExitProgramSpec ringBufferFD dropCounterFD pendingFD =
     completedSyscallProgramSpec ''rg_chmod_exit'' ringBufferFD dropCounterFD pendingFD
       (binary_Size chmod_layout) 8 16"

section \<open>sensitive_read\<close>

definition sensitiveReadEnterProgramSpec :: "abi \<Rightarrow> int \<Rightarrow> int \<Rightarrow> ProgramSpec" where
  "sensitiveReadEnterProgramSpec A pendingFD correlationDropCounterFD =
     (let pidOffset = 24; uidOffset = 28; commOffset = 32; pathOffset = 48; fdOffset = 304;
          syscallOffset = 308; flagsOffset = 312; recordSize = binary_Size sensitiveRead_layout;
          recordStart = - int recordSize; keyOffset = recordStart - 8; tempPointer = keyOffset - 8;
          tempValue = tempPointer - 8
      in \<lparr>ps_Name = ''rg_sread_enter'', Instructions =
        plain
          [MovReg R6 R1,
           LoadMem R8 R6 8 DWord] @
        (if hasOpenSyscall A then plain [JEqImm R8 (openSyscallNumber A) ''capture_open''] else []) @
        plain
          [JEqImm R8 (openatSyscallNumber A) ''capture_openat'',
           JEqImm R8 (openat2SyscallNumber A) ''capture_openat2'',
           Ja ''exit''] @
        [WithSymbol (MovImm R0 0) ''init''] @
        zero_record recordStart (record_words recordSize) @
        plain
          [StoreMem RFP (recordStart + syscallOffset) R8 W32,
           Call FnKtimeGetNs,
           StoreMem RFP recordStart R0 DWord,
           Call FnGetCurrentPidTgid,
           StoreMem RFP keyOffset R0 DWord,
           RShImm R0 32,
           StoreMem RFP (recordStart + pidOffset) R0 W32,
           Call FnGetCurrentUidGid,
           StoreMem RFP (recordStart + uidOffset) R0 W32,
           MovReg R1 RFP,
           AddImm R1 (recordStart + commOffset),
           MovImm R2 (int commSize),
           Call FnGetCurrentComm] @
        (if hasOpenSyscall A then
           [WithSymbol (MovImm R0 0) ''capture_open''] @
           readPathArgument R6 (syscallArg0Offset A) RFP tempValue (recordStart + pathOffset) @
           readRegisterArgument R6 (syscallArg1Offset A) RFP tempValue (recordStart + flagsOffset) DWord @
           plain
             [MovImm R7 atFDCWD,
              StoreMem RFP (recordStart + fdOffset) R7 W32,
              Ja ''emit'']
         else []) @
        [WithSymbol (MovImm R0 0) ''capture_openat''] @
        readRegisterArgument R6 (syscallArg0Offset A) RFP tempValue (recordStart + fdOffset) W32 @
        readPathArgument R6 (syscallArg1Offset A) RFP tempValue (recordStart + pathOffset) @
        readRegisterArgument R6 (syscallArg2Offset A) RFP tempValue (recordStart + flagsOffset) DWord @
        plain [Ja ''emit''] @
        [WithSymbol (MovImm R0 0) ''capture_openat2''] @
        readRegisterArgument R6 (syscallArg0Offset A) RFP tempValue (recordStart + fdOffset) W32 @
        readPathArgument R6 (syscallArg1Offset A) RFP tempValue (recordStart + pathOffset) @
        plain
          [LoadMem R3 R6 0 DWord,
           AddImm R3 (syscallArg2Offset A),
           MovReg R1 RFP,
           AddImm R1 tempPointer,
           MovImm R2 8,
           Call FnProbeReadKernel,
           LoadMem R3 RFP tempPointer DWord,
           MovReg R1 RFP,
           AddImm R1 tempValue,
           MovImm R2 8,
           Call FnProbeReadUser,
           LoadMem R7 RFP tempValue DWord,
           StoreMem RFP (recordStart + flagsOffset) R7 DWord] @
        [WithSymbol (MovImm R0 0) ''emit''] @
        storePendingSyscall pendingFD keyOffset recordStart @
        countCorrelationDrop correlationDropCounterFD tempValue @
        [WithSymbol (MovImm R0 0) ''exit'', (None, Return)]\<rparr>)"

definition sensitiveReadExitProgramSpec :: "int \<Rightarrow> int \<Rightarrow> int \<Rightarrow> ProgramSpec" where
  "sensitiveReadExitProgramSpec ringBufferFD dropCounterFD pendingFD =
     completedSyscallProgramSpec ''rg_sread_exit'' ringBufferFD dropCounterFD pendingFD
       (binary_Size sensitiveRead_layout) 8 16"

section \<open>file_lifecycle\<close>

definition fileLifecycleEnterProgramSpec :: "abi \<Rightarrow> int \<Rightarrow> int \<Rightarrow> ProgramSpec" where
  "fileLifecycleEnterProgramSpec A pendingFD correlationDropCounterFD =
     (let pidOffset = 24; uidOffset = 28; commOffset = 32; sourcePathOffset = 48;
          targetPathOffset = 176; sourceFDOffset = 304; targetFDOffset = 308; syscallOffset = 312;
          recordSize = binary_Size fileLifecycle_layout; recordStart = - int recordSize;
          keyOffset = recordStart - 8; tempValue = keyOffset - 8
      in \<lparr>ps_Name = ''rg_life_enter'', Instructions =
        plain
          [MovReg R6 R1,
           LoadMem R8 R6 8 DWord] @
        (if hasLegacyPathSyscalls A then
           plain
             [JEqImm R8 (renameSyscallNumber A) ''legacy_two_path'',
              JEqImm R8 (linkSyscallNumber A) ''legacy_two_path'',
              JEqImm R8 (symlinkSyscallNumber A) ''legacy_two_path'',
              JEqImm R8 (unlinkSyscallNumber A) ''legacy_one_path'',
              JEqImm R8 (mkdirSyscallNumber A) ''legacy_one_path'']
         else []) @
        plain
          [JEqImm R8 (truncateSyscallNumber A) ''legacy_one_path'',
           JEqImm R8 (ftruncateSyscallNumber A) ''fd_only'',
           JEqImm R8 (mkdiratSyscallNumber A) ''at_one_path'',
           JEqImm R8 (unlinkatSyscallNumber A) ''at_one_path'',
           JEqImm R8 (symlinkatSyscallNumber A) ''symlinkat_path'',
           JEqImm R8 (linkatSyscallNumber A) ''at_two_path'',
           JEqImm R8 (renameatSyscallNumber A) ''at_two_path'',
           JEqImm R8 (renameat2SyscallNumber A) ''at_two_path'',
           Ja ''exit''] @
        [WithSymbol (MovImm R0 0) ''init''] @
        zero_record recordStart (record_words recordSize) @
        plain
          [StoreMem RFP (recordStart + syscallOffset) R8 W32,
           MovImm R7 atFDCWD,
           StoreMem RFP (recordStart + sourceFDOffset) R7 W32,
           StoreMem RFP (recordStart + targetFDOffset) R7 W32,
           Call FnKtimeGetNs,
           StoreMem RFP recordStart R0 DWord,
           Call FnGetCurrentPidTgid,
           StoreMem RFP keyOffset R0 DWord,
           RShImm R0 32,
           StoreMem RFP (recordStart + pidOffset) R0 W32,
           Call FnGetCurrentUidGid,
           StoreMem RFP (recordStart + uidOffset) R0 W32,
           MovReg R1 RFP,
           AddImm R1 (recordStart + commOffset),
           MovImm R2 (int commSize),
           Call FnGetCurrentComm] @
        (if hasLegacyPathSyscalls A then
           [WithSymbol (MovImm R0 0) ''legacy_two_path''] @
           readPathArgumentSized R6 (syscallArg0Offset A) RFP tempValue (recordStart + sourcePathOffset) lifecyclePathSize @
           readPathArgumentSized R6 (syscallArg1Offset A) RFP tempValue (recordStart + targetPathOffset) lifecyclePathSize @
           plain [Ja ''emit''] @
           [WithSymbol (MovImm R0 0) ''legacy_one_path''] @
           readPathArgumentSized R6 (syscallArg0Offset A) RFP tempValue (recordStart + sourcePathOffset) lifecyclePathSize @
           plain [Ja ''emit'']
         else []) @
        [WithSymbol (MovImm R0 0) ''fd_only''] @
        readRegisterArgument R6 (syscallArg0Offset A) RFP tempValue (recordStart + sourceFDOffset) W32 @
        plain [Ja ''emit''] @
        [WithSymbol (MovImm R0 0) ''at_one_path''] @
        readRegisterArgument R6 (syscallArg0Offset A) RFP tempValue (recordStart + sourceFDOffset) W32 @
        readPathArgumentSized R6 (syscallArg1Offset A) RFP tempValue (recordStart + sourcePathOffset) lifecyclePathSize @
        plain [Ja ''emit''] @
        [WithSymbol (MovImm R0 0) ''symlinkat_path''] @
        readPathArgumentSized R6 (syscallArg0Offset A) RFP tempValue (recordStart + sourcePathOffset) lifecyclePathSize @
        readRegisterArgument R6 (syscallArg1Offset A) RFP tempValue (recordStart + targetFDOffset) W32 @
        readPathArgumentSized R6 (syscallArg2Offset A) RFP tempValue (recordStart + targetPathOffset) lifecyclePathSize @
        plain [Ja ''emit''] @
        [WithSymbol (MovImm R0 0) ''at_two_path''] @
        readRegisterArgument R6 (syscallArg0Offset A) RFP tempValue (recordStart + sourceFDOffset) W32 @
        readPathArgumentSized R6 (syscallArg1Offset A) RFP tempValue (recordStart + sourcePathOffset) lifecyclePathSize @
        readRegisterArgument R6 (syscallArg2Offset A) RFP tempValue (recordStart + targetFDOffset) W32 @
        readPathArgumentSized R6 (syscallArg3Offset A) RFP tempValue (recordStart + targetPathOffset) lifecyclePathSize @
        [WithSymbol (MovImm R0 0) ''emit''] @
        storePendingSyscall pendingFD keyOffset recordStart @
        countCorrelationDrop correlationDropCounterFD tempValue @
        [WithSymbol (MovImm R0 0) ''exit'', (None, Return)]\<rparr>)"

definition fileLifecycleExitProgramSpec :: "int \<Rightarrow> int \<Rightarrow> int \<Rightarrow> ProgramSpec" where
  "fileLifecycleExitProgramSpec ringBufferFD dropCounterFD pendingFD =
     completedSyscallProgramSpec ''rg_life_exit'' ringBufferFD dropCounterFD pendingFD
       (binary_Size fileLifecycle_layout) 8 16"

section \<open>network_server\<close>

definition networkServerEnterProgramSpec :: "abi \<Rightarrow> int \<Rightarrow> int \<Rightarrow> ProgramSpec" where
  "networkServerEnterProgramSpec A pendingFD correlationDropCounterFD =
     (let pidOffset = 24; uidOffset = 28; commOffset = 32; sockaddrOffset = 48; fdOffset = 80;
          backlogOffset = 84; syscallOffset = 88; recordSize = binary_Size networkServer_layout;
          recordStart = - int recordSize; keyOffset = recordStart - 8; tempPointer = keyOffset - 8;
          tempValue = tempPointer - 8
      in \<lparr>ps_Name = ''rg_netsrv_enter'', Instructions =
        plain
          [MovReg R6 R1,
           LoadMem R8 R6 8 DWord,
           JEqImm R8 (bindSyscallNumber A) ''capture_bind'',
           JEqImm R8 (listenSyscallNumber A) ''capture_listen'',
           Ja ''exit''] @
        [WithSymbol (MovImm R0 0) ''init''] @
        zero_record recordStart (record_words recordSize) @
        plain
          [StoreMem RFP (recordStart + syscallOffset) R8 W32,
           Call FnKtimeGetNs,
           StoreMem RFP recordStart R0 DWord,
           Call FnGetCurrentPidTgid,
           StoreMem RFP keyOffset R0 DWord,
           RShImm R0 32,
           StoreMem RFP (recordStart + pidOffset) R0 W32,
           Call FnGetCurrentUidGid,
           StoreMem RFP (recordStart + uidOffset) R0 W32,
           MovReg R1 RFP,
           AddImm R1 (recordStart + commOffset),
           MovImm R2 (int commSize),
           Call FnGetCurrentComm] @
        [WithSymbol (MovImm R0 0) ''capture_bind''] @
        readRegisterArgument R6 (syscallArg0Offset A) RFP tempValue (recordStart + fdOffset) W32 @
        plain
          [LoadMem R3 R6 0 DWord,
           AddImm R3 (syscallArg1Offset A),
           MovReg R1 RFP,
           AddImm R1 tempPointer,
           MovImm R2 8,
           Call FnProbeReadKernel,
           LoadMem R3 RFP tempPointer DWord,
           MovReg R1 RFP,
           AddImm R1 (recordStart + sockaddrOffset),
           MovImm R2 (int sockaddrStorageSize),
           Call FnProbeReadUser,
           Ja ''emit''] @
        [WithSymbol (MovImm R0 0) ''capture_listen''] @
        readRegisterArgument R6 (syscallArg0Offset A) RFP tempValue (recordStart + fdOffset) W32 @
        readRegisterArgument R6 (syscallArg1Offset A) RFP tempValue (recordStart + backlogOffset) W32 @
        [WithSymbol (MovImm R0 0) ''emit''] @
        storePendingSyscall pendingFD keyOffset recordStart @
        countCorrelationDrop correlationDropCounterFD tempValue @
        [WithSymbol (MovImm R0 0) ''exit'', (None, Return)]\<rparr>)"

definition networkServerExitProgramSpec :: "int \<Rightarrow> int \<Rightarrow> int \<Rightarrow> ProgramSpec" where
  "networkServerExitProgramSpec ringBufferFD dropCounterFD pendingFD =
     completedSyscallProgramSpec ''rg_netsrv_exit'' ringBufferFD dropCounterFD pendingFD
       (binary_Size networkServer_layout) 8 16"

section \<open>The four collectors of further system calls\<close>

definition behaviorSyscallEnterProgramSpec :: "abi \<Rightarrow> string \<Rightarrow> int list \<Rightarrow> int \<Rightarrow> int \<Rightarrow> ProgramSpec" where
  "behaviorSyscallEnterProgramSpec A name syscalls pendingFD correlationDropCounterFD =
     (let pidOffset = 24; uidOffset = 28; commOffset = 32; syscallOffset = 48; arg0Offset = 56;
          arg1Offset = 64; arg2Offset = 72; recordSize = binary_Size behaviorSyscall_layout;
          recordStart = - int recordSize; keyOffset = recordStart - 8; tempValue = keyOffset - 8
      in \<lparr>ps_Name = ''rg_'' @ name @ ''_enter'', Instructions =
        plain
          [MovReg R6 R1,
           LoadMem R8 R6 8 DWord] @
        plain (map (\<lambda>nr. JEqImm R8 nr ''capture'') syscalls) @
        plain [Ja ''exit''] @
        [WithSymbol (MovImm R0 0) ''capture''] @
        zero_record recordStart (record_words recordSize) @
        plain
          [StoreMem RFP (recordStart + syscallOffset) R8 W32,
           Call FnKtimeGetNs,
           StoreMem RFP recordStart R0 DWord,
           Call FnGetCurrentPidTgid,
           StoreMem RFP keyOffset R0 DWord,
           RShImm R0 32,
           StoreMem RFP (recordStart + pidOffset) R0 W32,
           Call FnGetCurrentUidGid,
           StoreMem RFP (recordStart + uidOffset) R0 W32,
           MovReg R1 RFP,
           AddImm R1 (recordStart + commOffset),
           MovImm R2 (int commSize),
           Call FnGetCurrentComm] @
        readRegisterArgument R6 (syscallArg0Offset A) RFP tempValue (recordStart + arg0Offset) DWord @
        readRegisterArgument R6 (syscallArg1Offset A) RFP tempValue (recordStart + arg1Offset) DWord @
        readRegisterArgument R6 (syscallArg2Offset A) RFP tempValue (recordStart + arg2Offset) DWord @
        storePendingSyscall pendingFD keyOffset recordStart @
        countCorrelationDrop correlationDropCounterFD tempValue @
        [WithSymbol (MovImm R0 0) ''exit'', (None, Return)]\<rparr>)"

definition behaviorSyscallExitProgramSpec :: "string \<Rightarrow> int \<Rightarrow> int \<Rightarrow> int \<Rightarrow> ProgramSpec" where
  "behaviorSyscallExitProgramSpec name ringBufferFD dropCounterFD pendingFD =
     completedSyscallProgramSpec (''rg_'' @ name @ ''_exit'') ringBufferFD dropCounterFD pendingFD
       (binary_Size behaviorSyscall_layout) 8 16"

end
