(* ===== verification/Ebpf_Normalize.thy ===== *)
theory Ebpf_Normalize
  imports Ebpf_Proc Bpf_Programs
begin

text \<open>
  From a decoded record to an event (the \<open>normalize\<close> methods of \<open>internal/ebpf\<close>): the names of
  system calls, outcomes and error numbers, socket addresses, and what each collector reads from
  \<open>/proc\<close> to complete the event or to reject the record.
\<close>

section \<open>Results of system calls\<close>

definition syscallOutcome :: "64 word \<Rightarrow> string" where
  "syscallOutcome ret = (if sint ret < 0 then ''failed'' else ''success'')"

definition syscallErrno :: "64 word \<Rightarrow> 64 word" where
  "syscallErrno ret = (if sint ret < 0 then - ret else 0)"

definition errnoOperationInProgress :: int where "errnoOperationInProgress = 115"
definition errnoOperationAlready :: int where "errnoOperationAlready = 114"

definition connectOutcome :: "64 word \<Rightarrow> string" where
  "connectOutcome ret =
     (let errno = sint (syscallErrno ret) in
      if errno = 0 then ''success''
      else if errno = errnoOperationInProgress \<or> errno = errnoOperationAlready then ''in_progress''
      else ''failed'')"

definition writtenBytes :: "64 word \<Rightarrow> 64 word" where
  "writtenBytes ret = (if sint ret < 0 then 0 else ret)"

section \<open>Names\<close>

text \<open>A \<open>switch\<close> on the number: the first case that matches.\<close>

fun switch :: "(int list \<times> string) list \<Rightarrow> string \<Rightarrow> 32 word \<Rightarrow> string" where
  "switch [] dflt nr = dflt"
| "switch ((cs, name) # rest) dflt nr = (if uint nr \<in> set cs then name else switch rest dflt nr)"

definition fileWriteSyscallName :: "abi \<Rightarrow> 32 word \<Rightarrow> string" where
  "fileWriteSyscallName A = switch
     [([writeSyscallNumber A], ''write''), ([pwriteSyscallNumber A], ''pwrite64''),
      ([writevSyscallNumber A], ''writev''), ([pwritevSyscallNumber A], ''pwritev''),
      ([pwritev2SyscallNumber A], ''pwritev2'')] ''unknown''"

definition fileWriteCountKind :: "abi \<Rightarrow> 32 word \<Rightarrow> string" where
  "fileWriteCountKind A = switch
     [([writevSyscallNumber A, pwritevSyscallNumber A, pwritev2SyscallNumber A], ''iovecs'')] ''bytes''"

definition chmodSyscallName :: "abi \<Rightarrow> 32 word \<Rightarrow> string" where
  "chmodSyscallName A nr =
     (if hasChmodSyscall A \<and> uint nr = chmodSyscallNumber A then ''chmod''
      else switch
        [([fchmodSyscallNumber A], ''fchmod''), ([fchmodatSyscallNumber A], ''fchmodat''),
         ([fchmodat2SyscallNumber A], ''fchmodat2'')] ''unknown'' nr)"

definition sensitiveReadSyscallName :: "abi \<Rightarrow> 32 word \<Rightarrow> string" where
  "sensitiveReadSyscallName A nr =
     (if hasOpenSyscall A \<and> uint nr = openSyscallNumber A then ''open''
      else switch [([openatSyscallNumber A], ''openat''), ([openat2SyscallNumber A], ''openat2'')] ''unknown'' nr)"

definition fileLifecycleAction :: "abi \<Rightarrow> 32 word \<Rightarrow> string" where
  "fileLifecycleAction A = switch
     [([renameSyscallNumber A, renameatSyscallNumber A, renameat2SyscallNumber A], ''rename''),
      ([unlinkSyscallNumber A, unlinkatSyscallNumber A], ''unlink''),
      ([mkdirSyscallNumber A, mkdiratSyscallNumber A], ''mkdir''),
      ([symlinkSyscallNumber A, symlinkatSyscallNumber A], ''symlink''),
      ([linkSyscallNumber A, linkatSyscallNumber A], ''link''),
      ([truncateSyscallNumber A, ftruncateSyscallNumber A], ''truncate'')] ''unknown''"

definition fileLifecycleSyscallName :: "abi \<Rightarrow> 32 word \<Rightarrow> string" where
  "fileLifecycleSyscallName A = switch
     [([renameSyscallNumber A], ''rename''), ([renameatSyscallNumber A], ''renameat''),
      ([renameat2SyscallNumber A], ''renameat2''), ([unlinkSyscallNumber A], ''unlink''),
      ([unlinkatSyscallNumber A], ''unlinkat''), ([mkdirSyscallNumber A], ''mkdir''),
      ([mkdiratSyscallNumber A], ''mkdirat''), ([symlinkSyscallNumber A], ''symlink''),
      ([symlinkatSyscallNumber A], ''symlinkat''), ([linkSyscallNumber A], ''link''),
      ([linkatSyscallNumber A], ''linkat''), ([truncateSyscallNumber A], ''truncate''),
      ([ftruncateSyscallNumber A], ''ftruncate'')] ''unknown''"

definition networkServerSyscallName :: "abi \<Rightarrow> 32 word \<Rightarrow> string" where
  "networkServerSyscallName A = switch [([bindSyscallNumber A], ''bind''), ([listenSyscallNumber A], ''listen'')] ''unknown''"

section \<open>Socket addresses\<close>

definition hexd :: "nat \<Rightarrow> char" where
  "hexd n = (if n < 10 then char_of (48 + n) else char_of (87 + n))"

text \<open>A group of an IPv6 address in lower case without leading zeros.\<close>

fun hex_group :: "nat \<Rightarrow> string" where
  "hex_group n = (if n < 16 then [hexd n] else hex_group (n div 16) @ [hexd (n mod 16)])"

declare hex_group.simps [simp del]

definition dotted :: "bytes \<Rightarrow> string" where
  "dotted bs = Join ''.'' (map (\<lambda>b. Itoa (uint b)) bs)"

fun groups :: "bytes \<Rightarrow> nat list" where
  "groups (a # b # bs) = (256 * unat a + unat b) # groups bs"
| "groups _ = []"

text \<open>The first of the longest runs of at least two zero groups, as its start and its end.\<close>

definition zero_run :: "nat list \<Rightarrow> nat \<Rightarrow> nat" where
  "zero_run gs i = length (takeWhile (\<lambda>g. g = 0) (drop i gs))"

definition longest_zero_run :: "nat list \<Rightarrow> (nat \<times> nat) option" where
  "longest_zero_run gs =
     foldl (\<lambda>best i. case best of
         None \<Rightarrow> if zero_run gs i \<ge> 2 then Some (i, i + zero_run gs i) else None
       | Some (a, b) \<Rightarrow> if zero_run gs i > b - a then Some (i, i + zero_run gs i) else Some (a, b))
       None [0..<length gs]"

definition ipv6_text :: "bytes \<Rightarrow> string" where
  "ipv6_text bs =
     (let gs = groups bs; show_groups = (\<lambda>xs. Join '':'' (map hex_group xs))
      in case longest_zero_run gs of
           None \<Rightarrow> show_groups gs
         | Some (a, b) \<Rightarrow> show_groups (take a gs) @ ''::'' @ show_groups (drop b gs))"

text \<open>\<open>net.IP.String\<close> on 4 or 16 bytes; an IPv4-mapped address is written as IPv4.\<close>

definition IP_String :: "bytes \<Rightarrow> string" where
  "IP_String bs =
     (if length bs = 4 then dotted bs
      else if take 10 bs = replicate 10 0 \<and> bs ! 10 = 255 \<and> bs ! 11 = 255 then dotted (drop 12 bs)
      else ipv6_text bs)"

definition port_at :: "bytes \<Rightarrow> int" where
  "port_at raw = 256 * uint (raw ! 2) + uint (raw ! 3)"

definition decodeSockaddr :: "bytes \<Rightarrow> (string \<times> int \<times> string \<times> (string \<times> any_value) list) option" where
  "decodeSockaddr raw =
     (let family = uint (from_le (field_at raw 0 2)) in
      if family = addressFamilyIPv4 then
        Some (IP_String (field_at raw 4 4), port_at raw, ''AF_INET'', [])
      else if family = addressFamilyIPv6 then
        (let flowInfo = u32_at raw 4; scopeID = u32_at raw 24 in
         Some (IP_String (field_at raw 8 16), port_at raw, ''AF_INET6'',
           (if flowInfo \<noteq> 0 then [(''flowinfo'', VUint32 flowInfo)] else []) @
           (if scopeID \<noteq> 0 then [(''scope_id'', VUint32 scopeID)] else [])))
      else None)"

section \<open>The state and the surroundings of a collector\<close>

record collector_state =
  cs_sequence :: "64 word"
  cs_cache :: "containerMetadataCache option"

record surroundings =
  su_host :: string
  su_procRoot :: string
  su_fs :: proc_fs
  su_timestamp :: go_time
  su_UnixNano :: int
  su_cacheNow :: go_time
  su_order1 :: "int list"
  su_order2 :: "int list"

definition next_id :: "string \<Rightarrow> surroundings \<Rightarrow> int \<Rightarrow> collector_state \<Rightarrow> string" where
  "next_id name V pid S = name @ ''-'' @ Itoa (su_UnixNano V) @ ''-'' @ Itoa pid @ ''-'' @
     Itoa (uint (cs_sequence S + 1))"

definition advance :: "collector_state \<Rightarrow> collector_state" where
  "advance S = S\<lparr>cs_sequence := cs_sequence S + 1\<rparr>"

definition enrich :: "surroundings \<Rightarrow> int \<Rightarrow> event \<Rightarrow> collector_state \<Rightarrow> event \<times> collector_state" where
  "enrich V pid e S =
     (case enrichContainerMetadata (su_fs V) (su_procRoot V) (su_cacheNow V) (su_order1 V) (su_order2 V) pid
        (cs_cache S) e of
        (e', cache) \<Rightarrow> (e', S\<lparr>cs_cache := cache\<rparr>))"

text \<open>The part that the collectors of completed system calls share.\<close>

definition process_event :: "string \<Rightarrow> event_type \<Rightarrow> surroundings \<Rightarrow> 'a syscallRecord_scheme \<Rightarrow> collector_state \<Rightarrow> event" where
  "process_event name etype V raw S =
     (let pid = uint (raw_PID raw);
          ppid = readProcPPID (su_fs V) (su_procRoot V) pid;
          executablePath = readProcExe (su_fs V) (su_procRoot V) pid
      in \<lparr>EventID = next_id name V pid S, Timestamp = su_timestamp V, Host = su_host V,
         ContainerID = [], ContainerName = [], PID = pid, PPID = ppid, UID = uint (raw_UID raw),
         ProcessName = (if executablePath \<noteq> [] then Base executablePath else cString (Comm raw)),
         ParentProcessName = readProcComm (su_fs V) (su_procRoot V) ppid, EventType = etype,
         ExecutablePath = executablePath, CommandLine = [],
         CWD = readProcCWD (su_fs V) (su_procRoot V) pid, FilePath = [], RemoteAddr = [],
         RemotePort = 0, Metadata = None\<rparr>)"

definition timing :: "'a syscallRecord_scheme \<Rightarrow> (string \<times> any_value) list" where
  "timing raw =
     [(''source'', VString ''ebpf_raw_tracepoint_sys_exit''),
      (''kernel_timestamp_ns'', VUint64 (KernelTimestampNS raw)),
      (''completion_kernel_timestamp_ns'', VUint64 (CompletionKernelTimestampNS raw))]"

definition outcome :: "'a syscallRecord_scheme \<Rightarrow> (string \<times> any_value) list" where
  "outcome raw =
     [(''return_value'', VInt64 (sint (ReturnValue raw))),
      (''errno'', VInt64 (sint (syscallErrno (ReturnValue raw)))),
      (''outcome'', VString (syscallOutcome (ReturnValue raw)))]"

section \<open>The collectors\<close>

definition normalize_execve :: "surroundings \<Rightarrow> execveRecord \<Rightarrow> collector_state \<Rightarrow> event \<times> collector_state" where
  "normalize_execve V raw S =
     (let pid = uint (x_PID raw);
          ppid = readProcPPID (su_fs V) (su_procRoot V) pid;
          filename = cString (x_Filename raw);
          processName = (if Base filename = ''.'' \<or> Base filename = [] then cString (x_Comm raw) else Base filename);
          e = \<lparr>EventID = next_id ''execve'' V pid S, Timestamp = su_timestamp V, Host = su_host V,
            ContainerID = [], ContainerName = [], PID = pid, PPID = ppid, UID = uint (x_UID raw),
            ProcessName = processName,
            ParentProcessName = readProcComm (su_fs V) (su_procRoot V) ppid, EventType = TypeExecve,
            ExecutablePath = filename, CommandLine = (if filename \<noteq> [] then [filename] else []),
            CWD = readProcCWD (su_fs V) (su_procRoot V) pid, FilePath = [], RemoteAddr = [], RemotePort = 0,
            Metadata = Some [(''source'', VString ''ebpf_raw_tracepoint_sys_enter''),
              (''kernel_timestamp_ns'', VUint64 (x_KernelTimestampNS raw)),
              (''previous_process'', VString (cString (x_Comm raw)))]\<rparr>
      in enrich V pid e (advance S))"

definition normalize_connect :: "surroundings \<Rightarrow> connectRecord \<Rightarrow> collector_state \<Rightarrow> event option \<times> collector_state" where
  "normalize_connect V raw S =
     (case decodeSockaddr (co_Sockaddr raw) of
        None \<Rightarrow> (None, S)
      | Some (remoteAddr, remotePort, addressFamily, metadata) \<Rightarrow>
          (let e = (process_event ''connect'' TypeConnect V raw S)
                 \<lparr>RemoteAddr := remoteAddr, RemotePort := remotePort,
                  Metadata := Some (timing raw @
                    [(''address_family'', VString addressFamily),
                     (''return_value'', VInt64 (sint (ReturnValue raw))),
                     (''errno'', VInt64 (sint (syscallErrno (ReturnValue raw)))),
                     (''outcome'', VString (connectOutcome (ReturnValue raw)))] @ metadata)\<rparr>
           in case enrich V (uint (raw_PID raw)) e (advance S) of (e', S') \<Rightarrow> (Some e', S')))"

definition normalize_file_write ::
  "abi \<Rightarrow> surroundings \<Rightarrow> fileWriteRecord \<Rightarrow> collector_state \<Rightarrow> event option \<times> collector_state" where
  "normalize_file_write A V raw S =
     (let path = readProcFD (su_fs V) (su_procRoot V) (uint (raw_PID raw)) (sint (fw_FD raw)) in
      if path = [] then (None, S)
      else
        (let e = (process_event ''file-write'' TypeFileWrite V raw S)
               \<lparr>FilePath := path,
                Metadata := Some (timing raw @
                  [(''syscall'', VString (fileWriteSyscallName A (fw_Syscall raw))),
                   (''fd'', VInt32 (sint (fw_FD raw))),
                   (''requested_count'', VUint64 (fw_RequestedCount raw)),
                   (''count_kind'', VString (fileWriteCountKind A (fw_Syscall raw))),
                   (''written_bytes'', VInt64 (sint (writtenBytes (ReturnValue raw))))] @ outcome raw)\<rparr>
         in case enrich V (uint (raw_PID raw)) e (advance S) of (e', S') \<Rightarrow> (Some e', S')))"

text \<open>\<open>%04o\<close> of the permission bits.\<close>

definition octal4 :: "nat \<Rightarrow> string" where
  "octal4 n = map (\<lambda>k. char_of (48 + (n div 8 ^ k) mod 8)) [3, 2, 1, 0]"

definition resolve_chmod :: "abi \<Rightarrow> surroundings \<Rightarrow> chmodRecord \<Rightarrow> string" where
  "resolve_chmod A V raw =
     (let pid = uint (raw_PID raw); nr = uint (ch_Syscall raw); path = cString (ch_FilePath raw) in
      if hasChmodSyscall A \<and> nr = chmodSyscallNumber A
      then resolveProcPath (su_fs V) (su_procRoot V) pid atFDCWD path
      else if nr = fchmodSyscallNumber A then readProcFD (su_fs V) (su_procRoot V) pid (sint (ch_FD raw))
      else if nr = fchmodatSyscallNumber A \<or> nr = fchmodat2SyscallNumber A
      then resolveProcPath (su_fs V) (su_procRoot V) pid (sint (ch_FD raw)) path
      else [])"

definition normalize_chmod ::
  "abi \<Rightarrow> surroundings \<Rightarrow> chmodRecord \<Rightarrow> collector_state \<Rightarrow> event option \<times> collector_state" where
  "normalize_chmod A V raw S =
     (let path = resolve_chmod A V raw in
      if path = [] then (None, S)
      else
        (let e = (process_event ''chmod'' TypeChmod V raw S)
               \<lparr>FilePath := path,
                Metadata := Some (timing raw @
                  [(''syscall'', VString (chmodSyscallName A (ch_Syscall raw))),
                   (''mode'', VString (octal4 (unat (ch_Mode raw) mod 4096))),
                   (''added_execute_bit'', VBool (and (ch_Mode raw) 0x49 \<noteq> 0))] @ outcome raw)\<rparr>
         in case enrich V (uint (raw_PID raw)) e (advance S) of (e', S') \<Rightarrow> (Some e', S')))"

definition openFlagsReadable :: "64 word \<Rightarrow> bool" where
  "openFlagsReadable flags = (and flags 3 \<noteq> 1)"

definition openAccessMode :: "64 word \<Rightarrow> string" where
  "openAccessMode flags =
     (if and flags 3 = 1 then ''write_only'' else if and flags 3 = 2 then ''read_write'' else ''read_only'')"

definition is_sensitive_read_path :: "string \<Rightarrow> bool" where
  "is_sensitive_read_path path =
     (let cleaned = Clean path in
      cleaned \<in> {''/etc/passwd'', ''/etc/shadow'', ''/etc/sudoers'', ''/root/.ssh/id_rsa'', ''/root/.ssh/id_ed25519'',
        ''/root/.aws/credentials'', ''/root/.docker/config.json''} \<or>
      HasPrefix cleaned ''/etc/sudoers.d/'' \<or> HasPrefix cleaned ''/etc/ssh/'' \<or>
      HasPrefix cleaned ''/root/.ssh/'' \<or> HasPrefix cleaned ''/root/.gnupg/'' \<or>
      HasSuffix cleaned ''/.ssh/id_rsa'' \<or> HasSuffix cleaned ''/.ssh/id_ed25519'' \<or>
      HasSuffix cleaned ''/.aws/credentials'' \<or> HasSuffix cleaned ''/.docker/config.json'' \<or>
      HasSuffix cleaned ''/.kube/config'' \<or> Contains cleaned ''/secrets/'')"

definition normalize_sensitive_read ::
  "abi \<Rightarrow> surroundings \<Rightarrow> sensitiveReadRecord \<Rightarrow> collector_state \<Rightarrow> event option \<times> collector_state" where
  "normalize_sensitive_read A V raw S =
     (if \<not> openFlagsReadable (sr_Flags raw) then (None, S)
      else
        (let path = resolveProcPath (su_fs V) (su_procRoot V) (uint (raw_PID raw)) (sint (sr_FD raw))
               (cString (sr_FilePath raw)) in
         if path = [] \<or> \<not> is_sensitive_read_path path then (None, S)
         else
           (let e = (process_event ''sensitive-read'' TypeSensitiveRead V raw S)
                  \<lparr>FilePath := path,
                   Metadata := Some (timing raw @
                     [(''syscall'', VString (sensitiveReadSyscallName A (sr_Syscall raw))),
                      (''flags'', VUint64 (sr_Flags raw)),
                      (''access_mode'', VString (openAccessMode (sr_Flags raw)))] @ outcome raw)\<rparr>
            in case enrich V (uint (raw_PID raw)) e (advance S) of (e', S') \<Rightarrow> (Some e', S'))))"

definition resolveLifecyclePath :: "proc_fs \<Rightarrow> string \<Rightarrow> int \<Rightarrow> int \<Rightarrow> string \<Rightarrow> string" where
  "resolveLifecyclePath F procRoot pid dirfd path =
     (if path \<noteq> [] then resolveProcPath F procRoot pid dirfd path else readProcFD F procRoot pid dirfd)"

definition fileLifecyclePrimaryPath :: "abi \<Rightarrow> 32 word \<Rightarrow> string \<Rightarrow> string \<Rightarrow> string" where
  "fileLifecyclePrimaryPath A nr sourcePath targetPath =
     (if fileLifecycleAction A nr \<in> {''rename'', ''link'', ''symlink''} \<and> targetPath \<noteq> [] then targetPath
      else sourcePath)"

definition normalize_file_lifecycle ::
  "abi \<Rightarrow> surroundings \<Rightarrow> fileLifecycleRecord \<Rightarrow> collector_state \<Rightarrow> event option \<times> collector_state" where
  "normalize_file_lifecycle A V raw S =
     (let pid = uint (raw_PID raw);
          sourcePath = resolveLifecyclePath (su_fs V) (su_procRoot V) pid (sint (fl_SourceFD raw)) (cString (fl_SourcePath raw));
          targetPath = resolveLifecyclePath (su_fs V) (su_procRoot V) pid (sint (fl_TargetFD raw)) (cString (fl_TargetPath raw));
          primaryPath = fileLifecyclePrimaryPath A (fl_Syscall raw) sourcePath targetPath
      in if primaryPath = [] then (None, S)
         else
           (let e = (process_event ''file-lifecycle'' TypeFileLifecycle V raw S)
                  \<lparr>FilePath := primaryPath,
                   Metadata := Some (timing raw @
                     [(''syscall'', VString (fileLifecycleSyscallName A (fl_Syscall raw))),
                      (''action'', VString (fileLifecycleAction A (fl_Syscall raw)))] @ outcome raw @
                     (if sourcePath \<noteq> [] then [(''source_path'', VString sourcePath)] else []) @
                     (if targetPath \<noteq> [] then [(''target_path'', VString targetPath)] else []))\<rparr>
            in case enrich V pid e (advance S) of (e', S') \<Rightarrow> (Some e', S')))"

text \<open>A bind to an address family that is not decoded is dropped after its id was taken.\<close>

definition normalize_network_server ::
  "abi \<Rightarrow> surroundings \<Rightarrow> networkServerRecord \<Rightarrow> collector_state \<Rightarrow> event option \<times> collector_state" where
  "normalize_network_server A V raw S =
     (let metadata = timing raw @
            [(''syscall'', VString (networkServerSyscallName A (ns_Syscall raw))),
             (''fd'', VInt32 (sint (ns_FD raw)))] @ outcome raw;
          e = (process_event ''network-server'' TypeNetworkServer V raw S)
      in if uint (ns_Syscall raw) = bindSyscallNumber A then
           (case decodeSockaddr (ns_Sockaddr raw) of
              None \<Rightarrow> (None, advance S)
            | Some (remoteAddr, remotePort, addressFamily, decoded) \<Rightarrow>
                (case enrich V (uint (raw_PID raw))
                   (e\<lparr>RemoteAddr := remoteAddr, RemotePort := remotePort,
                      Metadata := Some (metadata @ [(''address_family'', VString addressFamily)] @ decoded)\<rparr>)
                   (advance S) of (e', S') \<Rightarrow> (Some e', S')))
         else
           (case enrich V (uint (raw_PID raw))
              (e\<lparr>Metadata := Some (metadata @ [(''backlog'', VInt32 (sint (ns_Backlog raw)))])\<rparr>)
              (advance S) of (e', S') \<Rightarrow> (Some e', S')))"

section \<open>The collectors of further system calls\<close>

record BehaviorSyscallCollector =
  bc_name :: string
  bc_bpfName :: string
  bc_eventType :: event_type
  bc_syscalls :: "(int \<times> string) list"

definition PrivilegeChangeCollector :: "abi \<Rightarrow> BehaviorSyscallCollector" where
  "PrivilegeChangeCollector A =
     \<lparr>bc_name = ''privilege_change'', bc_bpfName = ''privchg'', bc_eventType = TypePrivilegeChange, bc_syscalls =
       [(setuidSyscallNumber A, ''setuid''), (setgidSyscallNumber A, ''setgid''),
        (setreuidSyscallNumber A, ''setreuid''), (setregidSyscallNumber A, ''setregid''),
        (setgroupsSyscallNumber A, ''setgroups''), (setresuidSyscallNumber A, ''setresuid''),
        (setresgidSyscallNumber A, ''setresgid''), (capsetSyscallNumber A, ''capset''),
        (prctlSyscallNumber A, ''prctl'')]\<rparr>"

definition NamespaceChangeCollector :: "abi \<Rightarrow> BehaviorSyscallCollector" where
  "NamespaceChangeCollector A =
     \<lparr>bc_name = ''namespace_change'', bc_bpfName = ''nschg'', bc_eventType = TypeNamespaceChange, bc_syscalls =
       [(setnsSyscallNumber A, ''setns''), (unshareSyscallNumber A, ''unshare''),
        (mountSyscallNumber A, ''mount''), (umount2SyscallNumber A, ''umount2''),
        (pivotRootSyscallNumber A, ''pivot_root''), (chrootSyscallNumber A, ''chroot'')]\<rparr>"

definition ProcessAccessCollector :: "abi \<Rightarrow> BehaviorSyscallCollector" where
  "ProcessAccessCollector A =
     \<lparr>bc_name = ''process_access'', bc_bpfName = ''procacc'', bc_eventType = TypeProcessAccess, bc_syscalls =
       [(ptraceSyscallNumber A, ''ptrace''), (processVMReadvSyscallNumber A, ''process_vm_readv''),
        (processVMWritevSyscallNumber A, ''process_vm_writev'')]\<rparr>"

definition KernelTamperCollector :: "abi \<Rightarrow> BehaviorSyscallCollector" where
  "KernelTamperCollector A =
     \<lparr>bc_name = ''kernel_tamper'', bc_bpfName = ''kerntmp'', bc_eventType = TypeKernelTamper, bc_syscalls =
       [(bpfSyscallNumber A, ''bpf''), (initModuleSyscallNumber A, ''init_module''),
        (finitModuleSyscallNumber A, ''finit_module''), (deleteModuleSyscallNumber A, ''delete_module''),
        (kexecLoadSyscallNumber A, ''kexec_load'')]\<rparr>"

text \<open>The numbers in the order of the map literal; a range over the map may give any other order.\<close>

definition syscallNumbers :: "BehaviorSyscallCollector \<Rightarrow> int list" where
  "syscallNumbers collector = map fst (bc_syscalls collector)"

definition behaviorTargetPID :: "abi \<Rightarrow> event_type \<Rightarrow> behaviorSyscallRecord \<Rightarrow> 64 word option" where
  "behaviorTargetPID A etype raw =
     (if etype \<noteq> TypeProcessAccess then None
      else if uint (bs_Syscall raw) = ptraceSyscallNumber A then Some (bs_Args raw ! 1)
      else if uint (bs_Syscall raw) \<in> {processVMReadvSyscallNumber A, processVMWritevSyscallNumber A}
      then Some (bs_Args raw ! 0)
      else None)"

definition normalize_behavior ::
  "abi \<Rightarrow> BehaviorSyscallCollector \<Rightarrow> surroundings \<Rightarrow> behaviorSyscallRecord \<Rightarrow> collector_state \<Rightarrow> event \<times> collector_state" where
  "normalize_behavior A collector V raw S =
     (let syscallName = (case map_of (bc_syscalls collector) (uint (bs_Syscall raw)) of None \<Rightarrow> [] | Some n \<Rightarrow> n);
          metadata = timing raw @
            [(''syscall'', VString syscallName), (''arg0'', VUint64 (bs_Args raw ! 0)),
             (''arg1'', VUint64 (bs_Args raw ! 1)), (''arg2'', VUint64 (bs_Args raw ! 2))] @ outcome raw @
            (case behaviorTargetPID A (bc_eventType collector) raw of
               None \<Rightarrow> [] | Some p \<Rightarrow> [(''target_pid'', VUint64 p)]);
          e = (process_event (bc_name collector) (bc_eventType collector) V raw S)\<lparr>Metadata := Some metadata\<rparr>
      in enrich V (uint (raw_PID raw)) e (advance S))"

end
