(* ===== verification/Detect.thy ===== *)
theory Detect
  imports Events
begin

text \<open>
  The deterministic rule set (\<open>internal/detect\<close>): signals and the capped risk score, the
  catalogue of rules, the path and name classifiers, and the loop of \<open>Analyze\<close> as a state
  with one handler per event type.
\<close>

section \<open>Signals and results\<close>

record Signal =
  RuleID :: string
  Description :: string
  ScoreImpact :: int
  EventIDs :: "string list"
  Evidence :: string

record Result =
  Signals :: "Signal list"
  RiskScore :: int

definition RiskLevel :: "int \<Rightarrow> string" where
  "RiskLevel score =
     (if score \<ge> 80 then ''critical''
      else if score \<ge> 60 then ''high''
      else if score \<ge> 30 then ''medium''
      else ''low'')"

definition Result_add :: "Signal \<Rightarrow> Result \<Rightarrow> Result" where
  "Result_add matched r =
     (let r1 = r\<lparr>Signals := Signals r @ [matched], RiskScore := RiskScore r + ScoreImpact matched\<rparr>
      in if RiskScore r1 > 100 then r1\<lparr>RiskScore := 100\<rparr> else r1)"

definition mk_signal :: "string \<Rightarrow> int \<Rightarrow> event list \<Rightarrow> string \<Rightarrow> Signal" where
  "mk_signal ruleID scoreImpact supportingEvents evidence =
     \<lparr>RuleID = ruleID, Description = evidence, ScoreImpact = scoreImpact,
      EventIDs = map EventID supportingEvents, Evidence = evidence\<rparr>"

section \<open>The catalogue of rules\<close>

record RuleDefinition =
  rd_RuleID :: string
  rd_Description :: string
  rd_ScoreImpact :: int
  rd_Collectors :: "string list"

definition RuleDefinitions :: "RuleDefinition list" where
  "RuleDefinitions =
    [\<lparr>rd_RuleID = ''web_process_spawned_shell'',
      rd_Description = ''A web-facing parent process spawned a shell.'',
      rd_ScoreImpact = 30, rd_Collectors = [''execve'']\<rparr>,
     \<lparr>rd_RuleID = ''shell_downloaded_file'',
      rd_Description = ''A shell launched a download utility and selected an output path.'',
      rd_ScoreImpact = 20, rd_Collectors = [''execve'']\<rparr>,
     \<lparr>rd_RuleID = ''tmp_file_made_executable'',
      rd_Description = ''A process added execute permission to a file under a temporary path.'',
      rd_ScoreImpact = 20, rd_Collectors = [''chmod'']\<rparr>,
     \<lparr>rd_RuleID = ''recently_downloaded_binary_executed'',
      rd_Description = ''A process executed a file that was recently downloaded in the same process tree.'',
      rd_ScoreImpact = 30, rd_Collectors = [''execve'', ''file_write'']\<rparr>,
     \<lparr>rd_RuleID = ''downloaded_binary_connected_outbound'',
      rd_Description = ''A recently downloaded executable opened an outbound connection.'',
      rd_ScoreImpact = 35, rd_Collectors = [''execve'', ''file_write'', ''connect'']\<rparr>,
     \<lparr>rd_RuleID = ''suspicious_reverse_shell_pattern'',
      rd_Description = ''A shell connected to an unusual outbound endpoint.'',
      rd_ScoreImpact = 50, rd_Collectors = [''execve'', ''connect'']\<rparr>,
     \<lparr>rd_RuleID = ''package_manager_spawned_shell'',
      rd_Description = ''A package manager spawned an interactive shell.'',
      rd_ScoreImpact = 5, rd_Collectors = [''execve'']\<rparr>,
     \<lparr>rd_RuleID = ''sensitive_file_access'',
      rd_Description = ''A process wrote a sensitive file path.'',
      rd_ScoreImpact = 35, rd_Collectors = [''file_write'']\<rparr>,
     \<lparr>rd_RuleID = ''crypto_miner_process_name'',
      rd_Description = ''A process name matched a known crypto-miner pattern.'',
      rd_ScoreImpact = 35, rd_Collectors = [''execve'']\<rparr>,
     \<lparr>rd_RuleID = ''unexpected_network_tool_execution'',
      rd_Description = ''A suspicious parent process executed a common network utility.'',
      rd_ScoreImpact = 20, rd_Collectors = [''execve'']\<rparr>,
     \<lparr>rd_RuleID = ''sensitive_file_read'',
      rd_Description = ''A process read a sensitive credential or system file.'',
      rd_ScoreImpact = 25, rd_Collectors = [''sensitive_read'']\<rparr>,
     \<lparr>rd_RuleID = ''persistence_path_modified'',
      rd_Description = ''A process changed a common persistence path.'',
      rd_ScoreImpact = 35, rd_Collectors = [''file_lifecycle'']\<rparr>,
     \<lparr>rd_RuleID = ''log_tampering'',
      rd_Description = ''A process removed or renamed a log path.'',
      rd_ScoreImpact = 40, rd_Collectors = [''file_lifecycle'']\<rparr>,
     \<lparr>rd_RuleID = ''privilege_change_after_suspicious_activity'',
      rd_Description = ''A suspicious process attempted a privilege-changing syscall.'',
      rd_ScoreImpact = 35, rd_Collectors = [''privilege_change'']\<rparr>,
     \<lparr>rd_RuleID = ''namespace_escape_attempt'',
      rd_Description = ''A process attempted namespace creation or reassociation.'',
      rd_ScoreImpact = 40, rd_Collectors = [''namespace_change'']\<rparr>,
     \<lparr>rd_RuleID = ''process_memory_access'',
      rd_Description = ''A process accessed another process with a memory or tracing syscall.'',
      rd_ScoreImpact = 35, rd_Collectors = [''process_access'']\<rparr>,
     \<lparr>rd_RuleID = ''unexpected_network_listener'',
      rd_Description = ''A process opened an unexpected listening socket.'',
      rd_ScoreImpact = 30, rd_Collectors = [''network_server'']\<rparr>,
     \<lparr>rd_RuleID = ''kernel_tamper_syscall'',
      rd_Description = ''A process called a syscall commonly used for kernel tampering.'',
      rd_ScoreImpact = 50, rd_Collectors = [''kernel_tamper'']\<rparr>]"

definition RuleIDs :: "string list" where
  "RuleIDs = map rd_RuleID RuleDefinitions"

section \<open>Classifiers\<close>

definition isWebProcess :: "string \<Rightarrow> bool" where
  "isWebProcess name \<longleftrightarrow> ToLower name \<in> {''nginx'', ''apache'', ''apache2'', ''httpd''}"

definition isPackageManager :: "string \<Rightarrow> bool" where
  "isPackageManager name \<longleftrightarrow> Base name \<in>
     {''apt'', ''apt-get'', ''dpkg'', ''yum'', ''dnf'', ''rpm'', ''pacman'', ''apk'', ''brew''}"

definition isSensitiveFile :: "string \<Rightarrow> bool" where
  "isSensitiveFile path \<longleftrightarrow>
     (let cleaned = Clean path in
      cleaned \<in> {''/etc/passwd'', ''/etc/shadow'', ''/etc/sudoers'', ''/etc/hosts'',
        ''/etc/profile'', ''/etc/bash.bashrc'', ''/root/.ssh/authorized_keys''} \<or>
      HasPrefix cleaned ''/etc/sudoers.d/'' \<or>
      HasPrefix cleaned ''/etc/ssh/'' \<or>
      HasPrefix cleaned ''/etc/systemd/system/'' \<or>
      HasPrefix cleaned ''/usr/lib/systemd/system/'' \<or>
      HasPrefix cleaned ''/root/.ssh/'' \<or>
      HasSuffix cleaned ''/.ssh/authorized_keys'' \<or>
      HasSuffix cleaned ''/.bashrc'' \<or>
      HasSuffix cleaned ''/.profile'' \<or>
      HasSuffix cleaned ''/.zshrc'')"

definition isSensitiveReadPath :: "string \<Rightarrow> bool" where
  "isSensitiveReadPath path \<longleftrightarrow>
     (let cleaned = Clean path in
      isSensitiveFile cleaned \<or>
      cleaned \<in> {''/root/.aws/credentials'', ''/root/.docker/config.json''} \<or>
      HasPrefix cleaned ''/root/.gnupg/'' \<or>
      HasSuffix cleaned ''/.ssh/id_rsa'' \<or>
      HasSuffix cleaned ''/.ssh/id_ed25519'' \<or>
      HasSuffix cleaned ''/.aws/credentials'' \<or>
      HasSuffix cleaned ''/.docker/config.json'' \<or>
      HasSuffix cleaned ''/.kube/config'' \<or>
      Contains cleaned ''/secrets/'')"

definition isPersistencePath :: "string \<Rightarrow> bool" where
  "isPersistencePath path \<longleftrightarrow>
     (let cleaned = Clean path in
      HasPrefix cleaned ''/etc/systemd/system/'' \<or>
      HasPrefix cleaned ''/usr/lib/systemd/system/'' \<or>
      HasPrefix cleaned ''/etc/cron.'' \<or>
      HasPrefix cleaned ''/var/spool/cron/'' \<or>
      HasPrefix cleaned ''/etc/init.d/'' \<or>
      HasPrefix cleaned ''/root/.ssh/'' \<or>
      HasSuffix cleaned ''/.ssh/authorized_keys'' \<or>
      HasSuffix cleaned ''/.bashrc'' \<or>
      HasSuffix cleaned ''/.profile'' \<or>
      HasSuffix cleaned ''/.zshrc'')"

definition isLogPath :: "string \<Rightarrow> bool" where
  "isLogPath path \<longleftrightarrow>
     (let cleaned = Clean path in cleaned = ''/var/log'' \<or> HasPrefix cleaned ''/var/log/'')"

definition isLogTamperAction :: "string \<Rightarrow> bool" where
  "isLogTamperAction action \<longleftrightarrow> action \<in> {''unlink'', ''rename'', ''truncate''}"

definition lifecycleVerb :: "string \<Rightarrow> string" where
  "lifecycleVerb action =
     (if action = ''mkdir'' then ''created''
      else if action = ''unlink'' then ''deleted''
      else if action = ''rename'' then ''renamed''
      else if action = ''symlink'' then ''created symlink at''
      else if action = ''link'' then ''created hard link at''
      else if action = ''truncate'' then ''truncated''
      else ''modified'')"

definition isCryptoMinerName :: "string \<Rightarrow> bool" where
  "isCryptoMinerName name \<longleftrightarrow> ToLower (Base name) \<in>
     {''xmrig'', ''minerd'', ''cpuminer'', ''cgminer'', ''bfgminer'', ''ethminer'',
      ''nbminer'', ''t-rex'', ''teamredminer''}"

definition isCryptoMinerExecution :: "event \<Rightarrow> bool" where
  "isCryptoMinerExecution e \<longleftrightarrow>
     isCryptoMinerName (ProcessName e) \<or> isCryptoMinerName (ExecutablePath e) \<or>
     list_ex isCryptoMinerName (CommandLine e)"

definition isUnexpectedNetworkToolName :: "string \<Rightarrow> bool" where
  "isUnexpectedNetworkToolName name \<longleftrightarrow>
     Base name \<in> {''nc'', ''ncat'', ''netcat'', ''socat'', ''telnet''}"

definition isUnexpectedNetworkToolExecution :: "event \<Rightarrow> bool" where
  "isUnexpectedNetworkToolExecution e =
     (let b = Base (ProcessName e) in
      if b \<in> {''nc'', ''ncat'', ''netcat'', ''socat'', ''telnet''} then True
      else if b \<in> {''curl'', ''wget''} then isWebProcess (ParentProcessName e)
      else False)"

definition isSuspiciousPrivilegeContext :: "event \<Rightarrow> int set \<Rightarrow> bool" where
  "isSuspiciousPrivilegeContext e suspicious \<longleftrightarrow>
     PID e \<in> suspicious \<or> isShell (ProcessName e) \<or> isShell (ParentProcessName e) \<or>
     isUnexpectedNetworkToolName (ProcessName e)"

definition isShellConnection :: "event \<Rightarrow> bool" where
  "isShellConnection e \<longleftrightarrow> isShell (ProcessName e) \<or> isShell (ExecutablePath e)"

definition isUnusualOutboundPort :: "int \<Rightarrow> bool" where
  "isUnusualOutboundPort port \<longleftrightarrow> port \<notin> {0, 53, 80, 443}"

definition isUnusualListenerPort :: "int \<Rightarrow> bool" where
  "isUnusualListenerPort port \<longleftrightarrow> port \<notin> {53, 80, 443, 8080, 8443}"

definition isUnexpectedNetworkListener :: "event \<Rightarrow> bool" where
  "isUnexpectedNetworkListener e =
     (if metadataString e ''syscall'' = ''listen''
      then isShell (ProcessName e) \<or> isUnexpectedNetworkToolName (ProcessName e)
      else if RemotePort e = 0 then False
      else isShell (ProcessName e) \<or> isUnexpectedNetworkToolName (ProcessName e) \<or>
        isUnusualListenerPort (RemotePort e))"

definition downloadOutput :: "string list \<Rightarrow> string" where
  "downloadOutput commandLine = download_output [] commandLine"

definition displayDownloadOutput :: "string \<Rightarrow> string" where
  "displayDownloadOutput path = (if path = [] then ''a file'' else path)"

definition isTempPath :: "string \<Rightarrow> bool" where
  "isTempPath path \<longleftrightarrow>
     HasPrefix path ''/tmp/'' \<or> HasPrefix path ''/var/tmp/'' \<or> HasPrefix path ''/dev/shm/''"

definition listenEndpoint :: "event \<Rightarrow> string" where
  "listenEndpoint e =
     (if RemoteAddr e = [] \<or> RemotePort e = 0 then metadataString e ''syscall''
      else JoinHostPort (RemoteAddr e) (Itoa (RemotePort e)))"

definition connectVerb :: "event \<Rightarrow> string" where
  "connectVerb e =
     (if metadataString e ''outcome'' = ''in_progress'' then ''started connecting to''
      else ''connected to'')"

end
