(* ===== verification/Analyze.thy ===== *)
theory Analyze
  imports Detect
begin

text \<open>
  The loop of \<open>Analyze\<close> (\<open>internal/detect/rules.go\<close>): its local maps as one record, one
  handler per case of the switch on the event type, the blocks of the \<open>execve\<close> case in the
  order of the code, and the fold over the time-ordered events.
\<close>

record downloadedArtifact =
  downloadEvents :: "event list"
  executionEvent :: event

record detector =
  d_result :: Result
  downloadProcesses :: "int \<rightharpoonup> event"
  downloadedFiles :: "string \<rightharpoonup> event list"
  downloadedProcessPIDs :: "int \<rightharpoonup> downloadedArtifact"
  shellProcesses :: "int \<rightharpoonup> event"
  suspiciousProcessPIDs :: "int set"
  sensitiveFiles :: "string set"
  reverseShellConnections :: "string set"
  sensitiveReads :: "string set"
  persistenceChanges :: "string set"
  logTampering :: "string set"
  privilegeChanges :: "int set"
  namespaceChanges :: "int set"
  processAccesses :: "string set"
  networkListeners :: "string set"
  kernelTamper :: "string set"

definition detector_init :: detector where
  "detector_init = \<lparr>d_result = \<lparr>Signals = [], RiskScore = 0\<rparr>,
     downloadProcesses = Map.empty, downloadedFiles = Map.empty,
     downloadedProcessPIDs = Map.empty, shellProcesses = Map.empty, suspiciousProcessPIDs = {},
     sensitiveFiles = {}, reverseShellConnections = {}, sensitiveReads = {},
     persistenceChanges = {}, logTampering = {}, privilegeChanges = {}, namespaceChanges = {},
     processAccesses = {}, networkListeners = {}, kernelTamper = {}\<rparr>"

definition emit :: "string \<Rightarrow> int \<Rightarrow> event list \<Rightarrow> string \<Rightarrow> detector \<Rightarrow> detector" where
  "emit rule impact supporting evidence st =
     st\<lparr>d_result := Result_add (mk_signal rule impact supporting evidence) (d_result st)\<rparr>"

definition mark_suspicious :: "event \<Rightarrow> detector \<Rightarrow> detector" where
  "mark_suspicious e st = st\<lparr>suspiciousProcessPIDs := insert (PID e) (suspiciousProcessPIDs st)\<rparr>"

section \<open>The \<open>execve\<close> case\<close>

definition exec_shell :: "event \<Rightarrow> detector \<Rightarrow> detector" where
  "exec_shell e st =
     (if isShell (ProcessName e) then
        let st1 = mark_suspicious e (st\<lparr>shellProcesses := (shellProcesses st)(PID e \<mapsto> e)\<rparr>);
            evidence = ParentProcessName e @ '' spawned shell '' @ ProcessName e;
            st2 = (if isWebProcess (ParentProcessName e)
                   then emit ''web_process_spawned_shell'' 30 [e] evidence st1 else st1)
        in if isPackageManager (ParentProcessName e)
           then emit ''package_manager_spawned_shell'' 5 [e] evidence st2 else st2
      else st)"

definition exec_download :: "event \<Rightarrow> detector \<Rightarrow> detector" where
  "exec_download e st =
     (if isDownloadTool (ProcessName e) \<and> isShell (ParentProcessName e) then
        let downloadedPath = downloadOutput (CommandLine e);
            st1 = emit ''shell_downloaded_file'' 20 [e]
              (ParentProcessName e @ '' ran '' @ ProcessName e @ '' to download '' @
               displayDownloadOutput downloadedPath) st;
            st2 = mark_suspicious e
              (st1\<lparr>downloadProcesses := (downloadProcesses st1)(PID e \<mapsto> e)\<rparr>)
        in if downloadedPath \<noteq> []
           then st2\<lparr>downloadedFiles := (downloadedFiles st2)(downloadedPath \<mapsto> [e])\<rparr> else st2
      else st)"

definition exec_downloaded :: "event \<Rightarrow> detector \<Rightarrow> detector" where
  "exec_downloaded e st =
     (case downloadedFiles st (ExecutablePath e) of
        Some des \<Rightarrow>
          emit ''recently_downloaded_binary_executed'' 30 (des @ [e])
            (''recently downloaded file '' @ ExecutablePath e @ '' executed'')
            (mark_suspicious e
              (st\<lparr>downloadedProcessPIDs := (downloadedProcessPIDs st)
                   (PID e \<mapsto> \<lparr>downloadEvents = des, executionEvent = e\<rparr>)\<rparr>))
      | None \<Rightarrow> st)"

definition exec_miner :: "event \<Rightarrow> detector \<Rightarrow> detector" where
  "exec_miner e st =
     (if isCryptoMinerExecution e
      then emit ''crypto_miner_process_name'' 35 [e]
        (''process '' @ ProcessName e @ '' matched a known crypto miner name'') (mark_suspicious e st)
      else st)"

definition exec_nettool :: "event \<Rightarrow> detector \<Rightarrow> detector" where
  "exec_nettool e st =
     (if isUnexpectedNetworkToolExecution e
      then emit ''unexpected_network_tool_execution'' 20 [e]
        (ParentProcessName e @ '' executed network utility '' @ ProcessName e) (mark_suspicious e st)
      else st)"

definition on_execve :: "event \<Rightarrow> detector \<Rightarrow> detector" where
  "on_execve e st =
     exec_nettool e (exec_miner e (exec_downloaded e (exec_download e (exec_shell e st))))"

section \<open>The other cases\<close>

definition on_file_write :: "event \<Rightarrow> detector \<Rightarrow> detector" where
  "on_file_write e st =
     (if \<not> fileWriteChanged e then st
      else
        let st1 = (case downloadProcesses st (PID e) of
                     Some d \<Rightarrow>
                       if FilePath e \<noteq> []
                       then st\<lparr>downloadedFiles := (downloadedFiles st)(FilePath e \<mapsto> [d, e])\<rparr>
                       else st
                   | None \<Rightarrow> st)
        in if isSensitiveFile (FilePath e) \<and> FilePath e \<notin> sensitiveFiles st1
           then (emit ''sensitive_file_access'' 35 [e]
                  (ProcessName e @ '' wrote sensitive file '' @ FilePath e) st1)
                \<lparr>sensitiveFiles := insert (FilePath e) (sensitiveFiles st1)\<rparr>
           else st1)"

definition on_sensitive_read :: "event \<Rightarrow> detector \<Rightarrow> detector" where
  "on_sensitive_read e st =
     (let key = Itoa (PID e) @ '':'' @ FilePath e
      in if isSensitiveReadPath (FilePath e) \<and> key \<notin> sensitiveReads st
         then (emit ''sensitive_file_read'' 25 [e]
                (ProcessName e @ '' read sensitive file '' @ FilePath e) st)
              \<lparr>sensitiveReads := insert key (sensitiveReads st)\<rparr>
         else st)"

definition on_file_lifecycle :: "event \<Rightarrow> detector \<Rightarrow> detector" where
  "on_file_lifecycle e st =
     (if \<not> mutationSucceeded e then st
      else
        let action = metadataString e ''action'';
            key = action @ '':'' @ FilePath e;
            st1 = (if isPersistencePath (FilePath e) \<and> key \<notin> persistenceChanges st
                   then (emit ''persistence_path_modified'' 35 [e]
                          (ProcessName e @ '' '' @ lifecycleVerb action @ '' persistence path '' @
                           FilePath e) st)
                        \<lparr>persistenceChanges := insert key (persistenceChanges st)\<rparr>
                   else st)
        in if isLogPath (FilePath e) \<and> isLogTamperAction action \<and> key \<notin> logTampering st1
           then (emit ''log_tampering'' 40 [e]
                  (ProcessName e @ '' '' @ lifecycleVerb action @ '' log path '' @ FilePath e) st1)
                \<lparr>logTampering := insert key (logTampering st1)\<rparr>
           else st1)"

definition on_chmod :: "event \<Rightarrow> detector \<Rightarrow> detector" where
  "on_chmod e st =
     (if mutationSucceeded e \<and> isTempPath (FilePath e) \<and> metadataBool e ''added_execute_bit''
      then emit ''tmp_file_made_executable'' 20 [e]
        (ProcessName e @ '' made '' @ FilePath e @ '' executable'') st
      else st)"

definition connection_key :: "event \<Rightarrow> string" where
  "connection_key e = Itoa (PID e) @ '':'' @ RemoteAddr e @ '':'' @ Itoa (RemotePort e)"

definition on_connect :: "event \<Rightarrow> detector \<Rightarrow> detector" where
  "on_connect e st =
     (if \<not> mutationSucceeded e then st
      else
        let st1 = (case downloadedProcessPIDs st (PID e) of
                     Some artifact \<Rightarrow>
                       emit ''downloaded_binary_connected_outbound'' 35
                         (downloadEvents artifact @ [executionEvent artifact, e])
                         (ProcessName e @ '' '' @ connectVerb e @ '' '' @ remoteEndpoint e) st
                   | None \<Rightarrow> st)
        in if isShellConnection e \<and> isUnusualOutboundPort (RemotePort e) \<and>
              connection_key e \<notin> reverseShellConnections st1
           then (emit ''suspicious_reverse_shell_pattern'' 50
                  (case shellProcesses st1 (PID e) of Some s \<Rightarrow> [s, e] | None \<Rightarrow> [e])
                  (''shell '' @ ProcessName e @ '' '' @ connectVerb e @
                   '' unusual outbound endpoint '' @ remoteEndpoint e) st1)
                \<lparr>reverseShellConnections := insert (connection_key e) (reverseShellConnections st1)\<rparr>
           else st1)"

definition on_privilege_change :: "event \<Rightarrow> detector \<Rightarrow> detector" where
  "on_privilege_change e st =
     (if mutationSucceeded e \<and> PID e \<notin> privilegeChanges st \<and>
         isSuspiciousPrivilegeContext e (suspiciousProcessPIDs st)
      then (emit ''privilege_change_after_suspicious_activity'' 35 [e]
             (ProcessName e @ '' called '' @ metadataString e ''syscall'' @
              '' after suspicious activity'') st)
           \<lparr>privilegeChanges := insert (PID e) (privilegeChanges st)\<rparr>
      else st)"

definition on_namespace_change :: "event \<Rightarrow> detector \<Rightarrow> detector" where
  "on_namespace_change e st =
     (if mutationSucceeded e \<and> PID e \<notin> namespaceChanges st
      then (emit ''namespace_escape_attempt'' 40 [e]
             (ProcessName e @ '' called namespace syscall '' @ metadataString e ''syscall'') st)
           \<lparr>namespaceChanges := insert (PID e) (namespaceChanges st)\<rparr>
      else st)"

definition access_key :: "event \<Rightarrow> string" where
  "access_key e = Itoa (PID e) @ '':'' @ metadataString e ''syscall'' @ '':'' @
     Itoa (uint (metadataUint64 e ''target_pid''))"

definition on_process_access :: "event \<Rightarrow> detector \<Rightarrow> detector" where
  "on_process_access e st =
     (if mutationSucceeded e \<and> access_key e \<notin> processAccesses st
      then (emit ''process_memory_access'' 35 [e]
             (ProcessName e @ '' accessed another process with '' @ metadataString e ''syscall'') st)
           \<lparr>processAccesses := insert (access_key e) (processAccesses st)\<rparr>
      else st)"

definition on_network_server :: "event \<Rightarrow> detector \<Rightarrow> detector" where
  "on_network_server e st =
     (if mutationSucceeded e \<and> isUnexpectedNetworkListener e \<and>
         connection_key e \<notin> networkListeners st
      then (emit ''unexpected_network_listener'' 30 [e]
             (ProcessName e @ '' opened listener '' @ listenEndpoint e) st)
           \<lparr>networkListeners := insert (connection_key e) (networkListeners st)\<rparr>
      else st)"

definition tamper_key :: "event \<Rightarrow> string" where
  "tamper_key e = Itoa (PID e) @ '':'' @ metadataString e ''syscall''"

definition on_kernel_tamper :: "event \<Rightarrow> detector \<Rightarrow> detector" where
  "on_kernel_tamper e st =
     (if tamper_key e \<notin> kernelTamper st
      then (emit ''kernel_tamper_syscall'' 50 [e]
             (ProcessName e @ '' called kernel tamper syscall '' @ metadataString e ''syscall'') st)
           \<lparr>kernelTamper := insert (tamper_key e) (kernelTamper st)\<rparr>
      else st)"

section \<open>The switch and the loop\<close>

definition detect_step :: "detector \<Rightarrow> event \<Rightarrow> detector" where
  "detect_step st e =
     (if EventType e = TypeExecve then on_execve e st
      else if EventType e = TypeFileWrite then on_file_write e st
      else if EventType e = TypeSensitiveRead then on_sensitive_read e st
      else if EventType e = TypeFileLifecycle then on_file_lifecycle e st
      else if EventType e = TypeChmod then on_chmod e st
      else if EventType e = TypeConnect then on_connect e st
      else if EventType e = TypePrivilegeChange then on_privilege_change e st
      else if EventType e = TypeNamespaceChange then on_namespace_change e st
      else if EventType e = TypeProcessAccess then on_process_access e st
      else if EventType e = TypeNetworkServer then on_network_server e st
      else if EventType e = TypeKernelTamper then on_kernel_tamper e st
      else st)"

definition detect_all :: "event list \<Rightarrow> detector" where
  "detect_all ordered = foldl detect_step detector_init ordered"

text \<open>\<open>sort.Slice\<close> is the argument \<open>srt\<close>: it may order simultaneous events as it likes.\<close>

definition Analyze :: "(event list \<Rightarrow> event list) \<Rightarrow> event list \<Rightarrow> Result" where
  "Analyze srt normalizedEvents = d_result (detect_all (srt normalizedEvents))"

end
