(* ===== verification/Path_Laws.thy ===== *)
theory Path_Laws
  imports GoLib
begin

text \<open>Facts on \<open>filepath.Clean\<close> and \<open>filepath.Join\<close>: a cleaned path stays as it is, and absolute stays absolute.\<close>

fun clean_ok :: "bool \<Rightarrow> string list \<Rightarrow> bool" where
  "clean_ok r [] = True"
| "clean_ok r (w # out) =
     (w \<noteq> [] \<and> w \<noteq> ''.'' \<and> CHR ''/'' \<notin> set w \<and> (w = ''..'' \<longrightarrow> \<not> r \<and> set out \<subseteq> {''..''}) \<and> clean_ok r out)"

lemma clean_ok_elem:
  "clean_ok r out \<Longrightarrow> CHR ''/'' \<notin> set w \<Longrightarrow> clean_ok r (clean_elem r out w)"
  by (cases out) (auto simp: clean_elem_def)

lemma clean_ok_foldl:
  "clean_ok r out \<Longrightarrow> \<forall>w\<in>set ws. CHR ''/'' \<notin> set w \<Longrightarrow> clean_ok r (foldl (clean_elem r) out ws)"
  by (induction ws arbitrary: out) (auto simp: clean_ok_elem)

lemma clean_ok_replay: "clean_ok r out \<Longrightarrow> foldl (clean_elem r) [] (rev out) = out"
proof (induction out)
  case (Cons w out)
  then show ?case by (cases out) (auto simp: clean_elem_def)
qed simp

lemma clean_ok_Split: "clean_ok r (foldl (clean_elem r) [] (Split CHR ''/'' p))"
  by (rule clean_ok_foldl) (auto dest: Split_no_sep)

lemma Split_cons_sep: "Split c (c # s) = [] # Split c s"
  by simp

lemma clean_ok_no_slash: "clean_ok r out \<Longrightarrow> \<forall>w\<in>set out. CHR ''/'' \<notin> set w \<and> w \<noteq> []"
  by (induction out) auto

lemma Join_start:
  "xs \<noteq> [] \<Longrightarrow> \<forall>w\<in>set xs. c \<notin> set w \<and> w \<noteq> [] \<Longrightarrow> Join [c] xs \<noteq> [] \<and> hd (Join [c] xs) \<noteq> c"
proof (cases xs)
  case (Cons w ws)
  assume "\<forall>w\<in>set xs. c \<notin> set w \<and> w \<noteq> []"
  then have "c \<notin> set w" "w \<noteq> []" using Cons by auto
  then obtain d u where "w = d # u" "d \<noteq> c" by (cases w) auto
  then show ?thesis using Cons by (cases ws) (auto simp: Join_Cons)
qed simp

lemma IsAbs_iff: "IsAbs p \<longleftrightarrow> (\<exists>r. p = CHR ''/'' # r)"
  by (auto simp: IsAbs_def HasPrefix_iff)

lemma IsAbs_Clean: "IsAbs p \<Longrightarrow> IsAbs (Clean p)"
  by (simp add: Clean_def Let_def) (simp add: IsAbs_iff)

lemma Clean_idem: "Clean (Clean p) = Clean p"
proof -
  let ?out = "foldl (clean_elem (IsAbs p)) [] (Split CHR ''/'' p)"
  have ok: "clean_ok (IsAbs p) ?out" by (rule clean_ok_Split)
  then have replay: "foldl (clean_elem (IsAbs p)) [] (rev ?out) = ?out" by (rule clean_ok_replay)
  have words: "\<forall>w\<in>set (rev ?out). CHR ''/'' \<notin> set w \<and> w \<noteq> []" using clean_ok_no_slash [OF ok] by simp
  show ?thesis
  proof (cases "IsAbs p")
    case True
    then have eq: "Clean p = CHR ''/'' # Join ''/'' (rev ?out)" by (simp add: Clean_def Let_def)
    have abs: "IsAbs (Clean p)" by (simp add: eq IsAbs_iff)
    have "foldl (clean_elem True) [] (Split CHR ''/'' (Clean p)) = ?out"
    proof (cases "?out = []")
      case True
      then show ?thesis by (simp add: eq clean_elem_def)
    next
      case False
      then have "Split CHR ''/'' (Clean p) = [] # rev ?out"
        unfolding eq by (subst Split_cons_sep, subst Split_Join) (use words in auto)
      then show ?thesis using replay True by (simp add: clean_elem_def)
    qed
    then have "Clean (Clean p) = CHR ''/'' # Join ''/'' (rev ?out)"
      using abs by (simp add: Clean_def [of "Clean p"] Let_def)
    then show ?thesis by (simp add: eq)
  next
    case False
    show ?thesis
    proof (cases "?out = []")
      case True
      then have "Clean p = ''.''" using False by (simp add: Clean_def Let_def)
      then show ?thesis by (simp add: Clean_def Let_def IsAbs_def clean_elem_def)
    next
      case ne: False
      have start: "Join ''/'' (rev ?out) \<noteq> [] \<and> hd (Join ''/'' (rev ?out)) \<noteq> CHR ''/''"
        using ne words by (intro Join_start) auto
      then have eq: "Clean p = Join ''/'' (rev ?out)" using False by (simp add: Clean_def Let_def)
      have "\<not> IsAbs (Clean p)" using start unfolding eq IsAbs_iff by auto
      moreover have "Split CHR ''/'' (Clean p) = rev ?out"
        unfolding eq by (rule Split_Join) (use ne words in auto)
      ultimately have "Clean (Clean p) = (if Join ''/'' (rev ?out) = [] then ''.'' else Join ''/'' (rev ?out))"
        using replay False by (simp add: Clean_def [of "Clean p"] Let_def)
      then show ?thesis using start by (simp add: eq)
    qed
  qed
qed

lemma IsAbs_Join: "IsAbs base \<Longrightarrow> IsAbs (path_Join [base, path])"
proof -
  assume "IsAbs base"
  then obtain r where b: "base = CHR ''/'' # r" by (auto simp: IsAbs_iff)
  have "IsAbs (Join ''/'' (filter (\<lambda>e. e \<noteq> []) [base, path]))" by (simp add: b IsAbs_iff)
  then show ?thesis using b by (simp add: path_Join_def Let_def IsAbs_Clean)
qed

end
