(* ===== verification/Ebpf_Normalize_Laws.thy ===== *)
theory Ebpf_Normalize_Laws
  imports Ebpf_Normalize Analyze Path_Laws
begin

text \<open>
  The properties of normalisation: what every file event carries, that what the collector takes for
  a sensitive read the detector reports, and that the container cache stays within its bound.
\<close>

section \<open>Resolved paths\<close>

definition clean_abs :: "string \<Rightarrow> bool" where
  "clean_abs p \<longleftrightarrow> p = [] \<or> IsAbs p \<and> Clean p = p"

lemma clean_abs_Nil: "clean_abs []"
  by (simp add: clean_abs_def)

lemma clean_abs_FD: "clean_abs (readProcFD F procRoot pid fd)"
  by (auto simp: clean_abs_def readProcFD_def Clean_idem IsAbs_Clean split: option.splits)

lemma clean_abs_resolve: "clean_abs (resolveProcPath F procRoot pid dirfd path)"
  by (auto simp: clean_abs_def resolveProcPath_def Let_def Clean_idem IsAbs_Clean IsAbs_Join)

lemma clean_abs_chmod: "clean_abs (resolve_chmod A V raw)"
  unfolding resolve_chmod_def Let_def
  by (auto simp: clean_abs_FD clean_abs_resolve clean_abs_Nil)

lemma clean_abs_lifecycle: "clean_abs (resolveLifecyclePath F procRoot pid dirfd path)"
  by (simp add: resolveLifecyclePath_def clean_abs_FD clean_abs_resolve)

lemma clean_abs_primary: "clean_abs s \<Longrightarrow> clean_abs t \<Longrightarrow> clean_abs (fileLifecyclePrimaryPath A nr s t)"
  by (simp add: fileLifecyclePrimaryPath_def)

section \<open>Events\<close>

text \<open>Enrichment sets the container and nothing else.\<close>

lemma container_update_self: "\<exists>i n. (e :: event) = e\<lparr>ContainerID := i, ContainerName := n\<rparr>"
  by (intro exI [of _ "ContainerID e"] exI [of _ "ContainerName e"]) simp

lemma enrich_frame:
  assumes "enrich V pid e S = (e', S')"
  shows "\<exists>i n. e' = e\<lparr>ContainerID := i, ContainerName := n\<rparr>" "cs_sequence S' = cs_sequence S"
proof -
  have "e' = e \<or> (\<exists>i n. e' = e\<lparr>ContainerID := i, ContainerName := n\<rparr>)"
    using assms unfolding enrich_def enrichContainerMetadata_def Let_def
    by (auto split: prod.splits if_splits option.splits)
  then show "\<exists>i n. e' = e\<lparr>ContainerID := i, ContainerName := n\<rparr>"
    using container_update_self by metis
  show "cs_sequence S' = cs_sequence S"
    using assms by (auto simp: enrich_def split: prod.splits)
qed

definition file_event_ok :: "event_type \<Rightarrow> surroundings \<Rightarrow> 'a syscallRecord_scheme \<Rightarrow> event \<Rightarrow> bool" where
  "file_event_ok etype V raw e \<longleftrightarrow>
     EventType e = etype \<and> Host e = su_host V \<and> Timestamp e = su_timestamp V \<and> EventID e \<noteq> [] \<and>
     PID e = uint (raw_PID raw) \<and> UID e = uint (raw_UID raw) \<and>
     IsAbs (FilePath e) \<and> Clean (FilePath e) = FilePath e \<and>
     meta_get (Metadata e) ''outcome'' = Some (VString (if sint (ReturnValue raw) < 0 then ''failed'' else ''success'')) \<and>
     meta_get (Metadata e) ''return_value'' = Some (VInt64 (sint (ReturnValue raw)))"

lemma file_event_result:
  assumes "file_event_ok etype V raw e"
  shows "case fst (case enrich V pid e S of (e', S') \<Rightarrow> (Some e', S')) of
    None \<Rightarrow> True | Some e \<Rightarrow> file_event_ok etype V raw e"
proof -
  obtain e' S' where en: "enrich V pid e S = (e', S')" by fastforce
  from enrich_frame(1) [OF this] obtain i n where "e' = e\<lparr>ContainerID := i, ContainerName := n\<rparr>" by blast
  with assms en show ?thesis by (simp add: file_event_ok_def)
qed

lemma file_event_base:
  assumes "clean_abs p" "p \<noteq> []" "ks = name # rest"
    "map_of ms ''outcome'' = None" "map_of ms ''return_value'' = None"
  shows "file_event_ok etype V raw ((process_event ks etype V raw S)
    \<lparr>FilePath := p, Metadata := Some (timing raw @ ms @ outcome raw @ tail)\<rparr>)"
  using assms
  by (simp add: file_event_ok_def process_event_def Let_def clean_abs_def meta_get_def timing_def outcome_def
      next_id_def syscallOutcome_def map_add_def)

lemma file_write_event:
  "case fst (normalize_file_write A V raw S) of None \<Rightarrow> True | Some e \<Rightarrow> file_event_ok TypeFileWrite V raw e"
proof (cases "readProcFD (su_fs V) (su_procRoot V) (uint (raw_PID raw)) (sint (fw_FD raw)) = []")
  case False
  show ?thesis
    unfolding normalize_file_write_def Let_def if_not_P [OF False]
    by (rule file_event_result) (rule file_event_base [OF clean_abs_FD False refl, where tail = "[]", simplified append_Nil2], simp_all)
qed (simp add: normalize_file_write_def)

lemma chmod_event:
  "case fst (normalize_chmod A V raw S) of None \<Rightarrow> True | Some e \<Rightarrow> file_event_ok TypeChmod V raw e"
proof (cases "resolve_chmod A V raw = []")
  case False
  show ?thesis
    unfolding normalize_chmod_def Let_def if_not_P [OF False]
    by (rule file_event_result) (rule file_event_base [OF clean_abs_chmod False refl, where tail = "[]", simplified append_Nil2], simp_all)
qed (simp add: normalize_chmod_def)

lemma sensitive_read_event:
  "case fst (normalize_sensitive_read A V raw S) of None \<Rightarrow> True
   | Some e \<Rightarrow> file_event_ok TypeSensitiveRead V raw e \<and> is_sensitive_read_path (FilePath e)"
proof -
  let ?p = "resolveProcPath (su_fs V) (su_procRoot V) (uint (raw_PID raw)) (sint (sr_FD raw)) (cString (sr_FilePath raw))"
  show ?thesis
  proof (cases "openFlagsReadable (sr_Flags raw) \<and> ?p \<noteq> [] \<and> is_sensitive_read_path ?p")
    case True
    let ?e = "(process_event ''sensitive-read'' TypeSensitiveRead V raw S)\<lparr>FilePath := ?p,
                   Metadata := Some (timing raw @
                     [(''syscall'', VString (sensitiveReadSyscallName A (sr_Syscall raw))),
                      (''flags'', VUint64 (sr_Flags raw)),
                      (''access_mode'', VString (openAccessMode (sr_Flags raw)))] @ outcome raw)\<rparr>"
    have ok: "file_event_ok TypeSensitiveRead V raw ?e"
      by (rule file_event_base [OF clean_abs_resolve _ refl, where tail = "[]", simplified append_Nil2]) (use True in simp_all)
    obtain e' S' where en: "enrich V (uint (raw_PID raw)) ?e (advance S) = (e', S')" by fastforce
    from enrich_frame(1) [OF this] obtain i n where e': "e' = ?e\<lparr>ContainerID := i, ContainerName := n\<rparr>" by blast
    have "fst (normalize_sensitive_read A V raw S) = Some e'"
      using True en by (simp add: normalize_sensitive_read_def)
    moreover have "file_event_ok TypeSensitiveRead V raw e'" using ok by (simp add: e' file_event_ok_def)
    moreover have "FilePath e' = ?p" by (simp add: e')
    ultimately show ?thesis using True by simp
  qed (auto simp: normalize_sensitive_read_def)
qed

lemma file_lifecycle_event:
  "case fst (normalize_file_lifecycle A V raw S) of None \<Rightarrow> True | Some e \<Rightarrow> file_event_ok TypeFileLifecycle V raw e"
proof -
  let ?s = "resolveLifecyclePath (su_fs V) (su_procRoot V) (uint (raw_PID raw)) (sint (fl_SourceFD raw)) (cString (fl_SourcePath raw))"
  let ?t = "resolveLifecyclePath (su_fs V) (su_procRoot V) (uint (raw_PID raw)) (sint (fl_TargetFD raw)) (cString (fl_TargetPath raw))"
  show ?thesis
  proof (cases "fileLifecyclePrimaryPath A (fl_Syscall raw) ?s ?t = []")
    case False
    show ?thesis
      unfolding normalize_file_lifecycle_def Let_def if_not_P [OF False]
      by (rule file_event_result)
        (rule file_event_base [OF clean_abs_primary [OF clean_abs_lifecycle clean_abs_lifecycle] False refl], simp_all)
  qed (simp add: normalize_file_lifecycle_def)
qed

text \<open>C36. Every event of the four file collectors has its collector's type, the host and the time of
  observation, the ids of the record, an absolute path in cleaned form, and the outcome and result
  of the system call.\<close>

theorem file_events_typed:
  "(case fst (normalize_file_write A V w S) of None \<Rightarrow> True | Some e \<Rightarrow> file_event_ok TypeFileWrite V w e) \<and>
   (case fst (normalize_chmod A V c S) of None \<Rightarrow> True | Some e \<Rightarrow> file_event_ok TypeChmod V c e) \<and>
   (case fst (normalize_sensitive_read A V r S) of None \<Rightarrow> True
      | Some e \<Rightarrow> file_event_ok TypeSensitiveRead V r e \<and> is_sensitive_read_path (FilePath e)) \<and>
   (case fst (normalize_file_lifecycle A V l S) of None \<Rightarrow> True | Some e \<Rightarrow> file_event_ok TypeFileLifecycle V l e)"
  by (intro conjI file_write_event chmod_event sensitive_read_event file_lifecycle_event)

section \<open>Sensitive reads\<close>

lemma sensitive_paths_agree:
  assumes "Clean p = p" "is_sensitive_read_path p"
  shows "isSensitiveReadPath p"
  using assms(2) unfolding is_sensitive_read_path_def isSensitiveReadPath_def isSensitiveFile_def Let_def assms(1)
  unfolding insert_iff empty_iff by (elim disjE FalseE; simp add: HasSuffix_def)

lemma singleton_sort: "sorts_by key srt \<Longrightarrow> srt [e] = [e]"
proof -
  assume "sorts_by key srt"
  then have "mset (srt [e]) = mset [e]" by (rule sorts_by_mset)
  then show ?thesis by simp
qed

lemma single_sensitive_read:
  assumes "EventType e = TypeSensitiveRead" "isSensitiveReadPath (FilePath e)" "sorts_by Timestamp srt"
  shows "map RuleID (Signals (Analyze srt [e])) = [''sensitive_file_read'']"
  using assms
  by (simp add: Analyze_def detect_all_def detect_step_def singleton_sort type_defs on_sensitive_read_def
      detector_init_def emit_def Result_add_def mk_signal_def Let_def)

text \<open>C37. What the collector takes for a sensitive read the detector reports: an event of the
  sensitive_read collector raises the signal on its own, so that the two lists of sensitive paths,
  kept apart in the collector and the detector, agree where it matters.\<close>

theorem sensitive_read_detected:
  assumes "sorts_by Timestamp srt"
  shows "case fst (normalize_sensitive_read A V raw S) of
      None \<Rightarrow> True
    | Some e \<Rightarrow> map RuleID (Signals (Analyze srt [e])) = [''sensitive_file_read'']"
  using sensitive_read_event [where A = A and V = V and raw = raw and S = S] single_sensitive_read [OF _ sensitive_paths_agree assms]
  by (auto simp: file_event_ok_def split: option.splits)

definition shadow_proc :: proc_fs where
  "shadow_proc = \<lparr>ReadFile = (\<lambda>_. None), Readlink = (\<lambda>_. None)\<rparr>"

definition quiet :: surroundings where
  "quiet = \<lparr>su_host = ''host'', su_procRoot = ''/proc'', su_fs = shadow_proc, su_timestamp = 1, su_UnixNano = 1,
     su_cacheNow = 1, su_order1 = [], su_order2 = []\<rparr>"

definition shadow_record :: sensitiveReadRecord where
  "shadow_record = \<lparr>KernelTimestampNS = 1, CompletionKernelTimestampNS = 2, ReturnValue = 3, raw_PID = 7, raw_UID = 0,
     Comm = [99], sr_FilePath = map (\<lambda>c. of_nat (byte c)) ''/etc/shadow'' @ [0], sr_FD = - 100, sr_Syscall = 257, sr_Flags = 0\<rparr>"

lemma sensitive_read_detected_witness:
  "\<exists>e. fst (normalize_sensitive_read amd64 quiet shadow_record \<lparr>cs_sequence = 0, cs_cache = None\<rparr>) = Some e \<and>
     map RuleID (Signals (Analyze (sort_key Timestamp) [e])) = [''sensitive_file_read'']"
proof -
  have path: "cString (sr_FilePath shadow_record) = ''/etc/shadow''"
    by (simp add: cString_def shadow_record_def char_of_def bit_Suc_0_iff)
  have cl: "Clean ''/etc/shadow'' = ''/etc/shadow''"
    by (simp add: Clean_def Let_def IsAbs_def clean_elem_def)
  have "resolveProcPath shadow_proc ''/proc'' 7 (- 100) ''/etc/shadow'' = ''/etc/shadow''"
    by (simp add: resolveProcPath_def IsAbs_def cl)
  moreover have "is_sensitive_read_path ''/etc/shadow''"
    by (simp add: is_sensitive_read_path_def Let_def cl)
  ultimately have "fst (normalize_sensitive_read amd64 quiet shadow_record \<lparr>cs_sequence = 0, cs_cache = None\<rparr>) \<noteq> None"
    using path by (auto simp: normalize_sensitive_read_def quiet_def Let_def openFlagsReadable_def shadow_record_def
        split: prod.splits)
  then obtain e where e: "fst (normalize_sensitive_read amd64 quiet shadow_record \<lparr>cs_sequence = 0, cs_cache = None\<rparr>) = Some e"
    by blast
  with sensitive_read_detected [OF sorts_by_sort_key, where A = amd64 and V = quiet and raw = shadow_record and
    S = "\<lparr>cs_sequence = 0, cs_cache = None\<rparr>"]
  show ?thesis by simp
qed

section \<open>The container cache\<close>

text \<open>The states of a cache, whatever order its ranges take and whatever \<open>/proc\<close> says.\<close>

definition key_order_of :: "(int \<rightharpoonup> containerCacheEntry) \<Rightarrow> int list \<Rightarrow> bool" where
  "key_order_of entries order \<longleftrightarrow> distinct order \<and> set order = dom entries"

inductive cache_reachable :: "containerMetadataCache \<Rightarrow> bool" where
  new: "cache_reachable newContainerMetadataCache"
| lookup: "cache_reachable cache \<Longrightarrow> key_order_of (cc_entries cache) order1 \<Longrightarrow> key_order_of (cc_entries cache) order2 \<Longrightarrow>
    cache_reachable (snd (cache_lookup F procRoot now order1 order2 pid cache))"

lemma evict_shrinks:
  assumes "key_order_of entries order1" "key_order_of entries order2" "entries \<noteq> Map.empty"
  shows "card (dom (evictOne order1 order2 now entries)) < card (dom entries)"
proof -
  have fin: "finite (dom entries)" using assms(1) by (metis List.finite_set key_order_of_def)
  have "\<exists>pid \<in> dom entries. evictOne order1 order2 now entries = entries(pid := None)"
  proof (cases "find (entry_expired now entries) order1")
    case (Some pid)
    then have "pid \<in> set order1" by (auto simp: find_Some_iff)
    then show ?thesis using Some assms(1) by (auto simp: evictOne_def key_order_of_def)
  next
    case None
    have "order2 \<noteq> []" using assms(2,3) by (metis dom_eq_empty_conv key_order_of_def set_empty)
    then obtain a as where "order2 = a # as" by (cases order2) auto
    moreover from this have "a \<in> dom entries" using assms(2) by (auto simp: key_order_of_def)
    ultimately show ?thesis using None by (intro bexI [of _ a]) (simp_all add: evictOne_def)
  qed
  then obtain pid where p: "pid \<in> dom entries" "evictOne order1 order2 now entries = entries(pid := None)" ..
  then have "dom (evictOne order1 order2 now entries) = dom entries - {pid}" by auto
  then show ?thesis using card_Diff1_less [OF fin p(1)] by simp
qed

definition cache_ok :: "containerMetadataCache \<Rightarrow> bool" where
  "cache_ok cache \<longleftrightarrow> finite (dom (cc_entries cache)) \<and> int (card (dom (cc_entries cache))) \<le> cc_maxEntries cache \<and>
     0 < cc_maxEntries cache"

lemma cache_lookup_ok:
  assumes "cache_ok cache" "key_order_of (cc_entries cache) order1" "key_order_of (cc_entries cache) order2"
  shows "cache_ok (snd (cache_lookup F procRoot now order1 order2 pid cache)) \<and>
    cc_maxEntries (snd (cache_lookup F procRoot now order1 order2 pid cache)) = cc_maxEntries cache"
proof -
  let ?es = "if int (length order1) \<ge> cc_maxEntries cache then evictOne order1 order2 now (cc_entries cache) else cc_entries cache"
  have len: "length order1 = card (dom (cc_entries cache))"
    using assms(2) by (metis distinct_card key_order_of_def)
  have fin: "finite (dom (cc_entries cache))" using assms(1) by (simp add: cache_ok_def)
  have sub: "dom (evictOne order1 order2 now (cc_entries cache)) \<subseteq> dom (cc_entries cache)"
    by (auto simp: evictOne_def split: option.splits list.splits if_splits)
  have "int (card (dom ?es)) < cc_maxEntries cache"
  proof (cases "int (length order1) \<ge> cc_maxEntries cache")
    case True
    then have "cc_entries cache \<noteq> Map.empty" using len assms(1) by (auto simp: cache_ok_def)
    from evict_shrinks [OF assms(2,3) this, of now] True assms(1) show ?thesis by (simp add: cache_ok_def)
  qed (simp add: len)
  moreover have "finite (dom ?es)" using fin finite_subset [OF sub] by simp
  ultimately have "\<And>x. finite (dom (?es(pid \<mapsto> x))) \<and> int (card (dom (?es(pid \<mapsto> x)))) \<le> cc_maxEntries cache"
    by (auto simp: card_insert_if)
  then show ?thesis
    using assms(1) unfolding cache_lookup_def cache_ok_def Let_def by (auto split: option.splits)
qed

text \<open>C38. The cache of container metadata never holds more than its 4096 entries, however many
  processes are looked up, in whatever order its keys are visited; and a lookup answers either with
  what \<open>/proc\<close> says now or with an entry of the same process start that has not expired.\<close>

theorem container_cache_bounded:
  assumes "cache_reachable cache"
  shows "int (card (dom (cc_entries cache))) \<le> 4096 \<and>
    (fst (cache_lookup F procRoot now visit visit' pid cache) = readProcContainerMetadata F procRoot pid \<or>
     (\<exists>e. cc_entries cache pid = Some e \<and> ce_startTime e = readProcStartTime F procRoot pid \<and> now < ce_expiresAt e \<and>
        fst (cache_lookup F procRoot now visit visit' pid cache) = ce_metadata e))"
proof -
  have "cache_ok cache \<and> cc_maxEntries cache = 4096"
    using assms
  proof induction
    case new
    show ?case by (simp add: cache_ok_def newContainerMetadataCache_def defaultContainerCacheEntries_def)
  next
    case (lookup cache order1 order2 F procRoot now pid)
    then show ?case using cache_lookup_ok [of cache order1 order2 F procRoot now pid] by simp
  qed
  then show ?thesis
    by (auto simp: cache_ok_def cache_lookup_def cache_hit_def Let_def split: option.splits if_splits)
qed

lemma container_cache_bounded_witness:
  "cache_reachable newContainerMetadataCache \<and>
   fst (cache_lookup shadow_proc ''/proc'' 5 [] [] 7 newContainerMetadataCache) = no_container"
proof -
  have "fst (cache_lookup shadow_proc ''/proc'' 5 [] [] 7 newContainerMetadataCache) = readProcContainerMetadata shadow_proc ''/proc'' 7"
    using container_cache_bounded [OF cache_reachable.new, where F = shadow_proc and procRoot = "''/proc''" and
      now = 5 and visit = "[]" and visit' = "[]" and pid = 7]
    by (auto simp: newContainerMetadataCache_def)
  then show ?thesis
    using cache_reachable.new by (simp add: readProcContainerMetadata_def readProcContainerID_def shadow_proc_def)
qed

end
