(* ===== verification/Collector.thy ===== *)
theory Collector
  imports Ebpf_Normalize
begin

text \<open>
  The collectors as a whole (\<open>internal/ebpf/collector.go\<close>, \<open>metrics_linux.go\<close> and the \<open>Run\<close>
  methods): which collectors a configuration selects, the checks of its numbers, the drop counters,
  and the life of a collector, from the maps and programs it creates through the loop over the ring
  buffer to the deferred releases. Creating a kernel object is the argument \<open>opens\<close>: an error or the
  new file descriptor.
\<close>

section \<open>Names\<close>

definition DefaultCollectorNames :: "string list" where
  "DefaultCollectorNames = [''execve'', ''connect'', ''file_write'', ''chmod'']"

definition BehaviorCoreCollectorNames :: "string list" where
  "BehaviorCoreCollectorNames =
     [''execve'', ''connect'', ''file_write'', ''chmod'', ''sensitive_read'', ''file_lifecycle'',
      ''privilege_change'', ''namespace_change'', ''process_access'', ''network_server'', ''kernel_tamper'']"

definition CollectorBehaviorCore :: string where "CollectorBehaviorCore = ''behavior_core''"

definition must_be_alone :: "string \<Rightarrow> go_error" where
  "must_be_alone name = ''collector '' @ [CHR 0x22] @ name @ [CHR 0x22] @ '' must be used by itself''"

text \<open>\<open>qt\<close> is the quoting of \<open>%q\<close>; \<open>seen\<close> lists the names checked so far.\<close>

definition check_name :: "string \<Rightarrow> go_error option" where
  "check_name name =
     (if name = [] then Some ''collector list contains an empty name''
      else if name = ''all'' then Some (must_be_alone ''all'')
      else if name = CollectorBehaviorCore then Some (must_be_alone CollectorBehaviorCore)
      else None)"

fun check_names :: "(string \<Rightarrow> string) \<Rightarrow> string list \<Rightarrow> string list \<Rightarrow> go_error + string list" where
  "check_names qt seen [] = Inr []"
| "check_names qt seen (raw # rest) =
     (let name = ToLower (TrimSpace raw) in
      case check_name name of
        Some err \<Rightarrow> Inl err
      | None \<Rightarrow>
          if name \<notin> set BehaviorCoreCollectorNames then
            Inl (''unknown collector '' @ qt name @ '' (valid: all,'' @
              Join '','' (CollectorBehaviorCore # BehaviorCoreCollectorNames) @ '')'')
          else if name \<in> set seen then Inl (''duplicate collector '' @ qt name)
          else (case check_names qt (name # seen) rest of Inl err \<Rightarrow> Inl err | Inr names \<Rightarrow> Inr (name # names)))"

definition checkedCollectorNames :: "(string \<Rightarrow> string) \<Rightarrow> string list \<Rightarrow> go_error + string list" where
  "checkedCollectorNames qt names =
     (if names = [] then Inr DefaultCollectorNames
      else if length names = 1 \<and> EqualFold (TrimSpace (names ! 0)) ''all'' then Inr DefaultCollectorNames
      else if length names = 1 \<and> EqualFold (TrimSpace (names ! 0)) CollectorBehaviorCore
      then Inr BehaviorCoreCollectorNames
      else check_names qt [] names)"

fun parse_pieces :: "string list \<Rightarrow> go_error + string list" where
  "parse_pieces [] = Inr []"
| "parse_pieces (piece # rest) =
     (let name = ToLower (TrimSpace piece) in
      case check_name name of
        Some err \<Rightarrow> Inl err
      | None \<Rightarrow> (case parse_pieces rest of Inl err \<Rightarrow> Inl err | Inr names \<Rightarrow> Inr (name # names)))"

definition ParseCollectorNames :: "(string \<Rightarrow> string) \<Rightarrow> string \<Rightarrow> go_error + string list" where
  "ParseCollectorNames qt raw =
     (let input = TrimSpace raw in
      if input = [] \<or> EqualFold input ''all'' then Inr DefaultCollectorNames
      else if EqualFold input CollectorBehaviorCore then Inr BehaviorCoreCollectorNames
      else case parse_pieces (Split CHR '','' input) of
        Inl err \<Rightarrow> Inl err
      | Inr names \<Rightarrow> checkedCollectorNames qt names)"

section \<open>The configuration\<close>

record RuntimeConfig =
  RingBufferSize :: int
  Collectors :: "string list"
  FileWriteMinBytes :: int
  FileWriteIgnorePID :: int

definition DefaultRingBufferSize :: int where "DefaultRingBufferSize = 8 * 1024 * 1024"
definition maxBPFImmediate :: int where "maxBPFImmediate = 2 ^ 31 - 1"

definition checkedRuntimeConfig :: "int \<Rightarrow> RuntimeConfig \<Rightarrow> go_error + RuntimeConfig" where
  "checkedRuntimeConfig pageSize config0 =
     (let config = (if RingBufferSize config0 = 0 then config0\<lparr>RingBufferSize := DefaultRingBufferSize\<rparr> else config0);
          size = RingBufferSize config
      in if size < 0 then Inl ''collector ring buffer size must be positive''
         else if size < pageSize then
           Inl (''collector ring buffer size must be at least one page ('' @ Itoa pageSize @ '' bytes)'')
         else if size > 2 ^ 32 - 1 then Inl ''collector ring buffer size must fit in uint32''
         else if and size (size - 1) \<noteq> 0 then Inl ''collector ring buffer size must be a power of two''
         else if FileWriteMinBytes config < 0 then Inl ''file write minimum bytes must be non-negative''
         else if FileWriteMinBytes config > maxBPFImmediate then
           Inl (''file write minimum bytes must be <= '' @ Itoa maxBPFImmediate)
         else if FileWriteIgnorePID config < 0 then Inl ''file write ignored PID must be non-negative''
         else if FileWriteIgnorePID config > maxBPFImmediate then
           Inl (''file write ignored PID must be <= '' @ Itoa maxBPFImmediate)
         else Inr config)"

text \<open>
  A made collector: every constructor checks the configuration and asks for the host's name; only
  file_write keeps the two numbers. The caches and counters start empty.
\<close>

record collector =
  c_name :: string
  c_host :: string
  c_ringBufferSize :: int
  c_minBytes :: int
  c_ignorePID :: int

definition new_collector ::
  "int \<Rightarrow> (go_error + string) \<Rightarrow> RuntimeConfig \<Rightarrow> (RuntimeConfig \<Rightarrow> string \<Rightarrow> collector) \<Rightarrow> go_error + collector" where
  "new_collector pageSize hostname config build =
     (case checkedRuntimeConfig pageSize config of
        Inl err \<Rightarrow> Inl err
      | Inr checked \<Rightarrow>
          (case hostname of
             Inl err \<Rightarrow> Inl (''read hostname: '' @ err)
           | Inr host \<Rightarrow> Inr (build checked host)))"

definition plain_collector :: "string \<Rightarrow> RuntimeConfig \<Rightarrow> string \<Rightarrow> collector" where
  "plain_collector name checked host =
     \<lparr>c_name = name, c_host = host, c_ringBufferSize = RingBufferSize checked, c_minBytes = 0, c_ignorePID = 0\<rparr>"

definition NewExecveCollectorWithConfig :: "int \<Rightarrow> (go_error + string) \<Rightarrow> RuntimeConfig \<Rightarrow> go_error + collector" where
  "NewExecveCollectorWithConfig pageSize hostname config = new_collector pageSize hostname config
     (plain_collector ''execve'')"

definition NewConnectCollectorWithConfig :: "int \<Rightarrow> (go_error + string) \<Rightarrow> RuntimeConfig \<Rightarrow> go_error + collector" where
  "NewConnectCollectorWithConfig pageSize hostname config = new_collector pageSize hostname config
     (plain_collector ''connect'')"

definition NewFileWriteCollectorWithConfig :: "int \<Rightarrow> (go_error + string) \<Rightarrow> RuntimeConfig \<Rightarrow> go_error + collector" where
  "NewFileWriteCollectorWithConfig pageSize hostname config = new_collector pageSize hostname config
     (\<lambda>checked host. (plain_collector ''file_write'' checked host)
       \<lparr>c_minBytes := FileWriteMinBytes checked, c_ignorePID := FileWriteIgnorePID checked\<rparr>)"

definition NewChmodCollectorWithConfig :: "int \<Rightarrow> (go_error + string) \<Rightarrow> RuntimeConfig \<Rightarrow> go_error + collector" where
  "NewChmodCollectorWithConfig pageSize hostname config = new_collector pageSize hostname config
     (plain_collector ''chmod'')"

definition NewSensitiveReadCollectorWithConfig :: "int \<Rightarrow> (go_error + string) \<Rightarrow> RuntimeConfig \<Rightarrow> go_error + collector" where
  "NewSensitiveReadCollectorWithConfig pageSize hostname config = new_collector pageSize hostname config
     (plain_collector ''sensitive_read'')"

definition NewFileLifecycleCollectorWithConfig :: "int \<Rightarrow> (go_error + string) \<Rightarrow> RuntimeConfig \<Rightarrow> go_error + collector" where
  "NewFileLifecycleCollectorWithConfig pageSize hostname config = new_collector pageSize hostname config
     (plain_collector ''file_lifecycle'')"

definition NewNetworkServerCollectorWithConfig :: "int \<Rightarrow> (go_error + string) \<Rightarrow> RuntimeConfig \<Rightarrow> go_error + collector" where
  "NewNetworkServerCollectorWithConfig pageSize hostname config = new_collector pageSize hostname config
     (plain_collector ''network_server'')"

definition newBehaviorSyscallCollector ::
  "int \<Rightarrow> (go_error + string) \<Rightarrow> RuntimeConfig \<Rightarrow> string \<Rightarrow> go_error + collector" where
  "newBehaviorSyscallCollector pageSize hostname config name =
     new_collector pageSize hostname config (plain_collector name)"

text \<open>The switch on the name: a name without a case adds nothing.\<close>

definition named_collector ::
  "int \<Rightarrow> (go_error + string) \<Rightarrow> RuntimeConfig \<Rightarrow> string \<Rightarrow> (go_error + collector) option" where
  "named_collector pageSize hostname config name =
     (if name = ''execve'' then Some (NewExecveCollectorWithConfig pageSize hostname config)
      else if name = ''connect'' then Some (NewConnectCollectorWithConfig pageSize hostname config)
      else if name = ''file_write'' then Some (NewFileWriteCollectorWithConfig pageSize hostname config)
      else if name = ''chmod'' then Some (NewChmodCollectorWithConfig pageSize hostname config)
      else if name = ''sensitive_read'' then Some (NewSensitiveReadCollectorWithConfig pageSize hostname config)
      else if name = ''file_lifecycle'' then Some (NewFileLifecycleCollectorWithConfig pageSize hostname config)
      else if name \<in> {''privilege_change'', ''namespace_change'', ''process_access''}
        then Some (newBehaviorSyscallCollector pageSize hostname config name)
      else if name = ''network_server'' then Some (NewNetworkServerCollectorWithConfig pageSize hostname config)
      else if name = ''kernel_tamper'' then Some (newBehaviorSyscallCollector pageSize hostname config name)
      else None)"

fun new_collectors :: "int \<Rightarrow> (go_error + string) \<Rightarrow> RuntimeConfig \<Rightarrow> string list \<Rightarrow> go_error + collector list" where
  "new_collectors pageSize hostname config [] = Inr []"
| "new_collectors pageSize hostname config (name # names) =
     (case named_collector pageSize hostname config name of
        None \<Rightarrow> new_collectors pageSize hostname config names
      | Some (Inl err) \<Rightarrow> Inl err
      | Some (Inr c) \<Rightarrow>
          (case new_collectors pageSize hostname config names of Inl err \<Rightarrow> Inl err | Inr cs \<Rightarrow> Inr (c # cs)))"

definition NewRuntimeCollectorWithConfig ::
  "(string \<Rightarrow> string) \<Rightarrow> int \<Rightarrow> (go_error + string) \<Rightarrow> RuntimeConfig \<Rightarrow> go_error + collector list" where
  "NewRuntimeCollectorWithConfig qt pageSize hostname config0 =
     (case checkedRuntimeConfig pageSize config0 of
        Inl err \<Rightarrow> Inl err
      | Inr config \<Rightarrow>
          (case checkedCollectorNames qt (Collectors config) of
             Inl err \<Rightarrow> Inl err
           | Inr names \<Rightarrow> new_collectors pageSize hostname config names))"

text \<open>The constructor on a platform without the programs.\<close>

definition unsupported_NewRuntimeCollectorWithConfig ::
  "(string \<Rightarrow> string) \<Rightarrow> int \<Rightarrow> RuntimeConfig \<Rightarrow> go_error + collector list" where
  "unsupported_NewRuntimeCollectorWithConfig qt pageSize config =
     (case checkedRuntimeConfig pageSize config of
        Inl err \<Rightarrow> Inl err
      | Inr _ \<Rightarrow>
          (case checkedCollectorNames qt (Collectors config) of
             Inl err \<Rightarrow> Inl err
           | Inr _ \<Rightarrow> Inl ''live collection currently requires Linux amd64 or arm64''))"

text \<open>There the constructors and the \<open>Run\<close> of every collector type fail with one message; the four
  behavior collectors share a type and so its \<open>Run\<close>.\<close>

definition unsupported_words :: "(string \<times> string \<times> string) list" where
  "unsupported_words =
     [(''execve'', ''execve'', ''execve''), (''connect'', ''connect'', ''connect''),
      (''file_write'', ''file write'', ''file write''), (''chmod'', ''chmod'', ''chmod''),
      (''sensitive_read'', ''sensitive read'', ''sensitive read''),
      (''file_lifecycle'', ''file lifecycle'', ''file lifecycle''),
      (''privilege_change'', ''privilege change'', ''behavior syscall''),
      (''namespace_change'', ''namespace change'', ''behavior syscall''),
      (''process_access'', ''process access'', ''behavior syscall''),
      (''kernel_tamper'', ''kernel tamper'', ''behavior syscall''),
      (''network_server'', ''network server'', ''network server'')]"

datatype collector_call = NewCollector | NewCollectorWithConfig RuntimeConfig | RunCollector

definition unsupported_call :: "string \<Rightarrow> collector_call \<Rightarrow> go_error option" where
  "unsupported_call name call =
     map_option (\<lambda>(made, ran). ''live '' @ (case call of RunCollector \<Rightarrow> ran | _ \<Rightarrow> made) @
         '' collection currently requires Linux amd64 or arm64'')
       (map_of unsupported_words name)"

lemma unsupported_never_collects:
  "name \<in> set BehaviorCoreCollectorNames \<Longrightarrow> unsupported_call name call \<noteq> None"
  by (auto simp: BehaviorCoreCollectorNames_def unsupported_call_def unsupported_words_def)

section \<open>Drop counters\<close>

record collectorMetrics =
  dropCounter :: "int option"
  correlationDropCounter :: "int option"
  ringBufferDropped :: "64 word"
  correlationDropped :: "64 word"

record collectorStats =
  RingBufferDropped :: "64 word"
  CorrelationDropped :: "64 word"

text \<open>\<open>look\<close> is the kernel's answer to a lookup in a counter map, if it gives one.\<close>

definition refreshLocked :: "(int \<Rightarrow> 64 word option) \<Rightarrow> collectorMetrics \<Rightarrow> collectorMetrics" where
  "refreshLocked look m =
     (let m1 = (case dropCounter m of
                  None \<Rightarrow> m
                | Some fd \<Rightarrow> (case look fd of None \<Rightarrow> m | Some n \<Rightarrow> m\<lparr>ringBufferDropped := n\<rparr>))
      in case correlationDropCounter m1 of
           None \<Rightarrow> m1
         | Some fd \<Rightarrow> (case look fd of None \<Rightarrow> m1 | Some n \<Rightarrow> m1\<lparr>correlationDropped := n\<rparr>))"

definition attachDropCounter :: "int \<Rightarrow> collectorMetrics \<Rightarrow> collectorMetrics" where
  "attachDropCounter fd m = m\<lparr>dropCounter := Some fd\<rparr>"

definition detachDropCounter :: "(int \<Rightarrow> 64 word option) \<Rightarrow> int \<Rightarrow> collectorMetrics \<Rightarrow> collectorMetrics" where
  "detachDropCounter look fd m =
     (if dropCounter m \<noteq> Some fd then m else (refreshLocked look m)\<lparr>dropCounter := None\<rparr>)"

definition attachCorrelationDropCounter :: "int \<Rightarrow> collectorMetrics \<Rightarrow> collectorMetrics" where
  "attachCorrelationDropCounter fd m = m\<lparr>correlationDropCounter := Some fd\<rparr>"

definition detachCorrelationDropCounter ::
  "(int \<Rightarrow> 64 word option) \<Rightarrow> int \<Rightarrow> collectorMetrics \<Rightarrow> collectorMetrics" where
  "detachCorrelationDropCounter look fd m =
     (if correlationDropCounter m \<noteq> Some fd then m
      else (refreshLocked look m)\<lparr>correlationDropCounter := None\<rparr>)"

definition metrics_stats :: "(int \<Rightarrow> 64 word option) \<Rightarrow> collectorMetrics \<Rightarrow> collectorStats \<times> collectorMetrics" where
  "metrics_stats look m =
     (let m' = refreshLocked look m
      in (\<lparr>RingBufferDropped = ringBufferDropped m', CorrelationDropped = correlationDropped m'\<rparr>, m'))"

section \<open>The composite\<close>

record CollectorStats =
  st_Name :: string
  st_Stats :: collectorStats

text \<open>A child has its statistics, if it keeps any, and its name, if it has one.\<close>

definition StatsByCollector :: "(collectorStats option \<times> string option) list \<Rightarrow> CollectorStats list" where
  "StatsByCollector children = concat (map (\<lambda>(index, stats, name).
     case stats of
       None \<Rightarrow> []
     | Some s \<Rightarrow> [\<lparr>st_Name = (case name of Some n \<Rightarrow> n | None \<Rightarrow> ''collector_'' @ Itoa (int index)), st_Stats = s\<rparr>])
     (zip [0..<length children] children))"

definition composite_Stats :: "(collectorStats option \<times> string option) list \<Rightarrow> collectorStats" where
  "composite_Stats children =
     foldl (\<lambda>combined detail. combined
         \<lparr>RingBufferDropped := RingBufferDropped combined + RingBufferDropped (st_Stats detail),
          CorrelationDropped := CorrelationDropped combined + CorrelationDropped (st_Stats detail)\<rparr>)
       \<lparr>RingBufferDropped = 0, CorrelationDropped = 0\<rparr> (StatsByCollector children)"

text \<open>
  \<open>Run\<close> of the composite: the children's results in the order they arrive, the context cancelled
  after the first; the result is the first error among them.
\<close>

fun first_error :: "go_error option list \<Rightarrow> go_error option" where
  "first_error [] = None"
| "first_error (None # rs) = first_error rs"
| "first_error (Some e # rs) = Some e"

definition composite_Run :: "bool \<Rightarrow> nat \<Rightarrow> go_error option list \<Rightarrow> go_error option" where
  "composite_Run sink_nil children arrived =
     (if sink_nil then Some ''event sink is required''
      else if children = 0 then Some ''at least one collector is required''
      else first_error arrived)"

section \<open>The life of a collector\<close>

datatype resource =
    RingBufMap string int
  | PendingMap string nat
  | DropCounterMap string
  | AttachedDrops int
  | AttachedCorrelationDrops int
  | Program ProgramSpec
  | RawTracepoint string int
  | RingReader int
  | CancelWatch

datatype action = Opened resource int | Released resource int

text \<open>Attaching a counter to the metrics and starting the watcher of the context cannot fail.\<close>

fun infallible :: "resource \<Rightarrow> bool" where
  "infallible (AttachedDrops _) = True"
| "infallible (AttachedCorrelationDrops _) = True"
| "infallible CancelWatch = True"
| "infallible _ = False"

text \<open>
  A plan lists what \<open>Run\<close> creates, each from the descriptors so far, with the prefix of the error.
  Each creation is followed by a deferred release.
\<close>

type_synonym plan = "((int list \<Rightarrow> resource) \<times> string) list"

datatype 'a run_result = Returned "go_error option" 'a | Blocked

fun run_plan :: "(resource \<Rightarrow> go_error + int) \<Rightarrow> plan \<Rightarrow> int list \<Rightarrow> 'a \<Rightarrow> 'a run_result \<Rightarrow> 'a run_result \<times> action list" where
  "run_plan opens [] fds nothing body = (body, [])"
| "run_plan opens ((mk, msg) # rest) fds nothing body =
     (let r = mk fds in
      case (if infallible r then Inr (- 1) else opens r) of
        Inl err \<Rightarrow> (Returned (Some (msg @ err)) nothing, [])
      | Inr fd \<Rightarrow>
          (case run_plan opens rest (if infallible r then fds else fds @ [fd]) nothing body of
             (res, acts) \<Rightarrow> (res, Opened r fd # acts @ [Released r fd])))"

text \<open>
  What the reader returns: closed, with the context cancelled or not, another error, or a sample;
  and whether the send or the cancellation wins the select. A script that is used up blocks.
\<close>

datatype reading = ReadClosed bool string | ReadError string | Sample bytes bool

fun read_loop ::
  "string \<Rightarrow> (bytes \<Rightarrow> collector_state \<Rightarrow> string + event option \<times> collector_state) \<Rightarrow> reading list \<Rightarrow>
     collector_state \<Rightarrow> event list \<Rightarrow> (event list \<times> collector_state) run_result" where
  "read_loop what handle [] S sent = Blocked"
| "read_loop what handle (ReadClosed cancelled err # rs) S sent =
     Returned (if cancelled then None else Some (''read '' @ what @ '' ring buffer: '' @ err)) (sent, S)"
| "read_loop what handle (ReadError err # rs) S sent =
     Returned (Some (''read '' @ what @ '' ring buffer: '' @ err)) (sent, S)"
| "read_loop what handle (Sample raw accepted # rs) S sent =
     (case handle raw S of
        Inl err \<Rightarrow> Returned (Some err) (sent, S)
      | Inr (None, S') \<Rightarrow> read_loop what handle rs S' sent
      | Inr (Some e, S') \<Rightarrow>
          if accepted then read_loop what handle rs S' (sent @ [e]) else Returned None (sent, S'))"

definition run_collector ::
  "string \<Rightarrow> plan \<Rightarrow> (bytes \<Rightarrow> collector_state \<Rightarrow> string + event option \<times> collector_state) \<Rightarrow> bool \<Rightarrow>
     (resource \<Rightarrow> go_error + int) \<Rightarrow> reading list \<Rightarrow> collector_state \<Rightarrow>
     (event list \<times> collector_state) run_result \<times> action list" where
  "run_collector what plan handle sink_nil opens readings S =
     (if sink_nil then (Returned (Some ''event sink is required'') ([], S), [])
      else run_plan opens plan [] ([], S) (read_loop what handle readings S []))"

definition handling ::
  "('r \<Rightarrow> collector_state \<Rightarrow> event option \<times> collector_state) \<Rightarrow> (bytes \<Rightarrow> string + 'r) \<Rightarrow>
     bytes \<Rightarrow> collector_state \<Rightarrow> string + event option \<times> collector_state" where
  "handling convert decode raw S = (case decode raw of Inl err \<Rightarrow> Inl err | Inr r \<Rightarrow> Inr (convert r S))"

section \<open>The plans\<close>

definition execve_plan :: "abi \<Rightarrow> int \<Rightarrow> plan" where
  "execve_plan A ringSize =
     [(\<lambda>_. RingBufMap ''rg_execve_rb'' ringSize, ''create execve ring buffer: ''),
      (\<lambda>_. DropCounterMap ''rg_execve_drop'', ''create execve drop counter: ''),
      (\<lambda>fds. AttachedDrops (fds ! 1), ''''),
      (\<lambda>fds. Program (execveProgramSpec A (fds ! 0) (fds ! 1)), ''load execve raw tracepoint program: ''),
      (\<lambda>fds. RawTracepoint ''sys_enter'' (fds ! 2), ''attach sys_enter raw tracepoint: ''),
      (\<lambda>fds. RingReader (fds ! 0), ''open execve ring buffer reader: ''),
      (\<lambda>_. CancelWatch, '''')]"

text \<open>The plan of the collectors of completed system calls, with the names each uses.\<close>

definition syscall_plan ::
  "string \<Rightarrow> string \<Rightarrow> string \<Rightarrow> string \<Rightarrow> string \<Rightarrow> int \<Rightarrow> nat \<Rightarrow> (int \<Rightarrow> int \<Rightarrow> ProgramSpec) \<Rightarrow>
     (int \<Rightarrow> int \<Rightarrow> int \<Rightarrow> ProgramSpec) \<Rightarrow> plan" where
  "syscall_plan what rb pend drops cd ringSize valueSize enterSpec exitSpec =
     [(\<lambda>_. RingBufMap rb ringSize, ''create '' @ what @ '' ring buffer: ''),
      (\<lambda>_. PendingMap pend valueSize, ''create pending '' @ what @ '' map: ''),
      (\<lambda>_. DropCounterMap drops, ''create '' @ what @ '' drop counter: ''),
      (\<lambda>fds. AttachedDrops (fds ! 2), ''''),
      (\<lambda>_. DropCounterMap cd, ''create '' @ what @ '' correlation drop counter: ''),
      (\<lambda>fds. AttachedCorrelationDrops (fds ! 3), ''''),
      (\<lambda>fds. Program (enterSpec (fds ! 1) (fds ! 3)), ''load '' @ what @ '' sys_enter raw tracepoint program: ''),
      (\<lambda>fds. RawTracepoint ''sys_enter'' (fds ! 4), ''attach sys_enter raw tracepoint: ''),
      (\<lambda>fds. Program (exitSpec (fds ! 0) (fds ! 2) (fds ! 1)), ''load '' @ what @ '' sys_exit raw tracepoint program: ''),
      (\<lambda>fds. RawTracepoint ''sys_exit'' (fds ! 6), ''attach sys_exit raw tracepoint: ''),
      (\<lambda>fds. RingReader (fds ! 0), ''open '' @ what @ '' ring buffer reader: ''),
      (\<lambda>_. CancelWatch, '''')]"

definition always :: "('r \<Rightarrow> collector_state \<Rightarrow> event \<times> collector_state) \<Rightarrow> 'r \<Rightarrow> collector_state \<Rightarrow> event option \<times> collector_state" where
  "always convert r S = (case convert r S of (e, S') \<Rightarrow> (Some e, S'))"

definition execve_Run :: "abi \<Rightarrow> collector \<Rightarrow> surroundings \<Rightarrow> bool \<Rightarrow> (resource \<Rightarrow> go_error + int) \<Rightarrow> reading list \<Rightarrow>
    collector_state \<Rightarrow> (event list \<times> collector_state) run_result \<times> action list" where
  "execve_Run A c V = run_collector ''execve'' (execve_plan A (c_ringBufferSize c))
     (handling (always (normalize_execve V)) decodeExecveRecord)"

definition connect_Run :: "abi \<Rightarrow> collector \<Rightarrow> surroundings \<Rightarrow> bool \<Rightarrow> (resource \<Rightarrow> go_error + int) \<Rightarrow> reading list \<Rightarrow>
    collector_state \<Rightarrow> (event list \<times> collector_state) run_result \<times> action list" where
  "connect_Run A c V = run_collector ''connect''
     (syscall_plan ''connect'' ''rg_connect_rb'' ''rg_conn_pending'' ''rg_connect_drop'' ''rg_conn_corr_drop''
        (c_ringBufferSize c) (binary_Size connect_layout) (connectEnterProgramSpec A) connectExitProgramSpec)
     (handling (normalize_connect V) decodeConnectRecord)"

definition file_write_Run :: "abi \<Rightarrow> collector \<Rightarrow> surroundings \<Rightarrow> bool \<Rightarrow> (resource \<Rightarrow> go_error + int) \<Rightarrow> reading list \<Rightarrow>
    collector_state \<Rightarrow> (event list \<times> collector_state) run_result \<times> action list" where
  "file_write_Run A c V = run_collector ''file write''
     (syscall_plan ''file write'' ''rg_write_rb'' ''rg_wr_pending'' ''rg_write_drop'' ''rg_wr_corr_drop''
        (c_ringBufferSize c) (binary_Size fileWrite_layout)
        (\<lambda>pending corr. fileWriteEnterProgramSpec A pending corr (c_ignorePID c))
        (\<lambda>records drops pending. fileWriteExitProgramSpec records drops pending (c_minBytes c)))
     (handling (normalize_file_write A V) decodeFileWriteRecord)"

definition chmod_Run :: "abi \<Rightarrow> collector \<Rightarrow> surroundings \<Rightarrow> bool \<Rightarrow> (resource \<Rightarrow> go_error + int) \<Rightarrow> reading list \<Rightarrow>
    collector_state \<Rightarrow> (event list \<times> collector_state) run_result \<times> action list" where
  "chmod_Run A c V = run_collector ''chmod''
     (syscall_plan ''chmod'' ''rg_chmod_rb'' ''rg_ch_pending'' ''rg_chmod_drop'' ''rg_ch_corr_drop''
        (c_ringBufferSize c) (binary_Size chmod_layout) (chmodEnterProgramSpec A) chmodExitProgramSpec)
     (handling (normalize_chmod A V) decodeChmodRecord)"

definition sensitive_read_Run :: "abi \<Rightarrow> collector \<Rightarrow> surroundings \<Rightarrow> bool \<Rightarrow> (resource \<Rightarrow> go_error + int) \<Rightarrow> reading list \<Rightarrow>
    collector_state \<Rightarrow> (event list \<times> collector_state) run_result \<times> action list" where
  "sensitive_read_Run A c V = run_collector ''sensitive read''
     (syscall_plan ''sensitive read'' ''rg_sread_rb'' ''rg_sread_pend'' ''rg_sread_drop'' ''rg_sread_cd''
        (c_ringBufferSize c) (binary_Size sensitiveRead_layout) (sensitiveReadEnterProgramSpec A) sensitiveReadExitProgramSpec)
     (handling (normalize_sensitive_read A V) decodeSensitiveReadRecord)"

definition file_lifecycle_Run :: "abi \<Rightarrow> collector \<Rightarrow> surroundings \<Rightarrow> bool \<Rightarrow> (resource \<Rightarrow> go_error + int) \<Rightarrow> reading list \<Rightarrow>
    collector_state \<Rightarrow> (event list \<times> collector_state) run_result \<times> action list" where
  "file_lifecycle_Run A c V = run_collector ''file lifecycle''
     (syscall_plan ''file lifecycle'' ''rg_life_rb'' ''rg_life_pending'' ''rg_life_drop'' ''rg_life_cd''
        (c_ringBufferSize c) (binary_Size fileLifecycle_layout) (fileLifecycleEnterProgramSpec A) fileLifecycleExitProgramSpec)
     (handling (normalize_file_lifecycle A V) decodeFileLifecycleRecord)"

definition network_server_Run :: "abi \<Rightarrow> collector \<Rightarrow> surroundings \<Rightarrow> bool \<Rightarrow> (resource \<Rightarrow> go_error + int) \<Rightarrow> reading list \<Rightarrow>
    collector_state \<Rightarrow> (event list \<times> collector_state) run_result \<times> action list" where
  "network_server_Run A c V = run_collector ''network server''
     (syscall_plan ''network server'' ''rg_netsrv_rb'' ''rg_netsrv_pend'' ''rg_netsrv_drop'' ''rg_netsrv_cd''
        (c_ringBufferSize c) (binary_Size networkServer_layout) (networkServerEnterProgramSpec A) networkServerExitProgramSpec)
     (handling (normalize_network_server A V) decodeNetworkServerRecord)"

definition behavior_Run :: "abi \<Rightarrow> BehaviorSyscallCollector \<Rightarrow> collector \<Rightarrow> surroundings \<Rightarrow> bool \<Rightarrow> (resource \<Rightarrow> go_error + int) \<Rightarrow>
    reading list \<Rightarrow> collector_state \<Rightarrow> (event list \<times> collector_state) run_result \<times> action list" where
  "behavior_Run A b c V = run_collector (bc_name b)
     (syscall_plan (bc_name b) (''rg_'' @ bc_bpfName b @ ''_rb'') (''rg_'' @ bc_bpfName b @ ''_pend'')
        (''rg_'' @ bc_bpfName b @ ''_drop'') (''rg_'' @ bc_bpfName b @ ''_cd'')
        (c_ringBufferSize c) (binary_Size behaviorSyscall_layout)
        (behaviorSyscallEnterProgramSpec A (bc_bpfName b) (syscallNumbers b)) (behaviorSyscallExitProgramSpec (bc_bpfName b)))
     (handling (always (normalize_behavior A b V)) decodeBehaviorSyscallRecord)"

text \<open>What the actions of a run do to the collector's metrics.\<close>

fun act_metrics :: "(int \<Rightarrow> 64 word option) \<Rightarrow> action \<Rightarrow> collectorMetrics \<Rightarrow> collectorMetrics" where
  "act_metrics look (Opened (AttachedDrops fd) _) m = attachDropCounter fd m"
| "act_metrics look (Opened (AttachedCorrelationDrops fd) _) m = attachCorrelationDropCounter fd m"
| "act_metrics look (Released (AttachedDrops fd) _) m = detachDropCounter look fd m"
| "act_metrics look (Released (AttachedCorrelationDrops fd) _) m = detachCorrelationDropCounter look fd m"
| "act_metrics look _ m = m"

end
