(* ===== verification/Collector_Laws.thy ===== *)
theory Collector_Laws
  imports Collector Path_Laws
begin

text \<open>
  Laws of \<open>Collector\<close>: a list of collector names parses back from its comma-separated form, a made
  collector has checked numbers, and every \<open>Run\<close> releases in reverse order what it created, whatever
  creation fails and however the loop ends.
\<close>

section \<open>Plain text\<close>

text \<open>Printable ASCII without capitals: trimming and folding leave it alone.\<close>

definition plain :: "char \<Rightarrow> bool" where
  "plain c \<longleftrightarrow> 32 < byte c \<and> byte c < 128 \<and> \<not> (65 \<le> byte c \<and> byte c \<le> 90)"

lemma plain_lower [simp]: "plain c \<Longrightarrow> lower_char c = c"
  by (auto simp: plain_def lower_char_def)

lemma plain_not_special:
  "plain c \<Longrightarrow> c \<noteq> CHR 0xE2 \<and> c \<noteq> CHR 0xC5 \<and> c \<noteq> CHR 0xC4 \<and> c \<noteq> CHR 0xC2 \<and> c \<noteq> CHR 0xE1 \<and> c \<noteq> CHR 0xE3
    \<and> c \<notin> {CHR 0x09, CHR 0x0A, CHR 0x0B, CHR 0x0C, CHR 0x0D, CHR '' ''}"
  by (auto simp: plain_def)

lemma plain_fold_case: "list_all plain s \<Longrightarrow> fold_case s = s"
  by (induction s) (auto dest: plain_not_special)

lemma plain_ToLower: "list_all plain s \<Longrightarrow> ToLower s = s"
  by (induction s) (auto dest: plain_not_special)

lemma plain_space_len:
  assumes "list_all plain s"
  shows "space_len s = 0"
proof (cases s)
  case (Cons c r)
  with assms have "plain c" by simp
  from plain_not_special [OF this] show ?thesis
    unfolding Cons space_len_def list.case by (simp only: if_False simp_thms)
qed simp

lemma plain_trim_right: "list_all plain s \<Longrightarrow> trim_right_from [] s = s"
proof (induction s)
  case (Cons c s)
  have "space_len (c # s) = 0" using Cons.prems by (rule plain_space_len)
  with Cons show ?case by (subst trim_right_from.simps) simp
qed (simp add: trim_right_from.simps)

lemma plain_TrimSpace: "list_all plain s \<Longrightarrow> TrimSpace s = s"
  by (simp add: TrimSpace_def trim_left.simps [of s] plain_space_len plain_trim_right)

section \<open>Names\<close>

lemma names_plain: "w \<in> set BehaviorCoreCollectorNames \<Longrightarrow> list_all plain w \<and> CHR '','' \<notin> set w"
  unfolding BehaviorCoreCollectorNames_def list.set insert_iff empty_iff
  by (elim disjE FalseE; simp add: plain_def)

lemma names_valid: "w \<in> set BehaviorCoreCollectorNames \<Longrightarrow> check_name w = None"
  unfolding BehaviorCoreCollectorNames_def list.set insert_iff empty_iff
  by (elim disjE FalseE; simp add: check_name_def CollectorBehaviorCore_def)

lemma not_a_name:
  "''all'' \<notin> set BehaviorCoreCollectorNames" "CollectorBehaviorCore \<notin> set BehaviorCoreCollectorNames"
  by (simp_all add: BehaviorCoreCollectorNames_def CollectorBehaviorCore_def)

definition good_names :: "string list \<Rightarrow> bool" where
  "good_names ns \<longleftrightarrow> ns \<noteq> [] \<and> distinct ns \<and> set ns \<subseteq> set BehaviorCoreCollectorNames"

lemma good_default: "good_names DefaultCollectorNames" "good_names BehaviorCoreCollectorNames"
  by (simp_all add: good_names_def DefaultCollectorNames_def BehaviorCoreCollectorNames_def)

lemma check_names_good:
  "check_names qt seen ns = Inr ms \<Longrightarrow>
     length ms = length ns \<and> distinct ms \<and> set ms \<inter> set seen = {} \<and> set ms \<subseteq> set BehaviorCoreCollectorNames"
proof (induction ns arbitrary: ms seen)
  case (Cons raw rest)
  let ?name = "ToLower (TrimSpace raw)"
  from Cons.prems obtain ms' where ms: "ms = ?name # ms'" "check_names qt (?name # seen) rest = Inr ms'"
    and name: "?name \<in> set BehaviorCoreCollectorNames" "?name \<notin> set seen"
    by (auto simp: Let_def split: option.splits if_splits sum.splits)
  from Cons.IH [OF ms(2)] name show ?case by (simp add: ms(1))
qed simp

lemma checked_good: "checkedCollectorNames qt ns = Inr ms \<Longrightarrow> good_names ms"
  unfolding checkedCollectorNames_def
  by (auto simp: good_default split: if_splits dest!: check_names_good) (auto simp: good_names_def)

lemma Parse_good: "ParseCollectorNames qt raw = Inr ms \<Longrightarrow> good_names ms"
  by (auto simp: ParseCollectorNames_def Let_def good_default intro: checked_good split: if_splits sum.splits)

lemma Join_plain: "\<forall>w\<in>set ws. list_all plain w \<Longrightarrow> list_all plain (Join '','' ws)"
  by (induction "'','' :: string" ws rule: Join.induct) (auto simp: plain_def)

lemma parse_pieces_names:
  "set ws \<subseteq> set BehaviorCoreCollectorNames \<Longrightarrow> parse_pieces ws = Inr ws"
  by (induction ws) (auto simp: names_plain names_valid plain_TrimSpace plain_ToLower)

lemma check_names_names:
  "set ws \<subseteq> set BehaviorCoreCollectorNames \<Longrightarrow> distinct ws \<Longrightarrow> set ws \<inter> set seen = {} \<Longrightarrow>
     check_names qt seen ws = Inr ws"
  by (induction ws arbitrary: seen) (auto simp: names_plain names_valid plain_TrimSpace plain_ToLower)

lemma name_not_folded:
  "list_all plain s \<Longrightarrow> s \<noteq> w \<Longrightarrow> list_all plain w \<Longrightarrow> \<not> EqualFold s w"
  by (simp add: EqualFold_def plain_fold_case)

lemma specials_plain: "list_all plain ''all''" "list_all plain CollectorBehaviorCore"
  by (simp_all add: plain_def CollectorBehaviorCore_def)

lemma checked_names_names:
  assumes "good_names ws"
  shows "checkedCollectorNames qt ws = Inr ws"
proof -
  from assms have ws: "ws \<noteq> []" "distinct ws" "set ws \<subseteq> set BehaviorCoreCollectorNames"
    by (auto simp: good_names_def)
  then have hd: "ws ! 0 \<in> set BehaviorCoreCollectorNames" by (cases ws) auto
  then have "TrimSpace (ws ! 0) = ws ! 0" "list_all plain (ws ! 0)" by (simp_all add: names_plain plain_TrimSpace)
  with hd not_a_name specials_plain
  have "\<not> EqualFold (TrimSpace (ws ! 0)) ''all''" "\<not> EqualFold (TrimSpace (ws ! 0)) CollectorBehaviorCore"
    by (metis name_not_folded)+
  then show ?thesis using ws by (simp add: checkedCollectorNames_def check_names_names)
qed

lemma Join_not_special:
  assumes "good_names ws" "CHR '','' \<notin> set s" "s \<notin> set BehaviorCoreCollectorNames"
  shows "Join '','' ws \<noteq> s"
proof
  assume "Join '','' ws = s"
  moreover have "Split CHR '','' (Join '','' ws) = ws"
    by (rule Split_Join) (use assms in \<open>auto simp: good_names_def dest: names_plain\<close>)
  ultimately have "ws = [s]" using assms(2) by (simp add: Split_word)
  with assms show False by (simp add: good_names_def)
qed

lemma Parse_Join:
  assumes "good_names ws"
  shows "ParseCollectorNames qt (Join '','' ws) = Inr ws"
proof -
  let ?s = "Join '','' ws"
  have plain: "list_all plain ?s"
    using assms by (intro Join_plain) (auto simp: good_names_def dest: names_plain)
  have "?s \<noteq> []" "?s \<noteq> ''all''" "?s \<noteq> CollectorBehaviorCore"
    by (rule Join_not_special [OF assms]; simp add: BehaviorCoreCollectorNames_def CollectorBehaviorCore_def)+
  then have "?s \<noteq> [] \<and> \<not> EqualFold ?s ''all'' \<and> \<not> EqualFold ?s CollectorBehaviorCore"
    using name_not_folded [OF plain] specials_plain by auto
  moreover have "Split CHR '','' ?s = ws"
    by (rule Split_Join) (use assms in \<open>auto simp: good_names_def dest: names_plain\<close>)
  moreover have "parse_pieces ws = Inr ws"
    using assms by (intro parse_pieces_names) (simp add: good_names_def)
  ultimately show ?thesis
    by (simp add: ParseCollectorNames_def plain_TrimSpace [OF plain] checked_names_names [OF assms])
qed

text \<open>Parsing a collector list: whenever a text is accepted, the names are distinct, known and at least
  one, and writing them separated by commas parses back to the same list.
\<close>

theorem collector_names_round_trip:
  "case ParseCollectorNames qt raw of
     Inl _ \<Rightarrow> True
   | Inr names \<Rightarrow> names \<noteq> [] \<and> distinct names \<and> set names \<subseteq> set BehaviorCoreCollectorNames \<and>
       ParseCollectorNames qt (Join '','' names) = Inr names"
proof (cases "ParseCollectorNames qt raw")
  case (Inr names)
  then have "good_names names" by (rule Parse_good)
  with Inr Parse_Join [of names] show ?thesis by (simp add: good_names_def)
qed simp

section \<open>The numbers\<close>

lemma power_of_two_int:
  fixes n :: int
  assumes "0 < n" "and n (n - 1) = 0"
  shows "\<exists>k. n = 2 ^ k"
  using assms
proof (induction "nat n" arbitrary: n rule: less_induct)
  case less
  show ?case
  proof (cases "even n")
    case True
    then obtain m where m: "n = 2 * m" by blast
    have half: "(2 * m - 1) div 2 = m - 1" by presburger
    have "and (2 * m) (2 * m - 1) = 2 * and m (m - 1)"
      by (subst and_int_rec) (simp add: half)
    with m less.prems have "and m (m - 1) = 0" by simp
    with less.hyps [of m] m less.prems obtain k where "m = 2 ^ k" by auto
    with m have "n = 2 ^ Suc k" by simp
    then show ?thesis ..
  next
    case False
    then obtain m where m: "n = 2 * m + 1" by (auto elim: oddE)
    have "and (2 * m + 1) (2 * m) = 2 * m"
      by (subst and_int_rec) simp
    with m less.prems have "n = 2 ^ 0" by simp
    then show ?thesis ..
  qed
qed

lemma checked_config:
  assumes "checkedRuntimeConfig pageSize config = Inr checked"
  shows "pageSize \<le> RingBufferSize checked" "\<exists>k<32. RingBufferSize checked = 2 ^ k"
    "0 \<le> FileWriteMinBytes checked" "FileWriteMinBytes checked \<le> maxBPFImmediate"
    "0 \<le> FileWriteIgnorePID checked" "FileWriteIgnorePID checked \<le> maxBPFImmediate"
    "Collectors checked = Collectors config"
proof -
  let ?s = "RingBufferSize checked"
  have s: "0 < ?s" "?s \<le> 2 ^ 32 - 1" "and ?s (?s - 1) = 0"
    using assms by (auto simp: checkedRuntimeConfig_def Let_def DefaultRingBufferSize_def split: if_splits)
  then obtain k where k: "?s = 2 ^ k" using power_of_two_int by blast
  then have "(2::int) ^ k < 2 ^ 32" using s(2) by simp
  then have "k < 32" by (rule power_less_imp_less_exp [rotated]) simp
  with k show "\<exists>k<32. ?s = 2 ^ k" by blast
  show "pageSize \<le> RingBufferSize checked" "0 \<le> FileWriteMinBytes checked"
    "FileWriteMinBytes checked \<le> maxBPFImmediate" "0 \<le> FileWriteIgnorePID checked"
    "FileWriteIgnorePID checked \<le> maxBPFImmediate" "Collectors checked = Collectors config"
    using assms by (auto simp: checkedRuntimeConfig_def Let_def split: if_splits)
qed

definition good_collector :: "int \<Rightarrow> collector \<Rightarrow> bool" where
  "good_collector pageSize c \<longleftrightarrow>
     pageSize \<le> c_ringBufferSize c \<and> (\<exists>k<32. c_ringBufferSize c = 2 ^ k) \<and>
     0 \<le> c_minBytes c \<and> c_minBytes c < 2 ^ 31 \<and> 0 \<le> c_ignorePID c \<and> c_ignorePID c < 2 ^ 31"

lemma new_collector_good:
  assumes "new_collector pageSize hostname config build = Inr c"
    and "\<And>checked host. build checked host = plain_collector name checked host \<or>
      build checked host = (plain_collector name checked host)
        \<lparr>c_minBytes := FileWriteMinBytes checked, c_ignorePID := FileWriteIgnorePID checked\<rparr>"
  shows "c_name c = name \<and> hostname = Inr (c_host c) \<and> good_collector pageSize c"
proof -
  from assms(1) obtain checked host where ok: "checkedRuntimeConfig pageSize config = Inr checked"
    "hostname = Inr host" "c = build checked host"
    by (auto simp: new_collector_def split: sum.splits)
  show ?thesis
    using checked_config [OF ok(1)] assms(2) [of checked host]
    by (auto simp: ok(2,3) plain_collector_def good_collector_def maxBPFImmediate_def)
qed

lemmas constructors = NewExecveCollectorWithConfig_def NewConnectCollectorWithConfig_def
  NewFileWriteCollectorWithConfig_def NewChmodCollectorWithConfig_def NewSensitiveReadCollectorWithConfig_def
  NewFileLifecycleCollectorWithConfig_def NewNetworkServerCollectorWithConfig_def newBehaviorSyscallCollector_def

lemma named_collector_good:
  assumes "named_collector pageSize hostname config name = Some (Inr c)"
  shows "c_name c = name \<and> hostname = Inr (c_host c) \<and> good_collector pageSize c"
proof -
  from assms obtain build where "new_collector pageSize hostname config build = Inr c"
    and "\<And>checked host. build checked host = plain_collector name checked host \<or>
      build checked host = (plain_collector name checked host)
        \<lparr>c_minBytes := FileWriteMinBytes checked, c_ignorePID := FileWriteIgnorePID checked\<rparr>"
    unfolding named_collector_def constructors by (auto split: if_splits)
  then show ?thesis by (rule new_collector_good)
qed

lemma named_collector_known:
  "name \<in> set BehaviorCoreCollectorNames \<Longrightarrow> named_collector pageSize hostname config name \<noteq> None"
  unfolding BehaviorCoreCollectorNames_def list.set insert_iff empty_iff
  by (elim disjE FalseE; simp add: named_collector_def)

lemma new_collectors_good:
  "new_collectors pageSize hostname config names = Inr cs \<Longrightarrow> set names \<subseteq> set BehaviorCoreCollectorNames \<Longrightarrow>
     map c_name cs = names \<and> list_all (good_collector pageSize) cs \<and> list_all (\<lambda>c. hostname = Inr (c_host c)) cs"
proof (induction names arbitrary: cs)
  case (Cons name names)
  from Cons.prems(2) named_collector_known obtain r where
    r: "named_collector pageSize hostname config name = Some r" by fastforce
  with Cons.prems(1) obtain c cs' where c: "r = Inr c" and
    cs': "new_collectors pageSize hostname config names = Inr cs'" "cs = c # cs'"
    by (auto split: sum.splits)
  from named_collector_good [OF r [unfolded c]] Cons.IH [OF cs'(1)] Cons.prems(2) show ?case
    by (simp add: cs'(2))
qed simp

text \<open>C39. Building the collectors of a configuration: on success there is at least one, no collector
  appears twice, all know the same host, the ring buffer of each is a power of two that fits 32 bits
  and holds a page, and the numbers compiled into a program fit the signed 32-bit immediates of the
  machine.
\<close>

theorem runtime_collectors_checked:
  "case NewRuntimeCollectorWithConfig qt pageSize hostname config of
     Inl _ \<Rightarrow> True
   | Inr cs \<Rightarrow> cs \<noteq> [] \<and> distinct (map c_name cs) \<and> set (map c_name cs) \<subseteq> set BehaviorCoreCollectorNames \<and>
       list_all (\<lambda>c. hostname = Inr (c_host c)) cs \<and>
       list_all (\<lambda>c. pageSize \<le> c_ringBufferSize c \<and> (\<exists>k<32. c_ringBufferSize c = 2 ^ k) \<and>
         0 \<le> c_minBytes c \<and> c_minBytes c < 2 ^ 31 \<and> 0 \<le> c_ignorePID c \<and> c_ignorePID c < 2 ^ 31) cs"
proof (cases "NewRuntimeCollectorWithConfig qt pageSize hostname config")
  case (Inr cs)
  then obtain checked names where "checkedCollectorNames qt (Collectors checked) = Inr names"
    and new: "new_collectors pageSize hostname checked names = Inr cs"
    by (auto simp: NewRuntimeCollectorWithConfig_def split: sum.splits)
  then have good: "good_names names" by (intro checked_good)
  from good new_collectors_good [OF new] have cs: "map c_name cs = names" "list_all (good_collector pageSize) cs"
    "list_all (\<lambda>c. hostname = Inr (c_host c)) cs" by (simp_all add: good_names_def)
  from good cs(1) have "cs \<noteq> []" by (auto simp: good_names_def)
  with good cs Inr show ?thesis
    by (simp add: good_names_def good_collector_def [abs_def])
qed simp

end
