(* ===== verification/Collector_Runs.thy ===== *)
theory Collector_Runs
  imports Collector
begin

text \<open>
  The life of a collector: whatever creation fails and however the reading ends, the created kernel
  objects are released in reverse order and the metrics keep the last counts.
\<close>

section \<open>What a plan creates\<close>

fun created :: "(resource \<Rightarrow> go_error + int) \<Rightarrow> plan \<Rightarrow> int list \<Rightarrow> (resource \<times> int) list \<times> go_error option" where
  "created opens [] fds = ([], None)"
| "created opens ((mk, msg) # rest) fds =
     (let r = mk fds in
      case (if infallible r then Inr (- 1) else opens r) of
        Inl err \<Rightarrow> ([], Some (msg @ err))
      | Inr fd \<Rightarrow>
          (case created opens rest (if infallible r then fds else fds @ [fd]) of
             (os, e) \<Rightarrow> ((r, fd) # os, e)))"

definition trace :: "(resource \<times> int) list \<Rightarrow> action list" where
  "trace os = map (\<lambda>(r, fd). Opened r fd) os @ map (\<lambda>(r, fd). Released r fd) (rev os)"

lemma trace_simps [simp]:
  "trace [] = []"
  "trace ((r, fd) # os) = Opened r fd # trace os @ [Released r fd]"
  by (simp_all add: trace_def)

lemma run_plan_created:
  "run_plan opens plan fds nothing body =
     (case created opens plan fds of
        (os, e) \<Rightarrow> ((case e of None \<Rightarrow> body | Some err \<Rightarrow> Returned (Some err) nothing), trace os))"
  by (induction opens plan fds nothing body rule: run_plan.induct)
    (auto simp: Let_def split: sum.splits prod.splits)

lemma created_all:
  "created opens plan fds = (os, None) \<Longrightarrow> (mk, msg) \<in> set plan \<Longrightarrow> (\<And>l. mk l = r) \<Longrightarrow> r \<in> fst ` set os"
  by (induction opens plan fds arbitrary: os rule: created.induct)
    (fastforce simp: Let_def split: sum.splits prod.splits if_splits)+

section \<open>Metrics\<close>

definition final :: "(int \<Rightarrow> 64 word option) \<Rightarrow> action list \<Rightarrow> collectorMetrics \<Rightarrow> collectorMetrics" where
  "final look acts m = fold (act_metrics look) acts m"

definition attached_drops :: "action list \<Rightarrow> int list" where
  "attached_drops acts = concat (map (\<lambda>a. case a of Opened (AttachedDrops fd) _ \<Rightarrow> [fd] | _ \<Rightarrow> []) acts)"

definition attached_correlation_drops :: "action list \<Rightarrow> int list" where
  "attached_correlation_drops acts =
     concat (map (\<lambda>a. case a of Opened (AttachedCorrelationDrops fd) _ \<Rightarrow> [fd] | _ \<Rightarrow> []) acts)"

text \<open>The count kept for the counters attached: what the kernel last said of the last one, if it answered.\<close>

definition last_count :: "(int \<Rightarrow> 64 word option) \<Rightarrow> int list \<Rightarrow> 64 word \<Rightarrow> 64 word" where
  "last_count look fds old = (if fds = [] then old else case look (last fds) of None \<Rightarrow> old | Some n \<Rightarrow> n)"

lemmas metric_defs = attachDropCounter_def detachDropCounter_def attachCorrelationDropCounter_def
  detachCorrelationDropCounter_def refreshLocked_def Let_def

lemma final_trace_Cons:
  "final look (trace ((r, fd) # os)) m = act_metrics look (Released r fd) (final look (trace os) (act_metrics look (Opened r fd) m))"
  by (simp add: final_def)

lemma attached_trace_Cons:
  "attached_drops (trace ((r, fd) # os)) = (case r of AttachedDrops f \<Rightarrow> [f] | _ \<Rightarrow> []) @ attached_drops (trace os)"
  "attached_correlation_drops (trace ((r, fd) # os)) =
     (case r of AttachedCorrelationDrops f \<Rightarrow> [f] | _ \<Rightarrow> []) @ attached_correlation_drops (trace os)"
  by (simp_all add: attached_drops_def attached_correlation_drops_def split: resource.splits)

definition drops_kept :: "(int \<Rightarrow> 64 word option) \<Rightarrow> int list \<Rightarrow> collectorMetrics \<Rightarrow> collectorMetrics \<Rightarrow> bool" where
  "drops_kept look fds m m' \<longleftrightarrow>
     (if fds = [] then dropCounter m' = dropCounter m \<and>
        (ringBufferDropped m' = ringBufferDropped m \<or>
         (\<exists>fd. dropCounter m = Some fd \<and> look fd = Some (ringBufferDropped m')))
      else dropCounter m' = None \<and> ringBufferDropped m' = last_count look fds (ringBufferDropped m))"

lemma drops_trace: "drops_kept look (attached_drops (trace os)) m (final look (trace os) m)"
proof (induction os arbitrary: m)
  case Nil
  show ?case by (simp add: attached_drops_def final_def drops_kept_def)
next
  case (Cons x os)
  obtain r fd where x: "x = (r, fd)" by (cases x)
  from Cons.IH [of "act_metrics look (Opened r fd) m"] show ?case
    unfolding x final_trace_Cons attached_trace_Cons
    by (cases r) (auto simp: drops_kept_def last_count_def metric_defs split: option.splits if_splits)
qed

definition correlation_kept :: "(int \<Rightarrow> 64 word option) \<Rightarrow> int list \<Rightarrow> collectorMetrics \<Rightarrow> collectorMetrics \<Rightarrow> bool" where
  "correlation_kept look fds m m' \<longleftrightarrow>
     (if fds = [] then correlationDropCounter m' = correlationDropCounter m \<and>
        (correlationDropped m' = correlationDropped m \<or>
         (\<exists>fd. correlationDropCounter m = Some fd \<and> look fd = Some (correlationDropped m')))
      else correlationDropCounter m' = None \<and> correlationDropped m' = last_count look fds (correlationDropped m))"

lemma correlation_trace: "correlation_kept look (attached_correlation_drops (trace os)) m (final look (trace os) m)"
proof (induction os arbitrary: m)
  case Nil
  show ?case by (simp add: attached_correlation_drops_def final_def correlation_kept_def)
next
  case (Cons x os)
  obtain r fd where x: "x = (r, fd)" by (cases x)
  from Cons.IH [of "act_metrics look (Opened r fd) m"] show ?case
    unfolding x final_trace_Cons attached_trace_Cons
    by (cases r) (auto simp: correlation_kept_def last_count_def metric_defs split: option.splits if_splits)
qed

section \<open>Every Run\<close>

definition detached :: "64 word \<Rightarrow> 64 word \<Rightarrow> collectorMetrics" where
  "detached dropped correlation =
     \<lparr>dropCounter = None, correlationDropCounter = None, ringBufferDropped = dropped, correlationDropped = correlation\<rparr>"

definition released_in_reverse :: "action list \<Rightarrow> bool" where
  "released_in_reverse acts \<longleftrightarrow>
     (\<exists>os. acts = map (\<lambda>(r, fd). Opened r fd) os @ map (\<lambda>(r, fd). Released r fd) (rev os))"

definition clean_run ::
  "(int \<Rightarrow> 64 word option) \<Rightarrow> 64 word \<Rightarrow> 64 word \<Rightarrow> collector_state \<Rightarrow>
     (event list \<times> collector_state) run_result \<times> action list \<Rightarrow> bool" where
  "clean_run look dropped correlation S run_end \<longleftrightarrow>
     (case run_end of (res, acts) \<Rightarrow>
        released_in_reverse acts \<and>
        final look acts (detached dropped correlation) =
          detached (last_count look (attached_drops acts) dropped)
            (last_count look (attached_correlation_drops acts) correlation) \<and>
        (CancelWatch \<in> {r. \<exists>fd. Opened r fd \<in> set acts} \<or> (\<exists>err. res = Returned (Some err) ([], S))))"

lemma metrics_equality:
  "drops_kept look fds (detached d k) m \<Longrightarrow> correlation_kept look cfds (detached d k) m \<Longrightarrow>
     m = detached (last_count look fds d) (last_count look cfds k)"
  by (cases m) (auto simp: drops_kept_def correlation_kept_def detached_def last_count_def split: if_splits)

lemma clean_run_collector:
  assumes "(\<lambda>_. CancelWatch, []) \<in> set plan"
  shows "clean_run look dropped correlation S (run_collector what plan handle sink_nil opens readings S)"
proof (cases sink_nil)
  case True
  then show ?thesis
    by (simp add: run_collector_def clean_run_def released_in_reverse_def final_def attached_drops_def
        attached_correlation_drops_def last_count_def)
next
  case False
  obtain os e where os: "created opens plan [] = (os, e)" by (cases "created opens plan []")
  let ?res = "case e of None \<Rightarrow> read_loop what handle readings S [] | Some err \<Rightarrow> Returned (Some err) ([], S)"
  have run: "run_collector what plan handle sink_nil opens readings S = (?res, trace os)"
    using False by (simp add: run_collector_def run_plan_created os)
  have "CancelWatch \<in> {r. \<exists>fd. Opened r fd \<in> set (trace os)} \<or> (\<exists>err. ?res = Returned (Some err) ([], S))"
  proof (cases e)
    case None
    with created_all [OF _ assms, of opens "[]" os CancelWatch] os
    obtain fd where "(CancelWatch, fd) \<in> set os" by auto
    then have "Opened CancelWatch fd \<in> set (trace os)" by (force simp: trace_def)
    then show ?thesis by auto
  qed simp
  moreover have "released_in_reverse (trace os)" by (auto simp: released_in_reverse_def trace_def)
  ultimately show ?thesis
    unfolding run clean_run_def
    by (simp add: metrics_equality [OF drops_trace correlation_trace])
qed

lemma plans_watch: "(\<lambda>_. CancelWatch, []) \<in> set (execve_plan A ringSize)"
  "(\<lambda>_. CancelWatch, []) \<in> set (syscall_plan what rb pend drops cd ringSize valueSize enterSpec exitSpec)"
  by (simp_all add: execve_plan_def syscall_plan_def)


end
