(* ===== verification/Bpf_Laws.thy ===== *)
theory Bpf_Laws
  imports Bpf_Programs
begin

unbundle bit_operations_syntax

text \<open>
  Symbolic execution of the generated programs: reading what was written on the stack, machine
  states in a normal form that every instruction keeps, and one lemma for each shared piece.
\<close>

named_theorems bpf_simps \<open>evaluation of instructions on states in normal form\<close>

declare mem_read.simps [simp del]

section \<open>The stack\<close>

lemma mem_read_alt:
  "mem_read m a n = (if \<forall>i < n. m (a + int i) \<noteq> None then Some (map (\<lambda>i. the (m (a + int i))) [0..<n]) else None)"
proof (induction n arbitrary: a)
  case (Suc n)
  have all: "(\<forall>i < Suc n. m (a + int i) \<noteq> None) \<longleftrightarrow> m a \<noteq> None \<and> (\<forall>i < n. m (a + 1 + int i) \<noteq> None)"
    by (simp add: All_less_Suc2 add.assoc)
  have "map (\<lambda>i. the (m (a + int i))) [0..<Suc n] = the (m a) # map (\<lambda>i. the (m (a + 1 + int i))) [0..<n]"
    by (subst map_upt_Suc) (simp add: algebra_simps)
  with all show ?case
    by (auto simp: mem_read.simps Suc split: option.splits)
qed (simp add: mem_read.simps)

lemma mem_read_length: "mem_read m a n = Some bs \<Longrightarrow> length bs = n"
  by (auto simp: mem_read_alt split: if_splits)

lemma mem_read_inside:
  assumes "a \<le> b" "b + int n \<le> a + int (length bs)"
  shows "mem_read (mem_write m a bs) b n = Some (take n (drop (nat (b - a)) bs))"
proof -
  have "mem_write m a bs (b + int i) = Some (bs ! (nat (b - a) + i))" if "i < n" for i
  proof -
    have "nat (b + int i - a) = nat (b - a) + i" using assms(1) by simp
    then show ?thesis using assms that by (auto simp: mem_write_def)
  qed
  moreover have "nat (b - a) + n \<le> length bs" using assms by simp
  ultimately show ?thesis by (auto simp: mem_read_alt intro!: nth_equalityI)
qed

lemma mem_read_outside:
  "b + int n \<le> a \<or> a + int (length bs) \<le> b \<Longrightarrow> mem_read (mem_write m a bs) b n = mem_read m b n"
proof -
  assume dis: "b + int n \<le> a \<or> a + int (length bs) \<le> b"
  have "mem_write m a bs (b + int i) = m (b + int i)" if "i < n" for i
    using dis that by (auto simp: mem_write_def)
  then show ?thesis by (simp add: mem_read_alt cong: if_cong map_cong)
qed

lemma mem_write_append:
  "mem_write (mem_write m a xs) (a + int (length xs)) ys = mem_write m a (xs @ ys)"
proof
  fix i
  have "nat (i - (a + int (length xs))) = nat (i - a) - length xs" by simp
  then show "mem_write (mem_write m a xs) (a + int (length xs)) ys i = mem_write m a (xs @ ys) i"
    by (auto simp: mem_write_def nth_append)
qed

lemma mem_write_cover:
  "length xs \<le> length ys \<Longrightarrow> mem_write (mem_write m a xs) a ys = mem_write m a ys"
  by (rule ext) (auto simp: mem_write_def)

lemma mem_write_pad:
  assumes "mem_read m a n = Some zs" "length xs \<le> n"
  shows "mem_write m a xs = mem_write m a (xs @ drop (length xs) zs)"
proof
  fix i
  from assms(1) have zs: "\<And>i. i < n \<Longrightarrow> m (a + int i) \<noteq> None" "zs = map (\<lambda>i. the (m (a + int i))) [0..<n]"
    by (auto simp: mem_read_alt split: if_splits)
  have inside: "Some (zs ! nat (i - a)) = m i" if "a \<le> i" "i < a + int n"
  proof -
    have n: "nat (i - a) < n" "a + int (nat (i - a)) = i" using that by auto
    show ?thesis using zs(1) [OF n(1)] n by (simp add: zs(2))
  qed
  have len: "length zs = n" by (simp add: zs(2))
  consider "a \<le> i \<and> i < a + int (length xs)" | "a + int (length xs) \<le> i \<and> i < a + int n"
    | "i < a \<or> a + int n \<le> i"
    using assms(2) by linarith
  then show "mem_write m a xs i = mem_write m a (xs @ drop (length xs) zs) i"
  proof cases
    case 1
    then have "nat (i - a) < length xs" by linarith
    then show ?thesis using 1 assms(2) by (simp add: mem_write_def nth_append)
  next
    case 2
    then have n: "\<not> nat (i - a) < length xs" "length xs + (nat (i - a) - length xs) = nat (i - a)" by linarith+
    then have "(xs @ drop (length xs) zs) ! nat (i - a) = zs ! nat (i - a)"
      using len assms(2) by (simp add: nth_append)
    moreover have "Some (zs ! nat (i - a)) = m i" using inside 2 by simp
    ultimately show ?thesis using 2 len assms(2) by (simp add: mem_write_def)
  next
    case 3
    have "length (xs @ drop (length xs) zs) = n" using len assms(2) by simp
    then have c: "\<not> (a \<le> i \<and> i < a + int (length (xs @ drop (length xs) zs)))" "\<not> (a \<le> i \<and> i < a + int (length xs))"
      using 3 assms(2) by linarith+
    then show ?thesis by (simp only: mem_write_def if_not_P [OF c(1)] if_not_P [OF c(2)] if_False)
  qed
qed

lemma fit_take: "fit n (take n s) = fit n s"
  by (cases "length s \<le> n") (simp_all add: fit_def)

lemma mem_write_str:
  assumes "mem_read m a n = Some (replicate n 0)"
  shows "mem_write m a (take n s) = mem_write m a (fit n s)"
proof -
  have "n - length (take n s) = n - length s" by simp
  then have "take n s @ drop (length (take n s)) (replicate n 0) = fit n s"
    by (simp only: fit_def drop_replicate)
  with mem_write_pad [OF assms, of "take n s"] show ?thesis by simp
qed

lemma mem_read_over_zeros:
  assumes "mem_read m a n = Some zs" "length xs \<le> n"
  shows "mem_read (mem_write m a xs) a n = Some (xs @ drop (length xs) zs)"
proof -
  have "length (xs @ drop (length xs) zs) = n"
    using mem_read_length [OF assms(1)] assms(2) by simp
  then show ?thesis
    using mem_read_inside [of a a n "xs @ drop (length xs) zs" m] mem_write_pad [OF assms] by simp
qed

text \<open>A field of what was read is what a read of the field gives.\<close>

lemma field_at_read:
  assumes "mem_read m a N = Some bs" "k + n \<le> N"
  shows "mem_read m (a + int k) n = Some (field_at bs k n)"
proof -
  from assms(1) have bs: "\<forall>i < N. m (a + int i) \<noteq> None" "bs = map (\<lambda>i. the (m (a + int i))) [0..<N]"
    by (auto simp: mem_read_alt split: if_splits)
  have "\<forall>i < n. m (a + int k + int i) \<noteq> None"
  proof (intro allI impI)
    fix i assume "i < n"
    then show "m (a + int k + int i) \<noteq> None"
      using bs(1) [rule_format, of "k + i"] assms(2) by (simp add: algebra_simps)
  qed
  then show ?thesis
    using assms(2) unfolding mem_read_alt bs(2) field_at_def
    by (auto intro!: nth_equalityI simp: algebra_simps)
qed

text \<open>Reading an initialised range succeeds, and writes keep it initialised.\<close>

definition ready :: "(int \<Rightarrow> 8 word option) \<Rightarrow> int \<Rightarrow> nat \<Rightarrow> bool" where
  "ready m a n \<longleftrightarrow> mem_read m a n \<noteq> None"

lemma ready_write_zeros: "length bs = n \<Longrightarrow> ready (mem_write m a bs) a n"
  by (simp add: ready_def mem_read_inside)

lemma ready_write: "ready m a n \<Longrightarrow> ready (mem_write m b bs) a n"
  by (auto simp: ready_def mem_read_alt mem_write_def split: if_splits)

lemma ready_read: "ready m a n \<Longrightarrow> \<exists>bs. mem_read m a n = Some bs \<and> length bs = n"
  using mem_read_length by (auto simp: ready_def)

lemma nth_to_le: "k < n \<Longrightarrow> to_le n x ! k = ucast (drop_bit (8 * k) x)"
proof (induction n arbitrary: x k)
  case (Suc n)
  then show ?case by (cases k) (simp_all add: add.commute)
qed simp

lemma bit_from_le: "i < 64 \<Longrightarrow> bit (from_le bs) i \<longleftrightarrow> i div 8 < length bs \<and> bit (bs ! (i div 8)) (i mod 8)"
proof (induction bs arbitrary: i)
  case (Cons b bs)
  have "(ucast b :: 64 word) AND push_bit 8 (from_le bs) = 0"
    by (rule bit_eqI) (auto simp: bit_and_iff bit_simps dest: bit_imp_le_length)
  then have eq: "from_le (b # bs) = ucast b OR push_bit 8 (from_le bs)"
    by (simp add: disjunctive_add_eq_or)
  show ?case
  proof (cases "i < 8")
    case True
    then show ?thesis using Cons.prems unfolding eq by (simp add: bit_simps)
  next
    case False
    then have "i div 8 = Suc ((i - 8) div 8)" "i mod 8 = (i - 8) mod 8"
      by (simp_all add: le_div_geq le_mod_geq)
    moreover have "\<not> bit b i" using False bit_imp_le_length [of b i] by auto
    ultimately show ?thesis
      using Cons.prems Cons.IH [of "i - 8"] False unfolding eq by (simp add: bit_simps)
  qed
qed simp

lemma to_le_from_le:
  assumes "length bs = n" "n \<le> 8"
  shows "to_le n (from_le bs) = bs"
proof (rule nth_equalityI)
  fix k assume "k < length (to_le n (from_le bs))"
  then have k: "k < n" by simp
  show "to_le n (from_le bs) ! k = bs ! k"
  proof (rule bit_eqI)
    fix i assume "possible_bit TYPE(8 word) i"
    then have i: "i < 8" by simp
    have "bit (from_le bs) (8 * k + i) = bit (bs ! k) i"
      using bit_from_le [of "8 * k + i" bs] k i assms by simp
    then show "bit (to_le n (from_le bs) ! k) i = bit (bs ! k) i"
      using k i by (simp add: nth_to_le bit_simps)
  qed
qed (simp add: assms)

section \<open>States in normal form\<close>

definition mk :: "val \<Rightarrow> val \<Rightarrow> val \<Rightarrow> val \<Rightarrow> val \<Rightarrow> val \<Rightarrow> val \<Rightarrow> val \<Rightarrow> val \<Rightarrow>
    (int \<Rightarrow> 8 word option) \<Rightarrow> (int \<Rightarrow> bpf_map option) \<Rightarrow> machine" where
  "mk r0 r1 r2 r3 r4 r5 r6 r7 r8 stk M =
     \<lparr>m_regs = (\<lambda>r. case r of R0 \<Rightarrow> r0 | R1 \<Rightarrow> r1 | R2 \<Rightarrow> r2 | R3 \<Rightarrow> r3 | R4 \<Rightarrow> r4 | R5 \<Rightarrow> r5 | R6 \<Rightarrow> r6
        | R7 \<Rightarrow> r7 | R8 \<Rightarrow> r8 | R9 \<Rightarrow> Uninit | RFP \<Rightarrow> Stack 0),
      m_stack = stk, m_maps = M\<rparr>"

lemma mk_regs [bpf_simps]:
  "m_regs (mk r0 r1 r2 r3 r4 r5 r6 r7 r8 stk M) R0 = r0"
  "m_regs (mk r0 r1 r2 r3 r4 r5 r6 r7 r8 stk M) R1 = r1"
  "m_regs (mk r0 r1 r2 r3 r4 r5 r6 r7 r8 stk M) R2 = r2"
  "m_regs (mk r0 r1 r2 r3 r4 r5 r6 r7 r8 stk M) R3 = r3"
  "m_regs (mk r0 r1 r2 r3 r4 r5 r6 r7 r8 stk M) R4 = r4"
  "m_regs (mk r0 r1 r2 r3 r4 r5 r6 r7 r8 stk M) R5 = r5"
  "m_regs (mk r0 r1 r2 r3 r4 r5 r6 r7 r8 stk M) R6 = r6"
  "m_regs (mk r0 r1 r2 r3 r4 r5 r6 r7 r8 stk M) R7 = r7"
  "m_regs (mk r0 r1 r2 r3 r4 r5 r6 r7 r8 stk M) R8 = r8"
  "m_regs (mk r0 r1 r2 r3 r4 r5 r6 r7 r8 stk M) RFP = Stack 0"
  "m_stack (mk r0 r1 r2 r3 r4 r5 r6 r7 r8 stk M) = stk"
  "m_maps (mk r0 r1 r2 r3 r4 r5 r6 r7 r8 stk M) = M"
  by (simp_all add: mk_def)

lemma mk_update [bpf_simps]:
  "set_reg R0 v (mk r0 r1 r2 r3 r4 r5 r6 r7 r8 stk M) = mk v r1 r2 r3 r4 r5 r6 r7 r8 stk M"
  "set_reg R1 v (mk r0 r1 r2 r3 r4 r5 r6 r7 r8 stk M) = mk r0 v r2 r3 r4 r5 r6 r7 r8 stk M"
  "set_reg R2 v (mk r0 r1 r2 r3 r4 r5 r6 r7 r8 stk M) = mk r0 r1 v r3 r4 r5 r6 r7 r8 stk M"
  "set_reg R3 v (mk r0 r1 r2 r3 r4 r5 r6 r7 r8 stk M) = mk r0 r1 r2 v r4 r5 r6 r7 r8 stk M"
  "set_reg R4 v (mk r0 r1 r2 r3 r4 r5 r6 r7 r8 stk M) = mk r0 r1 r2 r3 v r5 r6 r7 r8 stk M"
  "set_reg R5 v (mk r0 r1 r2 r3 r4 r5 r6 r7 r8 stk M) = mk r0 r1 r2 r3 r4 v r6 r7 r8 stk M"
  "set_reg R6 v (mk r0 r1 r2 r3 r4 r5 r6 r7 r8 stk M) = mk r0 r1 r2 r3 r4 r5 v r7 r8 stk M"
  "set_reg R7 v (mk r0 r1 r2 r3 r4 r5 r6 r7 r8 stk M) = mk r0 r1 r2 r3 r4 r5 r6 v r8 stk M"
  "set_reg R8 v (mk r0 r1 r2 r3 r4 r5 r6 r7 r8 stk M) = mk r0 r1 r2 r3 r4 r5 r6 r7 v stk M"
  "(mk r0 r1 r2 r3 r4 r5 r6 r7 r8 stk M)\<lparr>m_stack := stk'\<rparr> = mk r0 r1 r2 r3 r4 r5 r6 r7 r8 stk' M"
  "(mk r0 r1 r2 r3 r4 r5 r6 r7 r8 stk M)\<lparr>m_maps := M'\<rparr> = mk r0 r1 r2 r3 r4 r5 r6 r7 r8 stk M'"
  "call_return v (mk r0 r1 r2 r3 r4 r5 r6 r7 r8 stk M) = mk v Uninit Uninit Uninit Uninit Uninit r6 r7 r8 stk M"
  by (auto simp: mk_def set_reg_def call_return_def fun_eq_iff split: reg.splits)

lemma start_mk: "start M = mk Uninit Ctx Uninit Uninit Uninit Uninit Uninit Uninit Uninit (\<lambda>_. None) M"
  by (auto simp: mk_def start_def fun_eq_iff split: reg.splits)

lemma exec_plain:
  "\<not> is_jump i \<Longrightarrow> i \<noteq> Return \<Longrightarrow>
   bpf_exec E ((l, i) # rest) s = (case bpf_step E i s of None \<Rightarrow> None | Some s' \<Rightarrow> bpf_exec E rest s')"
  by (simp split: option.splits)

lemma exec_jump [bpf_simps]:
  "is_jump i \<Longrightarrow> bpf_exec E ((l, i) # rest) s =
     (case jump_test i s of
        None \<Rightarrow> None
      | Some (taken, l') \<Rightarrow> bpf_exec E (if taken then at_label l' rest else rest) s)"
  by (auto split: option.splits elim: is_jump.elims)

lemma exec_return [bpf_simps]:
  "bpf_exec E ((l, Return) # rest) s = (case m_regs s R0 of Num _ \<Rightarrow> Some (m_maps s) | _ \<Rightarrow> None)"
  by simp

declare bpf_exec.simps(2) [simp del]

lemma at_label_plain [bpf_simps]: "at_label l (plain is @ rest) = at_label l rest"
  by (induction "is") auto

lemma at_label_blocks [bpf_simps]:
  "at_label l (readRegisterArgument c ro f t d w @ rest) = at_label l rest"
  "at_label l (readPathArgumentSized c ro f t d n @ rest) = at_label l rest"
  "at_label l (readPathArgument c ro f t d @ rest) = at_label l rest"
  "at_label l (storePendingSyscall fd k r @ rest) = at_label l rest"
  "at_label l (countCorrelationDrop fd k @ rest) = at_label l rest"
  "at_label l (countRingBufferDrop fd k @ rest) = at_label l rest"
  "at_label l (zero_record r n @ rest) = at_label l rest"
  "at_label l (copy_record r n @ rest) = at_label l rest"
  unfolding readRegisterArgument_def readPathArgument_def readPathArgumentSized_def
    storePendingSyscall_def countCorrelationDrop_def countRingBufferDrop_def zero_record_def copy_record_def
  by (rule at_label_plain)+

lemmas [bpf_simps] = load_value_def store_value_def fill_def call_probe_def call_lookup_def call_update_def
  call_delete_def call_output_def access_ok_def in_stack_def imm_word_def mem_read_inside mem_read_outside

section \<open>Arguments of the system call\<close>

text \<open>The register at an offset of the saved registers, and the string a register points to.\<close>

definition register_bytes :: "env \<Rightarrow> int \<Rightarrow> bytes" where
  "register_bytes E off = fit 8 (e_kernel E (e_pt_regs E + word_of_int off) 8)"

definition syscall_arg :: "env \<Rightarrow> int \<Rightarrow> 64 word" where
  "syscall_arg E off = from_le (register_bytes E off)"

definition syscall_path :: "env \<Rightarrow> int \<Rightarrow> nat \<Rightarrow> bytes" where
  "syscall_path E off n = fit n (e_user_str E (syscall_arg E off) n)"

lemma length_register_bytes [simp]: "length (register_bytes E off) = 8"
  by (simp add: register_bytes_def)

lemma length_syscall_path [simp]: "length (syscall_path E off n) = n"
  by (simp add: syscall_path_def)

section \<open>The shared pieces\<close>

lemma zero_record_Suc: "zero_record r (Suc n) = zero_record r n @ plain [StoreMem RFP (r + 8 * int n) R0 DWord]"
  by (simp add: zero_record_def)

lemma to_le_0: "to_le n 0 = replicate n 0"
  by (induction n) auto

lemma exec_zero_record [bpf_simps]:
  "- 512 \<le> r \<Longrightarrow> r mod 8 = 0 \<Longrightarrow> r + 8 * int n \<le> 0 \<Longrightarrow>
   bpf_exec E (zero_record r n @ rest) (mk (Num 0) r1 r2 r3 r4 r5 r6 r7 r8 stk M) =
   bpf_exec E rest (mk (Num 0) r1 r2 r3 r4 r5 r6 r7 r8 (mem_write stk r (replicate (8 * n) 0)) M)"
proof (induction n arbitrary: rest)
  case 0
  have "mem_write stk r [] = stk" by (rule ext) (auto simp: mem_write_def)
  then show ?case by (simp add: zero_record_def)
next
  case (Suc n)
  have w: "mem_write (mem_write stk r (replicate (8 * n) 0)) (r + 8 * int n) (to_le 8 0) =
      mem_write stk r (replicate (8 * Suc n) 0)"
    using mem_write_append [of stk r "replicate (8 * n) 0" "to_le 8 0"]
    by (simp add: to_le_0 replicate_add [symmetric] add.commute)
  have "(r + 8 * int n) mod 8 = 0" using Suc.prems(2) by simp
  then show ?case
    using Suc by (simp add: zero_record_Suc exec_plain bpf_simps w)
qed

lemma exec_readRegister [bpf_simps]:
  "access_ok t 8 \<Longrightarrow> access_ok d (msize_bytes w) \<Longrightarrow>
   bpf_exec E (readRegisterArgument R6 off RFP t d w @ rest) (mk r0 r1 r2 r3 r4 r5 Ctx r7 r8 stk M) =
   bpf_exec E rest (mk (Num 0) Uninit Uninit Uninit Uninit Uninit Ctx (Num (syscall_arg E off)) r8 
     (mem_write (mem_write stk t (register_bytes E off)) d (to_le (msize_bytes w) (syscall_arg E off))) M)"
  unfolding readRegisterArgument_def
  by (simp add: exec_plain bpf_simps syscall_arg_def register_bytes_def)

lemma exec_readPath [bpf_simps]:
  "access_ok t 8 \<Longrightarrow> in_stack d n \<Longrightarrow> mem_read (mem_write stk t (register_bytes E off)) d n = Some (replicate n 0) \<Longrightarrow>
   bpf_exec E (readPathArgumentSized R6 off RFP t d n @ rest) (mk r0 r1 r2 r3 r4 r5 Ctx r7 r8 stk M) =
   bpf_exec E rest (mk (Num (of_nat (min (length (e_user_str E (syscall_arg E off) n)) n))) Uninit Uninit Uninit Uninit Uninit Ctx r7 r8 
     (mem_write (mem_write stk t (register_bytes E off)) d (syscall_path E off n)) M)"
proof -
  assume a: "access_ok t 8" "in_stack d n" "mem_read (mem_write stk t (register_bytes E off)) d n = Some (replicate n 0)"
  have n: "unat (word_of_nat n :: 64 word) = n"
    using a(2) by (simp add: unat_of_nat take_bit_nat_eq_self in_stack_def)
  show ?thesis
    using a unfolding readPathArgumentSized_def
    by (simp add: exec_plain bpf_simps n syscall_arg_def register_bytes_def syscall_path_def mem_write_str)
qed

text \<open>The counter of a map goes up by one, wrapping at the width of the word.\<close>

definition bump :: "int \<Rightarrow> (int \<Rightarrow> bpf_map option) \<Rightarrow> int \<Rightarrow> bpf_map option" where
  "bump fd M = (case M fd of Some (CounterArray c) \<Rightarrow> M(fd \<mapsto> CounterArray (c + 1)) | _ \<Rightarrow> M)"

abbreviation exit_code :: instructions where
  "exit_code \<equiv> [WithSymbol (MovImm R0 0) ''exit'', (None, Return)]"

lemma exec_exit: "bpf_exec E exit_code (mk r0 r1 r2 r3 r4 r5 r6 r7 r8 stk M) = Some M"
  by (simp add: exec_plain bpf_simps)

text \<open>What follows a map update or an output: nothing after a success, else the counter.\<close>

lemma exec_count:
  assumes "access_ok t 4" "M fd = Some (CounterArray c)"
  shows "bpf_exec E (countRingBufferDrop fd t @ exit_code) (mk (Num err) r1 r2 r3 r4 r5 r6 r7 r8 stk M) =
    Some (if err = 0 then M else bump fd M)"
proof -
  have zero: "from_le (to_le 4 0) = 0" by (simp add: from_le_to_le)
  show ?thesis
    using assms unfolding countRingBufferDrop_def
    by (simp add: exec_plain bpf_simps exec_exit zero bump_def)
qed

lemma exec_storePending [bpf_simps]:
  assumes "mem_read stk k 8 = Some kb" "mem_read stk r n = Some bs" "M fd = Some (HashMap n m)"
    "access_ok t 4" "M cfd = Some (CounterArray c)" "cfd \<noteq> fd"
  shows "bpf_exec E (storePendingSyscall fd k r @ countCorrelationDrop cfd t @ exit_code) (mk r0 r1 r2 r3 r4 r5 r6 r7 r8 stk M) =
    Some (if e_update_err E = 0 then M(fd \<mapsto> HashMap n (m(from_le kb \<mapsto> bs))) else bump cfd M)"
proof -
  have store: "bpf_exec E (storePendingSyscall fd k r @ rest) (mk r0 r1 r2 r3 r4 r5 r6 r7 r8 stk M) =
      bpf_exec E rest (if e_update_err E = 0
        then mk (Num 0) Uninit Uninit Uninit Uninit Uninit r6 r7 r8 stk (M(fd \<mapsto> HashMap n (m(from_le kb \<mapsto> bs))))
        else mk (Num (e_update_err E)) Uninit Uninit Uninit Uninit Uninit r6 r7 r8 stk M)" for rest
    using assms(1,2,3) unfolding storePendingSyscall_def by (simp add: exec_plain bpf_simps)
  show ?thesis
    using assms(4,5,6) unfolding store countCorrelationDrop_def
    by (cases "e_update_err E = 0") (simp_all add: exec_count [where c = c])
qed

lemma exec_output [bpf_simps]:
  assumes "mem_read stk r n = Some bs" "n < 2 ^ 31" "M fd = Some (RingBuf out)"
    "access_ok t 4" "M cfd = Some (CounterArray c)" "cfd \<noteq> fd"
  shows "bpf_exec E ((None, LoadMapPtr R1 fd) # (None, MovReg R2 RFP) # (None, AddImm R2 r) #
       (None, MovImm R3 (int n)) # (None, MovImm R4 0) # (None, Call FnRingbufOutput) #
       countRingBufferDrop cfd t @ exit_code) (mk r0 r1 r2 r3 r4 r5 r6 r7 r8 stk M) =
    Some (if e_output_err E = 0 then M(fd \<mapsto> RingBuf (out @ [bs])) else bump cfd M)"
proof -
  have n: "unat (word_of_nat n :: 64 word) = n"
    using assms(2) by (simp add: unat_of_nat take_bit_nat_eq_self)
  show ?thesis
    using assms by (cases "e_output_err E = 0") (simp_all add: exec_plain bpf_simps n exec_count [where c = c])
qed

lemma copy_record_Suc: "copy_record r (Suc n) = copy_record r n @
    plain [LoadMem R7 R0 (8 * int n) DWord, StoreMem RFP (r + 8 * int n) R7 DWord]"
  by (simp add: copy_record_def)

text \<open>The copy of a map value onto the stack; what \<open>R7\<close> holds after it does not matter.\<close>

lemma exec_copy_record:
  "- 512 \<le> r \<Longrightarrow> r mod 8 = 0 \<Longrightarrow> r + 8 * int n \<le> 0 \<Longrightarrow> 8 * n \<le> length bs \<Longrightarrow>
   M fd = Some (HashMap vs m) \<Longrightarrow> m k = Some bs \<Longrightarrow>
   \<exists>v. \<forall>rest. bpf_exec E (copy_record r n @ rest) (mk (HashValue fd k) r1 r2 r3 r4 r5 r6 r7 r8 stk M) =
     bpf_exec E rest (mk (HashValue fd k) r1 r2 r3 r4 r5 r6 v r8 (mem_write stk r (take (8 * n) bs)) M)"
proof (induction n)
  case 0
  have "mem_write stk r [] = stk" by (rule ext) (auto simp: mem_write_def)
  then show ?case by (auto simp: copy_record_def)
next
  case (Suc n)
  let ?c = "take 8 (drop (8 * n) bs)"
  have len: "length ?c = 8" using Suc.prems(4) by simp
  have "take (8 * n) bs @ ?c = take (8 * Suc n) bs"
    using take_add [of "8 * n" 8 bs] by (simp add: add.commute)
  moreover have "length (take (8 * n) bs) = 8 * n" using Suc.prems(4) by simp
  ultimately have w: "mem_write (mem_write stk r (take (8 * n) bs)) (r + 8 * int n) ?c =
      mem_write stk r (take (8 * Suc n) bs)"
    using mem_write_append [of stk r "take (8 * n) bs" ?c] by simp
  have al: "(r + 8 * int n) mod 8 = 0" "nat (8 * int n) = 8 * n" using Suc.prems(2) by simp_all
  obtain v where v: "\<And>rest. bpf_exec E (copy_record r n @ rest) (mk (HashValue fd k) r1 r2 r3 r4 r5 r6 r7 r8 stk M) =
      bpf_exec E rest (mk (HashValue fd k) r1 r2 r3 r4 r5 r6 v r8 (mem_write stk r (take (8 * n) bs)) M)"
    using Suc by auto
  have "to_le 8 (from_le ?c) = ?c" using len by (rule to_le_from_le) simp
  then have "bpf_exec E (copy_record r (Suc n) @ rest) (mk (HashValue fd k) r1 r2 r3 r4 r5 r6 r7 r8 stk M) =
      bpf_exec E rest (mk (HashValue fd k) r1 r2 r3 r4 r5 r6 (Num (from_le ?c)) r8 (mem_write stk r (take (8 * Suc n) bs)) M)"
    for rest
    using Suc.prems al w by (simp add: copy_record_Suc v exec_plain bpf_simps)
  then show ?case by blast
qed

section \<open>The programs on sys_exit\<close>

lemma mem_write_splice:
  assumes "k + length ys \<le> length xs"
  shows "mem_write (mem_write m a xs) (a + int k) ys = mem_write m a (take k xs @ ys @ drop (k + length ys) xs)"
proof -
  have "mem_read (mem_write m a xs) (a + int k) (length xs - k) = Some (drop k xs)"
    using assms mem_read_inside [of a "a + int k" "length xs - k" xs m] by simp
  from mem_write_pad [OF this, of ys] assms
  have "mem_write (mem_write m a xs) (a + int k) ys =
      mem_write (mem_write m a xs) (a + int k) (ys @ drop (k + length ys) xs)"
    by (simp add: add.commute)
  also have "\<dots> = mem_write (mem_write m a (take k xs)) (a + int k) (ys @ drop (k + length ys) xs)"
  proof -
    have "mem_write m a xs = mem_write (mem_write m a (take k xs)) (a + int k) (drop k xs)"
      using assms mem_write_append [of m a "take k xs" "drop k xs"] by simp
    moreover have "mem_write (mem_write (mem_write m a (take k xs)) (a + int k) (drop k xs)) (a + int k)
        (ys @ drop (k + length ys) xs) =
        mem_write (mem_write m a (take k xs)) (a + int k) (ys @ drop (k + length ys) xs)"
      using assms by (intro mem_write_cover) simp
    ultimately show ?thesis by simp
  qed
  also have "\<dots> = mem_write m a (take k xs @ ys @ drop (k + length ys) xs)"
    using assms mem_write_append [of m a "take k xs" "ys @ drop (k + length ys) xs"] by simp
  finally show ?thesis .
qed

text \<open>What the exit programs make of a pending record.\<close>

definition completed :: "env \<Rightarrow> bytes \<Rightarrow> bytes" where
  "completed E bs = take 8 bs @ to_le 8 (e_ktime E) @ to_le 8 (e_id E) @ drop 24 bs"

lemma completed_stack:
  assumes "length bs = n" "24 \<le> n"
  shows "mem_read (mem_write (mem_write (mem_write m a bs) (a + 16) (to_le 8 (e_id E))) (a + 8) (to_le 8 (e_ktime E))) a n =
    Some (completed E bs)"
proof -
  have 1: "mem_write (mem_write m a bs) (a + 16) (to_le 8 (e_id E)) =
      mem_write m a (take 16 bs @ to_le 8 (e_id E) @ drop 24 bs)" (is "_ = mem_write m a ?x")
    using assms mem_write_splice [of 16 "to_le 8 (e_id E)" bs m a] by simp
  have "mem_write (mem_write m a ?x) (a + 8) (to_le 8 (e_ktime E)) =
      mem_write m a (take 8 ?x @ to_le 8 (e_ktime E) @ drop 16 ?x)"
    using assms mem_write_splice [of 8 "to_le 8 (e_ktime E)" ?x m a] by simp
  also have "take 8 ?x @ to_le 8 (e_ktime E) @ drop 16 ?x = completed E bs"
    using assms by (simp add: completed_def min_def)
  finally show ?thesis
    using assms mem_read_inside [of a a n "completed E bs" m] unfolding 1 by (simp add: completed_def)
qed

definition collector_maps :: "int \<Rightarrow> int \<Rightarrow> int \<Rightarrow> nat \<Rightarrow> bytes list \<Rightarrow> (64 word \<Rightarrow> bytes option) \<Rightarrow> (int \<Rightarrow> bpf_map option) \<Rightarrow> bool" where
  "collector_maps rfd dfd pfd n out m M \<longleftrightarrow>
     M rfd = Some (RingBuf out) \<and> (\<exists>c. M dfd = Some (CounterArray c)) \<and> M pfd = Some (HashMap n m) \<and>
     (\<forall>k bs. m k = Some bs \<longrightarrow> length bs = n)"

definition exit_filter :: "int \<Rightarrow> instructions" where
  "exit_filter minBytes = (if minBytes > 0 then plain [JSLTImm R8 minBytes ''exit''] else [])"

lemma at_label_filter: "at_label ''exit'' (exit_filter minBytes @ rest) = at_label ''exit'' rest"
  by (simp add: exit_filter_def)

definition below_floor :: "int \<Rightarrow> 64 word \<Rightarrow> bool" where
  "below_floor minBytes x \<longleftrightarrow> minBytes > 0 \<and> sint x < sint (word_of_int minBytes :: 64 word)"

lemma exit_program:
  assumes maps: "collector_maps rfd dfd pfd n out m M"
    and n: "n = 8 * w" "24 \<le> n" "n \<le> 496"
  shows "bpf_run E (Instructions (completedSyscallProgramSpecWithExitFilter name rfd dfd pfd n 8 16 (exit_filter minBytes))) M =
    Some (case m (e_pid_tgid E) of
       None \<Rightarrow> M
     | Some bs \<Rightarrow>
         let M' = M(pfd \<mapsto> HashMap n (m(e_pid_tgid E := None)))
         in if below_floor minBytes (e_id E) then M'
            else if e_output_err E = 0 then M'(rfd \<mapsto> RingBuf (out @ [completed E bs]))
            else bump dfd M')"
proof -
  from maps obtain c where M: "M rfd = Some (RingBuf out)" "M dfd = Some (CounterArray c)" "M pfd = Some (HashMap n m)"
      and len: "\<And>k bs. m k = Some bs \<Longrightarrow> length bs = n"
    by (auto simp: collector_maps_def)
  then have neq: "rfd \<noteq> pfd" "dfd \<noteq> pfd" "dfd \<noteq> rfd" by auto
  define r where "r = - int n"
  have r: "- 496 \<le> r" "r mod 8 = 0" "r + 8 * int w = 0" "r \<le> - 24" "- int n = r"
    using n by (simp_all add: r_def)
  have mods: "(r + 16) mod 8 = 0" "(r + 8) mod 8 = 0" "(r - 8) mod 8 = 0" "(r - 16) mod 8 = 0" "(r - 16) mod 4 = 0"
    using r(2) by presburger+
  have words: "record_words n = w" using n(1) by (simp add: record_words_def)
  show ?thesis
  proof (cases "m (e_pid_tgid E)")
    case None
    then show ?thesis
      using M r mods
      by (simp add: bpf_run_def start_mk completedSyscallProgramSpecWithExitFilter_def Let_def r(5) exec_plain bpf_simps at_label_filter exec_exit)
  next
    case (Some bs)
    let ?st = "mem_write (\<lambda>_. None) (r - 8) (to_le 8 (e_pid_tgid E))"
    have l: "length bs = n" "8 * w \<le> length bs" "take (8 * w) bs = bs" using len [OF Some] n(1) by simp_all
    obtain v where copy: "\<And>rest. bpf_exec E (copy_record r w @ rest) (mk (HashValue pfd (e_pid_tgid E)) Uninit Uninit Uninit Uninit Uninit Ctx Uninit (Num (e_id E)) ?st M) =
      bpf_exec E rest (mk (HashValue pfd (e_pid_tgid E)) Uninit Uninit Uninit Uninit Uninit Ctx v (Num (e_id E)) (mem_write ?st r bs) M)"
      using exec_copy_record [of r w bs M pfd n m "e_pid_tgid E" E Uninit Uninit Uninit Uninit Uninit Ctx Uninit "Num (e_id E)" ?st]
        r M(3) Some l by auto
    have un: "unat (word_of_nat n :: 64 word) = n"
      using n(3) by (simp add: unat_of_nat take_bit_nat_eq_self)
    show ?thesis
      using M r(1,2,4) mods Some l(1) neq n(2,3)
      by (simp add: bpf_run_def start_mk completedSyscallProgramSpecWithExitFilter_def Let_def r(5) words copy
        exec_plain bpf_simps exit_filter_def below_floor_def completed_stack exec_exit un exec_count [where c = c])
  qed
qed

end
