(* ===== verification/Bpf_Enter.thy ===== *)
theory Bpf_Enter
  imports Bpf_Laws
begin

text \<open>
  What the programs on \<open>sys_enter\<close> do: for a system call that is not theirs nothing, else one
  record, fully initialised, stored under the thread's id, whose fields are the arguments of the
  call.
\<close>

section \<open>The pending map\<close>

definition enter_maps :: "int \<Rightarrow> int \<Rightarrow> nat \<Rightarrow> (64 word \<Rightarrow> bytes option) \<Rightarrow> (int \<Rightarrow> bpf_map option) \<Rightarrow> bool" where
  "enter_maps pfd cfd n m M \<longleftrightarrow> M pfd = Some (HashMap n m) \<and> (\<exists>c. M cfd = Some (CounterArray c))"

text \<open>The record is stored, or the failed update is counted.\<close>

definition stored :: "int \<Rightarrow> int \<Rightarrow> nat \<Rightarrow> (64 word \<Rightarrow> bytes option) \<Rightarrow> env \<Rightarrow> bytes \<Rightarrow>
    (int \<Rightarrow> bpf_map option) \<Rightarrow> int \<Rightarrow> bpf_map option" where
  "stored pfd cfd n m E bs M =
     (if e_update_err E = 0 then M(pfd \<mapsto> HashMap n (m(e_pid_tgid E \<mapsto> bs))) else bump cfd M)"

lemma exec_stored:
  assumes "enter_maps pfd cfd n m M" "mem_read stk k 8 = Some (to_le 8 (e_pid_tgid E))" "ready stk r n" "access_ok t 4"
  shows "bpf_exec E (storePendingSyscall pfd k r @ countCorrelationDrop cfd t @ exit_code)
      (mk r0 r1 r2 r3 r4 r5 r6 r7 r8 stk M) =
    Some (stored pfd cfd n m E (the (mem_read stk r n)) M)"
proof -
  from assms(1) obtain c where M: "M pfd = Some (HashMap n m)" "M cfd = Some (CounterArray c)"
    by (auto simp: enter_maps_def)
  then have "cfd \<noteq> pfd" by auto
  moreover from assms(3) obtain bs where "mem_read stk r n = Some bs" by (auto simp: ready_def)
  ultimately show ?thesis
    using exec_storePending [OF assms(2) _ M(1) assms(4) M(2), of r bs] by (simp add: stored_def)
qed

text \<open>The record is output, or the failed output is counted.\<close>

definition emitted :: "int \<Rightarrow> int \<Rightarrow> bytes list \<Rightarrow> env \<Rightarrow> bytes \<Rightarrow> (int \<Rightarrow> bpf_map option) \<Rightarrow> int \<Rightarrow> bpf_map option" where
  "emitted rfd dfd out E bs M =
     (if e_output_err E = 0 then M(rfd \<mapsto> RingBuf (out @ [bs])) else bump dfd M)"

definition ring_maps :: "int \<Rightarrow> int \<Rightarrow> bytes list \<Rightarrow> (int \<Rightarrow> bpf_map option) \<Rightarrow> bool" where
  "ring_maps rfd dfd out M \<longleftrightarrow> M rfd = Some (RingBuf out) \<and> (\<exists>c. M dfd = Some (CounterArray c))"

lemma exec_emitted:
  assumes "ring_maps rfd dfd out M" "ready stk r (unat n)" "access_ok t 4"
  shows "bpf_exec E ((None, Call FnRingbufOutput) # countRingBufferDrop dfd t @ exit_code)
      (mk r0 (MapPtr rfd) (Stack r) (Num n) (Num f) r5 r6 r7 r8 stk M) =
    Some (emitted rfd dfd out E (the (mem_read stk r (unat n))) M)"
proof -
  from assms(1) obtain c where M: "M rfd = Some (RingBuf out)" "M dfd = Some (CounterArray c)"
    by (auto simp: ring_maps_def)
  moreover from M have "dfd \<noteq> rfd" by auto
  moreover from assms(2) obtain bs where "mem_read stk r (unat n) = Some bs" by (auto simp: ready_def)
  ultimately show ?thesis
    using assms(3) by (simp add: exec_plain bpf_simps emitted_def exec_count [where c = c])
qed

lemma exec_no_output:
  "\<not> is_jump i \<Longrightarrow> i \<noteq> Return \<Longrightarrow> i \<noteq> Call FnRingbufOutput \<Longrightarrow>
   bpf_exec E ((l, i) # rest) s = (case bpf_step E i s of None \<Rightarrow> None | Some s' \<Rightarrow> bpf_exec E rest s')"
  by (rule exec_plain)

text \<open>The tests on the system call's number that open a program: one hit jumps, no hit falls through.\<close>

lemma exec_dispatch:
  "bpf_exec E (plain (map (\<lambda>nr. JEqImm R8 nr l) nrs) @ rest) (mk r0 r1 r2 r3 r4 r5 r6 r7 (Num x) stk M) =
   (if \<exists>nr \<in> set nrs. x = word_of_int nr
    then bpf_exec E (at_label l rest) (mk r0 r1 r2 r3 r4 r5 r6 r7 (Num x) stk M)
    else bpf_exec E rest (mk r0 r1 r2 r3 r4 r5 r6 r7 (Num x) stk M))"
  by (induction nrs) (auto simp: bpf_simps simp del: map_map)

definition dispatch :: "string \<Rightarrow> int list \<Rightarrow> instructions" where
  "dispatch l nrs = plain [MovReg R6 R1, LoadMem R8 R6 8 DWord] @ plain (map (\<lambda>nr. JEqImm R8 nr l) nrs)"

lemma run_dispatch:
  "bpf_run E (dispatch l nrs @ rest) M =
   bpf_exec E (if \<exists>nr \<in> set nrs. e_id E = word_of_int nr then at_label l rest else rest)
     (mk Uninit Ctx Uninit Uninit Uninit Uninit Ctx Uninit (Num (e_id E)) (\<lambda>_. None) M)"
  by (simp add: dispatch_def bpf_run_def start_mk exec_plain bpf_simps exec_dispatch del: map_map)

lemma field_of_stack:
  assumes "ready stk r N" "k + n \<le> N"
  shows "field_at (the (mem_read stk r N)) k n = the (mem_read stk (r + int k) n)"
  using assms field_at_read [of stk r N _ k n] by (auto simp: ready_def)

lemma from_le_zeros [simp]: "from_le (replicate n 0) = 0"
  by (induction n) simp_all

lemma length_of_stack: "ready stk r N \<Longrightarrow> length (the (mem_read stk r N)) = N"
  using ready_read by fastforce

lemmas program_simps = bpf_run_def start_mk Let_def exec_no_output bpf_simps exec_exit exec_stored
  exec_emitted mem_write_str
  layout_defs size_defs binary_Size_def record_words_def readPathArgument_def
  ready_write ready_write_zeros

lemmas decode_simps = check_size_def decode_syscall_def u64_at_def u32_at_def field_of_stack length_of_stack
  ready_write ready_write_zeros mem_read_inside mem_read_outside layout_defs size_defs binary_Size_def

section \<open>What a record says of its call\<close>

definition entered :: "env \<Rightarrow> syscallRecord" where
  "entered E = \<lparr>KernelTimestampNS = e_ktime E, CompletionKernelTimestampNS = 0, ReturnValue = 0,
     raw_PID = ucast (drop_bit 32 (e_pid_tgid E)), raw_UID = ucast (e_uid_gid E), Comm = fit 16 (e_comm E)\<rparr>"

section \<open>connect\<close>

definition sockaddr_family :: "abi \<Rightarrow> env \<Rightarrow> 64 word" where
  "sockaddr_family A E = from_le (fit 2 (e_user E (syscall_arg E (syscallArg1Offset A)) 2))"

definition sockaddr_bytes :: "abi \<Rightarrow> env \<Rightarrow> nat \<Rightarrow> bytes" where
  "sockaddr_bytes A E n =
     fit n (e_user E (syscall_arg E (syscallArg1Offset A)) n) @ replicate (32 - n) 0"

lemma sockaddr_read:
  assumes "mem_read stk a 32 = Some (replicate 32 0)" "k \<le> 32" "2 \<le> k"
  shows "mem_read (mem_write (mem_write stk a (fit 2 x)) a (fit k y)) a 32 = Some (fit k y @ replicate (32 - k) 0)"
  using assms mem_read_over_zeros [OF assms(1), of "fit k y"] by (simp add: mem_write_cover)

lemma connect_enter:
  assumes "enter_maps pfd cfd 80 m M" "e_id E = word_of_int (connectSyscallNumber A)"
    "sockaddr_family A E = 2 \<and> n = 16 \<or> sockaddr_family A E = 10 \<and> n = 28"
  shows "\<exists>bs. bpf_run E (Instructions (connectEnterProgramSpec A pfd cfd)) M = Some (stored pfd cfd 80 m E bs M) \<and>
    decodeConnectRecord bs = Inr (syscallRecord.extend (entered E) (connectRecord.fields (sockaddr_bytes A E n)))"
  using assms
  apply (elim disjE conjE)
   apply (simp_all add: program_simps connectEnterProgramSpec_def sockaddrFamilySize_def sockaddrIPv4Size_def
      sockaddrIPv6Size_def addressFamilyIPv4_def addressFamilyIPv6_def sockaddr_family_def syscall_arg_def register_bytes_def)
   apply (rule exI, rule conjI, rule refl, simp add: decodeConnectRecord_def decode_simps entered_def
      sockaddr_bytes_def sockaddr_read syscall_arg_def register_bytes_def)+
  done

lemma connect_other:
  assumes "e_id E \<noteq> word_of_int (connectSyscallNumber A) \<or> sockaddr_family A E \<noteq> 2 \<and> sockaddr_family A E \<noteq> 10"
  shows "bpf_run E (Instructions (connectEnterProgramSpec A pfd cfd)) M = Some M"
  using assms
  by (cases "e_id E = word_of_int (connectSyscallNumber A)")
    (simp_all add: program_simps connectEnterProgramSpec_def sockaddrFamilySize_def sockaddrIPv4Size_def
      sockaddrIPv6Size_def addressFamilyIPv4_def addressFamilyIPv6_def sockaddr_family_def syscall_arg_def register_bytes_def)

section \<open>execve\<close>

lemma execve_program:
  assumes "ring_maps rfd dfd out M" "e_id E = word_of_int (execveSyscallNumber A)"
  shows "\<exists>bs. bpf_run E (Instructions (execveProgramSpec A rfd dfd)) M = Some (emitted rfd dfd out E bs M) \<and>
    decodeExecveRecord bs = Inr \<lparr>x_KernelTimestampNS = e_ktime E, x_PID = ucast (drop_bit 32 (e_pid_tgid E)),
      x_UID = ucast (e_uid_gid E), x_Comm = fit 16 (e_comm E), x_Filename = syscall_path E (syscallArg0Offset A) 256\<rparr>"
  using assms
  apply (simp add: program_simps execveProgramSpec_def)
  apply (rule exI, rule conjI, rule refl, simp add: decodeExecveRecord_def decode_simps
      syscall_path_def syscall_arg_def register_bytes_def)
  done

lemma execve_other:
  assumes "e_id E \<noteq> word_of_int (execveSyscallNumber A)"
  shows "bpf_run E (Instructions (execveProgramSpec A rfd dfd)) M = Some M"
  using assms by (simp add: program_simps execveProgramSpec_def)

section \<open>file_write\<close>

definition write_syscalls :: "abi \<Rightarrow> int list" where
  "write_syscalls A = [writeSyscallNumber A, pwriteSyscallNumber A, writevSyscallNumber A, pwritevSyscallNumber A,
     pwritev2SyscallNumber A]"

definition write_captured :: "abi \<Rightarrow> int \<Rightarrow> env \<Rightarrow> bool" where
  "write_captured A ignoredPID E \<longleftrightarrow>
     (\<exists>nr \<in> set (write_syscalls A). e_id E = word_of_int nr) \<and>
     \<not> (0 < ignoredPID \<and> drop_bit 32 (e_pid_tgid E) = word_of_int ignoredPID) \<and>
     2 < take_bit 32 (syscall_arg E (syscallArg0Offset A))"

lemma file_write_dispatch:
  "\<exists>rest. Instructions (fileWriteEnterProgramSpec A pfd cfd ignoredPID) = dispatch ''capture'' (write_syscalls A) @ rest \<and>
     rest = (None, Ja ''exit'') # drop 8 (Instructions (fileWriteEnterProgramSpec A pfd cfd ignoredPID))"
  by (simp add: fileWriteEnterProgramSpec_def dispatch_def write_syscalls_def Let_def)

lemma file_write_enter:
  assumes "enter_maps pfd cfd 64 m M" "write_captured A ignoredPID E"
  shows "\<exists>bs. bpf_run E (Instructions (fileWriteEnterProgramSpec A pfd cfd ignoredPID)) M = Some (stored pfd cfd 64 m E bs M) \<and>
    decodeFileWriteRecord bs = Inr (syscallRecord.extend (entered E) (fileWriteRecord.fields
      (ucast (syscall_arg E (syscallArg0Offset A))) (ucast (e_id E)) (syscall_arg E (syscallArg2Offset A))))"
proof -
  from assms(2) have c: "\<exists>nr \<in> set (write_syscalls A). e_id E = word_of_int nr"
    "\<not> (0 < ignoredPID \<and> drop_bit 32 (e_pid_tgid E) = word_of_int ignoredPID)"
    "\<not> from_le (to_le 4 (syscall_arg E (syscallArg0Offset A))) \<le> 2"
    by (auto simp: write_captured_def from_le_to_le)
  obtain rest where p: "Instructions (fileWriteEnterProgramSpec A pfd cfd ignoredPID) = dispatch ''capture'' (write_syscalls A) @ rest"
    and rest: "rest = (None, Ja ''exit'') # drop 8 (Instructions (fileWriteEnterProgramSpec A pfd cfd ignoredPID))"
    using file_write_dispatch by blast
  show ?thesis
    unfolding p run_dispatch if_P [OF c(1)]
    unfolding rest
    using assms(1) c(2,3)
    apply (cases "0 < ignoredPID"; simp add: program_simps fileWriteEnterProgramSpec_def)
             apply (rule exI, rule conjI, rule refl, simp add: decodeFileWriteRecord_def decode_simps entered_def)+
    done
qed

lemma file_write_other:
  assumes "\<not> write_captured A ignoredPID E"
  shows "bpf_run E (Instructions (fileWriteEnterProgramSpec A pfd cfd ignoredPID)) M = Some M"
proof -
  obtain rest where p: "Instructions (fileWriteEnterProgramSpec A pfd cfd ignoredPID) = dispatch ''capture'' (write_syscalls A) @ rest"
    and rest: "rest = (None, Ja ''exit'') # drop 8 (Instructions (fileWriteEnterProgramSpec A pfd cfd ignoredPID))"
    using file_write_dispatch by blast
  have small: "(2 < take_bit 32 x) = (\<not> from_le (to_le 4 x) \<le> 2)" for x
    by (simp add: from_le_to_le not_le)
  consider "\<not> (\<exists>nr \<in> set (write_syscalls A). e_id E = word_of_int nr)"
    | "\<exists>nr \<in> set (write_syscalls A). e_id E = word_of_int nr"
      "0 < ignoredPID" "drop_bit 32 (e_pid_tgid E) = word_of_int ignoredPID"
    | "\<exists>nr \<in> set (write_syscalls A). e_id E = word_of_int nr"
      "\<not> (0 < ignoredPID \<and> drop_bit 32 (e_pid_tgid E) = word_of_int ignoredPID)"
      "from_le (to_le 4 (syscall_arg E (syscallArg0Offset A))) \<le> 2"
    using assms unfolding write_captured_def small by blast
  then show ?thesis
  proof cases
    case 1
    then show ?thesis
      unfolding p run_dispatch if_not_P [OF 1] unfolding rest
      by (simp add: program_simps fileWriteEnterProgramSpec_def)
  next
    case 2
    show ?thesis
      unfolding p run_dispatch if_P [OF 2(1)] unfolding rest using 2(2,3)
      by (simp add: program_simps fileWriteEnterProgramSpec_def)
  next
    case 3
    show ?thesis
      unfolding p run_dispatch if_P [OF 3(1)] unfolding rest using 3(2,3)
      by (cases "0 < ignoredPID"; simp add: program_simps fileWriteEnterProgramSpec_def)
  qed
qed

section \<open>chmod\<close>

definition chmod_syscalls :: "abi \<Rightarrow> int list" where
  "chmod_syscalls A = (if hasChmodSyscall A then [chmodSyscallNumber A] else []) @
     [fchmodSyscallNumber A, fchmodatSyscallNumber A, fchmodat2SyscallNumber A]"

definition chmod_rest :: "abi \<Rightarrow> int \<Rightarrow> int \<Rightarrow> instructions" where
  "chmod_rest A pfd cfd = drop (2 + length (chmod_syscalls A)) (Instructions (chmodEnterProgramSpec A pfd cfd))"

lemma chmod_dispatch:
  "Instructions (chmodEnterProgramSpec A pfd cfd) = dispatch ''capture'' (chmod_syscalls A) @ chmod_rest A pfd cfd"
  by (simp add: chmod_rest_def chmodEnterProgramSpec_def dispatch_def chmod_syscalls_def Let_def)

text \<open>The fields that each of the calls fills.\<close>

definition chmod_fields :: "abi \<Rightarrow> env \<Rightarrow> bytes \<times> 32 word \<times> 32 word" where
  "chmod_fields A E =
     (if e_id E = word_of_int (fchmodSyscallNumber A)
      then (replicate 256 0, ucast (syscall_arg E (syscallArg0Offset A)), ucast (syscall_arg E (syscallArg1Offset A)))
      else if hasChmodSyscall A \<and> e_id E = word_of_int (chmodSyscallNumber A)
      then (syscall_path E (syscallArg0Offset A) 256, 0, ucast (syscall_arg E (syscallArg1Offset A)))
      else (syscall_path E (syscallArg1Offset A) 256, ucast (syscall_arg E (syscallArg0Offset A)),
        ucast (syscall_arg E (syscallArg2Offset A))))"

lemma chmod_enter:
  assumes "enter_maps pfd cfd 320 m M" and c: "\<exists>nr \<in> set (chmod_syscalls A). e_id E = word_of_int nr"
  shows "\<exists>bs. bpf_run E (Instructions (chmodEnterProgramSpec A pfd cfd)) M = Some (stored pfd cfd 320 m E bs M) \<and>
    decodeChmodRecord bs = Inr (syscallRecord.extend (entered E) (case chmod_fields A E of (path, fd, md) \<Rightarrow>
      chmodRecord.fields path fd md (ucast (e_id E))))"
  unfolding chmod_dispatch run_dispatch if_P [OF c] unfolding chmod_rest_def
  using assms(1)
  apply (cases "hasChmodSyscall A"; cases "e_id E = word_of_int (fchmodSyscallNumber A)"; cases "e_id E = word_of_int (chmodSyscallNumber A)";
     simp add: program_simps chmodEnterProgramSpec_def chmod_syscalls_def chmod_fields_def)
         apply (rule exI, rule conjI, rule refl, simp add: decodeChmodRecord_def decode_simps entered_def)+
  done

lemma chmod_other:
  assumes c: "\<not> (\<exists>nr \<in> set (chmod_syscalls A). e_id E = word_of_int nr)"
  shows "bpf_run E (Instructions (chmodEnterProgramSpec A pfd cfd)) M = Some M"
  unfolding chmod_dispatch run_dispatch if_not_P [OF c] unfolding chmod_rest_def
  by (cases "hasChmodSyscall A"; simp add: program_simps chmodEnterProgramSpec_def chmod_syscalls_def)

section \<open>The further system calls\<close>

definition behavior_rest :: "abi \<Rightarrow> string \<Rightarrow> int list \<Rightarrow> int \<Rightarrow> int \<Rightarrow> instructions" where
  "behavior_rest A name nrs pfd cfd =
     drop (2 + length nrs) (Instructions (behaviorSyscallEnterProgramSpec A name nrs pfd cfd))"

lemma behavior_dispatch:
  "Instructions (behaviorSyscallEnterProgramSpec A name nrs pfd cfd) = dispatch ''capture'' nrs @ behavior_rest A name nrs pfd cfd"
  by (simp add: behavior_rest_def behaviorSyscallEnterProgramSpec_def dispatch_def Let_def)

lemma behavior_enter:
  assumes "enter_maps pfd cfd 80 m M" and c: "\<exists>nr \<in> set nrs. e_id E = word_of_int nr"
  shows "\<exists>bs. bpf_run E (Instructions (behaviorSyscallEnterProgramSpec A name nrs pfd cfd)) M = Some (stored pfd cfd 80 m E bs M) \<and>
    decodeBehaviorSyscallRecord bs = Inr (syscallRecord.extend (entered E) (behaviorSyscallRecord.fields (ucast (e_id E))
      [syscall_arg E (syscallArg0Offset A), syscall_arg E (syscallArg1Offset A), syscall_arg E (syscallArg2Offset A)]))"
  unfolding behavior_dispatch run_dispatch if_P [OF c] unfolding behavior_rest_def
  using assms(1)
  apply (simp add: program_simps behaviorSyscallEnterProgramSpec_def)
  apply (rule exI, rule conjI, rule refl, simp add: decodeBehaviorSyscallRecord_def decode_simps entered_def)
  done

lemma behavior_other:
  assumes c: "\<not> (\<exists>nr \<in> set nrs. e_id E = word_of_int nr)"
  shows "bpf_run E (Instructions (behaviorSyscallEnterProgramSpec A name nrs pfd cfd)) M = Some M"
  unfolding behavior_dispatch run_dispatch if_not_P [OF c] unfolding behavior_rest_def
  by (simp add: program_simps behaviorSyscallEnterProgramSpec_def)

end
