(* ===== verification/Bpf_Props.thy ===== *)
theory Bpf_Props
  imports Bpf_Enter
begin

text \<open>
  The properties of the eBPF programs: which of them the verifier's control-flow pass accepts, and
  what the accepted pairs of programs report of a system call, from its entry to the record that
  user space decodes.
\<close>

section \<open>Control flow\<close>

lemma labels_append: "labels (p @ q) = labels p @ labels q"
  by (simp add: labels_def List.map_filter_def)

lemma labels_plain [simp]: "labels (plain is) = []"
  by (induction "is") (simp_all add: labels_def List.map_filter_def)

lemma labels_simps [simp]:
  "labels [] = []" "labels ((None, i) # p) = labels p" "labels ((Some l, i) # p) = l # labels p"
  by (simp_all add: labels_def List.map_filter_def)

lemma reach_straight:
  "\<forall>i \<in> set is. jump_label i = None \<and> falls_through i \<Longrightarrow>
   reach_check True ts (plain is @ rest) = reach_check True ts rest"
  by (induction "is") auto

lemma labels_plain_append: "labels (plain is @ rest) = labels rest"
  by (simp add: labels_append)

lemma labels_blocks [simp]:
  "labels (readRegisterArgument c ro f t d w @ rest) = labels rest"
  "labels (readPathArgumentSized c ro f t d n @ rest) = labels rest"
  "labels (storePendingSyscall fd k r @ rest) = labels rest"
  "labels (countRingBufferDrop fd k @ rest) = labels rest"
  "labels (zero_record r n @ rest) = labels rest"
  "labels (copy_record r n @ rest) = labels rest"
  unfolding readRegisterArgument_def readPathArgumentSized_def
    storePendingSyscall_def countRingBufferDrop_def zero_record_def copy_record_def
  by (rule labels_plain_append)+

lemma reach_blocks [simp]:
  "reach_check True ts (readRegisterArgument c ro f t d w @ rest) = reach_check True ts rest"
  "reach_check True ts (readPathArgumentSized c ro f t d n @ rest) = reach_check True ts rest"
  "reach_check True ts (storePendingSyscall fd k r @ rest) = reach_check True ts rest"
  "reach_check True ts (zero_record r n @ rest) = reach_check True ts rest"
  "reach_check True ts (copy_record r n @ rest) = reach_check True ts rest"
  unfolding readRegisterArgument_def readPathArgumentSized_def
    storePendingSyscall_def zero_record_def copy_record_def
  by (rule reach_straight, fastforce)+

lemma reach_count [simp]:
  "reach_check True ts (countRingBufferDrop fd k @ rest) =
     (''exit'' \<in> set (labels rest) \<and> reach_check True (''exit'' # ''exit'' # ts) rest)"
  by (auto simp: countRingBufferDrop_def)

lemma check_dispatch:
  "reach_check True ts (plain (map (\<lambda>nr. JEqImm R8 nr l) nrs) @ rest) =
     ((nrs = [] \<or> l \<in> set (labels rest)) \<and> reach_check True (replicate (length nrs) l @ ts) rest)"
proof (induction nrs arbitrary: ts)
  case (Cons nr nrs)
  then show ?case
    by (auto simp: labels_plain_append replicate_app_Cons_same simp del: map_map)
qed simp

lemmas cfg_simps = check_cfg_def Let_def countCorrelationDrop_def readPathArgument_def

lemma behavior_cfg:
  "check_cfg (Instructions (behaviorSyscallEnterProgramSpec A name nrs pfd cfd)) = (nrs \<noteq> [])"
  by (auto simp: cfg_simps behaviorSyscallEnterProgramSpec_def check_dispatch labels_plain_append simp del: map_map)

lemma exit_cfg:
  "check_cfg (Instructions (completedSyscallProgramSpecWithExitFilter name rfd dfd pfd n co ro (exit_filter minBytes)))"
  by (simp add: cfg_simps completedSyscallProgramSpecWithExitFilter_def exit_filter_def)

lemma good_cfg:
  "check_cfg (Instructions (execveProgramSpec A rfd dfd))"
  "check_cfg (Instructions (connectEnterProgramSpec A pfd cfd))"
  "check_cfg (Instructions (fileWriteEnterProgramSpec A pfd cfd ignoredPID))"
  "check_cfg (Instructions (chmodEnterProgramSpec A pfd cfd))"
  by (simp_all add: cfg_simps execveProgramSpec_def connectEnterProgramSpec_def fileWriteEnterProgramSpec_def chmodEnterProgramSpec_def)

lemma bad_cfg:
  "\<not> check_cfg (Instructions (sensitiveReadEnterProgramSpec A pfd cfd))"
  "\<not> check_cfg (Instructions (fileLifecycleEnterProgramSpec A pfd cfd))"
  "\<not> check_cfg (Instructions (networkServerEnterProgramSpec A pfd cfd))"
  by (simp_all add: cfg_simps sensitiveReadEnterProgramSpec_def fileLifecycleEnterProgramSpec_def networkServerEnterProgramSpec_def)

section \<open>From the entry to the record\<close>

text \<open>What the exit adds to the record of the entry.\<close>

definition finish :: "env \<Rightarrow> 'a syscallRecord_scheme \<Rightarrow> 'a syscallRecord_scheme" where
  "finish E r = r\<lparr>CompletionKernelTimestampNS := e_ktime E, ReturnValue := e_id E\<rparr>"

lemma check_size_Inr: "check_size what layout raw d = Inr r \<longleftrightarrow> length raw = binary_Size layout \<and> d = r"
  by (simp add: check_size_def)

lemma field_completed:
  assumes "24 \<le> length bs"
  shows "length (completed E bs) = length bs"
    "field_at (completed E bs) 0 8 = field_at bs 0 8"
    "field_at (completed E bs) 8 8 = to_le 8 (e_ktime E)"
    "field_at (completed E bs) 16 8 = to_le 8 (e_id E)"
    "24 \<le> k \<Longrightarrow> field_at (completed E bs) k n = field_at bs k n"
  using assms by (auto simp: completed_def field_at_def min_def)

lemma syscall_completed:
  "24 \<le> length bs \<Longrightarrow> decode_syscall (completed E bs) = finish E (decode_syscall bs)"
  by (simp add: decode_syscall_def finish_def u64_at_def u32_at_def field_completed)

lemma finish_extend: "syscallRecord.extend (finish E h) r = finish E (syscallRecord.extend h r)"
  by (simp add: finish_def syscallRecord.defs)

lemma decode_completed:
  "decodeConnectRecord bs = Inr c \<Longrightarrow> decodeConnectRecord (completed E bs) = Inr (finish E c)"
  "decodeFileWriteRecord bs = Inr f \<Longrightarrow> decodeFileWriteRecord (completed E bs) = Inr (finish E f)"
  "decodeChmodRecord bs = Inr h \<Longrightarrow> decodeChmodRecord (completed E bs) = Inr (finish E h)"
  "decodeBehaviorSyscallRecord bs = Inr b \<Longrightarrow> decodeBehaviorSyscallRecord (completed E bs) = Inr (finish E b)"
  unfolding decodeConnectRecord_def decodeFileWriteRecord_def decodeChmodRecord_def decodeBehaviorSyscallRecord_def
  by (auto simp: check_size_Inr layout_defs size_defs binary_Size_def field_completed syscall_completed
      u64_at_def u32_at_def finish_extend)

lemma decode_length:
  "decodeConnectRecord bs = Inr c \<Longrightarrow> length bs = 80"
  "decodeFileWriteRecord bs = Inr f \<Longrightarrow> length bs = 64"
  "decodeChmodRecord bs = Inr h \<Longrightarrow> length bs = 320"
  "decodeBehaviorSyscallRecord bs = Inr b \<Longrightarrow> length bs = 80"
  unfolding decodeConnectRecord_def decodeFileWriteRecord_def decodeChmodRecord_def decodeBehaviorSyscallRecord_def
  by (auto simp: check_size_Inr layout_defs size_defs binary_Size_def)

text \<open>
  One system call of one thread: the program on entry, then the one on exit, on maps in which no
  other thread's record is disturbed.
\<close>

definition traced :: "instructions \<Rightarrow> instructions \<Rightarrow> env \<Rightarrow> env \<Rightarrow> (int \<Rightarrow> bpf_map option) \<Rightarrow> (int \<Rightarrow> bpf_map option) option" where
  "traced enter exit E E' M = (case bpf_run E enter M of None \<Rightarrow> None | Some M1 \<Rightarrow> bpf_run E' exit M1)"

lemma traced_reported:
  assumes "bpf_run E enter M = Some (stored pfd cfd n m E bs M)"
    and "e_update_err E = 0" "e_pid_tgid E' = e_pid_tgid E" "e_output_err E' = 0" "\<not> below_floor minBytes (e_id E')"
    and maps: "collector_maps rfd dfd pfd n out m M"
    and n: "length bs = n" "n = 8 * w" "24 \<le> n" "n \<le> 496"
  shows "traced enter (Instructions (completedSyscallProgramSpecWithExitFilter name rfd dfd pfd n 8 16 (exit_filter minBytes))) E E' M =
    Some (M(pfd \<mapsto> HashMap n (m(e_pid_tgid E := None)), rfd \<mapsto> RingBuf (out @ [completed E' bs])))"
proof -
  have "collector_maps rfd dfd pfd n out (m(e_pid_tgid E \<mapsto> bs)) (stored pfd cfd n m E bs M)"
    using maps assms(2) n(1) by (auto simp: collector_maps_def stored_def)
  from exit_program [OF this n(2,3,4)] show ?thesis
    using assms by (simp add: traced_def stored_def Let_def)
qed

text \<open>A call that is not captured leaves no trace, unless a record of the thread is pending.\<close>

lemma traced_other:
  assumes "bpf_run E enter M = Some M" "m (e_pid_tgid E') = None" "collector_maps rfd dfd pfd n out m M"
    "n = 8 * w" "24 \<le> n" "n \<le> 496"
  shows "traced enter (Instructions (completedSyscallProgramSpecWithExitFilter name rfd dfd pfd n 8 16 (exit_filter minBytes))) E E' M = Some M"
  using exit_program [OF assms(3-6)] assms(1,2) by (simp add: traced_def)

lemma exit_programs:
  "connectExitProgramSpec rfd dfd pfd =
     completedSyscallProgramSpecWithExitFilter ''rg_connect_exit'' rfd dfd pfd 80 8 16 (exit_filter 0)"
  "fileWriteExitProgramSpec rfd dfd pfd minBytes =
     completedSyscallProgramSpecWithExitFilter ''rg_write_exit'' rfd dfd pfd 64 8 16 (exit_filter minBytes)"
  "chmodExitProgramSpec rfd dfd pfd =
     completedSyscallProgramSpecWithExitFilter ''rg_chmod_exit'' rfd dfd pfd 320 8 16 (exit_filter 0)"
  "behaviorSyscallExitProgramSpec name rfd dfd pfd =
     completedSyscallProgramSpecWithExitFilter (''rg_'' @ name @ ''_exit'') rfd dfd pfd 80 8 16 (exit_filter 0)"
  by (simp_all add: connectExitProgramSpec_def fileWriteExitProgramSpec_def chmodExitProgramSpec_def
      behaviorSyscallExitProgramSpec_def completedSyscallProgramSpec_def exit_filter_def
      layout_defs size_defs binary_Size_def)

section \<open>Properties\<close>


text \<open>The maps of a collector at work, and a call during which neither map operation fails.\<close>

definition working_maps :: "int \<Rightarrow> int \<Rightarrow> int \<Rightarrow> int \<Rightarrow> nat \<Rightarrow> bytes list \<Rightarrow> (64 word \<Rightarrow> bytes option) \<Rightarrow> (int \<Rightarrow> bpf_map option) \<Rightarrow> bool" where
  "working_maps rfd dfd pfd cfd n out m M \<longleftrightarrow>
     collector_maps rfd dfd pfd n out m M \<and> (\<exists>c. M cfd = Some (CounterArray c))"

definition same_thread :: "env \<Rightarrow> env \<Rightarrow> bool" where
  "same_thread E E' \<longleftrightarrow> e_pid_tgid E' = e_pid_tgid E"

definition undisturbed :: "env \<Rightarrow> env \<Rightarrow> bool" where
  "undisturbed E E' \<longleftrightarrow> same_thread E E' \<and> e_update_err E = 0 \<and> e_output_err E' = 0"

text \<open>The maps after a call whose sample \<open>bs\<close> was output: the thread's record is gone.\<close>

definition reported :: "int \<Rightarrow> int \<Rightarrow> nat \<Rightarrow> bytes list \<Rightarrow> (64 word \<Rightarrow> bytes option) \<Rightarrow> env \<Rightarrow> bytes \<Rightarrow> (int \<Rightarrow> bpf_map option) \<Rightarrow> int \<Rightarrow> bpf_map option" where
  "reported rfd pfd n out m E bs M = M(pfd \<mapsto> HashMap n (m(e_pid_tgid E := None)), rfd \<mapsto> RingBuf (out @ [bs]))"

lemma working_enter: "working_maps rfd dfd pfd cfd n out m M \<Longrightarrow> enter_maps pfd cfd n m M"
  by (auto simp: working_maps_def collector_maps_def enter_maps_def)

lemma no_floor: "\<not> below_floor 0 x"
  by (simp add: below_floor_def)

lemma reported_by:
  assumes "bpf_run E enter M = Some (stored pfd cfd n m E bs M)" "undisturbed E E'" "\<not> below_floor minBytes (e_id E')"
    "working_maps rfd dfd pfd cfd n out m M" "length bs = n" "n = 8 * w" "24 \<le> n" "n \<le> 496"
  shows "traced enter (Instructions (completedSyscallProgramSpecWithExitFilter name rfd dfd pfd n 8 16 (exit_filter minBytes))) E E' M =
    Some (reported rfd pfd n out m E (completed E' bs) M)"
  unfolding reported_def
  using assms by (intro traced_reported) (auto simp: undisturbed_def same_thread_def working_maps_def)

lemma unreported_by:
  assumes "bpf_run E enter M = Some M" "undisturbed E E'" "m (e_pid_tgid E) = None"
    "working_maps rfd dfd pfd cfd n out m M" "n = 8 * w" "24 \<le> n" "n \<le> 496"
  shows "traced enter (Instructions (completedSyscallProgramSpecWithExitFilter name rfd dfd pfd n 8 16 (exit_filter minBytes))) E E' M = Some M"
  using assms by (intro traced_other [where m = m and out = out and w = w])
    (auto simp: undisturbed_def same_thread_def working_maps_def)

lemma restored: "m k = None \<Longrightarrow> M pfd = Some (HashMap n m) \<Longrightarrow> M(pfd \<mapsto> HashMap n (m(k := None))) = M"
  by (auto simp: fun_upd_idem)

lemma filtered_by:
  assumes "bpf_run E enter M = Some (stored pfd cfd n m E bs M)" "undisturbed E E'" "below_floor minBytes (e_id E')"
    "working_maps rfd dfd pfd cfd n out m M" "length bs = n" "m (e_pid_tgid E) = None" "n = 8 * w" "24 \<le> n" "n \<le> 496"
  shows "traced enter (Instructions (completedSyscallProgramSpecWithExitFilter name rfd dfd pfd n 8 16 (exit_filter minBytes))) E E' M = Some M"
proof -
  have maps: "collector_maps rfd dfd pfd n out (m(e_pid_tgid E \<mapsto> bs)) (stored pfd cfd n m E bs M)"
    "M pfd = Some (HashMap n m)"
    using assms by (auto simp: collector_maps_def working_maps_def stored_def undisturbed_def)
  from exit_program [OF maps(1) assms(7-9)] show ?thesis
    using assms(1-3,6) restored [where M = M, OF assms(6) maps(2)]
    by (simp add: traced_def stored_def Let_def undisturbed_def same_thread_def)
qed

lemma counted_by:
  assumes "bpf_run E enter M = Some (stored pfd cfd n m E bs M)" "same_thread E E'"
    "working_maps rfd dfd pfd cfd n out m M" "length bs = n" "m (e_pid_tgid E) = None" "n = 8 * w" "24 \<le> n" "n \<le> 496"
  shows "traced enter (Instructions (completedSyscallProgramSpecWithExitFilter name rfd dfd pfd n 8 16 (exit_filter 0))) E E' M =
    Some (if e_update_err E \<noteq> 0 then bump cfd M
        else if e_output_err E' \<noteq> 0 then bump dfd M
        else reported rfd pfd n out m E (completed E' bs) M)"
proof (cases "e_update_err E = 0")
  case True
  have maps: "collector_maps rfd dfd pfd n out (m(e_pid_tgid E \<mapsto> bs)) (stored pfd cfd n m E bs M)"
    "M pfd = Some (HashMap n m)"
    using assms True by (auto simp: collector_maps_def working_maps_def stored_def)
  from exit_program [where name = name and minBytes = 0 and E = E', OF maps(1) assms(6-8)] show ?thesis
    using assms(1,2,5) True restored [where M = M, OF assms(5) maps(2)]
    by (simp add: traced_def stored_def Let_def same_thread_def no_floor reported_def)
next
  case False
  from assms(3) obtain c where c: "M cfd = Some (CounterArray c)" and maps: "collector_maps rfd dfd pfd n out m M"
    by (auto simp: working_maps_def)
  then have "collector_maps rfd dfd pfd n out m (bump cfd M)"
    by (auto simp: collector_maps_def bump_def)
  from exit_program [where name = name and minBytes = 0 and E = E', OF this assms(6-8)] show ?thesis
    using assms(1,2,5) False by (simp add: traced_def stored_def same_thread_def)
qed

text \<open>C31. For every execve, and for no other system call, the program outputs one sample without
  reading anything uninitialised or leaving the stack, and the sample decodes to the time, the
  process and user ids, the command and the file name of the call; a full ring buffer is counted.\<close>

theorem execve_reported:
  assumes "ring_maps rfd dfd out M"
  shows "if e_id E = word_of_int (execveSyscallNumber A)
    then \<exists>bs. bpf_run E (Instructions (execveProgramSpec A rfd dfd)) M =
        Some (if e_output_err E = 0 then M(rfd \<mapsto> RingBuf (out @ [bs])) else bump dfd M) \<and>
      decodeExecveRecord bs = Inr \<lparr>x_KernelTimestampNS = e_ktime E,
        x_PID = ucast (drop_bit 32 (e_pid_tgid E)), x_UID = ucast (e_uid_gid E),
        x_Comm = fit 16 (e_comm E), x_Filename = syscall_path E (syscallArg0Offset A) 256\<rparr>
    else bpf_run E (Instructions (execveProgramSpec A rfd dfd)) M = Some M"
  using execve_program [OF assms, of E A] execve_other [of E A rfd dfd M] by (auto simp: emitted_def)

text \<open>C32. A connect to an IPv4 or IPv6 address that completes is reported once: the sample that the
  exit outputs decodes to the ids and times of the call, its result, and the address it was given;
  the record of the thread is removed and nobody else's is touched. Any other call leaves the maps
  as they are.\<close>

theorem connect_reported:
  assumes "working_maps rfd dfd pfd cfd 80 out m M" "undisturbed E E'" "m (e_pid_tgid E) = None"
  shows "if e_id E = word_of_int (connectSyscallNumber A) \<and> sockaddr_family A E \<in> {2, 10}
    then \<exists>bs. traced (Instructions (connectEnterProgramSpec A pfd cfd)) (Instructions (connectExitProgramSpec rfd dfd pfd)) E E' M =
        Some (reported rfd pfd 80 out m E bs M) \<and>
      decodeConnectRecord bs = Inr (finish E' (syscallRecord.extend (entered E)
        (connectRecord.fields (sockaddr_bytes A E (if sockaddr_family A E = 2 then 16 else 28)))))
    else traced (Instructions (connectEnterProgramSpec A pfd cfd)) (Instructions (connectExitProgramSpec rfd dfd pfd)) E E' M = Some M"
proof (cases "e_id E = word_of_int (connectSyscallNumber A) \<and> sockaddr_family A E \<in> {2, 10}")
  case True
  then obtain bs where
    "bpf_run E (Instructions (connectEnterProgramSpec A pfd cfd)) M = Some (stored pfd cfd 80 m E bs M)"
    and d: "decodeConnectRecord bs = Inr (syscallRecord.extend (entered E)
        (connectRecord.fields (sockaddr_bytes A E (if sockaddr_family A E = 2 then 16 else 28))))"
    using connect_enter [OF working_enter [OF assms(1)], of E A "if sockaddr_family A E = 2 then 16 else 28"] by auto
  from reported_by [where w = 10 and name = "''rg_connect_exit''", OF this(1) assms(2) no_floor assms(1) decode_length(1) [OF d]]
  have "traced (Instructions (connectEnterProgramSpec A pfd cfd)) (Instructions (connectExitProgramSpec rfd dfd pfd)) E E' M =
      Some (reported rfd pfd 80 out m E (completed E' bs) M)"
    unfolding exit_programs by simp
  with decode_completed(1) [OF d, of E'] show ?thesis
    unfolding if_P [OF True] by blast
next
  case False
  then have "bpf_run E (Instructions (connectEnterProgramSpec A pfd cfd)) M = Some M" by (intro connect_other) auto
  from unreported_by [where w = 10 and name = "''rg_connect_exit''" and minBytes = 0, OF this assms(2,3,1)] show ?thesis
    unfolding if_not_P [OF False] exit_programs by simp
qed


text \<open>C34. A chmod, fchmod, fchmodat or fchmodat2 is reported once with its path, descriptor, mode and
  result, each read from the argument where that call has it; no other call leaves a trace.\<close>

theorem chmod_reported:
  assumes "working_maps rfd dfd pfd cfd 320 out m M" "undisturbed E E'" "m (e_pid_tgid E) = None"
  shows "if \<exists>nr \<in> set (chmod_syscalls A). e_id E = word_of_int nr
    then \<exists>bs. traced (Instructions (chmodEnterProgramSpec A pfd cfd)) (Instructions (chmodExitProgramSpec rfd dfd pfd)) E E' M =
        Some (reported rfd pfd 320 out m E bs M) \<and>
      decodeChmodRecord bs = Inr (finish E' (syscallRecord.extend (entered E)
        (case chmod_fields A E of (path, fd, md) \<Rightarrow> chmodRecord.fields path fd md (ucast (e_id E)))))
    else traced (Instructions (chmodEnterProgramSpec A pfd cfd)) (Instructions (chmodExitProgramSpec rfd dfd pfd)) E E' M = Some M"
proof (cases "\<exists>nr \<in> set (chmod_syscalls A). e_id E = word_of_int nr")
  case True
  obtain bs where s: "bpf_run E (Instructions (chmodEnterProgramSpec A pfd cfd)) M = Some (stored pfd cfd 320 m E bs M)"
    and d: "decodeChmodRecord bs = Inr (syscallRecord.extend (entered E)
        (case chmod_fields A E of (path, fd, md) \<Rightarrow> chmodRecord.fields path fd md (ucast (e_id E))))"
    using chmod_enter [OF working_enter [OF assms(1)] True] by blast
  from reported_by [where w = 40 and name = "''rg_chmod_exit''", OF s assms(2) no_floor assms(1) decode_length(3) [OF d]]
  have "traced (Instructions (chmodEnterProgramSpec A pfd cfd)) (Instructions (chmodExitProgramSpec rfd dfd pfd)) E E' M =
      Some (reported rfd pfd 320 out m E (completed E' bs) M)"
    unfolding exit_programs by simp
  with decode_completed(3) [OF d, of E'] show ?thesis
    unfolding if_P [OF True] by blast
next
  case False
  from unreported_by [where w = 40 and name = "''rg_chmod_exit''" and minBytes = 0, OF chmod_other [OF False] assms(2,3,1)] show ?thesis
    unfolding if_not_P [OF False] exit_programs by simp
qed

text \<open>C35. A captured call of the four further collectors is never lost silently: it is reported with
  its number, three arguments and result, or, when the map of pending calls or the ring buffer
  refuses it, the drop counter of that stage goes up by one and nothing else changes for good.\<close>

theorem behavior_reported_or_counted:
  assumes "working_maps rfd dfd pfd cfd 80 out m M" "same_thread E E'" "m (e_pid_tgid E) = None"
    "\<exists>nr \<in> set nrs. e_id E = word_of_int nr"
  shows "\<exists>bs. traced (Instructions (behaviorSyscallEnterProgramSpec A name nrs pfd cfd)) (Instructions (behaviorSyscallExitProgramSpec name rfd dfd pfd)) E E' M =
      Some (if e_update_err E \<noteq> 0 then bump cfd M
        else if e_output_err E' \<noteq> 0 then bump dfd M
        else reported rfd pfd 80 out m E bs M) \<and>
    decodeBehaviorSyscallRecord bs = Inr (finish E' (syscallRecord.extend (entered E)
      (behaviorSyscallRecord.fields (ucast (e_id E))
        [syscall_arg E (syscallArg0Offset A), syscall_arg E (syscallArg1Offset A), syscall_arg E (syscallArg2Offset A)])))"
proof -
  obtain bs where s: "bpf_run E (Instructions (behaviorSyscallEnterProgramSpec A name nrs pfd cfd)) M = Some (stored pfd cfd 80 m E bs M)"
    and d: "decodeBehaviorSyscallRecord bs = Inr (syscallRecord.extend (entered E)
      (behaviorSyscallRecord.fields (ucast (e_id E))
        [syscall_arg E (syscallArg0Offset A), syscall_arg E (syscallArg1Offset A), syscall_arg E (syscallArg2Offset A)]))"
    using behavior_enter [OF working_enter [OF assms(1)] assms(4)] by blast
  from counted_by [where w = 10 and name = "''rg_'' @ name @ ''_exit''", OF s assms(2,1) decode_length(4) [OF d] assms(3)]
  have "traced (Instructions (behaviorSyscallEnterProgramSpec A name nrs pfd cfd)) (Instructions (behaviorSyscallExitProgramSpec name rfd dfd pfd)) E E' M =
      Some (if e_update_err E \<noteq> 0 then bump cfd M
        else if e_output_err E' \<noteq> 0 then bump dfd M
        else reported rfd pfd 80 out m E (completed E' bs) M)"
    unfolding exit_programs by simp
  with decode_completed(4) [OF d, of E'] show ?thesis by blast
qed

section \<open>Witnesses\<close>

text \<open>A concrete call: every saved register holds 3, user memory starts with the bytes 2 and 0.\<close>

definition sample_env :: "64 word \<Rightarrow> env" where
  "sample_env nr = \<lparr>e_pt_regs = 4096, e_id = nr, e_ktime = 77, e_pid_tgid = 5, e_uid_gid = 1000, e_comm = [],
     e_kernel = (\<lambda>_ _. [3]), e_user = (\<lambda>_ n. [2, 0]), e_user_str = (\<lambda>_ _. []), e_update_err = 0, e_output_err = 0\<rparr>"

definition sample_maps :: "nat \<Rightarrow> int \<Rightarrow> bpf_map option" where
  "sample_maps n = [1 \<mapsto> RingBuf [], 2 \<mapsto> CounterArray 0, 3 \<mapsto> HashMap n (\<lambda>_. None), 4 \<mapsto> CounterArray 0]"

lemma sample_ok:
  "working_maps 1 2 3 4 n [] (\<lambda>_. None) (sample_maps n)" "ring_maps 1 2 [] (sample_maps n)"
  "undisturbed (sample_env a) (sample_env b)" "same_thread (sample_env a) (sample_env b)"
  "e_id (sample_env a) = a" "e_update_err (sample_env a) = 0" "e_output_err (sample_env a) = 0"
  by (simp_all add: working_maps_def collector_maps_def ring_maps_def sample_maps_def sample_env_def
      undisturbed_def same_thread_def)

lemma sample_family: "sockaddr_family A (sample_env a) = 2"
  by (simp add: sockaddr_family_def sample_env_def fit_def)

lemma sample_arg: "syscall_arg (sample_env a) off = 3"
proof -
  have "from_le (fit 8 [3]) = ucast (3 :: 8 word)"
    unfolding fit_def by simp
  also have "\<dots> = (3 :: 64 word)" by simp
  finally show ?thesis by (simp add: syscall_arg_def register_bytes_def sample_env_def)
qed

lemma execve_reported_witness:
  "\<exists>bs. bpf_run (sample_env 59) (Instructions (execveProgramSpec amd64 1 2)) (sample_maps 0) =
     Some ((sample_maps 0)(1 \<mapsto> RingBuf [bs])) \<and> length bs = 288"
proof -
  from execve_reported [OF sample_ok(2), of "sample_env 59" amd64 0] obtain bs where
    "bpf_run (sample_env 59) (Instructions (execveProgramSpec amd64 1 2)) (sample_maps 0) =
      Some ((sample_maps 0)(1 \<mapsto> RingBuf [bs]))" "\<exists>r. decodeExecveRecord bs = Inr r"
    by (auto simp: sample_ok amd64_def)
  then show ?thesis
    by (auto simp: decodeExecveRecord_def check_size_Inr layout_defs size_defs binary_Size_def)
qed

lemma connect_reported_witness:
  "\<exists>bs. traced (Instructions (connectEnterProgramSpec amd64 3 4)) (Instructions (connectExitProgramSpec 1 2 3))
     (sample_env 42) (sample_env 0) (sample_maps 80) = Some (reported 1 3 80 [] (\<lambda>_. None) (sample_env 42) bs (sample_maps 80))"
  using connect_reported [where A = amd64, OF sample_ok(1) sample_ok(3) [of 42 0]]
  by (auto simp: sample_ok sample_family amd64_def)


lemma chmod_reported_witness:
  "\<exists>bs. traced (Instructions (chmodEnterProgramSpec arm64 3 4)) (Instructions (chmodExitProgramSpec 1 2 3))
     (sample_env 53) (sample_env 0) (sample_maps 320) = Some (reported 1 3 320 [] (\<lambda>_. None) (sample_env 53) bs (sample_maps 320))"
proof -
  have "\<exists>nr \<in> set (chmod_syscalls arm64). e_id (sample_env 53) = word_of_int nr"
    by (simp add: chmod_syscalls_def arm64_def sample_ok)
  with chmod_reported [where A = arm64, OF sample_ok(1) sample_ok(3) [of 53 0]] show ?thesis by auto
qed

lemma behavior_reported_or_counted_witness:
  "\<exists>bs. traced (Instructions (behaviorSyscallEnterProgramSpec amd64 ''procacc'' [101, 310] 3 4))
     (Instructions (behaviorSyscallExitProgramSpec ''procacc'' 1 2 3)) (sample_env 101) (sample_env 0) (sample_maps 80) =
     Some (reported 1 3 80 [] (\<lambda>_. None) (sample_env 101) bs (sample_maps 80))"
  using behavior_reported_or_counted [where A = amd64 and nrs = "[101, 310]" and name = "''procacc''", OF sample_ok(1) sample_ok(4) [of 101 0]]
  by (auto simp: sample_ok)

end
