(* ===== verification/Grouping.thy ===== *)
theory Grouping
  imports Events
begin

text \<open>
  Correlation of events into incident candidates (\<open>internal/events/group.go\<close>): the candidate
  with its process and artifact indexes, the batch \<open>TreeGrouper\<close> and the bounded
  \<open>StreamGrouper\<close>. A slice index out of range, the panic of \<open>flushOldest\<close> on an empty
  slice, is the value \<open>None\<close>.
\<close>

definition DefaultCorrelationWindow :: duration where
  "DefaultCorrelationWindow = 2 * minute"

definition DefaultMaxEventsPerCandidate :: int where
  "DefaultMaxEventsPerCandidate = 4096"

definition DefaultMaxRetainedEvents :: int where
  "DefaultMaxRetainedEvents = 65536"

record Group =
  Events :: "event list"
  DroppedEvents :: nat

section \<open>Candidates\<close>

record candidate =
  c_host :: string
  c_containerID :: string
  c_startTime :: go_time
  c_lastSeen :: go_time
  c_events :: "event list"
  c_pids :: "int set"
  c_artifacts :: "string set"
  c_maxEvents :: int
  c_dropped :: nat

definition index_event :: "event \<Rightarrow> candidate \<Rightarrow> candidate" where
  "index_event e c =
     c\<lparr>c_pids := (if PID e > 0 then insert (PID e) (c_pids c) else c_pids c),
       c_artifacts := (if FilePath e \<noteq> [] then insert (FilePath e) (c_artifacts c)
                       else c_artifacts c)\<rparr>"

definition rebuildIndexes :: "candidate \<Rightarrow> candidate" where
  "rebuildIndexes c =
     foldl (\<lambda>c e. index_event e c) (c\<lparr>c_pids := {}, c_artifacts := {}\<rparr>) (c_events c)"

text \<open>
  Moving the newest \<open>maxEvents\<close> events to the front of the slice and cutting it there drops
  the oldest ones.
\<close>

definition cand_add :: "event \<Rightarrow> candidate \<Rightarrow> candidate" where
  "cand_add e c =
     (let c1 = c\<lparr>c_events := c_events c @ [e]\<rparr>;
          c2 = (if IsZero (c_lastSeen c1) \<or> Timestamp e > c_lastSeen c1
                then c1\<lparr>c_lastSeen := Timestamp e\<rparr> else c1);
          c3 = index_event e c2
      in if c_maxEvents c3 > 0 \<and> int (length (c_events c3)) > c_maxEvents c3
         then rebuildIndexes
           (c3\<lparr>c_events := drop (length (c_events c3) - nat (c_maxEvents c3)) (c_events c3),
               c_dropped := c_dropped c3 + 1\<rparr>)
         else c3)"

definition newCandidate :: "event \<Rightarrow> int \<Rightarrow> candidate" where
  "newCandidate e maxEvents =
     cand_add e \<lparr>c_host = Host e, c_containerID = ContainerID e, c_startTime = Timestamp e,
       c_lastSeen = 0, c_events = [], c_pids = {}, c_artifacts = {},
       c_maxEvents = maxEvents, c_dropped = 0\<rparr>"

definition cand_group :: "candidate \<Rightarrow> Group" where
  "cand_group c = \<lparr>Events = c_events c, DroppedEvents = c_dropped c\<rparr>"

definition related :: "candidate \<Rightarrow> event \<Rightarrow> duration \<Rightarrow> bool" where
  "related c e correlationWindow =
     (if c_host c \<noteq> Host e \<or> c_containerID c \<noteq> ContainerID e then False
      else if time_Sub (Timestamp e) (c_startTime c) > correlationWindow then False
      else if PID e \<in> c_pids c \<or> PPID e \<in> c_pids c then True
      else if FilePath e \<noteq> [] \<and> FilePath e \<in> c_artifacts c then True
      else ExecutablePath e \<noteq> [] \<and> ExecutablePath e \<in> c_artifacts c)"

section \<open>The batch grouper\<close>

definition NewTreeGrouper :: "duration \<Rightarrow> duration" where
  "NewTreeGrouper w = (if w \<le> 0 then DefaultCorrelationWindow else w)"

definition tree_step :: "duration \<Rightarrow> candidate list \<Rightarrow> event \<Rightarrow> candidate list" where
  "tree_step w cs e =
     (case find_last (\<lambda>c. related c e w) cs of
        None \<Rightarrow> cs @ [newCandidate e 0]
      | Some i \<Rightarrow> cs[i := cand_add e (cs ! i)])"

definition tree_Group :: "duration \<Rightarrow> event list \<Rightarrow> Group list" where
  "tree_Group w normalizedEvents =
     map cand_group (foldl (tree_step w) [] (sort_key Timestamp normalizedEvents))"

section \<open>The stream grouper\<close>

record StreamGrouperConfig =
  CorrelationWindow :: duration
  InactivityTimeout :: duration
  MaxCandidates :: int
  MaxEvents :: int
  MaxRetainedEvents :: int

record StreamGrouper =
  sg_config :: StreamGrouperConfig
  sg_candidates :: "candidate list"
  sg_retained :: int

definition NewStreamGrouper :: "StreamGrouperConfig \<Rightarrow> StreamGrouper" where
  "NewStreamGrouper cfg0 =
     (let cfg1 = (if CorrelationWindow cfg0 \<le> 0
                  then cfg0\<lparr>CorrelationWindow := DefaultCorrelationWindow\<rparr> else cfg0);
          cfg2 = (if InactivityTimeout cfg1 \<le> 0
                  then cfg1\<lparr>InactivityTimeout := CorrelationWindow cfg1\<rparr> else cfg1);
          cfg3 = (if MaxCandidates cfg2 \<le> 0 then cfg2\<lparr>MaxCandidates := 4096\<rparr> else cfg2);
          cfg4 = (if MaxEvents cfg3 \<le> 0
                  then cfg3\<lparr>MaxEvents := DefaultMaxEventsPerCandidate\<rparr> else cfg3);
          cfg5 = (if MaxRetainedEvents cfg4 \<le> 0
                  then cfg4\<lparr>MaxRetainedEvents := DefaultMaxRetainedEvents\<rparr> else cfg4);
          cfg6 = (if MaxEvents cfg5 > MaxRetainedEvents cfg5
                  then cfg5\<lparr>MaxEvents := MaxRetainedEvents cfg5\<rparr> else cfg5)
      in \<lparr>sg_config = cfg6, sg_candidates = [], sg_retained = 0\<rparr>)"

definition cand_stale :: "StreamGrouperConfig \<Rightarrow> go_time \<Rightarrow> candidate \<Rightarrow> bool" where
  "cand_stale cfg now c \<longleftrightarrow>
     time_Sub now (c_lastSeen c) \<ge> InactivityTimeout cfg \<or>
     time_Sub now (c_startTime c) \<ge> CorrelationWindow cfg"

fun flush_loop ::
  "StreamGrouperConfig \<Rightarrow> go_time \<Rightarrow> candidate list \<Rightarrow> int \<Rightarrow> Group list \<times> candidate list \<times> int" where
  "flush_loop cfg now [] retained = ([], [], retained)"
| "flush_loop cfg now (c # cs) retained =
     (if cand_stale cfg now c
      then case flush_loop cfg now cs (retained - int (length (c_events c))) of
             (flushed, active, r) \<Rightarrow> (cand_group c # flushed, active, r)
      else case flush_loop cfg now cs retained of
             (flushed, active, r) \<Rightarrow> (flushed, c # active, r))"

definition FlushInactive :: "go_time \<Rightarrow> StreamGrouper \<Rightarrow> Group list \<times> StreamGrouper" where
  "FlushInactive now g =
     (case flush_loop (sg_config g) now (sg_candidates g) (sg_retained g) of
        (flushed, active, r) \<Rightarrow> (flushed, g\<lparr>sg_candidates := active, sg_retained := r\<rparr>))"

definition flushOldest :: "StreamGrouper \<Rightarrow> (Group \<times> StreamGrouper) option" where
  "flushOldest g =
     (if sg_candidates g = [] then None
      else let i = least_index c_lastSeen (sg_candidates g);
               oldest = sg_candidates g ! i
           in Some (cand_group oldest,
                g\<lparr>sg_candidates := remove_nth i (sg_candidates g),
                  sg_retained := sg_retained g - int (length (c_events oldest))\<rparr>))"

lemma flushOldest_shrinks:
  "flushOldest g = Some (gr, g') \<Longrightarrow> length (sg_candidates g') < length (sg_candidates g)"
  using least_index_less [of "sg_candidates g" c_lastSeen]
  by (auto simp: flushOldest_def Let_def split: if_splits)

text \<open>The loop \<open>for retained > MaxRetainedEvents\<close>, which flushes the oldest candidate.\<close>

function shed :: "StreamGrouper \<Rightarrow> (Group list \<times> StreamGrouper) option" where
  "shed g =
     (if sg_retained g > MaxRetainedEvents (sg_config g)
      then case flushOldest g of
             None \<Rightarrow> None
           | Some (gr, g') \<Rightarrow> map_option (\<lambda>(grs, g''). (gr # grs, g'')) (shed g')
      else Some ([], g))"
  by pat_completeness auto
termination
  by (relation "measure (\<lambda>g. length (sg_candidates g))") (auto dest: flushOldest_shrinks)

declare shed.simps [simp del]

definition stream_Add :: "event \<Rightarrow> StreamGrouper \<Rightarrow> (Group list \<times> StreamGrouper) option" where
  "stream_Add e g0 =
     (case FlushInactive (Timestamp e) g0 of (flushed, g) \<Rightarrow>
      (case find_last (\<lambda>c. related c e (CorrelationWindow (sg_config g))) (sg_candidates g) of
         Some i \<Rightarrow>
           (let before = length (c_events (sg_candidates g ! i));
                c = cand_add e (sg_candidates g ! i);
                g1 = g\<lparr>sg_candidates := (sg_candidates g)[i := c],
                       sg_retained := sg_retained g + (int (length (c_events c)) - int before)\<rparr>
            in map_option (\<lambda>(grs, g2). (flushed @ grs, g2)) (shed g1))
       | None \<Rightarrow>
           (case (if int (length (sg_candidates g)) \<ge> MaxCandidates (sg_config g)
                  then map_option (\<lambda>(gr, g1). (flushed @ [gr], g1)) (flushOldest g)
                  else Some (flushed, g)) of
              None \<Rightarrow> None
            | Some (flushed1, g1) \<Rightarrow>
                (let created = newCandidate e (MaxEvents (sg_config g1));
                     g2 = g1\<lparr>sg_candidates := sg_candidates g1 @ [created],
                             sg_retained := sg_retained g1 + int (length (c_events created))\<rparr>
                 in map_option (\<lambda>(grs, g3). (flushed1 @ grs, g3)) (shed g2)))))"

definition stream_Drain :: "StreamGrouper \<Rightarrow> Group list \<times> StreamGrouper" where
  "stream_Drain g =
     (map cand_group (sg_candidates g), g\<lparr>sg_candidates := [], sg_retained := 0\<rparr>)"

definition ActiveCandidates :: "StreamGrouper \<Rightarrow> int" where
  "ActiveCandidates g = int (length (sg_candidates g))"

text \<open>A whole stream: the events added in turn, then the drain.\<close>

fun stream_run :: "StreamGrouper \<Rightarrow> event list \<Rightarrow> (Group list \<times> StreamGrouper) option" where
  "stream_run g [] = Some ([], g)"
| "stream_run g (e # es) =
     (case stream_Add e g of
        None \<Rightarrow> None
      | Some (grs, g') \<Rightarrow> map_option (\<lambda>(rest, g''). (grs @ rest, g'')) (stream_run g' es))"

end
