(* ===== verification/Grouping_Laws.thy ===== *)
theory Grouping_Laws
  imports Grouping
begin

text \<open>
  What the groupers promise. The candidate invariant (indexes that describe the retained
  events, one host and container, the event limit), the invariant of the stream grouper
  (its counter is the number of retained events, its bounds hold) and the interface
  \<open>event_grouper\<close>, which both groupers keep: every event is in one group or counted as dropped.
\<close>

section \<open>Candidates\<close>

definition index_pids :: "event list \<Rightarrow> int set" where
  "index_pids es = {PID e | e. e \<in> set es \<and> PID e > 0}"

definition index_artifacts :: "event list \<Rightarrow> string set" where
  "index_artifacts es = {FilePath e | e. e \<in> set es \<and> FilePath e \<noteq> []}"

definition cand_inv :: "candidate \<Rightarrow> bool" where
  "cand_inv c \<longleftrightarrow>
     c_events c \<noteq> [] \<and>
     c_pids c = index_pids (c_events c) \<and>
     c_artifacts c = index_artifacts (c_events c) \<and>
     (0 < c_maxEvents c \<longrightarrow> int (length (c_events c)) \<le> c_maxEvents c) \<and>
     (c_maxEvents c \<le> 0 \<longrightarrow> c_dropped c = 0) \<and>
     (\<forall>e\<in>set (c_events c). Host e = c_host c \<and> ContainerID e = c_containerID c)"

definition cand_window :: "duration \<Rightarrow> candidate \<Rightarrow> bool" where
  "cand_window w c \<longleftrightarrow> (\<forall>e\<in>set (c_events c). time_Sub (Timestamp e) (c_startTime c) \<le> w)"

definition cand_total :: "candidate \<Rightarrow> nat" where
  "cand_total c = length (c_events c) + c_dropped c"

definition group_total :: "Group \<Rightarrow> nat" where
  "group_total G = length (Events G) + DroppedEvents G"

lemma group_total_cand_group [simp]: "group_total (cand_group c) = cand_total c"
  by (simp add: group_total_def cand_group_def cand_total_def)

lemma Events_cand_group [simp]: "Events (cand_group c) = c_events c"
  by (simp add: cand_group_def)

lemma index_event_frame [group_simps]:
  "c_events (index_event e c) = c_events c" "c_host (index_event e c) = c_host c"
  "c_containerID (index_event e c) = c_containerID c"
  "c_startTime (index_event e c) = c_startTime c" "c_lastSeen (index_event e c) = c_lastSeen c"
  "c_maxEvents (index_event e c) = c_maxEvents c" "c_dropped (index_event e c) = c_dropped c"
  by (simp_all add: index_event_def)

lemma index_event_indexes [group_simps]:
  "c_pids (index_event e c) = (if PID e > 0 then insert (PID e) (c_pids c) else c_pids c)"
  "c_artifacts (index_event e c) =
     (if FilePath e \<noteq> [] then insert (FilePath e) (c_artifacts c) else c_artifacts c)"
  by (simp_all add: index_event_def)

lemma index_events_frame [group_simps]:
  "c_events (foldl (\<lambda>c e. index_event e c) c es) = c_events c"
  "c_host (foldl (\<lambda>c e. index_event e c) c es) = c_host c"
  "c_containerID (foldl (\<lambda>c e. index_event e c) c es) = c_containerID c"
  "c_startTime (foldl (\<lambda>c e. index_event e c) c es) = c_startTime c"
  "c_lastSeen (foldl (\<lambda>c e. index_event e c) c es) = c_lastSeen c"
  "c_maxEvents (foldl (\<lambda>c e. index_event e c) c es) = c_maxEvents c"
  "c_dropped (foldl (\<lambda>c e. index_event e c) c es) = c_dropped c"
  by (induction es arbitrary: c) (simp_all add: group_simps)

lemma index_events_indexes [group_simps]:
  "c_pids (foldl (\<lambda>c e. index_event e c) c es) = c_pids c \<union> index_pids es"
  "c_artifacts (foldl (\<lambda>c e. index_event e c) c es) = c_artifacts c \<union> index_artifacts es"
  by (induction es arbitrary: c) (auto simp: index_event_def index_pids_def index_artifacts_def)

lemma index_snoc:
  "index_pids (es @ [e]) = (if PID e > 0 then insert (PID e) (index_pids es) else index_pids es)"
  "index_artifacts (es @ [e]) =
     (if FilePath e \<noteq> [] then insert (FilePath e) (index_artifacts es) else index_artifacts es)"
  by (auto simp: index_pids_def index_artifacts_def)

text \<open>The events a candidate holds after \<open>add\<close>, and the fields \<open>add\<close> keeps.\<close>

definition add_events :: "event \<Rightarrow> candidate \<Rightarrow> event list" where
  "add_events e c =
     (let es = c_events c @ [e]
      in if c_maxEvents c > 0 \<and> int (length es) > c_maxEvents c
         then drop (length es - nat (c_maxEvents c)) es else es)"

lemma cand_add_frame [group_simps]:
  "c_host (cand_add e c) = c_host c" "c_containerID (cand_add e c) = c_containerID c"
  "c_startTime (cand_add e c) = c_startTime c" "c_maxEvents (cand_add e c) = c_maxEvents c"
  by (simp_all add: cand_add_def Let_def rebuildIndexes_def group_simps)

lemma cand_add_events [group_simps]: "c_events (cand_add e c) = add_events e c"
  by (auto simp: cand_add_def add_events_def Let_def rebuildIndexes_def group_simps)

lemma cand_add_dropped [group_simps]:
  "c_dropped (cand_add e c) =
     (if c_maxEvents c > 0 \<and> int (length (c_events c) + 1) > c_maxEvents c
      then c_dropped c + 1 else c_dropped c)"
  by (simp add: cand_add_def Let_def rebuildIndexes_def group_simps)

lemma cand_add_lastSeen [group_simps]:
  "c_lastSeen (cand_add e c) =
     (if c_lastSeen c = 0 \<or> Timestamp e > c_lastSeen c then Timestamp e else c_lastSeen c)"
  by (simp add: cand_add_def Let_def rebuildIndexes_def group_simps)

lemma cand_add_indexes:
  assumes "c_pids c = index_pids (c_events c)" "c_artifacts c = index_artifacts (c_events c)"
  shows "c_pids (cand_add e c) = index_pids (add_events e c)"
    "c_artifacts (cand_add e c) = index_artifacts (add_events e c)"
  using assms
  by (auto simp: cand_add_def add_events_def Let_def rebuildIndexes_def group_simps
      index_snoc simp del: drop_append)

lemma add_events_mset: "mset (add_events e c) \<subseteq># add_mset e (mset (c_events c))"
  using drop_subset_mset [of _ "c_events c @ [e]"]
  by (simp add: add_events_def Let_def del: drop_append)

lemma add_events_last: "e \<in> set (add_events e c)"
  by (auto simp: add_events_def Let_def)

lemma add_events_set: "set (add_events e c) \<subseteq> insert e (set (c_events c))"
  using set_mset_mono [OF add_events_mset] by fastforce

lemma cand_inv_add:
  assumes "c_events c \<noteq> [] \<longrightarrow> cand_inv c" "c_pids c = index_pids (c_events c)"
    "c_artifacts c = index_artifacts (c_events c)" "c_maxEvents c \<le> 0 \<longrightarrow> c_dropped c = 0"
    "Host e = c_host c" "ContainerID e = c_containerID c"
  shows "cand_inv (cand_add e c)"
proof -
  have ne: "add_events e c \<noteq> []"
    using add_events_last [of e c] by auto
  have hosts: "\<forall>x\<in>set (add_events e c). Host x = c_host c \<and> ContainerID x = c_containerID c"
    using add_events_set [of e c] assms(1,5,6) by (cases "c_events c = []") (auto simp: cand_inv_def)
  have "0 < c_maxEvents c \<Longrightarrow> int (length (add_events e c)) \<le> c_maxEvents c"
    by (auto simp: add_events_def Let_def)
  with ne hosts assms(4) cand_add_indexes [OF assms(2,3)] show ?thesis
    by (simp add: cand_inv_def group_simps)
qed

lemma cand_inv_add_related:
  "cand_inv c \<Longrightarrow> related c e w \<Longrightarrow> cand_inv (cand_add e c)"
  by (rule cand_inv_add) (auto simp: cand_inv_def related_def split: if_splits)

lemma cand_inv_new: "cand_inv (newCandidate e m)"
  unfolding newCandidate_def
  by (rule cand_inv_add) (auto simp: index_pids_def index_artifacts_def)

lemma cand_total_add: "cand_inv c \<Longrightarrow> cand_total (cand_add e c) = cand_total c + 1"
  by (auto simp: cand_total_def cand_inv_def group_simps add_events_def Let_def)

lemma new_events [group_simps]: "c_events (newCandidate e m) = [e]"
  by (auto simp: newCandidate_def group_simps add_events_def Let_def)

lemma new_fields [group_simps]:
  "c_maxEvents (newCandidate e m) = m" "c_startTime (newCandidate e m) = Timestamp e"
  "c_host (newCandidate e m) = Host e" "c_containerID (newCandidate e m) = ContainerID e"
  "c_lastSeen (newCandidate e m) = Timestamp e"
  by (auto simp: newCandidate_def group_simps)

lemma new_dropped [group_simps]: "c_dropped (newCandidate e m) = 0"
  by (auto simp: newCandidate_def group_simps)

lemma cand_total_new [simp]: "cand_total (newCandidate e m) = 1"
  by (simp add: cand_total_def group_simps)

lemma cand_window_new: "0 \<le> w \<Longrightarrow> cand_window w (newCandidate e m)"
  by (simp add: cand_window_def group_simps time_Sub_def)

lemma cand_window_add: "cand_window w c \<Longrightarrow> related c e w \<Longrightarrow> cand_window w (cand_add e c)"
  using add_events_set [of e c]
  by (fastforce simp: cand_window_def related_def group_simps split: if_splits)

section \<open>The stream grouper's invariant\<close>

definition config_ok :: "StreamGrouperConfig \<Rightarrow> bool" where
  "config_ok cfg \<longleftrightarrow> 0 < CorrelationWindow cfg \<and> 0 < InactivityTimeout cfg \<and>
     0 < MaxCandidates cfg \<and> 0 < MaxEvents cfg \<and> MaxEvents cfg \<le> MaxRetainedEvents cfg"

definition sg_core :: "StreamGrouper \<Rightarrow> bool" where
  "sg_core g \<longleftrightarrow>
     config_ok (sg_config g) \<and>
     (\<forall>c\<in>set (sg_candidates g). cand_inv c \<and> c_maxEvents c = MaxEvents (sg_config g) \<and>
        cand_window (CorrelationWindow (sg_config g)) c) \<and>
     sg_retained g = (\<Sum>c\<leftarrow>sg_candidates g. int (length (c_events c))) \<and>
     int (length (sg_candidates g)) \<le> MaxCandidates (sg_config g)"

definition sg_inv :: "StreamGrouper \<Rightarrow> bool" where
  "sg_inv g \<longleftrightarrow> sg_core g \<and> sg_retained g \<le> MaxRetainedEvents (sg_config g)"

definition sg_total :: "StreamGrouper \<Rightarrow> nat" where
  "sg_total g = (\<Sum>c\<leftarrow>sg_candidates g. cand_total c)"

definition sg_events :: "StreamGrouper \<Rightarrow> event multiset" where
  "sg_events g = mset (concat (map c_events (sg_candidates g)))"

definition groups_total :: "Group list \<Rightarrow> nat" where
  "groups_total gs = (\<Sum>G\<leftarrow>gs. group_total G)"

definition groups_events :: "Group list \<Rightarrow> event multiset" where
  "groups_events gs = mset (concat (map Events gs))"

definition group_homogeneous :: "Group \<Rightarrow> bool" where
  "group_homogeneous G \<longleftrightarrow> Events G \<noteq> [] \<and>
     (\<exists>h k. \<forall>e\<in>set (Events G). Host e = h \<and> ContainerID e = k)"

lemma groups_append [group_simps]:
  "groups_total (xs @ ys) = groups_total xs + groups_total ys"
  "groups_events (xs @ ys) = groups_events xs + groups_events ys"
  "groups_total [] = 0" "groups_events [] = {#}"
  "groups_total (G # xs) = group_total G + groups_total xs"
  "groups_events (G # xs) = mset (Events G) + groups_events xs"
  by (simp_all add: groups_total_def groups_events_def)

lemma groups_map_cand [group_simps]:
  "groups_total (map cand_group cs) = (\<Sum>c\<leftarrow>cs. cand_total c)"
  "groups_events (map cand_group cs) = mset (concat (map c_events cs))"
  by (simp_all add: groups_total_def groups_events_def comp_def)

lemma cand_inv_homogeneous: "cand_inv c \<Longrightarrow> group_homogeneous (cand_group c)"
  by (auto simp: cand_inv_def group_homogeneous_def)

lemma config_ok_New: "config_ok (sg_config (NewStreamGrouper cfg))"
  by (auto simp: NewStreamGrouper_def config_ok_def Let_def DefaultCorrelationWindow_def
      DefaultMaxEventsPerCandidate_def DefaultMaxRetainedEvents_def)

lemma sg_inv_New: "sg_inv (NewStreamGrouper cfg)"
  using config_ok_New [of cfg]
  by (auto simp: sg_inv_def sg_core_def config_ok_def NewStreamGrouper_def Let_def)

text \<open>
  The moves of candidates from the grouper to the output keep the multiset of groups, so
  they keep every sum over it.
\<close>

definition moved :: "StreamGrouper \<Rightarrow> Group list \<Rightarrow> StreamGrouper \<Rightarrow> bool" where
  "moved g out g' \<longleftrightarrow> sg_config g' = sg_config g \<and>
     mset (map cand_group (sg_candidates g)) =
       mset out + mset (map cand_group (sg_candidates g')) \<and>
     set (sg_candidates g') \<subseteq> set (sg_candidates g)"

lemma moved_total: "moved g out g' \<Longrightarrow> sg_total g = groups_total out + sg_total g'"
proof -
  assume "moved g out g'"
  then have "mset (map group_total (map cand_group (sg_candidates g))) =
      mset (map group_total out) + mset (map group_total (map cand_group (sg_candidates g')))"
    unfolding moved_def mset_map by (metis image_mset_union mset_map)
  then have "mset (map cand_total (sg_candidates g)) =
      mset (map group_total out) + mset (map cand_total (sg_candidates g'))"
    by (simp add: comp_def)
  then show ?thesis
    unfolding sg_total_def groups_total_def
    by (metis sum_mset.union sum_mset_sum_list)
qed

lemma concat_events_mset: "mset (concat (map f xs)) = (\<Sum>x\<in>#mset xs. mset (f x))"
  by (induction xs) auto

lemma moved_events: "moved g out g' \<Longrightarrow> sg_events g = groups_events out + sg_events g'"
proof -
  assume "moved g out g'"
  then have "(\<Sum>G\<in>#mset (map cand_group (sg_candidates g)). mset (Events G)) =
      (\<Sum>G\<in>#mset out. mset (Events G)) +
      (\<Sum>G\<in>#mset (map cand_group (sg_candidates g')). mset (Events G))"
    by (simp add: moved_def)
  then show ?thesis
    by (simp add: sg_events_def groups_events_def concat_events_mset image_mset.compositionality comp_def)
qed

lemma moved_homogeneous:
  "moved g out g' \<Longrightarrow> sg_core g \<Longrightarrow> G \<in> set out \<Longrightarrow> group_homogeneous G"
proof -
  assume m: "moved g out g'" and core: "sg_core g" and G: "G \<in> set out"
  then have "G \<in># mset (map cand_group (sg_candidates g))" by (simp add: moved_def)
  then obtain c where "c \<in> set (sg_candidates g)" "G = cand_group c" by auto
  with core show ?thesis by (auto simp: sg_core_def intro: cand_inv_homogeneous)
qed

lemma moved_trans: "moved g xs g' \<Longrightarrow> moved g' ys g'' \<Longrightarrow> moved g (xs @ ys) g''"
  by (auto simp: moved_def)

lemma moved_refl: "moved g [] g"
  by (simp add: moved_def)

text \<open>\<open>flushOldest\<close>, the eviction loop and \<open>FlushInactive\<close> only move.\<close>

lemma flushOldest_core:
  assumes "sg_core g" "sg_candidates g \<noteq> []"
  shows "\<exists>gr g'. flushOldest g = Some (gr, g') \<and> sg_core g' \<and> moved g [gr] g' \<and>
    length (sg_candidates g') = length (sg_candidates g) - 1"
proof -
  let ?cs = "sg_candidates g" and ?i = "least_index c_lastSeen (sg_candidates g)"
  have i: "?i < length ?cs" by (rule least_index_less [OF assms(2)])
  from set_remove_nth_subset [of ?i ?cs] assms i
  show ?thesis
    by (auto simp: flushOldest_def Let_def sg_core_def moved_def mset_remove_nth [OF i]
        sum_list_remove_nth [OF i, of "\<lambda>c. int (length (c_events c))"])
qed

lemma shed_core:
  assumes "sg_core g"
  shows "\<exists>out g'. shed g = Some (out, g') \<and> sg_inv g' \<and> moved g out g' \<and>
    length (sg_candidates g') \<le> length (sg_candidates g)"
  using assms
proof (induction g rule: shed.induct)
  case (1 g)
  show ?case
  proof (cases "sg_retained g > MaxRetainedEvents (sg_config g)")
    case False
    with "1.prems" show ?thesis
      by (subst shed.simps) (auto simp: sg_inv_def moved_refl)
  next
    case True
    with "1.prems" have "sg_candidates g \<noteq> []"
      by (auto simp: sg_core_def config_ok_def)
    from flushOldest_core [OF "1.prems" this] obtain gr g1 where
      g1: "flushOldest g = Some (gr, g1)" "sg_core g1" "moved g [gr] g1"
        "length (sg_candidates g1) = length (sg_candidates g) - 1" by blast
    from "1.IH" [OF True g1(1) refl g1(2)] obtain out g' where
      g': "shed g1 = Some (out, g')" "sg_inv g'" "moved g1 out g'"
        "length (sg_candidates g') \<le> length (sg_candidates g1)" by blast
    have "shed g = Some (gr # out, g')"
      using True g1(1) g'(1) by (subst shed.simps) simp
    with g1 g' moved_trans [OF g1(3) g'(3)] show ?thesis by simp
  qed
qed

lemma flush_loop_eq:
  "flush_loop cfg now cs r =
     (map cand_group (filter (cand_stale cfg now) cs), filter (\<lambda>c. \<not> cand_stale cfg now c) cs,
      r - (\<Sum>c\<leftarrow>filter (cand_stale cfg now) cs. int (length (c_events c))))"
  by (induction cs arbitrary: r) auto

lemma FlushInactive_eq:
  "FlushInactive now g =
     (map cand_group (filter (cand_stale (sg_config g) now) (sg_candidates g)),
      g\<lparr>sg_candidates := filter (\<lambda>c. \<not> cand_stale (sg_config g) now c) (sg_candidates g),
        sg_retained := sg_retained g -
          (\<Sum>c\<leftarrow>filter (cand_stale (sg_config g) now) (sg_candidates g). int (length (c_events c)))\<rparr>)"
  by (simp add: FlushInactive_def flush_loop_eq)

lemma FlushInactive_core:
  assumes "sg_inv g" "FlushInactive now g = (out, g')"
  shows "sg_inv g' \<and> moved g out g' \<and> length (sg_candidates g') \<le> length (sg_candidates g)"
proof -
  let ?P = "cand_stale (sg_config g) now" and ?cs = "sg_candidates g"
  have sums: "(\<Sum>c\<leftarrow>?cs. int (length (c_events c))) =
      (\<Sum>c\<leftarrow>filter ?P ?cs. int (length (c_events c))) +
      (\<Sum>c\<leftarrow>filter (\<lambda>c. \<not> ?P c) ?cs. int (length (c_events c)))"
    by (rule sum_list_filter_partition)
  have nonneg: "0 \<le> (\<Sum>c\<leftarrow>filter ?P ?cs. int (length (c_events c)))"
    by (rule sum_list_nonneg) auto
  have len: "int (length (filter (\<lambda>c. \<not> ?P c) ?cs)) \<le> int (length ?cs)" by simp
  have parts: "mset (map cand_group ?cs) = mset (map cand_group (filter ?P ?cs)) +
      mset (map cand_group (filter (\<lambda>c. \<not> ?P c) ?cs))"
    by (metis (no_types) image_mset_union mset_filter mset_map multiset_partition)
  from assms(2) have g': "out = map cand_group (filter ?P ?cs)"
    "sg_candidates g' = filter (\<lambda>c. \<not> ?P c) ?cs" "sg_config g' = sg_config g"
    "sg_retained g' = sg_retained g - (\<Sum>c\<leftarrow>filter ?P ?cs. int (length (c_events c)))"
    by (auto simp: FlushInactive_eq)
  from assms(1) sums nonneg len parts show ?thesis
    by (auto simp: g' sg_inv_def sg_core_def moved_def intro: order_trans [OF len])
qed

section \<open>Adding an event\<close>

lemma extend_core:
  assumes core: "sg_core g" and i: "i < length (sg_candidates g)"
    and rel: "related (sg_candidates g ! i) e (CorrelationWindow (sg_config g))"
    and g': "g' = g\<lparr>sg_candidates := (sg_candidates g)[i := cand_add e (sg_candidates g ! i)],
      sg_retained := sg_retained g + (int (length (c_events (cand_add e (sg_candidates g ! i)))) -
        int (length (c_events (sg_candidates g ! i))))\<rparr>"
  shows "sg_core g'" "sg_total g' = sg_total g + 1" "sg_events g' \<subseteq># add_mset e (sg_events g)"
proof -
  let ?c = "sg_candidates g ! i"
  from i have c_in: "?c \<in> set (sg_candidates g)" by simp
  with core have c: "cand_inv ?c" "c_maxEvents ?c = MaxEvents (sg_config g)"
    "cand_window (CorrelationWindow (sg_config g)) ?c" by (auto simp: sg_core_def)
  note added = cand_inv_add_related [OF c(1) rel] cand_window_add [OF c(3) rel]
  show "sg_core g'"
    using core i added c(2)
    by (auto simp: g' sg_core_def sum_list_update_nth group_simps
        dest!: set_update_subset_insert [THEN subsetD])
  show "sg_total g' = sg_total g + 1"
    using cand_total_add [OF c(1), of e]
      sum_list_update_nth_add [OF i, of cand_total "cand_add e ?c"]
    by (simp add: g' sg_total_def)
  have "sg_events g' + mset (c_events ?c) =
      sg_events g + mset (c_events (cand_add e ?c))"
    using mset_concat_map_update [OF i, of c_events "cand_add e ?c"]
    by (simp add: g' sg_events_def)
  also have "\<dots> \<subseteq># sg_events g + add_mset e (mset (c_events ?c))"
    by (intro subset_mset.add_left_mono) (simp add: group_simps add_events_mset)
  finally have "sg_events g' + mset (c_events ?c) \<subseteq># add_mset e (sg_events g) + mset (c_events ?c)"
    by simp
  then show "sg_events g' \<subseteq># add_mset e (sg_events g)" by (rule mset_subset_eq_mono_add_right_cancel [THEN iffD1])
qed

lemma insert_core:
  assumes core: "sg_core g"
    and room: "int (length (sg_candidates g)) < MaxCandidates (sg_config g)"
    and g': "g' = g\<lparr>sg_candidates := sg_candidates g @ [newCandidate e (MaxEvents (sg_config g))],
      sg_retained := sg_retained g + int (length (c_events (newCandidate e (MaxEvents (sg_config g)))))\<rparr>"
  shows "sg_core g'" "sg_total g' = sg_total g + 1" "sg_events g' = add_mset e (sg_events g)"
proof -
  from core room show "sg_core g'"
    by (auto simp: g' sg_core_def cand_inv_new group_simps config_ok_def intro!: cand_window_new)
  show "sg_total g' = sg_total g + 1" by (simp add: g' sg_total_def)
  show "sg_events g' = add_mset e (sg_events g)" by (simp add: g' sg_events_def group_simps)
qed

definition add_ok :: "event \<Rightarrow> StreamGrouper \<Rightarrow> Group list \<Rightarrow> StreamGrouper \<Rightarrow> bool" where
  "add_ok e g out g' \<longleftrightarrow>
     sg_inv g' \<and> sg_config g' = sg_config g \<and>
     groups_total out + sg_total g' = sg_total g + 1 \<and>
     groups_events out + sg_events g' \<subseteq># add_mset e (sg_events g) \<and>
     (\<forall>G\<in>set out. group_homogeneous G)"

lemma add_ok_shed:
  assumes m1: "moved g xs g1" and inv: "sg_core g" "sg_core g2"
    and g2: "sg_config g2 = sg_config g1"
      "sg_total g2 = sg_total g1 + 1" "sg_events g2 \<subseteq># add_mset e (sg_events g1)"
  shows "\<exists>ys g3. shed g2 = Some (ys, g3) \<and> add_ok e g (xs @ ys) g3"
proof -
  from shed_core [OF inv(2)] obtain ys g3 where
    g3: "shed g2 = Some (ys, g3)" "sg_inv g3" "moved g2 ys g3" by blast
  have "groups_events (xs @ ys) + sg_events g3 = groups_events xs + sg_events g2"
    using moved_events [OF g3(3)] by (simp add: group_simps)
  also have "\<dots> \<subseteq># groups_events xs + add_mset e (sg_events g1)"
    by (rule subset_mset.add_left_mono [OF g2(3)])
  also have "\<dots> = add_mset e (sg_events g)"
    using moved_events [OF m1] by simp
  finally have events: "groups_events (xs @ ys) + sg_events g3 \<subseteq># add_mset e (sg_events g)" .
  have "groups_total (xs @ ys) + sg_total g3 = sg_total g + 1"
    using moved_total [OF m1] moved_total [OF g3(3)] g2(2) by (simp add: group_simps)
  with events g3 m1 g2(1) moved_homogeneous [OF m1 inv(1)] moved_homogeneous [OF g3(3) inv(2)]
  show ?thesis by (auto simp: add_ok_def moved_def)
qed

lemma stream_Add_ok:
  assumes inv: "sg_inv g0"
  shows "\<exists>out g'. stream_Add e g0 = Some (out, g') \<and> add_ok e g0 out g'"
proof -
  obtain xs g where fl: "FlushInactive (Timestamp e) g0 = (xs, g)" by fastforce
  from FlushInactive_core [OF inv fl] have g: "sg_core g" "moved g0 xs g" by (auto simp: sg_inv_def)
  from inv have core0: "sg_core g0" by (simp add: sg_inv_def)
  show ?thesis
  proof (cases "find_last (\<lambda>c. related c e (CorrelationWindow (sg_config g))) (sg_candidates g)")
    case (Some i)
    let ?g1 = "g\<lparr>sg_candidates := (sg_candidates g)[i := cand_add e (sg_candidates g ! i)],
      sg_retained := sg_retained g + (int (length (c_events (cand_add e (sg_candidates g ! i)))) -
        int (length (c_events (sg_candidates g ! i))))\<rparr>"
    from find_last_Some [OF Some] have i: "i < length (sg_candidates g)"
      "related (sg_candidates g ! i) e (CorrelationWindow (sg_config g))" by auto
    note ext = extend_core [OF g(1) i, of ?g1, OF refl]
    from add_ok_shed [OF g(2) core0 ext(1) _ ext(2,3)] show ?thesis
      by (auto simp: stream_Add_def fl Some Let_def)
  next
    case None
    let ?full = "int (length (sg_candidates g)) \<ge> MaxCandidates (sg_config g)"
    obtain ys g1 where g1: "(if ?full then map_option (\<lambda>(gr, g1). (xs @ [gr], g1)) (flushOldest g)
        else Some (xs, g)) = Some (ys, g1)" "sg_core g1" "moved g0 ys g1"
        "int (length (sg_candidates g1)) < MaxCandidates (sg_config g1)"
    proof (cases ?full)
      case True
      with g(1) have ne: "sg_candidates g \<noteq> []" by (auto simp: sg_core_def config_ok_def)
      from flushOldest_core [OF g(1) ne] obtain gr g1 where
        *: "flushOldest g = Some (gr, g1)" "sg_core g1" "moved g [gr] g1"
          "length (sg_candidates g1) = length (sg_candidates g) - 1" by blast
      from g(1) True ne * have "int (length (sg_candidates g1)) < MaxCandidates (sg_config g1)"
        by (cases "sg_candidates g") (auto simp: sg_core_def moved_def)
      with that [of "xs @ [gr]" g1] True * moved_trans [OF g(2) *(3)] show ?thesis by simp
    next
      case False
      with that [of xs g] g show ?thesis by simp
    qed
    let ?g2 = "g1\<lparr>sg_candidates := sg_candidates g1 @ [newCandidate e (MaxEvents (sg_config g1))],
      sg_retained := sg_retained g1 + int (length (c_events (newCandidate e (MaxEvents (sg_config g1)))))\<rparr>"
    note ins = insert_core [OF g1(2,4), of ?g2 e, OF refl]
    from ins(3) have "sg_events ?g2 \<subseteq># add_mset e (sg_events g1)" by simp
    from add_ok_shed [OF g1(3) core0 ins(1) _ ins(2) this] show ?thesis
      by (auto simp: stream_Add_def fl None Let_def g1(1))
  qed
qed

section \<open>Whole streams\<close>

lemma stream_run_ok:
  assumes "sg_inv g"
  shows "\<exists>out g'. stream_run g es = Some (out, g') \<and> sg_inv g' \<and>
    groups_total out + sg_total g' = sg_total g + length es \<and>
    groups_events out + sg_events g' \<subseteq># sg_events g + mset es \<and>
    (\<forall>G\<in>set out. group_homogeneous G)"
  using assms
proof (induction es arbitrary: g)
  case Nil
  then show ?case by (simp add: group_simps)
next
  case (Cons e es)
  from stream_Add_ok [OF Cons.prems, of e] obtain xs g1 where
    g1: "stream_Add e g = Some (xs, g1)" "add_ok e g xs g1" by blast
  then have inv1: "sg_inv g1" by (simp add: add_ok_def)
  from Cons.IH [OF inv1] obtain ys g2 where
    g2: "stream_run g1 es = Some (ys, g2)" "sg_inv g2"
      "groups_total ys + sg_total g2 = sg_total g1 + length es"
      "groups_events ys + sg_events g2 \<subseteq># sg_events g1 + mset es"
      "\<forall>G\<in>set ys. group_homogeneous G" by blast
  have "groups_events (xs @ ys) + sg_events g2 \<subseteq># groups_events xs + (sg_events g1 + mset es)"
    using subset_mset.add_left_mono [OF g2(4), of "groups_events xs"]
    by (simp add: group_simps add.assoc)
  also have "\<dots> \<subseteq># sg_events g + mset (e # es)"
    using subset_mset.add_right_mono [of _ _ "mset es"] g1(2)
    by (fastforce simp: add_ok_def add.assoc)
  finally show ?case
    using g1 g2 by (auto simp: add_ok_def group_simps)
qed

text \<open>All groups a stream of events gives rise to, those of the final drain included.\<close>

definition stream_Group :: "StreamGrouperConfig \<Rightarrow> event list \<Rightarrow> Group list" where
  "stream_Group cfg es =
     (case stream_run (NewStreamGrouper cfg) es of
        None \<Rightarrow> []
      | Some (out, g) \<Rightarrow> out @ fst (stream_Drain g))"

lemma stream_Group_facts:
  "groups_total (stream_Group cfg es) = length es"
  "groups_events (stream_Group cfg es) \<subseteq># mset es"
  "G \<in> set (stream_Group cfg es) \<Longrightarrow> group_homogeneous G"
proof -
  have zero: "sg_total (NewStreamGrouper cfg) = 0" "sg_events (NewStreamGrouper cfg) = {#}"
    by (simp_all add: NewStreamGrouper_def Let_def sg_total_def sg_events_def)
  from stream_run_ok [OF sg_inv_New, of cfg es] zero obtain out g where
    run: "stream_run (NewStreamGrouper cfg) es = Some (out, g)" "sg_inv g"
      "groups_total out + sg_total g = length es"
      "groups_events out + sg_events g \<subseteq># mset es"
      "\<forall>G\<in>set out. group_homogeneous G" by auto
  then have groups: "stream_Group cfg es = out @ map cand_group (sg_candidates g)"
    by (simp add: stream_Group_def stream_Drain_def)
  from run show "groups_total (stream_Group cfg es) = length es"
    by (simp add: groups group_simps sg_total_def)
  from run show "groups_events (stream_Group cfg es) \<subseteq># mset es"
    by (simp add: groups group_simps sg_events_def)
  show "G \<in> set (stream_Group cfg es) \<Longrightarrow> group_homogeneous G"
    using run(2,5) by (auto simp: groups sg_inv_def sg_core_def intro: cand_inv_homogeneous)
qed

section \<open>The batch grouper\<close>

definition tree_cand :: "duration \<Rightarrow> candidate \<Rightarrow> bool" where
  "tree_cand w c \<longleftrightarrow> cand_inv c \<and> c_maxEvents c = 0 \<and> cand_window w c \<and>
     c_startTime c = Timestamp (hd (c_events c)) \<and> sorted (map Timestamp (c_events c))"

lemma add_events_unbounded: "c_maxEvents c = 0 \<Longrightarrow> add_events e c = c_events c @ [e]"
  by (simp add: add_events_def Let_def)

lemma tree_cand_new: "0 \<le> w \<Longrightarrow> tree_cand w (newCandidate e 0)"
  by (simp add: tree_cand_def cand_inv_new cand_window_new group_simps)

lemma tree_cand_add:
  assumes "tree_cand w c" "related c e w" "\<forall>x\<in>set (c_events c). Timestamp x \<le> Timestamp e"
  shows "tree_cand w (cand_add e c)"
  using assms cand_inv_add_related [of c e w] cand_window_add [of w c e]
  by (auto simp: tree_cand_def group_simps add_events_unbounded sorted_append cand_inv_def)

lemma tree_step_cand:
  assumes "0 \<le> w" "\<forall>c\<in>set cs. tree_cand w c \<and> (\<forall>x\<in>set (c_events c). Timestamp x \<le> Timestamp e)"
  shows "\<forall>c\<in>set (tree_step w cs e). tree_cand w c \<and> (\<forall>x\<in>set (c_events c). Timestamp x \<le> Timestamp e)"
proof (cases "find_last (\<lambda>c. related c e w) cs")
  case None
  with assms show ?thesis by (auto simp: tree_step_def tree_cand_new group_simps)
next
  case (Some i)
  from find_last_Some [OF this] have i: "i < length cs" "related (cs ! i) e w" by auto
  with assms(2) have c: "tree_cand w (cs ! i)" "\<forall>x\<in>set (c_events (cs ! i)). Timestamp x \<le> Timestamp e"
    by auto
  from tree_cand_add [OF c(1) i(2) c(2)] c assms(2) Some show ?thesis
    by (auto simp: tree_step_def group_simps add_events_unbounded tree_cand_def
        dest!: set_update_subset_insert [THEN subsetD])
qed

lemma tree_step_mset:
  assumes "\<forall>c\<in>set cs. c_maxEvents c = 0"
  shows "mset (concat (map c_events (tree_step w cs e))) = add_mset e (mset (concat (map c_events cs)))"
proof (cases "find_last (\<lambda>c. related c e w) cs")
  case None
  then show ?thesis by (simp add: tree_step_def group_simps)
next
  case (Some i)
  from find_last_Some [OF this] have i: "i < length cs" by auto
  with assms have "c_events (cand_add e (cs ! i)) = c_events (cs ! i) @ [e]"
    by (simp add: group_simps add_events_unbounded)
  with mset_concat_map_update [OF i, of c_events "cand_add e (cs ! i)"] Some show ?thesis
    by (simp add: tree_step_def)
qed

lemma tree_fold:
  assumes "0 \<le> w" "sorted (map Timestamp es)"
    "\<forall>c\<in>set cs. tree_cand w c \<and> (\<forall>x\<in>set (c_events c). \<forall>y\<in>set es. Timestamp x \<le> Timestamp y)"
  shows "(\<forall>c\<in>set (foldl (tree_step w) cs es). tree_cand w c) \<and>
    mset (concat (map c_events (foldl (tree_step w) cs es))) = mset (concat (map c_events cs)) + mset es"
  using assms(2,3)
proof (induction es arbitrary: cs)
  case (Cons e es)
  from Cons.prems(2) have now: "\<forall>c\<in>set cs. tree_cand w c \<and> (\<forall>x\<in>set (c_events c). Timestamp x \<le> Timestamp e)"
    by simp
  note step = tree_step_cand [OF assms(1) now]
  from Cons.prems(1) have later: "\<forall>y\<in>set es. Timestamp e \<le> Timestamp y" by simp
  have "\<forall>c\<in>set (tree_step w cs e). tree_cand w c \<and> (\<forall>x\<in>set (c_events c). \<forall>y\<in>set es. Timestamp x \<le> Timestamp y)"
    using step later by (meson order_trans)
  moreover have "sorted (map Timestamp es)" using Cons.prems(1) by simp
  moreover have "\<forall>c\<in>set cs. c_maxEvents c = 0" using now by (simp add: tree_cand_def)
  ultimately show ?case
    using Cons.IH [of "tree_step w cs e"] tree_step_mset [of cs w e] by simp
qed simp

lemma tree_Group_facts:
  assumes "0 \<le> w"
  shows "groups_events (tree_Group w es) = mset es"
    "G \<in> set (tree_Group w es) \<Longrightarrow> \<exists>c. tree_cand w c \<and> G = cand_group c"
proof -
  let ?cs = "foldl (tree_step w) [] (sort_key Timestamp es)"
  have "sorted (map Timestamp (sort_key Timestamp es))" by (rule sorted_sort_key)
  from tree_fold [OF assms this, of "[]"] have cs: "\<forall>c\<in>set ?cs. tree_cand w c"
    "mset (concat (map c_events ?cs)) = mset es" by simp_all
  from cs(2) show "groups_events (tree_Group w es) = mset es"
    by (simp only: tree_Group_def groups_map_cand)
  from cs(1) show "G \<in> set (tree_Group w es) \<Longrightarrow> \<exists>c. tree_cand w c \<and> G = cand_group c"
    unfolding tree_Group_def set_map by blast
qed

section \<open>The interface both groupers keep\<close>

locale event_grouper =
  fixes run :: "event list \<Rightarrow> Group list"
  assumes accounted: "groups_total (run es) = length es"
    and provenance: "groups_events (run es) \<subseteq># mset es"
    and homogeneous: "G \<in> set (run es) \<Longrightarrow> group_homogeneous G"
begin

lemma group_count: "length (run es) \<le> length es"
proof -
  have "\<forall>G\<in>set (run es). 1 \<le> group_total G"
    using homogeneous by (fastforce simp: group_homogeneous_def group_total_def Suc_le_eq)
  then have "length (run es) \<le> groups_total (run es)"
    unfolding groups_total_def by (rule sum_list_ge_length)
  then show ?thesis by (simp add: accounted)
qed

lemma event_origin: "G \<in> set (run es) \<Longrightarrow> e \<in> set (Events G) \<Longrightarrow> e \<in> set es"
  using set_mset_mono [OF provenance [of es]] by (auto simp: groups_events_def)

lemma dropped_count:
  "(\<Sum>G\<leftarrow>run es. DroppedEvents G) + size (groups_events (run es)) = length es"
proof -
  have "groups_total gs = (\<Sum>G\<leftarrow>gs. DroppedEvents G) + size (groups_events gs)" for gs
    by (induction gs) (auto simp: groups_total_def groups_events_def group_total_def)
  then show ?thesis by (metis accounted)
qed

lemma lossless: "(\<Sum>G\<leftarrow>run es. DroppedEvents G) = 0 \<Longrightarrow> groups_events (run es) = mset es"
proof (rule ccontr)
  assume zero: "(\<Sum>G\<leftarrow>run es. DroppedEvents G) = 0" and ne: "groups_events (run es) \<noteq> mset es"
  from ne provenance have "groups_events (run es) \<subset># mset es"
    by (simp add: subset_mset_def)
  from mset_subset_size [OF this] zero dropped_count [of es] show False by simp
qed

end

interpretation stream: event_grouper "stream_Group cfg" for cfg
  by unfold_locales (auto intro: stream_Group_facts)

lemma tree_no_drops: "0 \<le> w \<Longrightarrow> G \<in> set (tree_Group w es) \<Longrightarrow> DroppedEvents G = 0"
  using tree_Group_facts(2) [of w G es] by (auto simp: tree_cand_def cand_inv_def cand_group_def)

lemma NewTreeGrouper_pos: "0 \<le> NewTreeGrouper w"
  by (simp add: NewTreeGrouper_def DefaultCorrelationWindow_def)

interpretation tree: event_grouper "tree_Group (NewTreeGrouper w)" for w
proof unfold_locales
  fix es G
  let ?gs = "tree_Group (NewTreeGrouper w) es"
  note pos = NewTreeGrouper_pos [of w]
  have "groups_total gs = size (groups_events gs)" if "\<forall>G\<in>set gs. DroppedEvents G = 0" for gs
    using that by (induction gs) (auto simp: groups_total_def groups_events_def group_total_def)
  with tree_no_drops [OF pos] show "groups_total ?gs = length es"
    by (simp add: tree_Group_facts(1) [OF pos])
  show "groups_events ?gs \<subseteq># mset es" by (simp add: tree_Group_facts(1) [OF pos])
  show "group_homogeneous G" if "G \<in> set ?gs"
    using tree_Group_facts(2) [OF pos that] by (auto simp: tree_cand_def intro: cand_inv_homogeneous)
qed

section \<open>Properties\<close>

definition group_in_window :: "duration \<Rightarrow> Group \<Rightarrow> bool" where
  "group_in_window w G =
     list_all (\<lambda>e. time_Sub (Timestamp e) (Timestamp (hd (Events G))) \<le> w) (Events G)"

definition sg_bounded :: "StreamGrouper \<Rightarrow> bool" where
  "sg_bounded g \<longleftrightarrow>
     sg_retained g = (\<Sum>c\<leftarrow>sg_candidates g. int (length (c_events c))) \<and>
     sg_retained g \<le> MaxRetainedEvents (sg_config g) \<and>
     ActiveCandidates g \<le> MaxCandidates (sg_config g) \<and>
     list_all (\<lambda>c. int (length (c_events c)) \<le> MaxEvents (sg_config g)) (sg_candidates g)"

lemma sg_inv_bounded: "sg_inv g \<Longrightarrow> sg_bounded g"
  by (auto simp: sg_inv_def sg_core_def sg_bounded_def ActiveCandidates_def list_all_iff
      cand_inv_def config_ok_def)

text \<open>C8. The stream grouper never panics and stays within its bounds, whatever configuration it
  is made with and whatever events it is fed: its counter is exactly the number of retained events,
  it holds no more events, no more candidates and no larger candidate than the configuration
  allows, and the output and the retained candidates account for every event.\<close>

theorem stream_grouper_bounded:
  "\<exists>out g. stream_run (NewStreamGrouper cfg) es = Some (out, g) \<and> sg_bounded g \<and>
     config_ok (sg_config g) \<and> groups_total out + sg_total g = length es"
proof -
  have "sg_total (NewStreamGrouper cfg) = 0" "sg_events (NewStreamGrouper cfg) = {#}"
    by (simp_all add: NewStreamGrouper_def Let_def sg_total_def sg_events_def)
  with stream_run_ok [OF sg_inv_New, of cfg es] show ?thesis
    by (fastforce simp: sg_inv_bounded sg_inv_def sg_core_def)
qed

text \<open>C3. Conservation over a whole stream: after the final drain every event that was fed in
  is in a group or counted in the \<open>DroppedEvents\<close> of one, no group holds an event that was not
  fed in or holds it twice, and there are no more groups than events.\<close>

theorem stream_grouper_conserves:
  "groups_events (stream_Group cfg es) \<subseteq># mset es \<and>
   (\<Sum>G\<leftarrow>stream_Group cfg es. DroppedEvents G) + size (groups_events (stream_Group cfg es)) = length es \<and>
   length (stream_Group cfg es) \<le> length es \<and>
   list_all group_homogeneous (stream_Group cfg es)"
  by (simp add: stream.provenance stream.dropped_count stream.group_count list_all_iff stream.homogeneous)

text \<open>C26. The batch grouper partitions its input: the groups together hold exactly the given
  events, nothing is dropped, each group belongs to one host and container, is in time order and
  fits the correlation window counted from its first event.\<close>

theorem tree_grouper_partitions:
  "groups_events (tree_Group (NewTreeGrouper w) es) = mset es \<and>
   list_all (\<lambda>G. DroppedEvents G = 0 \<and> group_homogeneous G \<and>
       sorted (map Timestamp (Events G)) \<and> group_in_window (NewTreeGrouper w) G)
     (tree_Group (NewTreeGrouper w) es)"
proof -
  note pos = NewTreeGrouper_pos [of w]
  have "DroppedEvents G = 0 \<and> group_homogeneous G \<and> sorted (map Timestamp (Events G)) \<and>
      group_in_window (NewTreeGrouper w) G" if "G \<in> set (tree_Group (NewTreeGrouper w) es)" for G
    using tree_Group_facts(2) [OF pos that] tree_no_drops [OF pos that] tree.homogeneous [OF that]
    by (auto simp: tree_cand_def group_in_window_def cand_window_def list_all_iff)
  with tree_Group_facts(1) [OF pos, of es] show ?thesis by (simp add: list_all_iff)
qed

text \<open>\<open>FlushInactive\<close> returns exactly the candidates that are quiet or past the window, in
  order, and keeps the others with the counter and all bounds intact; none of the kept ones is
  older than the window or quiet for longer than the timeout.\<close>

theorem flush_inactive_exact:
  assumes "sg_inv g"
  shows "\<exists>g'. FlushInactive now g = (map cand_group (filter (cand_stale (sg_config g) now) (sg_candidates g)), g') \<and>
    sg_inv g' \<and> list_all (\<lambda>c. \<not> cand_stale (sg_config g') now c) (sg_candidates g') \<and>
    sg_total g = groups_total (fst (FlushInactive now g)) + sg_total g'"
proof -
  obtain out g' where fl: "FlushInactive now g = (out, g')" by fastforce
  from FlushInactive_core [OF assms fl] have "sg_inv g'" "moved g out g'" by auto
  moreover from fl have "out = map cand_group (filter (cand_stale (sg_config g) now) (sg_candidates g))"
    "sg_config g' = sg_config g"
    "sg_candidates g' = filter (\<lambda>c. \<not> cand_stale (sg_config g) now c) (sg_candidates g)"
    by (auto simp: FlushInactive_eq)
  ultimately show ?thesis
    using fl by (auto simp: moved_total list_all_iff)
qed

lemma shed_oldest:
  assumes "sg_core g" "shed g = Some (out, g')"
  shows "\<exists>ev. out = map cand_group ev \<and> set ev \<subseteq> set (sg_candidates g) \<and>
    set (sg_candidates g') \<subseteq> set (sg_candidates g) \<and> sorted (map c_lastSeen ev) \<and>
    (\<forall>c\<in>set ev. \<forall>d\<in>set (sg_candidates g'). c_lastSeen c \<le> c_lastSeen d) \<and>
    (out \<noteq> [] \<longrightarrow> sg_retained g' + int (length (Events (last out))) > MaxRetainedEvents (sg_config g))"
  using assms
proof (induction g arbitrary: out g' rule: shed.induct)
  case (1 g)
  show ?case
  proof (cases "sg_retained g > MaxRetainedEvents (sg_config g)")
    case False
    with "1.prems"(2) have "out = []" "g' = g" by (subst (asm) shed.simps; simp)+
    then show ?thesis by simp
  next
    case True
    with "1.prems"(1) have "sg_candidates g \<noteq> []" by (auto simp: sg_core_def config_ok_def)
    from flushOldest_core [OF "1.prems"(1) this] obtain gr g1 where
      g1: "flushOldest g = Some (gr, g1)" "sg_core g1" "moved g [gr] g1" by blast
    let ?c = "sg_candidates g ! least_index c_lastSeen (sg_candidates g)"
    from g1(1) have gr: "gr = cand_group ?c" "sg_retained g1 = sg_retained g - int (length (c_events ?c))"
      and cin: "?c \<in> set (sg_candidates g)"
      by (auto simp: flushOldest_def Let_def least_index_less split: if_splits)
    have least: "c_lastSeen ?c \<le> c_lastSeen d" if "d \<in> set (sg_candidates g)" for d
      by (rule least_index_least [OF that])
    from "1.prems"(2) True g1(1) obtain out1 where
      o: "shed g1 = Some (out1, g')" "out = gr # out1" by (subst (asm) shed.simps) auto
    from "1.IH" [OF True g1(1) refl g1(2) o(1)] obtain ev where
      ev: "out1 = map cand_group ev" "set ev \<subseteq> set (sg_candidates g1)"
        "set (sg_candidates g') \<subseteq> set (sg_candidates g1)" "sorted (map c_lastSeen ev)"
        "\<forall>c\<in>set ev. \<forall>d\<in>set (sg_candidates g'). c_lastSeen c \<le> c_lastSeen d"
        "out1 \<noteq> [] \<longrightarrow> sg_retained g' + int (length (Events (last out1))) > MaxRetainedEvents (sg_config g1)"
      by blast
    from g1(3) have sub: "set (sg_candidates g1) \<subseteq> set (sg_candidates g)" "sg_config g1 = sg_config g"
      by (auto simp: moved_def)
    have last: "out1 = [] \<Longrightarrow> sg_retained g' = sg_retained g1"
      using o(1) by (subst (asm) shed.simps) (auto split: if_splits option.splits)
    have "set (?c # ev) \<subseteq> set (sg_candidates g)" using cin ev(2) sub(1) by simp
    moreover have "set (sg_candidates g') \<subseteq> set (sg_candidates g)" using ev(3) sub(1) by blast
    moreover have "out = map cand_group (?c # ev)" by (simp add: o(2) ev(1) gr(1))
    moreover have "sorted (map c_lastSeen (?c # ev))"
      using ev(2,4) sub(1) least by auto
    moreover have "\<forall>c\<in>set (?c # ev). \<forall>d\<in>set (sg_candidates g'). c_lastSeen c \<le> c_lastSeen d"
      using ev(3,5) sub(1) least by (metis set_ConsD subset_code(1))
    moreover have "sg_retained g' + int (length (Events (last out))) > MaxRetainedEvents (sg_config g)"
    proof (cases "out1 = []")
      case True
      with last gr o(2) \<open>sg_retained g > MaxRetainedEvents (sg_config g)\<close> show ?thesis by simp
    next
      case False
      with ev(6) o(2) sub(2) show ?thesis by simp
    qed
    ultimately show ?thesis by blast
  qed
qed

text \<open>Under pressure the grouper evicts in age order and no more than it must: the evicted
  candidates are those least recently seen, oldest first, every one of them at most as recent as
  each candidate that stays, and putting the last one back would exceed the limit again.\<close>

theorem eviction_oldest_first:
  assumes "sg_core g" and "shed g = Some (out, g')"
  shows "\<exists>ev. out = map cand_group ev \<and> sorted (map c_lastSeen ev) \<and>
    (\<forall>c\<in>set ev. \<forall>d\<in>set (sg_candidates g'). c_lastSeen c \<le> c_lastSeen d) \<and>
    sg_retained g' \<le> MaxRetainedEvents (sg_config g') \<and>
    (out \<noteq> [] \<longrightarrow> sg_retained g' + int (length (Events (last out))) > MaxRetainedEvents (sg_config g))"
  using shed_oldest [OF assms] shed_core [OF assms(1)] assms(2) by (auto simp: sg_inv_def)


end
