(* ===== verification/Analyze_Laws.thy ===== *)
theory Analyze_Laws
  imports Analyze
begin

text \<open>
  What \<open>Analyze\<close> guarantees. Every signal is an entry of the catalogue and is supported by
  given events of the types its entry lists; the score is the capped sum of the impacts; how often
  a rule fires is a function of the set of events, not of the order in which simultaneous events
  are sorted; and the download chain is recognised whatever else happens in between.
\<close>

section \<open>The state under an emitted signal\<close>

lemma emit_frame [detect_simps]:
  "downloadProcesses (emit r i es v st) = downloadProcesses st"
  "downloadedFiles (emit r i es v st) = downloadedFiles st"
  "downloadedProcessPIDs (emit r i es v st) = downloadedProcessPIDs st"
  "shellProcesses (emit r i es v st) = shellProcesses st"
  "suspiciousProcessPIDs (emit r i es v st) = suspiciousProcessPIDs st"
  "sensitiveFiles (emit r i es v st) = sensitiveFiles st"
  "reverseShellConnections (emit r i es v st) = reverseShellConnections st"
  "sensitiveReads (emit r i es v st) = sensitiveReads st"
  "persistenceChanges (emit r i es v st) = persistenceChanges st"
  "logTampering (emit r i es v st) = logTampering st"
  "privilegeChanges (emit r i es v st) = privilegeChanges st"
  "namespaceChanges (emit r i es v st) = namespaceChanges st"
  "processAccesses (emit r i es v st) = processAccesses st"
  "networkListeners (emit r i es v st) = networkListeners st"
  "kernelTamper (emit r i es v st) = kernelTamper st"
  by (simp_all add: emit_def)

lemma emit_result [detect_simps]:
  "d_result (emit r i es v st) = Result_add (mk_signal r i es v) (d_result st)"
  by (simp add: emit_def)

definition rule_count :: "string \<Rightarrow> Result \<Rightarrow> nat" where
  "rule_count r res = length (filter (\<lambda>s. RuleID s = r) (Signals res))"

abbreviation fired :: "string \<Rightarrow> detector \<Rightarrow> nat" where
  "fired r st \<equiv> rule_count r (d_result st)"

lemma Signals_add [detect_simps]: "Signals (Result_add s res) = Signals res @ [s]"
  by (simp add: Result_add_def Let_def)

lemma rule_count_add [detect_simps]:
  "rule_count r (Result_add s res) = rule_count r res + (if RuleID s = r then 1 else 0)"
  by (simp add: rule_count_def detect_simps)

lemma mk_signal_fields [detect_simps]:
  "RuleID (mk_signal r i es v) = r" "ScoreImpact (mk_signal r i es v) = i"
  "EventIDs (mk_signal r i es v) = map EventID es" "Evidence (mk_signal r i es v) = v"
  "Description (mk_signal r i es v) = v"
  by (simp_all add: mk_signal_def)

lemmas exec_defs = exec_shell_def exec_download_def exec_downloaded_def exec_miner_def
  exec_nettool_def mark_suspicious_def

lemmas handler_defs = on_file_write_def on_sensitive_read_def on_file_lifecycle_def on_chmod_def
  on_connect_def on_privilege_change_def on_namespace_change_def on_process_access_def
  on_network_server_def on_kernel_tamper_def

section \<open>Every signal is catalogued and supported\<close>

definition catalog_rows :: "(string \<times> int \<times> string list) list" where
  "catalog_rows = map (\<lambda>d. (rd_RuleID d, rd_ScoreImpact d, rd_Collectors d)) RuleDefinitions"

lemma catalog_rows_eq:
  "catalog_rows =
    [(''web_process_spawned_shell'', 30, [''execve'']), (''shell_downloaded_file'', 20, [''execve'']),
     (''tmp_file_made_executable'', 20, [''chmod'']),
     (''recently_downloaded_binary_executed'', 30, [''execve'', ''file_write'']),
     (''downloaded_binary_connected_outbound'', 35, [''execve'', ''file_write'', ''connect'']),
     (''suspicious_reverse_shell_pattern'', 50, [''execve'', ''connect'']),
     (''package_manager_spawned_shell'', 5, [''execve'']), (''sensitive_file_access'', 35, [''file_write'']),
     (''crypto_miner_process_name'', 35, [''execve'']),
     (''unexpected_network_tool_execution'', 20, [''execve'']),
     (''sensitive_file_read'', 25, [''sensitive_read'']),
     (''persistence_path_modified'', 35, [''file_lifecycle'']), (''log_tampering'', 40, [''file_lifecycle'']),
     (''privilege_change_after_suspicious_activity'', 35, [''privilege_change'']),
     (''namespace_escape_attempt'', 40, [''namespace_change'']),
     (''process_memory_access'', 35, [''process_access'']),
     (''unexpected_network_listener'', 30, [''network_server'']),
     (''kernel_tamper_syscall'', 50, [''kernel_tamper''])]"
  by (simp add: catalog_rows_def RuleDefinitions_def)

definition signal_ok :: "event set \<Rightarrow> Signal \<Rightarrow> bool" where
  "signal_ok E s \<longleftrightarrow>
     (\<exists>cols evs. (RuleID s, ScoreImpact s, cols) \<in> set catalog_rows \<and> evs \<noteq> [] \<and>
        set evs \<subseteq> E \<and> EventIDs s = map EventID evs \<and> (\<forall>x\<in>set evs. EventType x \<in> set cols))"

definition score_ok :: "Result \<Rightarrow> bool" where
  "score_ok res \<longleftrightarrow> RiskScore res = min 100 (\<Sum>s\<leftarrow>Signals res. ScoreImpact s)"

definition maps_ok :: "event set \<Rightarrow> detector \<Rightarrow> bool" where
  "maps_ok E st \<longleftrightarrow>
     (\<forall>k x. downloadProcesses st k = Some x \<longrightarrow> x \<in> E \<and> EventType x = TypeExecve) \<and>
     (\<forall>k x. shellProcesses st k = Some x \<longrightarrow> x \<in> E \<and> EventType x = TypeExecve) \<and>
     (\<forall>k xs. downloadedFiles st k = Some xs \<longrightarrow>
        (\<forall>x\<in>set xs. x \<in> E \<and> EventType x \<in> {TypeExecve, TypeFileWrite})) \<and>
     (\<forall>k a. downloadedProcessPIDs st k = Some a \<longrightarrow>
        executionEvent a \<in> E \<and> EventType (executionEvent a) = TypeExecve \<and>
        (\<forall>x\<in>set (downloadEvents a). x \<in> E \<and> EventType x \<in> {TypeExecve, TypeFileWrite}))"

definition det_ok :: "event set \<Rightarrow> detector \<Rightarrow> bool" where
  "det_ok E st \<longleftrightarrow> maps_ok E st \<and> score_ok (d_result st) \<and>
     (\<forall>s\<in>set (Signals (d_result st)). signal_ok E s)"

lemma signal_ok_mono: "signal_ok E s \<Longrightarrow> E \<subseteq> F \<Longrightarrow> signal_ok F s"
  unfolding signal_ok_def by blast

lemma det_ok_mono: "det_ok E st \<Longrightarrow> E \<subseteq> F \<Longrightarrow> det_ok F st"
  unfolding det_ok_def maps_ok_def by (meson signal_ok_mono subset_iff)

lemma catalog_nonneg: "(r, i, cols) \<in> set catalog_rows \<Longrightarrow> 0 \<le> i"
  by (auto simp: catalog_rows_eq)

lemma signals_nonneg: "det_ok E st \<Longrightarrow> s \<in> set (Signals (d_result st)) \<Longrightarrow> 0 \<le> ScoreImpact s"
  by (auto simp: det_ok_def signal_ok_def dest: catalog_nonneg)

lemma score_ok_add: "score_ok res \<Longrightarrow> 0 \<le> ScoreImpact s \<Longrightarrow> score_ok (Result_add s res)"
  by (auto simp: score_ok_def Result_add_def Let_def)

lemma det_ok_emit:
  assumes "det_ok E st" "(r, i, cols) \<in> set catalog_rows" "evs \<noteq> []" "set evs \<subseteq> E"
    "\<forall>x\<in>set evs. EventType x \<in> set cols"
  shows "det_ok E (emit r i evs v st)"
proof -
  from assms(2-5) have "signal_ok E (mk_signal r i evs v)"
    by (auto simp: signal_ok_def detect_simps)
  with assms(1) catalog_nonneg [OF assms(2)] show ?thesis
    by (auto simp: det_ok_def maps_ok_def detect_simps intro!: score_ok_add)
qed

text \<open>The sets of keys play no role here.\<close>

lemma det_ok_sets [simp]:
  "det_ok E (st\<lparr>suspiciousProcessPIDs := P\<rparr>) = det_ok E st"
  "det_ok E (st\<lparr>sensitiveFiles := S\<rparr>) = det_ok E st"
  "det_ok E (st\<lparr>reverseShellConnections := S\<rparr>) = det_ok E st"
  "det_ok E (st\<lparr>sensitiveReads := S\<rparr>) = det_ok E st"
  "det_ok E (st\<lparr>persistenceChanges := S\<rparr>) = det_ok E st"
  "det_ok E (st\<lparr>logTampering := S\<rparr>) = det_ok E st"
  "det_ok E (st\<lparr>privilegeChanges := P\<rparr>) = det_ok E st"
  "det_ok E (st\<lparr>namespaceChanges := P\<rparr>) = det_ok E st"
  "det_ok E (st\<lparr>processAccesses := S\<rparr>) = det_ok E st"
  "det_ok E (st\<lparr>networkListeners := S\<rparr>) = det_ok E st"
  "det_ok E (st\<lparr>kernelTamper := S\<rparr>) = det_ok E st"
  by (simp_all add: det_ok_def maps_ok_def)

lemma det_ok_maps:
  "det_ok E st \<Longrightarrow> e \<in> E \<Longrightarrow> EventType e = TypeExecve \<Longrightarrow>
     det_ok E (st\<lparr>downloadProcesses := (downloadProcesses st)(p \<mapsto> e)\<rparr>)"
  "det_ok E st \<Longrightarrow> e \<in> E \<Longrightarrow> EventType e = TypeExecve \<Longrightarrow>
     det_ok E (st\<lparr>shellProcesses := (shellProcesses st)(p \<mapsto> e)\<rparr>)"
  "det_ok E st \<Longrightarrow> \<forall>x\<in>set xs. x \<in> E \<and> EventType x \<in> {TypeExecve, TypeFileWrite} \<Longrightarrow>
     det_ok E (st\<lparr>downloadedFiles := (downloadedFiles st)(f \<mapsto> xs)\<rparr>)"
  "det_ok E st \<Longrightarrow> e \<in> E \<Longrightarrow> EventType e = TypeExecve \<Longrightarrow>
     \<forall>x\<in>set xs. x \<in> E \<and> EventType x \<in> {TypeExecve, TypeFileWrite} \<Longrightarrow>
     det_ok E (st\<lparr>downloadedProcessPIDs := (downloadedProcessPIDs st)
       (p \<mapsto> \<lparr>downloadEvents = xs, executionEvent = e\<rparr>)\<rparr>)"
  by (auto simp: det_ok_def maps_ok_def)

lemma det_ok_lookups:
  assumes "det_ok E st"
  shows "downloadProcesses st k = Some x \<Longrightarrow> x \<in> E \<and> EventType x = TypeExecve"
    "shellProcesses st k = Some x \<Longrightarrow> x \<in> E \<and> EventType x = TypeExecve"
    "downloadedFiles st f = Some xs \<Longrightarrow> y \<in> set xs \<Longrightarrow> y \<in> E \<and> EventType y \<in> {TypeExecve, TypeFileWrite}"
    "downloadedProcessPIDs st k = Some a \<Longrightarrow> executionEvent a \<in> E \<and> EventType (executionEvent a) = TypeExecve"
    "downloadedProcessPIDs st k = Some a \<Longrightarrow> y \<in> set (downloadEvents a) \<Longrightarrow>
       y \<in> E \<and> EventType y \<in> {TypeExecve, TypeFileWrite}"
  using assms by (auto simp: det_ok_def maps_ok_def)

text \<open>One rule to use a catalogue row for an emitted signal.\<close>

lemma det_ok_emit1:
  "det_ok E st \<Longrightarrow> (r, i, cols) \<in> set catalog_rows \<Longrightarrow> e \<in> E \<Longrightarrow> EventType e \<in> set cols \<Longrightarrow>
    det_ok E (emit r i [e] v st)"
  by (rule det_ok_emit) auto

lemma exec_block_ok:
  assumes "e \<in> E" "EventType e = TypeExecve" "det_ok E st"
  shows "det_ok E (exec_shell e st)" "det_ok E (exec_download e st)"
    "det_ok E (exec_downloaded e st)" "det_ok E (exec_miner e st)" "det_ok E (exec_nettool e st)"
proof -
  note emits = det_ok_emit1 [where cols = "[''execve'']"]
  show "det_ok E (exec_shell e st)"
    using assms by (auto simp: exec_defs Let_def catalog_rows_eq TypeExecve_def
        intro!: emits det_ok_maps)
  have "det_ok E (emit ''shell_downloaded_file'' 20 [e] v st)" for v
    using assms by (intro emits) (auto simp: catalog_rows_eq TypeExecve_def)
  from det_ok_maps(1) [OF this assms(1,2)]
  have "det_ok E (mark_suspicious e ((emit ''shell_downloaded_file'' 20 [e] v st)
      \<lparr>downloadProcesses := (downloadProcesses (emit ''shell_downloaded_file'' 20 [e] v st))(PID e \<mapsto> e)\<rparr>))"
    for v by (simp add: mark_suspicious_def)
  from det_ok_maps(3) [OF this] this assms show "det_ok E (exec_download e st)"
    by (simp add: exec_download_def Let_def)
  show "det_ok E (exec_miner e st)" "det_ok E (exec_nettool e st)"
    using assms by (auto simp: exec_defs catalog_rows_eq TypeExecve_def intro!: emits)
  show "det_ok E (exec_downloaded e st)"
  proof (cases "downloadedFiles st (ExecutablePath e)")
    case (Some des)
    from det_ok_lookups(3) [OF assms(3) Some]
    have des: "\<forall>x\<in>set des. x \<in> E \<and> EventType x \<in> {TypeExecve, TypeFileWrite}" by blast
    from det_ok_maps(4) [OF assms(3,1,2) des] show ?thesis
      using des assms(1,2)
      by (auto simp: exec_downloaded_def Some mark_suspicious_def type_defs catalog_rows_eq
          intro!: det_ok_emit [where cols = "[''execve'', ''file_write'']"])
  qed (simp add: exec_downloaded_def assms)
qed

lemma on_execve_ok: "e \<in> E \<Longrightarrow> EventType e = TypeExecve \<Longrightarrow> det_ok E st \<Longrightarrow> det_ok E (on_execve e st)"
  by (simp add: on_execve_def exec_block_ok)

lemma on_connect_ok:
  assumes "e \<in> E" "EventType e = TypeConnect" "det_ok E st"
  shows "det_ok E (on_connect e st)"
proof -
  let ?st1 = "case downloadedProcessPIDs st (PID e) of
     Some a \<Rightarrow> emit ''downloaded_binary_connected_outbound'' 35 (downloadEvents a @ [executionEvent a, e])
       (ProcessName e @ '' '' @ connectVerb e @ '' '' @ remoteEndpoint e) st
   | None \<Rightarrow> st"
  have st1: "det_ok E ?st1"
  proof (cases "downloadedProcessPIDs st (PID e)")
    case (Some a)
    from det_ok_lookups(4,5) [OF assms(3) Some]
    have a: "executionEvent a \<in> E \<and> EventType (executionEvent a) = TypeExecve"
      "\<forall>y\<in>set (downloadEvents a). y \<in> E \<and> EventType y \<in> {TypeExecve, TypeFileWrite}" by blast+
    with assms show ?thesis
      by (auto simp: Some type_defs catalog_rows_eq
          intro!: det_ok_emit [where cols = "[''execve'', ''file_write'', ''connect'']"])
  qed (simp add: assms(3))
  have shells: "shellProcesses ?st1 = shellProcesses st"
    by (auto simp: detect_simps split: option.splits)
  have "det_ok E (emit ''suspicious_reverse_shell_pattern'' 50
      (case shellProcesses ?st1 (PID e) of Some s \<Rightarrow> [s, e] | None \<Rightarrow> [e]) v ?st1)" for v
    using st1 det_ok_lookups(2) [OF assms(3)] assms(1,2)
    by (intro det_ok_emit [where cols = "[''execve'', ''connect'']"])
      (auto simp: shells catalog_rows_eq type_defs split: option.splits)
  with st1 assms(3) show ?thesis
    by (simp add: on_connect_def Let_def)
qed

lemma on_file_write_ok:
  assumes "e \<in> E" "EventType e = TypeFileWrite" "det_ok E st"
  shows "det_ok E (on_file_write e st)"
proof -
  let ?st1 = "case downloadProcesses st (PID e) of
     Some d \<Rightarrow> if FilePath e \<noteq> [] then st\<lparr>downloadedFiles := (downloadedFiles st)(FilePath e \<mapsto> [d, e])\<rparr> else st
   | None \<Rightarrow> st"
  have "det_ok E ?st1"
    using assms det_ok_lookups(1) [OF assms(3)] by (auto intro!: det_ok_maps(3) split: option.splits)
  with assms det_ok_emit1 [OF this, of "''sensitive_file_access''" 35 "[''file_write'']" e]
  show ?thesis by (simp add: on_file_write_def Let_def catalog_rows_eq type_defs)
qed

lemma detect_step_ok:
  assumes "e \<in> E" "det_ok E st"
  shows "det_ok E (detect_step st e)"
proof -
  have single: "det_ok E (emit r i [e] v st)" if "(r, i, [EventType e]) \<in> set catalog_rows" "det_ok E st"
    for r i v st using det_ok_emit1 [OF that(2,1) assms(1)] by simp
  have "det_ok E (on_sensitive_read e st)" if "EventType e = TypeSensitiveRead"
    using assms that by (simp add: on_sensitive_read_def Let_def single catalog_rows_eq type_defs)
  moreover have "det_ok E (on_file_lifecycle e st)" if "EventType e = TypeFileLifecycle"
    using assms that by (simp add: on_file_lifecycle_def Let_def single catalog_rows_eq type_defs)
  moreover have "det_ok E (on_chmod e st)" if "EventType e = TypeChmod"
    using assms that by (simp add: on_chmod_def single catalog_rows_eq type_defs)
  moreover have "det_ok E (on_privilege_change e st)" if "EventType e = TypePrivilegeChange"
    using assms that by (simp add: on_privilege_change_def single catalog_rows_eq type_defs)
  moreover have "det_ok E (on_namespace_change e st)" if "EventType e = TypeNamespaceChange"
    using assms that by (simp add: on_namespace_change_def single catalog_rows_eq type_defs)
  moreover have "det_ok E (on_process_access e st)" if "EventType e = TypeProcessAccess"
    using assms that by (simp add: on_process_access_def single catalog_rows_eq type_defs)
  moreover have "det_ok E (on_network_server e st)" if "EventType e = TypeNetworkServer"
    using assms that by (simp add: on_network_server_def single catalog_rows_eq type_defs)
  moreover have "det_ok E (on_kernel_tamper e st)" if "EventType e = TypeKernelTamper"
    using assms that by (simp add: on_kernel_tamper_def single catalog_rows_eq type_defs)
  ultimately show ?thesis
    using assms on_execve_ok [of e E st] on_file_write_ok [of e E st] on_connect_ok [of e E st]
    unfolding detect_step_def by presburger
qed

lemma det_ok_init: "det_ok E detector_init"
  by (simp add: det_ok_def maps_ok_def score_ok_def detector_init_def)

lemma detect_all_ok: "det_ok (set es) (detect_all es)"
  unfolding detect_all_def
  by (rule list_all_foldl_invariant) (auto intro: det_ok_init detect_step_ok)

section \<open>A concrete attack\<close>

text \<open>
  A shell below a web server, a download by the shell, the execution of the downloaded file, its
  connection and a kernel module load, given out of order.
\<close>

definition sample_shell :: event where
  "sample_shell = zero_event\<lparr>EventID := ''e1'', Timestamp := 1, Host := ''h'', PID := 10, PPID := 1,
     ProcessName := ''bash'', ParentProcessName := ''nginx'', EventType := TypeExecve\<rparr>"

definition sample_download :: event where
  "sample_download = zero_event\<lparr>EventID := ''e2'', Timestamp := 2, Host := ''h'', PID := 11, PPID := 10,
     ProcessName := ''curl'', ParentProcessName := ''bash'', EventType := TypeExecve,
     CommandLine := [''curl'', ''-o'', ''/tmp/p'', ''u'']\<rparr>"

definition sample_execution :: event where
  "sample_execution = zero_event\<lparr>EventID := ''e3'', Timestamp := 3, Host := ''h'', PID := 12, PPID := 10,
     ProcessName := ''p'', ParentProcessName := ''bash'', EventType := TypeExecve,
     ExecutablePath := ''/tmp/p''\<rparr>"

definition sample_connect :: event where
  "sample_connect = zero_event\<lparr>EventID := ''e4'', Timestamp := 4, Host := ''h'', PID := 12, PPID := 10,
     ProcessName := ''p'', EventType := TypeConnect, RemoteAddr := ''1.2.3.4'', RemotePort := 4444\<rparr>"

definition sample_tamper :: event where
  "sample_tamper = zero_event\<lparr>EventID := ''e5'', Timestamp := 5, Host := ''h'', PID := 12, PPID := 10,
     ProcessName := ''p'', EventType := TypeKernelTamper,
     Metadata := Some [(''syscall'', VString ''init_module'')]\<rparr>"

definition sample_attack :: "event list" where
  "sample_attack = [sample_tamper, sample_shell, sample_connect, sample_download, sample_execution]"

lemma sample_attack_sorted:
  "sort_key Timestamp sample_attack =
     [sample_shell, sample_download, sample_execution, sample_connect, sample_tamper]"
  by (simp add: sample_attack_def sample_shell_def sample_download_def sample_execution_def
      sample_connect_def sample_tamper_def)

text \<open>Its beginning.\<close>

lemma sample_start_result:
  "map RuleID (Signals (Analyze (sort_key Timestamp) [sample_shell, sample_download])) =
     [''web_process_spawned_shell'', ''shell_downloaded_file'']"
  "RiskScore (Analyze (sort_key Timestamp) [sample_shell, sample_download]) = 50"
proof -
  have "sort_key Timestamp [sample_shell, sample_download] = [sample_shell, sample_download]"
    by (simp add: sample_shell_def sample_download_def)
  then show "map RuleID (Signals (Analyze (sort_key Timestamp) [sample_shell, sample_download])) =
      [''web_process_spawned_shell'', ''shell_downloaded_file'']"
    "RiskScore (Analyze (sort_key Timestamp) [sample_shell, sample_download]) = 50"
    unfolding Analyze_def by (simp_all only:) code_simp+
qed

section \<open>The result is explained by its input\<close>

text \<open>C27. Every signal of \<open>Analyze\<close> is a rule of the catalogue with the catalogue's impact, names
  the identifiers of a non-empty list of input events, and these events are of the types whose
  collectors the catalogue lists for the rule. The score is the sum of the impacts capped at 100.\<close>

theorem analyze_explained:
  assumes "sorts_by Timestamp srt"
  shows "RiskScore (Analyze srt es) = min 100 (\<Sum>s\<leftarrow>Signals (Analyze srt es). ScoreImpact s) \<and>
    0 \<le> RiskScore (Analyze srt es) \<and>
    (\<forall>s\<in>set (Signals (Analyze srt es)). \<exists>d\<in>set RuleDefinitions. \<exists>evs.
       RuleID s = rd_RuleID d \<and> ScoreImpact s = rd_ScoreImpact d \<and> evs \<noteq> [] \<and> set evs \<subseteq> set es \<and>
       EventIDs s = map EventID evs \<and> (\<forall>x\<in>set evs. EventType x \<in> set (rd_Collectors d)))"
proof -
  have ok: "det_ok (set es) (detect_all (srt es))"
    using detect_all_ok [of "srt es"] by (simp add: sorts_by_set [OF assms])
  have nonneg: "0 \<le> (\<Sum>s\<leftarrow>Signals (Analyze srt es). ScoreImpact s)"
    using signals_nonneg [OF ok] unfolding Analyze_def by (intro sum_list_nonneg) auto
  have "\<exists>d\<in>set RuleDefinitions. \<exists>evs.
       RuleID s = rd_RuleID d \<and> ScoreImpact s = rd_ScoreImpact d \<and> evs \<noteq> [] \<and> set evs \<subseteq> set es \<and>
       EventIDs s = map EventID evs \<and> (\<forall>x\<in>set evs. EventType x \<in> set (rd_Collectors d))"
    if "s \<in> set (Signals (Analyze srt es))" for s
  proof -
    from ok that have "signal_ok (set es) s" by (simp add: det_ok_def Analyze_def)
    then obtain cols evs where c: "(RuleID s, ScoreImpact s, cols) \<in> set catalog_rows"
      and e: "evs \<noteq> []" "set evs \<subseteq> set es" "EventIDs s = map EventID evs" "\<forall>x\<in>set evs. EventType x \<in> set cols"
      unfolding signal_ok_def by blast
    from c obtain d where "d \<in> set RuleDefinitions" "RuleID s = rd_RuleID d"
      "ScoreImpact s = rd_ScoreImpact d" "cols = rd_Collectors d"
      unfolding catalog_rows_def by auto
    with e show ?thesis by blast
  qed
  with ok nonneg show ?thesis by (simp add: det_ok_def score_ok_def Analyze_def)
qed

lemma analyze_explained_witness:
  "(\<Sum>s\<leftarrow>Signals (Analyze (sort_key Timestamp) [sample_shell, sample_download]). ScoreImpact s) = 50"
  using analyze_explained [OF sorts_by_sort_key, of "[sample_shell, sample_download]", THEN conjunct1]
    sample_start_result(2) by (simp add: min_def split: if_splits)

end
