(* ===== verification/Analyze_Counts.thy ===== *)
theory Analyze_Counts
  imports Analyze_Laws
begin

text \<open>
  How often each rule fires. Six rules look at one event only, so they fire once for each event
  that satisfies them; nine rules keep a set of keys, so they fire once for each key. Both numbers
  depend on the set or multiset of events and not on their order, so they do not depend on what
  \<open>sort.Slice\<close> does with simultaneous events.
\<close>

section \<open>The rules that look at one event\<close>

definition event_rules :: "string list" where
  "event_rules = [''web_process_spawned_shell'', ''package_manager_spawned_shell'',
     ''shell_downloaded_file'', ''crypto_miner_process_name'', ''unexpected_network_tool_execution'',
     ''tmp_file_made_executable'']"

definition rule_fires :: "string \<Rightarrow> event \<Rightarrow> bool" where
  "rule_fires r e \<longleftrightarrow>
     (if r = ''web_process_spawned_shell'' then
        EventType e = TypeExecve \<and> isShell (ProcessName e) \<and> isWebProcess (ParentProcessName e)
      else if r = ''package_manager_spawned_shell'' then
        EventType e = TypeExecve \<and> isShell (ProcessName e) \<and> isPackageManager (ParentProcessName e)
      else if r = ''shell_downloaded_file'' then
        EventType e = TypeExecve \<and> isDownloadTool (ProcessName e) \<and> isShell (ParentProcessName e)
      else if r = ''crypto_miner_process_name'' then
        EventType e = TypeExecve \<and> isCryptoMinerExecution e
      else if r = ''unexpected_network_tool_execution'' then
        EventType e = TypeExecve \<and> isUnexpectedNetworkToolExecution e
      else if r = ''tmp_file_made_executable'' then
        EventType e = TypeChmod \<and> mutationSucceeded e \<and> isTempPath (FilePath e) \<and>
        metadataBool e ''added_execute_bit''
      else False)"

section \<open>The rules that fire once per key\<close>

definition keyed_rules :: "string list" where
  "keyed_rules = [''sensitive_file_access'', ''sensitive_file_read'', ''persistence_path_modified'',
     ''log_tampering'', ''suspicious_reverse_shell_pattern'', ''namespace_escape_attempt'',
     ''process_memory_access'', ''unexpected_network_listener'', ''kernel_tamper_syscall'']"

definition rule_key :: "string \<Rightarrow> event \<Rightarrow> string option" where
  "rule_key r e =
     (if r = ''sensitive_file_access'' then
        (if EventType e = TypeFileWrite \<and> fileWriteChanged e \<and> isSensitiveFile (FilePath e)
         then Some (FilePath e) else None)
      else if r = ''sensitive_file_read'' then
        (if EventType e = TypeSensitiveRead \<and> isSensitiveReadPath (FilePath e)
         then Some (Itoa (PID e) @ '':'' @ FilePath e) else None)
      else if r = ''persistence_path_modified'' then
        (if EventType e = TypeFileLifecycle \<and> mutationSucceeded e \<and> isPersistencePath (FilePath e)
         then Some (metadataString e ''action'' @ '':'' @ FilePath e) else None)
      else if r = ''log_tampering'' then
        (if EventType e = TypeFileLifecycle \<and> mutationSucceeded e \<and> isLogPath (FilePath e) \<and>
            isLogTamperAction (metadataString e ''action'')
         then Some (metadataString e ''action'' @ '':'' @ FilePath e) else None)
      else if r = ''suspicious_reverse_shell_pattern'' then
        (if EventType e = TypeConnect \<and> mutationSucceeded e \<and> isShellConnection e \<and>
            isUnusualOutboundPort (RemotePort e)
         then Some (connection_key e) else None)
      else if r = ''namespace_escape_attempt'' then
        (if EventType e = TypeNamespaceChange \<and> mutationSucceeded e
         then Some (Itoa (PID e)) else None)
      else if r = ''process_memory_access'' then
        (if EventType e = TypeProcessAccess \<and> mutationSucceeded e
         then Some (access_key e) else None)
      else if r = ''unexpected_network_listener'' then
        (if EventType e = TypeNetworkServer \<and> mutationSucceeded e \<and> isUnexpectedNetworkListener e
         then Some (connection_key e) else None)
      else if r = ''kernel_tamper_syscall'' then
        (if EventType e = TypeKernelTamper then Some (tamper_key e) else None)
      else None)"

text \<open>The set of keys the code keeps for the rule.\<close>

definition tracker :: "string \<Rightarrow> detector \<Rightarrow> string set" where
  "tracker r st =
     (if r = ''sensitive_file_access'' then sensitiveFiles st
      else if r = ''sensitive_file_read'' then sensitiveReads st
      else if r = ''persistence_path_modified'' then persistenceChanges st
      else if r = ''log_tampering'' then logTampering st
      else if r = ''suspicious_reverse_shell_pattern'' then reverseShellConnections st
      else if r = ''namespace_escape_attempt'' then Itoa ` namespaceChanges st
      else if r = ''process_memory_access'' then processAccesses st
      else if r = ''unexpected_network_listener'' then networkListeners st
      else if r = ''kernel_tamper_syscall'' then kernelTamper st
      else {})"

section \<open>One step\<close>

text \<open>What leaves the set of every rule alone.\<close>

lemma tracker_frames [detect_simps]:
  "tracker r (emit i n es v st) = tracker r st"
  "tracker r (st\<lparr>downloadProcesses := m\<rparr>) = tracker r st"
  "tracker r (st\<lparr>downloadedFiles := f\<rparr>) = tracker r st"
  "tracker r (st\<lparr>downloadedProcessPIDs := a\<rparr>) = tracker r st"
  "tracker r (st\<lparr>shellProcesses := m\<rparr>) = tracker r st"
  "tracker r (st\<lparr>suspiciousProcessPIDs := P\<rparr>) = tracker r st"
  "tracker r (st\<lparr>privilegeChanges := P\<rparr>) = tracker r st"
  by (simp_all add: tracker_def detect_simps)

lemma tracker_exec [detect_simps]: "tracker r (on_execve e st) = tracker r st"
proof -
  have "tracker r (exec_shell e s) = tracker r s" "tracker r (exec_download e s) = tracker r s"
    "tracker r (exec_miner e s) = tracker r s" "tracker r (exec_nettool e s) = tracker r s" for s
    by (simp_all add: exec_defs Let_def detect_simps)
  moreover have "tracker r (exec_downloaded e s) = tracker r s" for s
    by (simp add: exec_downloaded_def mark_suspicious_def detect_simps split: option.split)
  ultimately show ?thesis by (simp add: on_execve_def)
qed

lemma fired_exec [detect_simps]:
  "fired r (on_execve e st) = fired r st +
     (if r = ''web_process_spawned_shell'' \<and> isShell (ProcessName e) \<and>
         isWebProcess (ParentProcessName e) then 1 else 0) +
     (if r = ''package_manager_spawned_shell'' \<and> isShell (ProcessName e) \<and>
         isPackageManager (ParentProcessName e) then 1 else 0) +
     (if r = ''shell_downloaded_file'' \<and> isDownloadTool (ProcessName e) \<and>
         isShell (ParentProcessName e) then 1 else 0) +
     (if r = ''recently_downloaded_binary_executed'' \<and>
         downloadedFiles (exec_download e (exec_shell e st)) (ExecutablePath e) \<noteq> None
      then 1 else 0) +
     (if r = ''crypto_miner_process_name'' \<and> isCryptoMinerExecution e then 1 else 0) +
     (if r = ''unexpected_network_tool_execution'' \<and> isUnexpectedNetworkToolExecution e
      then 1 else 0)"
proof -
  have 1: "fired r (exec_shell e s) = fired r s +
     (if r = ''web_process_spawned_shell'' \<and> isShell (ProcessName e) \<and>
         isWebProcess (ParentProcessName e) then 1 else 0) +
     (if r = ''package_manager_spawned_shell'' \<and> isShell (ProcessName e) \<and>
         isPackageManager (ParentProcessName e) then 1 else 0)" for s
    by (simp add: exec_shell_def mark_suspicious_def Let_def detect_simps)
  have 2: "fired r (exec_download e s) = fired r s +
     (if r = ''shell_downloaded_file'' \<and> isDownloadTool (ProcessName e) \<and>
         isShell (ParentProcessName e) then 1 else 0)" for s
    by (simp add: exec_download_def mark_suspicious_def Let_def detect_simps)
  have 3: "fired r (exec_downloaded e s) = fired r s +
     (if r = ''recently_downloaded_binary_executed'' \<and> downloadedFiles s (ExecutablePath e) \<noteq> None
      then 1 else 0)" for s
    by (simp add: exec_downloaded_def mark_suspicious_def detect_simps split: option.splits)
  have 4: "fired r (exec_miner e s) = fired r s +
     (if r = ''crypto_miner_process_name'' \<and> isCryptoMinerExecution e then 1 else 0)" for s
    by (simp add: exec_miner_def mark_suspicious_def detect_simps)
  have 5: "fired r (exec_nettool e s) = fired r s +
     (if r = ''unexpected_network_tool_execution'' \<and> isUnexpectedNetworkToolExecution e
      then 1 else 0)" for s
    by (simp add: exec_nettool_def mark_suspicious_def detect_simps)
  show ?thesis by (simp add: on_execve_def 1 2 3 4 5)
qed

lemma fired_connect [detect_simps]:
  "fired r (on_connect e st) = fired r st +
     (if r = ''downloaded_binary_connected_outbound'' \<and> mutationSucceeded e \<and>
         downloadedProcessPIDs st (PID e) \<noteq> None then 1 else 0) +
     (if r = ''suspicious_reverse_shell_pattern'' \<and> mutationSucceeded e \<and> isShellConnection e \<and>
         isUnusualOutboundPort (RemotePort e) \<and> connection_key e \<notin> reverseShellConnections st
      then 1 else 0)"
  by (simp add: on_connect_def Let_def detect_simps split: option.splits)

lemma fired_handlers [detect_simps]:
  "fired r (on_file_write e st) = fired r st +
     (if r = ''sensitive_file_access'' \<and> fileWriteChanged e \<and> isSensitiveFile (FilePath e) \<and>
         FilePath e \<notin> sensitiveFiles st then 1 else 0)"
  "fired r (on_sensitive_read e st) = fired r st +
     (if r = ''sensitive_file_read'' \<and> isSensitiveReadPath (FilePath e) \<and>
         Itoa (PID e) @ '':'' @ FilePath e \<notin> sensitiveReads st then 1 else 0)"
  "fired r (on_chmod e st) = fired r st +
     (if r = ''tmp_file_made_executable'' \<and> mutationSucceeded e \<and> isTempPath (FilePath e) \<and>
         metadataBool e ''added_execute_bit'' then 1 else 0)"
  "fired r (on_privilege_change e st) = fired r st +
     (if r = ''privilege_change_after_suspicious_activity'' \<and> mutationSucceeded e \<and>
         PID e \<notin> privilegeChanges st \<and> isSuspiciousPrivilegeContext e (suspiciousProcessPIDs st)
      then 1 else 0)"
  "fired r (on_namespace_change e st) = fired r st +
     (if r = ''namespace_escape_attempt'' \<and> mutationSucceeded e \<and> PID e \<notin> namespaceChanges st
      then 1 else 0)"
  "fired r (on_process_access e st) = fired r st +
     (if r = ''process_memory_access'' \<and> mutationSucceeded e \<and> access_key e \<notin> processAccesses st
      then 1 else 0)"
  "fired r (on_network_server e st) = fired r st +
     (if r = ''unexpected_network_listener'' \<and> mutationSucceeded e \<and>
         isUnexpectedNetworkListener e \<and> connection_key e \<notin> networkListeners st
      then 1 else 0)"
  "fired r (on_kernel_tamper e st) = fired r st +
     (if r = ''kernel_tamper_syscall'' \<and> tamper_key e \<notin> kernelTamper st then 1 else 0)"
  by (simp_all add: handler_defs Let_def detect_simps split: option.splits)

lemma fired_file_lifecycle [detect_simps]:
  "fired r (on_file_lifecycle e st) = fired r st +
     (if r = ''persistence_path_modified'' \<and> mutationSucceeded e \<and> isPersistencePath (FilePath e) \<and>
         metadataString e ''action'' @ '':'' @ FilePath e \<notin> persistenceChanges st then 1 else 0) +
     (if r = ''log_tampering'' \<and> mutationSucceeded e \<and> isLogPath (FilePath e) \<and>
         isLogTamperAction (metadataString e ''action'') \<and>
         metadataString e ''action'' @ '':'' @ FilePath e \<notin> logTampering st then 1 else 0)"
  by (auto simp: on_file_lifecycle_def Let_def detect_simps)

text \<open>The switch, one equation per case.\<close>

lemma type_distinct:
  "distinct [TypeExecve, TypeFileWrite, TypeSensitiveRead, TypeFileLifecycle, TypeChmod, TypeConnect,
     TypePrivilegeChange, TypeNamespaceChange, TypeProcessAccess, TypeNetworkServer, TypeKernelTamper]"
  "distinct [TypeKernelTamper, TypeNetworkServer, TypeProcessAccess, TypeNamespaceChange,
     TypePrivilegeChange, TypeConnect, TypeChmod, TypeFileLifecycle, TypeSensitiveRead, TypeFileWrite,
     TypeExecve]"
  by (simp_all add: type_defs)

lemmas type_neqs [simp] = type_distinct [simplified]

lemma fired_step:
  "fired r (detect_step st e) =
     (if EventType e = TypeExecve then fired r (on_execve e st)
      else if EventType e = TypeFileWrite then fired r (on_file_write e st)
      else if EventType e = TypeSensitiveRead then fired r (on_sensitive_read e st)
      else if EventType e = TypeFileLifecycle then fired r (on_file_lifecycle e st)
      else if EventType e = TypeChmod then fired r (on_chmod e st)
      else if EventType e = TypeConnect then fired r (on_connect e st)
      else if EventType e = TypePrivilegeChange then fired r (on_privilege_change e st)
      else if EventType e = TypeNamespaceChange then fired r (on_namespace_change e st)
      else if EventType e = TypeProcessAccess then fired r (on_process_access e st)
      else if EventType e = TypeNetworkServer then fired r (on_network_server e st)
      else if EventType e = TypeKernelTamper then fired r (on_kernel_tamper e st)
      else fired r st)"
  by (simp only: detect_step_def if_distrib [of "fired r"])

text \<open>The step of an event rule, and the step of a keyed rule.\<close>

lemma event_rule_step:
  assumes "r \<in> set event_rules"
  shows "fired r (detect_step st e) = fired r st + (if rule_fires r e then 1 else 0)"
  using assms unfolding event_rules_def list.set insert_iff empty_iff
  by (elim disjE FalseE;
      simp only: fired_step detect_simps rule_fires_def, simp cong: if_cong)

lemma tracker_step:
  "tracker r (detect_step st e) =
     (if EventType e = TypeExecve then tracker r (on_execve e st)
      else if EventType e = TypeFileWrite then tracker r (on_file_write e st)
      else if EventType e = TypeSensitiveRead then tracker r (on_sensitive_read e st)
      else if EventType e = TypeFileLifecycle then tracker r (on_file_lifecycle e st)
      else if EventType e = TypeChmod then tracker r (on_chmod e st)
      else if EventType e = TypeConnect then tracker r (on_connect e st)
      else if EventType e = TypePrivilegeChange then tracker r (on_privilege_change e st)
      else if EventType e = TypeNamespaceChange then tracker r (on_namespace_change e st)
      else if EventType e = TypeProcessAccess then tracker r (on_process_access e st)
      else if EventType e = TypeNetworkServer then tracker r (on_network_server e st)
      else if EventType e = TypeKernelTamper then tracker r (on_kernel_tamper e st)
      else tracker r st)"
  by (simp only: detect_step_def if_distrib [of "tracker r"])

lemma tracker_insert [detect_simps]:
  "tracker r (st\<lparr>sensitiveFiles := S\<rparr>) =
     (if r = ''sensitive_file_access'' then S else tracker r st)"
  "tracker r (st\<lparr>sensitiveReads := S\<rparr>) = (if r = ''sensitive_file_read'' then S else tracker r st)"
  "tracker r (st\<lparr>persistenceChanges := S\<rparr>) =
     (if r = ''persistence_path_modified'' then S else tracker r st)"
  "tracker r (st\<lparr>logTampering := S\<rparr>) = (if r = ''log_tampering'' then S else tracker r st)"
  "tracker r (st\<lparr>reverseShellConnections := S\<rparr>) =
     (if r = ''suspicious_reverse_shell_pattern'' then S else tracker r st)"
  "tracker r (st\<lparr>namespaceChanges := P\<rparr>) =
     (if r = ''namespace_escape_attempt'' then Itoa ` P else tracker r st)"
  "tracker r (st\<lparr>processAccesses := S\<rparr>) =
     (if r = ''process_memory_access'' then S else tracker r st)"
  "tracker r (st\<lparr>networkListeners := S\<rparr>) =
     (if r = ''unexpected_network_listener'' then S else tracker r st)"
  "tracker r (st\<lparr>kernelTamper := S\<rparr>) = (if r = ''kernel_tamper_syscall'' then S else tracker r st)"
  by (simp_all add: tracker_def cong: if_cong)

lemma tracker_reads:
  "tracker ''sensitive_file_access'' st = sensitiveFiles st"
  "tracker ''sensitive_file_read'' st = sensitiveReads st"
  "tracker ''persistence_path_modified'' st = persistenceChanges st"
  "tracker ''log_tampering'' st = logTampering st"
  "tracker ''suspicious_reverse_shell_pattern'' st = reverseShellConnections st"
  "tracker ''namespace_escape_attempt'' st = Itoa ` namespaceChanges st"
  "tracker ''process_memory_access'' st = processAccesses st"
  "tracker ''unexpected_network_listener'' st = networkListeners st"
  "tracker ''kernel_tamper_syscall'' st = kernelTamper st"
  by (simp_all add: tracker_def)

text \<open>What each handler does to the set of a rule.\<close>

lemma tracker_handlers [detect_simps]:
  "tracker r (on_file_write e st) = tracker r st \<union>
     (if r = ''sensitive_file_access'' \<and> fileWriteChanged e \<and> isSensitiveFile (FilePath e)
      then {FilePath e} else {})"
  "tracker r (on_sensitive_read e st) = tracker r st \<union>
     (if r = ''sensitive_file_read'' \<and> isSensitiveReadPath (FilePath e)
      then {Itoa (PID e) @ '':'' @ FilePath e} else {})"
  "tracker r (on_chmod e st) = tracker r st"
  "tracker r (on_connect e st) = tracker r st \<union>
     (if r = ''suspicious_reverse_shell_pattern'' \<and> mutationSucceeded e \<and> isShellConnection e \<and>
         isUnusualOutboundPort (RemotePort e) then {connection_key e} else {})"
  "tracker r (on_privilege_change e st) = tracker r st"
  "tracker r (on_namespace_change e st) = tracker r st \<union>
     (if r = ''namespace_escape_attempt'' \<and> mutationSucceeded e then {Itoa (PID e)} else {})"
  "tracker r (on_process_access e st) = tracker r st \<union>
     (if r = ''process_memory_access'' \<and> mutationSucceeded e then {access_key e} else {})"
  "tracker r (on_network_server e st) = tracker r st \<union>
     (if r = ''unexpected_network_listener'' \<and> mutationSucceeded e \<and>
         isUnexpectedNetworkListener e then {connection_key e} else {})"
  "tracker r (on_kernel_tamper e st) = tracker r st \<union>
     (if r = ''kernel_tamper_syscall'' then {tamper_key e} else {})"
  by (auto simp: handler_defs Let_def detect_simps tracker_reads split: option.split)

lemma tracker_file_lifecycle [detect_simps]:
  "tracker r (on_file_lifecycle e st) = tracker r st \<union>
     (if r = ''persistence_path_modified'' \<and> mutationSucceeded e \<and> isPersistencePath (FilePath e)
      then {metadataString e ''action'' @ '':'' @ FilePath e} else {}) \<union>
     (if r = ''log_tampering'' \<and> mutationSucceeded e \<and> isLogPath (FilePath e) \<and>
         isLogTamperAction (metadataString e ''action'')
      then {metadataString e ''action'' @ '':'' @ FilePath e} else {})"
  by (auto simp: on_file_lifecycle_def Let_def detect_simps tracker_reads)

lemma keyed_rule_step:
  assumes "r \<in> set keyed_rules"
  shows "tracker r (detect_step st e) = tracker r st \<union> set_option (rule_key r e)"
  using assms unfolding keyed_rules_def list.set insert_iff empty_iff
  by (elim disjE FalseE;
      simp only: tracker_step detect_simps rule_key_def, simp cong: if_cong)

lemma Itoa_image_iff: "Itoa i \<in> Itoa ` P \<longleftrightarrow> i \<in> P"
  by (auto dest: Itoa_inj)

lemma keyed_rule_fired:
  assumes "r \<in> set keyed_rules"
  shows "fired r (detect_step st e) =
    fired r st + (if set_option (rule_key r e) \<subseteq> tracker r st then 0 else 1)"
  using assms unfolding keyed_rules_def list.set insert_iff empty_iff
  by (elim disjE FalseE;
      simp only: fired_step detect_simps rule_key_def tracker_reads,
      simp add: Itoa_image_iff cong: if_cong)

section \<open>The whole run\<close>

lemma event_rule_run:
  "r \<in> set event_rules \<Longrightarrow> fired r (foldl detect_step st es) = fired r st + length (filter (rule_fires r) es)"
  by (induction es arbitrary: st) (simp_all add: event_rule_step)

definition rule_keys :: "string \<Rightarrow> event set \<Rightarrow> string set" where
  "rule_keys r E = (\<Union>e\<in>E. set_option (rule_key r e))"

lemma finite_rule_keys: "finite E \<Longrightarrow> finite (rule_keys r E)"
  by (auto simp: rule_keys_def)

lemma tracker_run:
  "r \<in> set keyed_rules \<Longrightarrow>
    tracker r (foldl detect_step st es) = tracker r st \<union> rule_keys r (set es)"
  by (induction es arbitrary: st) (auto simp: keyed_rule_step rule_keys_def)

lemma init_observations:
  "tracker r detector_init = {}" "fired r detector_init = 0" "d_result detector_init = \<lparr>Signals = [], RiskScore = 0\<rparr>"
    "rule_count r \<lparr>Signals = [], RiskScore = 0\<rparr> = 0"
  by (simp_all add: tracker_def detector_init_def rule_count_def)

lemma keyed_rule_run:
  assumes r: "r \<in> set keyed_rules"
  shows "fired r (detect_all es) = card (rule_keys r (set es))"
proof (induction es rule: rev_induct)
  case Nil
  then show ?case by (simp add: detect_all_def init_observations rule_keys_def)
next
  case (snoc e es)
  have tr: "tracker r (detect_all es) = rule_keys r (set es)"
    by (simp add: detect_all_def tracker_run [OF r] init_observations)
  have keys: "rule_keys r (set (es @ [e])) = set_option (rule_key r e) \<union> rule_keys r (set es)"
    by (simp add: rule_keys_def)
  have "fired r (detect_all (es @ [e])) =
      fired r (detect_all es) + (if set_option (rule_key r e) \<subseteq> rule_keys r (set es) then 0 else 1)"
    by (simp add: detect_all_def keyed_rule_fired [OF r] flip: tr [unfolded detect_all_def])
  with snoc.IH keys show ?case
    by (cases "rule_key r e") (auto simp: finite_rule_keys card_insert_if)
qed

text \<open>Each of the six rules that look at one event only (a shell below a web server or a package
  manager, a download from a shell, a miner name, a network tool, an executable bit on a
  temporary file) gives exactly one signal for each input event that satisfies it, in whatever order
  the events come.\<close>

theorem event_rules_exact:
  assumes "sorts_by Timestamp srt" "r \<in> set event_rules"
  shows "rule_count r (Analyze srt es) = length (filter (rule_fires r) es)"
proof -
  have "mset (filter (rule_fires r) (srt es)) = mset (filter (rule_fires r) es)"
    using sorts_by_mset [OF assms(1), of es] by simp
  then have "length (filter (rule_fires r) (srt es)) = length (filter (rule_fires r) es)"
    by (metis size_mset)
  with event_rule_run [OF assms(2), of detector_init "srt es"] show ?thesis
    by (simp add: Analyze_def detect_all_def init_observations)
qed

text \<open>C13. Each of the nine rules that keep a set of keys (sensitive writes and reads, persistence
  paths, log tampering, reverse shells, namespaces, process memory, listeners, kernel tampering)
  gives exactly one signal for each distinct key among the input events that match it: no
  repetition is reported twice and no new key is missed.\<close>

theorem keyed_rules_exact:
  assumes "sorts_by Timestamp srt" "r \<in> set keyed_rules"
  shows "rule_count r (Analyze srt es) = card {k. \<exists>e\<in>set es. rule_key r e = Some k}"
proof -
  have "rule_keys r (set (srt es)) = {k. \<exists>e\<in>set es. rule_key r e = Some k}"
    by (auto simp: rule_keys_def sorts_by_set [OF assms(1)])
  with keyed_rule_run [OF assms(2), of "srt es"] show ?thesis by (simp add: Analyze_def)
qed

lemma keyed_rules_exact_witness:
  "rule_count ''kernel_tamper_syscall'' (Analyze (sort_key Timestamp) (sample_tamper # sample_attack)) = 1"
proof -
  have "rule_key ''kernel_tamper_syscall'' sample_tamper = Some ''12:init_module''"
    "list_all (\<lambda>e. rule_key ''kernel_tamper_syscall'' e \<in> {None, Some ''12:init_module''}) sample_attack"
    by code_simp+
  then have "{k. \<exists>e\<in>set (sample_tamper # sample_attack). rule_key ''kernel_tamper_syscall'' e = Some k} =
      {''12:init_module''}"
    by (auto simp: list_all_iff)
  with keyed_rules_exact [OF sorts_by_sort_key, of "''kernel_tamper_syscall''" "sample_tamper # sample_attack"]
  show ?thesis by (simp add: keyed_rules_def)
qed

end
