(* ===== verification/Analyze_Chain.thy ===== *)
theory Analyze_Chain
  imports Analyze_Counts
begin

text \<open>
  The download chain: a shell downloads a file, a process executes it, and that process connects
  out. The three stages are recognised whatever happens in between, and a later stage is never
  reported without the stages before it.
\<close>

section \<open>What a step keeps\<close>

lemma fired_grows: "fired r st \<le> fired r (detect_step st e)"
  by (simp add: fired_step detect_simps)

lemma files_exec: 
  "downloadedFiles (exec_shell e st) = downloadedFiles st"
  "downloadedFiles (exec_downloaded e st) = downloadedFiles st"
  "downloadedFiles (exec_miner e st) = downloadedFiles st"
  "downloadedFiles (exec_nettool e st) = downloadedFiles st"
  "dom (downloadedFiles (exec_download e st)) = dom (downloadedFiles st) \<union>
     (if isDownloadTool (ProcessName e) \<and> isShell (ParentProcessName e) \<and>
         downloadOutput (CommandLine e) \<noteq> [] then {downloadOutput (CommandLine e)} else {})"
  by (auto simp: exec_defs Let_def detect_simps split: option.splits)

lemma pids_exec:
  "downloadedProcessPIDs (exec_shell e st) = downloadedProcessPIDs st"
  "downloadedProcessPIDs (exec_download e st) = downloadedProcessPIDs st"
  "downloadedProcessPIDs (exec_miner e st) = downloadedProcessPIDs st"
  "downloadedProcessPIDs (exec_nettool e st) = downloadedProcessPIDs st"
  "dom (downloadedProcessPIDs (exec_downloaded e st)) = dom (downloadedProcessPIDs st) \<union>
     (if ExecutablePath e \<in> dom (downloadedFiles st) then {PID e} else {})"
  by (auto simp: exec_defs Let_def detect_simps split: option.splits)

lemma downloads_exec:
  "downloadProcesses (exec_shell e st) = downloadProcesses st"
  "downloadProcesses (exec_downloaded e st) = downloadProcesses st"
  "downloadProcesses (exec_miner e st) = downloadProcesses st"
  "downloadProcesses (exec_nettool e st) = downloadProcesses st"
  "dom (downloadProcesses (exec_download e st)) = dom (downloadProcesses st) \<union>
     (if isDownloadTool (ProcessName e) \<and> isShell (ParentProcessName e) then {PID e} else {})"
  by (auto simp: exec_defs Let_def detect_simps split: option.splits)

text \<open>The domains of the three maps after an \<open>execve\<close>.\<close>

definition downloads_to :: "event \<Rightarrow> string set" where
  "downloads_to e =
     (if isDownloadTool (ProcessName e) \<and> isShell (ParentProcessName e) \<and>
         downloadOutput (CommandLine e) \<noteq> [] then {downloadOutput (CommandLine e)} else {})"

lemma on_execve_doms [detect_simps]:
  "dom (downloadedFiles (on_execve e st)) = dom (downloadedFiles st) \<union> downloads_to e"
  "dom (downloadedProcessPIDs (on_execve e st)) = dom (downloadedProcessPIDs st) \<union>
     (if ExecutablePath e \<in> dom (downloadedFiles st) \<union> downloads_to e then {PID e} else {})"
  "dom (downloadProcesses (on_execve e st)) = dom (downloadProcesses st) \<union>
     (if isDownloadTool (ProcessName e) \<and> isShell (ParentProcessName e) then {PID e} else {})"
  by (simp_all only: on_execve_def files_exec pids_exec downloads_exec downloads_to_def)

lemma other_handlers_chain [detect_simps]:
  "downloadProcesses (on_file_write e st) = downloadProcesses st"
  "downloadedProcessPIDs (on_file_write e st) = downloadedProcessPIDs st"
  "dom (downloadedFiles (on_file_write e st)) = dom (downloadedFiles st) \<union>
     (if fileWriteChanged e \<and> FilePath e \<noteq> [] \<and> PID e \<in> dom (downloadProcesses st)
      then {FilePath e} else {})"
  by (auto simp: on_file_write_def Let_def detect_simps split: option.splits)

lemma on_connect_chain [detect_simps]:
  "downloadProcesses (on_connect e st) = downloadProcesses st"
  "downloadedProcessPIDs (on_connect e st) = downloadedProcessPIDs st"
  "downloadedFiles (on_connect e st) = downloadedFiles st"
  by (simp_all add: on_connect_def Let_def detect_simps split: option.split)

lemma quiet_handlers_chain [detect_simps]:
  "downloadProcesses (on_sensitive_read e st) = downloadProcesses st"
  "downloadProcesses (on_file_lifecycle e st) = downloadProcesses st"
  "downloadProcesses (on_chmod e st) = downloadProcesses st"
  "downloadProcesses (on_privilege_change e st) = downloadProcesses st"
  "downloadProcesses (on_namespace_change e st) = downloadProcesses st"
  "downloadProcesses (on_process_access e st) = downloadProcesses st"
  "downloadProcesses (on_network_server e st) = downloadProcesses st"
  "downloadProcesses (on_kernel_tamper e st) = downloadProcesses st"
  "downloadedProcessPIDs (on_sensitive_read e st) = downloadedProcessPIDs st"
  "downloadedProcessPIDs (on_file_lifecycle e st) = downloadedProcessPIDs st"
  "downloadedProcessPIDs (on_chmod e st) = downloadedProcessPIDs st"
  "downloadedProcessPIDs (on_privilege_change e st) = downloadedProcessPIDs st"
  "downloadedProcessPIDs (on_namespace_change e st) = downloadedProcessPIDs st"
  "downloadedProcessPIDs (on_process_access e st) = downloadedProcessPIDs st"
  "downloadedProcessPIDs (on_network_server e st) = downloadedProcessPIDs st"
  "downloadedProcessPIDs (on_kernel_tamper e st) = downloadedProcessPIDs st"
  "downloadedFiles (on_sensitive_read e st) = downloadedFiles st"
  "downloadedFiles (on_file_lifecycle e st) = downloadedFiles st"
  "downloadedFiles (on_chmod e st) = downloadedFiles st"
  "downloadedFiles (on_privilege_change e st) = downloadedFiles st"
  "downloadedFiles (on_namespace_change e st) = downloadedFiles st"
  "downloadedFiles (on_process_access e st) = downloadedFiles st"
  "downloadedFiles (on_network_server e st) = downloadedFiles st"
  "downloadedFiles (on_kernel_tamper e st) = downloadedFiles st"
  by (simp_all add: handler_defs Let_def detect_simps)

lemma doms_grow:
  "dom (downloadedFiles st) \<subseteq> dom (downloadedFiles (detect_step st e))"
  "dom (downloadedProcessPIDs st) \<subseteq> dom (downloadedProcessPIDs (detect_step st e))"
  unfolding detect_step_def
  by (simp_all only: detect_simps split: if_split) blast+

section \<open>Runs\<close>

definition chain_le :: "detector \<Rightarrow> detector \<Rightarrow> bool" where
  "chain_le s t \<longleftrightarrow> dom (downloadedFiles s) \<subseteq> dom (downloadedFiles t) \<and>
     dom (downloadedProcessPIDs s) \<subseteq> dom (downloadedProcessPIDs t) \<and> (\<forall>r. fired r s \<le> fired r t)"

lemma chain_le_trans: "chain_le s t \<Longrightarrow> chain_le t u \<Longrightarrow> chain_le s u"
  unfolding chain_le_def by (meson order_trans subset_trans)

lemma chain_le_run: "chain_le s (foldl detect_step s es)"
proof (induction es arbitrary: s)
  case (Cons e es)
  have "chain_le s (detect_step s e)"
    unfolding chain_le_def using doms_grow fired_grows by blast
  with Cons.IH [of "detect_step s e"] show ?case by (auto intro: chain_le_trans)
qed (simp add: chain_le_def)

lemma split_at_two:
  assumes "sorted (map key xs)" "x \<in> set xs" "y \<in> set xs" "key x < key y"
  shows "\<exists>a b c. xs = a @ x # b @ y # c"
proof -
  from assms(2) obtain a r where xs: "xs = a @ x # r" by (auto dest: split_list)
  with assms(1) have "\<forall>z\<in>set a. key z \<le> key x" by (auto simp: sorted_append)
  with assms(3,4) xs have "y \<in> set r" by force
  then obtain b c where "r = b @ y # c" by (auto dest: split_list)
  with xs show ?thesis by blast
qed

lemma split_at_three:
  assumes "sorted (map key xs)" "x \<in> set xs" "y \<in> set xs" "z \<in> set xs" "key x < key y" "key y < key z"
  shows "\<exists>a b c d. xs = a @ x # b @ y # c @ z # d"
proof -
  from split_at_two [OF assms(1,2,3,5)] obtain a b r where xs: "xs = a @ x # b @ y # r" by blast
  with assms(1) have "\<forall>w\<in>set (a @ x # b). key w \<le> key y" by (auto simp: sorted_append)
  with assms(4,6) xs have "z \<in> set r" by force
  then obtain c d where "r = c @ z # d" by (auto dest: split_list)
  with xs show ?thesis by blast
qed

text \<open>The three stages, as steps.\<close>

definition shell_download :: "event \<Rightarrow> string \<Rightarrow> bool" where
  "shell_download d f \<longleftrightarrow> EventType d = TypeExecve \<and> isDownloadTool (ProcessName d) \<and>
     isShell (ParentProcessName d) \<and> downloadOutput (CommandLine d) = f \<and> f \<noteq> []"

lemma stage_download:
  assumes "shell_download d f"
  shows "f \<in> dom (downloadedFiles (detect_step st d))"
    "1 \<le> fired ''shell_downloaded_file'' (detect_step st d)"
  using assms by (simp_all add: shell_download_def detect_step_def detect_simps downloads_to_def)

lemma stage_execute:
  assumes "EventType x = TypeExecve" "ExecutablePath x \<in> dom (downloadedFiles st)"
  shows "PID x \<in> dom (downloadedProcessPIDs (detect_step st x))"
    "1 \<le> fired ''recently_downloaded_binary_executed'' (detect_step st x)"
proof -
  from assms show "PID x \<in> dom (downloadedProcessPIDs (detect_step st x))"
    by (simp add: detect_step_def detect_simps)
  have "ExecutablePath x \<in> dom (downloadedFiles (exec_download x (exec_shell x st)))"
    using assms(2) by (simp add: files_exec)
  with assms(1) show "1 \<le> fired ''recently_downloaded_binary_executed'' (detect_step st x)"
    by (simp add: detect_step_def detect_simps domIff)
qed

lemma stage_connect:
  assumes "EventType y = TypeConnect" "mutationSucceeded y" "PID y \<in> dom (downloadedProcessPIDs st)"
  shows "1 \<le> fired ''downloaded_binary_connected_outbound'' (detect_step st y)"
  using assms by (simp add: detect_step_def detect_simps domIff)

lemma chain_run:
  assumes "shell_download d (ExecutablePath x)" "EventType x = TypeExecve"
    "EventType y = TypeConnect" "mutationSucceeded y" "PID y = PID x"
  shows "1 \<le> fired ''shell_downloaded_file'' (detect_all (a @ d # b @ x # c @ y # e))"
    "1 \<le> fired ''recently_downloaded_binary_executed'' (detect_all (a @ d # b @ x # c @ y # e))"
    "1 \<le> fired ''downloaded_binary_connected_outbound'' (detect_all (a @ d # b @ x # c @ y # e))"
proof -
  define s1 where "s1 = detect_step (foldl detect_step detector_init a) d"
  define s2 where "s2 = detect_step (foldl detect_step s1 b) x"
  define s3 where "s3 = detect_step (foldl detect_step s2 c) y"
  have run: "detect_all (a @ d # b @ x # c @ y # e) = foldl detect_step s3 e"
    by (simp add: detect_all_def s1_def s2_def s3_def)
  have le12: "chain_le s1 (foldl detect_step s1 b)" and le23: "chain_le s2 (foldl detect_step s2 c)"
    and le3: "chain_le s3 (foldl detect_step s3 e)" by (rule chain_le_run)+
  have step: "chain_le s (detect_step s z)" for s z using chain_le_run [of s "[z]"] by simp
  have le1: "chain_le s1 s2" unfolding s2_def by (rule chain_le_trans [OF le12 step])
  have le2: "chain_le s2 s3" unfolding s3_def by (rule chain_le_trans [OF le23 step])
  from stage_download [OF assms(1)]
  have 1: "ExecutablePath x \<in> dom (downloadedFiles s1)" "1 \<le> fired ''shell_downloaded_file'' s1"
    by (simp_all add: s1_def)
  with le12 have "ExecutablePath x \<in> dom (downloadedFiles (foldl detect_step s1 b))"
    by (auto simp: chain_le_def)
  from stage_execute [OF assms(2) this]
  have 2: "PID y \<in> dom (downloadedProcessPIDs s2)" "1 \<le> fired ''recently_downloaded_binary_executed'' s2"
    by (simp_all add: s2_def assms(5))
  with le23 have "PID y \<in> dom (downloadedProcessPIDs (foldl detect_step s2 c))"
    by (auto simp: chain_le_def)
  from stage_connect [OF assms(3,4) this]
  have 3: "1 \<le> fired ''downloaded_binary_connected_outbound'' s3" by (simp add: s3_def)
  from 1 2 3 le1 le2 le3 show "1 \<le> fired ''shell_downloaded_file'' (detect_all (a @ d # b @ x # c @ y # e))"
    "1 \<le> fired ''recently_downloaded_binary_executed'' (detect_all (a @ d # b @ x # c @ y # e))"
    "1 \<le> fired ''downloaded_binary_connected_outbound'' (detect_all (a @ d # b @ x # c @ y # e))"
    unfolding run chain_le_def by (meson order_trans)+
qed

section \<open>The score of fired rules\<close>

lemma sum_impacts_ge:
  assumes "\<forall>s\<in>set ss. 0 \<le> ScoreImpact s \<and>
      (RuleID s = r1 \<longrightarrow> ScoreImpact s = i1) \<and> (RuleID s = r2 \<longrightarrow> ScoreImpact s = i2) \<and>
      (RuleID s = r3 \<longrightarrow> ScoreImpact s = i3)" "distinct [r1, r2, r3]"
  shows "i1 * int (length (filter (\<lambda>s. RuleID s = r1) ss)) + i2 * int (length (filter (\<lambda>s. RuleID s = r2) ss)) +
    i3 * int (length (filter (\<lambda>s. RuleID s = r3) ss)) \<le> (\<Sum>s\<leftarrow>ss. ScoreImpact s)"
  using assms by (induction ss) (auto simp: algebra_simps)

lemma catalog_impacts:
  "(r, i, cols) \<in> set catalog_rows \<Longrightarrow>
    (r = ''shell_downloaded_file'' \<longrightarrow> i = 20) \<and> (r = ''recently_downloaded_binary_executed'' \<longrightarrow> i = 30) \<and>
    (r = ''downloaded_binary_connected_outbound'' \<longrightarrow> i = 35)"
  unfolding catalog_rows_eq by auto

lemma chain_score:
  assumes "1 \<le> fired ''shell_downloaded_file'' st" "1 \<le> fired ''recently_downloaded_binary_executed'' st"
    "1 \<le> fired ''downloaded_binary_connected_outbound'' st" "det_ok E st"
  shows "85 \<le> RiskScore (d_result st)"
proof -
  let ?ss = "Signals (d_result st)"
  have "\<forall>s\<in>set ?ss. 0 \<le> ScoreImpact s \<and> (RuleID s = ''shell_downloaded_file'' \<longrightarrow> ScoreImpact s = 20) \<and>
      (RuleID s = ''recently_downloaded_binary_executed'' \<longrightarrow> ScoreImpact s = 30) \<and>
      (RuleID s = ''downloaded_binary_connected_outbound'' \<longrightarrow> ScoreImpact s = 35)"
    using assms(4) signals_nonneg [OF assms(4)] catalog_impacts
    unfolding det_ok_def signal_ok_def by meson
  from sum_impacts_ge [OF this] assms(1-3)
  have "85 \<le> (\<Sum>s\<leftarrow>?ss. ScoreImpact s)" by (simp add: rule_count_def)
  with assms(4) show ?thesis by (simp add: det_ok_def score_ok_def)
qed

section \<open>Stages are reported in order\<close>

definition chain_ok :: "detector \<Rightarrow> bool" where
  "chain_ok st \<longleftrightarrow>
     (fired ''shell_downloaded_file'' st = 0 \<longrightarrow>
        downloadProcesses st = Map.empty \<and> downloadedFiles st = Map.empty) \<and>
     (fired ''recently_downloaded_binary_executed'' st = 0 \<longrightarrow> downloadedProcessPIDs st = Map.empty) \<and>
     (fired ''shell_downloaded_file'' st = 0 \<longrightarrow> fired ''recently_downloaded_binary_executed'' st = 0) \<and>
     (fired ''recently_downloaded_binary_executed'' st = 0 \<longrightarrow>
        fired ''downloaded_binary_connected_outbound'' st = 0)"

lemma chain_ok_init: "chain_ok detector_init"
  by (simp add: chain_ok_def init_observations) (simp add: detector_init_def)

lemma chain_ok_doms:
  "chain_ok st \<longleftrightarrow>
     (fired ''shell_downloaded_file'' st = 0 \<longrightarrow>
        dom (downloadProcesses st) = {} \<and> dom (downloadedFiles st) = {}) \<and>
     (fired ''recently_downloaded_binary_executed'' st = 0 \<longrightarrow> dom (downloadedProcessPIDs st) = {}) \<and>
     (fired ''shell_downloaded_file'' st = 0 \<longrightarrow> fired ''recently_downloaded_binary_executed'' st = 0) \<and>
     (fired ''recently_downloaded_binary_executed'' st = 0 \<longrightarrow>
        fired ''downloaded_binary_connected_outbound'' st = 0)"
  by (simp add: chain_ok_def)

lemma executed_dom:
  "downloadedFiles (exec_download e (exec_shell e st)) p = None \<longleftrightarrow>
     p \<notin> dom (downloadedFiles st) \<union> downloads_to e"
proof -
  have "dom (downloadedFiles (exec_download e (exec_shell e st))) = dom (downloadedFiles st) \<union> downloads_to e"
    by (simp only: files_exec downloads_to_def)
  then show ?thesis by blast
qed

lemma chain_ok_execve:
  assumes "chain_ok st" shows "chain_ok (on_execve e st)"
proof (cases "isDownloadTool (ProcessName e) \<and> isShell (ParentProcessName e)")
  case True
  with assms show ?thesis
    by (simp add: chain_ok_doms fired_exec executed_dom on_execve_doms)
next
  case False
  then have "downloads_to e = {}" by (auto simp: downloads_to_def)
  with assms False show ?thesis
    by (simp add: chain_ok_doms fired_exec executed_dom on_execve_doms)
qed

lemma chain_ok_quiet:
  assumes "EventType e \<notin> {TypeExecve, TypeFileWrite, TypeConnect}"
  shows "chain_ok (detect_step st e) = chain_ok st"
proof -
  have neqs: "EventType e \<noteq> TypeExecve" "EventType e \<noteq> TypeFileWrite" "EventType e \<noteq> TypeConnect"
    using assms by auto
  then have "downloadProcesses (detect_step st e) = downloadProcesses st"
    "downloadedFiles (detect_step st e) = downloadedFiles st"
    "downloadedProcessPIDs (detect_step st e) = downloadedProcessPIDs st"
    by (simp_all add: detect_step_def detect_simps)
  moreover have "fired r (detect_step st e) = fired r st"
    if "r \<in> {''shell_downloaded_file'', ''recently_downloaded_binary_executed'',
      ''downloaded_binary_connected_outbound''}" for r
    using that neqs unfolding insert_iff empty_iff
    by (elim disjE FalseE; simp only: fired_step detect_simps, simp cong: if_cong)
  ultimately show ?thesis by (simp add: chain_ok_def)
qed

lemma chain_ok_step:
  assumes "chain_ok st" shows "chain_ok (detect_step st e)"
proof -
  have "chain_ok (on_file_write e st)"
    using assms by (simp add: chain_ok_doms detect_simps)
  moreover have "chain_ok (on_connect e st)"
    using assms by (auto simp: chain_ok_def detect_simps)
  ultimately show ?thesis
    using assms chain_ok_execve [of st e] chain_ok_quiet [of e st]
    by (cases "EventType e \<in> {TypeExecve, TypeFileWrite, TypeConnect}") (auto simp: detect_step_def)
qed

lemma chain_ok_all: "chain_ok (detect_all es)"
  unfolding detect_all_def by (rule list_all_foldl_invariant) (auto intro: chain_ok_init chain_ok_step)

section \<open>The chain in \<open>Analyze\<close>\<close>

lemma analyze_chain_run:
  assumes "sorts_by Timestamp srt" "d \<in> set es" "x \<in> set es" "y \<in> set es"
    "Timestamp d < Timestamp x" "Timestamp x < Timestamp y"
    "shell_download d (ExecutablePath x)" "EventType x = TypeExecve"
    "EventType y = TypeConnect" "mutationSucceeded y" "PID y = PID x"
  shows "1 \<le> rule_count ''shell_downloaded_file'' (Analyze srt es)"
    "1 \<le> rule_count ''recently_downloaded_binary_executed'' (Analyze srt es)"
    "1 \<le> rule_count ''downloaded_binary_connected_outbound'' (Analyze srt es)"
proof -
  have "sorted (map Timestamp (srt es))" "set (srt es) = set es"
    using assms(1) by (simp_all add: sorts_by_sorted sorts_by_set)
  with split_at_three [of Timestamp "srt es" d x y] assms(2-6)
  obtain a b c e where "srt es = a @ d # b @ x # c @ y # e" by auto
  with chain_run [OF assms(7-11), of a b c e]
  show "1 \<le> rule_count ''shell_downloaded_file'' (Analyze srt es)"
    "1 \<le> rule_count ''recently_downloaded_binary_executed'' (Analyze srt es)"
    "1 \<le> rule_count ''downloaded_binary_connected_outbound'' (Analyze srt es)"
    by (simp_all add: Analyze_def)
qed

text \<open>C12. Completeness of the download chain: when a shell launches a download tool with an output
  path, a process later executes that path, and the same process later connects without failing,
  then all three rules of the chain fire, the score is at least 85 and the level is critical,
  whatever other events surround and separate the three.\<close>

theorem download_chain_detected:
  assumes "sorts_by Timestamp srt" "d \<in> set es" "x \<in> set es" "y \<in> set es"
    "Timestamp d < Timestamp x" "Timestamp x < Timestamp y"
    "shell_download d (ExecutablePath x)" "EventType x = TypeExecve"
    "EventType y = TypeConnect" "mutationSucceeded y" "PID y = PID x"
  shows "1 \<le> rule_count ''shell_downloaded_file'' (Analyze srt es) \<and>
    1 \<le> rule_count ''recently_downloaded_binary_executed'' (Analyze srt es) \<and>
    1 \<le> rule_count ''downloaded_binary_connected_outbound'' (Analyze srt es) \<and>
    85 \<le> RiskScore (Analyze srt es) \<and> RiskLevel (RiskScore (Analyze srt es)) = ''critical''"
proof -
  note fired = analyze_chain_run [OF assms]
  from fired [unfolded Analyze_def] have "85 \<le> RiskScore (Analyze srt es)"
    unfolding Analyze_def by (rule chain_score) (rule detect_all_ok)
  with fired show ?thesis by (simp add: RiskLevel_def)
qed

lemma sample_chain:
  "shell_download sample_download (ExecutablePath sample_execution)" "EventType sample_execution = TypeExecve"
  "EventType sample_connect = TypeConnect" "mutationSucceeded sample_connect"
  "PID sample_connect = PID sample_execution" "Timestamp sample_download < Timestamp sample_execution"
  "Timestamp sample_execution < Timestamp sample_connect"
  by code_simp+

lemma sample_in_attack:
  "sample_download \<in> set sample_attack" "sample_execution \<in> set sample_attack"
  "sample_connect \<in> set sample_attack"
  by (simp_all add: sample_attack_def)

lemma download_chain_detected_witness:
  "RiskLevel (RiskScore (Analyze (sort_key Timestamp) sample_attack)) = ''critical''"
  using download_chain_detected [OF sorts_by_sort_key sample_in_attack sample_chain(6,7,1-5)] by blast

text \<open>Soundness of the download chain: the connection of a downloaded binary is reported only
  if the execution of a downloaded file is, and that only if a download by a shell is.\<close>

theorem chain_stages_ordered:
  assumes "1 \<le> rule_count ''recently_downloaded_binary_executed'' (Analyze srt es) \<or>
    1 \<le> rule_count ''downloaded_binary_connected_outbound'' (Analyze srt es)"
  shows "1 \<le> rule_count ''shell_downloaded_file'' (Analyze srt es) \<and>
    1 \<le> rule_count ''recently_downloaded_binary_executed'' (Analyze srt es)"
  using assms chain_ok_all [of "srt es"] unfolding Analyze_def chain_ok_def by linarith


end
