(* ===== verification/Compress.thy ===== *)
theory Compress
  imports Detect "HOL-Library.List_Lexorder"
begin

text \<open>
  The incident summary (\<open>internal/compress/compressor.go\<close>): root process, process tree, time
  line with its aggregation of repeated writes, and the summary sentence.
\<close>

record RootProcess =
  rp_PID :: int
  rp_ProcessName :: string
  rp_ExecutablePath :: string

record Incident =
  IncidentID :: string
  StartTime :: go_time
  EndTime :: go_time
  inc_RootProcess :: RootProcess
  ProcessTree :: "string list"
  inc_RiskScore :: int
  inc_Signals :: "string list"
  Timeline :: "string list"
  Summary :: string
  LLMStatus :: string
  inc_DroppedEvents :: int

section \<open>The verb \<open>%v\<close>\<close>

text \<open>
  What \<open>fmt\<close> prints for a dynamic value: lists in brackets, maps with their keys in byte order.
  The printing of a \<open>float64\<close> is the argument \<open>ff\<close>.
\<close>

fun fmt_v :: "(rat \<Rightarrow> string) \<Rightarrow> any_value \<Rightarrow> string" where
  "fmt_v ff VNil = ''<nil>''"
| "fmt_v ff (VBool b) = (if b then ''true'' else ''false'')"
| "fmt_v ff (VString s) = s"
| "fmt_v ff (VInt i) = Itoa i"
| "fmt_v ff (VInt32 i) = Itoa i"
| "fmt_v ff (VInt64 i) = Itoa i"
| "fmt_v ff (VUint w) = Itoa (uint w)"
| "fmt_v ff (VUint32 w) = Itoa (uint w)"
| "fmt_v ff (VUint64 w) = Itoa (uint w)"
| "fmt_v ff (VFloat f) = ff f"
| "fmt_v ff (VStrings ss) = ''['' @ Join '' '' ss @ '']''"
| "fmt_v ff (VList vs) = ''['' @ Join '' '' (map (fmt_v ff) vs) @ '']''"
| "fmt_v ff (VMap kvs) =
     ''map['' @ Join '' '' (map (\<lambda>(k, t). k @ '':'' @ t)
       (sort_key (\<lambda>(k, t). map (\<lambda>c. byte c) k) (map (\<lambda>(k, v). (k, fmt_v ff v)) kvs))) @ '']''"

definition fmt_any :: "(rat \<Rightarrow> string) \<Rightarrow> any_value option \<Rightarrow> string" where
  "fmt_any ff v = (case v of None \<Rightarrow> ''<nil>'' | Some x \<Rightarrow> fmt_v ff x)"

section \<open>Names\<close>

definition displayExecutable :: "event \<Rightarrow> string" where
  "displayExecutable e = (if ExecutablePath e \<noteq> [] then ExecutablePath e else ProcessName e)"

definition compress_downloadOutput :: "string list \<Rightarrow> string" where
  "compress_downloadOutput commandLine = download_output ''a file'' commandLine"

definition compress_lifecycleVerb :: "string \<Rightarrow> string" where
  "compress_lifecycleVerb action =
     (if action = ''mkdir'' then ''create''
      else if action = ''unlink'' then ''delete''
      else if action = ''rename'' then ''rename''
      else if action = ''symlink'' then ''create symlink at''
      else if action = ''link'' then ''create hard link at''
      else if action = ''truncate'' then ''truncate''
      else ''modify'')"

definition lifecyclePastTense :: "string \<Rightarrow> string" where
  "lifecyclePastTense action =
     (if action = ''mkdir'' then ''created''
      else if action = ''unlink'' then ''deleted''
      else if action = ''rename'' then ''renamed''
      else if action = ''symlink'' then ''created symlink at''
      else if action = ''link'' then ''created hard link at''
      else if action = ''truncate'' then ''truncated''
      else ''modified'')"

section \<open>Root and tree\<close>

definition inferRoot :: "event \<Rightarrow> RootProcess" where
  "inferRoot first =
     (if ParentProcessName first \<noteq> [] \<and> PPID first \<noteq> 0
      then \<lparr>rp_PID = PPID first, rp_ProcessName = ParentProcessName first, rp_ExecutablePath = []\<rparr>
      else \<lparr>rp_PID = PID first, rp_ProcessName = ProcessName first,
            rp_ExecutablePath = ExecutablePath first\<rparr>)"

definition name_pid :: "string \<Rightarrow> int \<Rightarrow> string" where
  "name_pid name pid = name @ ''('' @ Itoa pid @ '')''"

definition processTree :: "RootProcess \<Rightarrow> event list \<Rightarrow> string list" where
  "processTree rootp es =
     name_pid (rp_ProcessName rootp) (rp_PID rootp) #
     map (\<lambda>e. name_pid (ParentProcessName e) (PPID e) @ '' -> '' @ name_pid (ProcessName e) (PID e))
       (filter (\<lambda>e. \<not> (EventType e \<noteq> TypeExecve \<or> PPID e = 0)) es)"

section \<open>The time line\<close>

type_synonym fileWriteKey = "int \<times> string"

definition write_key :: "event \<Rightarrow> fileWriteKey" where
  "write_key e = (PID e, FilePath e)"

definition changed_write :: "event \<Rightarrow> bool" where
  "changed_write e \<longleftrightarrow> EventType e = TypeFileWrite \<and> fileWriteChanged e"

text \<open>The first loop: how many changing writes each process made to each path.\<close>

definition write_counts :: "event list \<Rightarrow> fileWriteKey \<Rightarrow> nat" where
  "write_counts es =
     foldl (\<lambda>counts e. if changed_write e
                       then counts(write_key e := counts (write_key e) + 1) else counts)
       (\<lambda>_. 0) es"

text \<open>The cases of the second loop; each yields the strings it appends.\<close>

definition execve_entry :: "event \<Rightarrow> string" where
  "execve_entry e =
     (if isShell (ProcessName e) then ParentProcessName e @ '' spawned shell '' @ ProcessName e
      else if isDownloadTool (ProcessName e) then
        ParentProcessName e @ '' ran '' @ ProcessName e @ '' to download '' @
        compress_downloadOutput (CommandLine e)
      else displayExecutable e @ '' executed'')"

definition chmod_entry :: "event \<Rightarrow> string" where
  "chmod_entry e =
     (if \<not> mutationSucceeded e
      then ProcessName e @ '' failed to make '' @ FilePath e @ '' executable''
      else ProcessName e @ '' made '' @ FilePath e @ '' executable'')"

definition connect_entry :: "event \<Rightarrow> string" where
  "connect_entry e =
     (let outcome = meta_get (Metadata e) ''outcome'' in
      if outcome = Some (VString ''failed'')
      then displayExecutable e @ '' failed to connect to '' @ remoteEndpoint e
      else if outcome = Some (VString ''in_progress'')
      then displayExecutable e @ '' started connecting to '' @ remoteEndpoint e
      else displayExecutable e @ '' connected to '' @ remoteEndpoint e)"

definition read_entry :: "event \<Rightarrow> string" where
  "read_entry e =
     (if \<not> mutationSucceeded e
      then ProcessName e @ '' failed to read sensitive file '' @ FilePath e
      else ProcessName e @ '' read sensitive file '' @ FilePath e)"

definition lifecycle_entry :: "event \<Rightarrow> string" where
  "lifecycle_entry e =
     (let action = metadataString e ''action'' in
      if \<not> mutationSucceeded e
      then ProcessName e @ '' failed to '' @ compress_lifecycleVerb action @ '' '' @ FilePath e
      else ProcessName e @ '' '' @ lifecyclePastTense action @ '' '' @ FilePath e)"

definition access_entry :: "event \<Rightarrow> string" where
  "access_entry e =
     (let target = metadataUint64 e ''target_pid'' in
      if target \<noteq> 0
      then ProcessName e @ '' accessed process '' @ Itoa (uint target) @ '' with '' @
        metadataString e ''syscall''
      else ProcessName e @ '' accessed another process with '' @ metadataString e ''syscall'')"

definition server_entry :: "(rat \<Rightarrow> string) \<Rightarrow> event \<Rightarrow> string" where
  "server_entry ff e =
     (let syscall = metadataString e ''syscall'' in
      if syscall = ''bind'' then ProcessName e @ '' bound listener address '' @ remoteEndpoint e
      else if syscall = ''listen''
      then ProcessName e @ '' started listening on fd '' @ fmt_any ff (meta_get (Metadata e) ''fd'')
      else ProcessName e @ '' opened network server syscall '' @ syscall)"

type_synonym line_state = "string list \<times> fileWriteKey set"

definition write_step :: "(fileWriteKey \<Rightarrow> nat) \<Rightarrow> line_state \<Rightarrow> event \<Rightarrow> line_state" where
  "write_step counts st e =
     (case st of (entries, emitted) \<Rightarrow>
        if \<not> mutationSucceeded e
        then (entries @ [ProcessName e @ '' failed to write '' @ FilePath e], emitted)
        else if \<not> fileWriteChanged e
        then (entries @ [ProcessName e @ '' completed zero-byte write to '' @ FilePath e], emitted)
        else if write_key e \<in> emitted then (entries, emitted)
        else
          (entries @ [if counts (write_key e) = 1 then ProcessName e @ '' wrote '' @ FilePath e
             else ProcessName e @ '' wrote '' @ FilePath e @ '' '' @
               Itoa (int (counts (write_key e))) @ '' times''],
           insert (write_key e) emitted))"

definition timeline_step ::
  "(rat \<Rightarrow> string) \<Rightarrow> (fileWriteKey \<Rightarrow> nat) \<Rightarrow> line_state \<Rightarrow> event \<Rightarrow> line_state" where
  "timeline_step ff counts st e =
     (case st of (entries, emitted) \<Rightarrow>
        if EventType e = TypeExecve then (entries @ [execve_entry e], emitted)
        else if EventType e = TypeChmod then (entries @ [chmod_entry e], emitted)
        else if EventType e = TypeFileWrite then write_step counts st e
        else if EventType e = TypeConnect then (entries @ [connect_entry e], emitted)
        else if EventType e = TypeSensitiveRead then (entries @ [read_entry e], emitted)
        else if EventType e = TypeFileLifecycle then (entries @ [lifecycle_entry e], emitted)
        else if EventType e = TypePrivilegeChange then
          (entries @ [ProcessName e @ '' called privilege syscall '' @ metadataString e ''syscall''], emitted)
        else if EventType e = TypeNamespaceChange then
          (entries @ [ProcessName e @ '' called namespace syscall '' @ metadataString e ''syscall''], emitted)
        else if EventType e = TypeProcessAccess then (entries @ [access_entry e], emitted)
        else if EventType e = TypeNetworkServer then (entries @ [server_entry ff e], emitted)
        else if EventType e = TypeKernelTamper then
          (entries @ [ProcessName e @ '' called kernel tamper syscall '' @ metadataString e ''syscall''], emitted)
        else (entries, emitted))"

definition timeline :: "(rat \<Rightarrow> string) \<Rightarrow> event list \<Rightarrow> string list" where
  "timeline ff es = fst (foldl (timeline_step ff (write_counts es)) ([], {}) es)"

section \<open>The incident\<close>

definition hasAll :: "string list \<Rightarrow> string list \<Rightarrow> bool" where
  "hasAll actual required = list_all (\<lambda>item. item \<in> set actual) required"

definition chain_rules :: "string list" where
  "chain_rules = [''web_process_spawned_shell'', ''shell_downloaded_file'', ''tmp_file_made_executable'',
     ''recently_downloaded_binary_executed'', ''downloaded_binary_connected_outbound'']"

definition summarize :: "Incident \<Rightarrow> string" where
  "summarize inc =
     (if hasAll (inc_Signals inc) chain_rules
      then rp_ProcessName (inc_RootProcess inc) @
        '' spawned a shell, downloaded a file into /tmp, made it executable, executed it, then opened an outbound connection.''
      else ''Observed '' @ Itoa (int (length (Timeline inc))) @ '' related runtime events with '' @
        Itoa (int (length (inc_Signals inc))) @ '' deterministic signals.'')"

definition Compress ::
  "(event list \<Rightarrow> event list) \<Rightarrow> (rat \<Rightarrow> string) \<Rightarrow> event list \<Rightarrow> Result \<Rightarrow> go_error + Incident" where
  "Compress srt ff es detection =
     (if es = [] then Inl ''cannot compress an empty event set''
      else
        let ordered = srt es;
            rootp = inferRoot (ordered ! 0);
            inc = \<lparr>IncidentID = ''inc-'' @ EventID (ordered ! 0), StartTime = Timestamp (ordered ! 0),
              EndTime = Timestamp (ordered ! (length ordered - 1)), inc_RootProcess = rootp,
              ProcessTree = processTree rootp ordered, inc_RiskScore = RiskScore detection,
              inc_Signals = map RuleID (Signals detection), Timeline = timeline ff ordered,
              Summary = [], LLMStatus = ''pending'', inc_DroppedEvents = 0\<rparr>
        in Inr (inc\<lparr>Summary := summarize inc\<rparr>))"

end
