(* ===== verification/Compress_Laws.thy ===== *)
theory Compress_Laws
  imports Compress Analyze_Chain
begin

text \<open>
  What the incident says: the time line against a reference that looks at each position of the
  input on its own, the number of its lines, and the fields of the incident.
\<close>

section \<open>The time line, position by position\<close>

text \<open>The line of an event that is not a changing write; none for an unknown type.\<close>

definition plain_line :: "(rat \<Rightarrow> string) \<Rightarrow> event \<Rightarrow> string list" where
  "plain_line ff e = fst (timeline_step ff (\<lambda>_. 0) ([], {}) e)"

definition write_line :: "nat \<Rightarrow> event \<Rightarrow> string" where
  "write_line n e =
     (if n = 1 then ProcessName e @ '' wrote '' @ FilePath e
      else ProcessName e @ '' wrote '' @ FilePath e @ '' '' @ Itoa (int n) @ '' times'')"

text \<open>
  The reference: a changing write is reported where the process first wrote the path, with the
  number of all its changing writes to that path; every other event is reported in its place.
\<close>

definition key_before :: "event list \<Rightarrow> nat \<Rightarrow> bool" where
  "key_before es i = list_ex (\<lambda>x. changed_write x \<and> write_key x = write_key (es ! i)) (take i es)"

definition line_at :: "(rat \<Rightarrow> string) \<Rightarrow> (fileWriteKey \<Rightarrow> nat) \<Rightarrow> event list \<Rightarrow> nat \<Rightarrow> string list" where
  "line_at ff counts es i =
     (if changed_write (es ! i)
      then if key_before es i then [] else [write_line (counts (write_key (es ! i))) (es ! i)]
      else plain_line ff (es ! i))"

definition writes_of :: "event list \<Rightarrow> fileWriteKey \<Rightarrow> nat" where
  "writes_of es k = length (filter (\<lambda>x. changed_write x \<and> write_key x = k) es)"

definition timeline_ref :: "(rat \<Rightarrow> string) \<Rightarrow> event list \<Rightarrow> string list" where
  "timeline_ref ff es = concat (map (line_at ff (writes_of es) es) [0..<length es])"

lemma write_counts_eq: "write_counts es = writes_of es"
proof (rule ext)
  show "write_counts es k = writes_of es k" for k
    unfolding write_counts_def writes_of_def by (induction es rule: rev_induct) auto
qed

definition keys_of :: "event list \<Rightarrow> fileWriteKey set" where
  "keys_of es = write_key ` {e \<in> set es. changed_write e}"

lemma step_plain:
  "\<not> changed_write e \<Longrightarrow>
    timeline_step ff counts (entries, emitted) e = (entries @ plain_line ff e, emitted)"
  by (simp add: timeline_step_def plain_line_def write_step_def changed_write_def)

lemma fileWriteChanged_succeeded: "fileWriteChanged e \<Longrightarrow> mutationSucceeded e"
  by (simp add: fileWriteChanged_def split: if_splits)

lemma step_write:
  "changed_write e \<Longrightarrow> timeline_step ff counts (entries, emitted) e =
    (if write_key e \<in> emitted then (entries, emitted)
     else (entries @ [write_line (counts (write_key e)) e], insert (write_key e) emitted))"
  by (simp add: timeline_step_def write_step_def changed_write_def write_line_def
      fileWriteChanged_succeeded)

lemma line_at_append: "i < length es \<Longrightarrow> line_at ff counts (es @ [e]) i = line_at ff counts es i"
  by (simp add: line_at_def key_before_def nth_append)

lemma key_before_last: "key_before (es @ [e]) (length es) \<longleftrightarrow> write_key e \<in> keys_of es"
  by (auto simp: key_before_def keys_of_def list_ex_iff intro: image_eqI [OF sym])

lemma timeline_run:
  "foldl (timeline_step ff counts) ([], {}) es =
     (concat (map (line_at ff counts es) [0..<length es]), keys_of es)"
proof (induction es rule: rev_induct)
  case Nil
  then show ?case by (simp add: keys_of_def)
next
  case (snoc e es)
  have lines: "map (line_at ff counts (es @ [e])) [0..<length es] = map (line_at ff counts es) [0..<length es]"
    by (simp add: line_at_append cong: map_cong)
  have run: "foldl (timeline_step ff counts) ([], {}) (es @ [e]) =
      timeline_step ff counts (concat (map (line_at ff counts es) [0..<length es]), keys_of es) e"
    by (simp add: snoc.IH)
  have upt: "concat (map (line_at ff counts (es @ [e])) [0..<length (es @ [e])]) =
      concat (map (line_at ff counts es) [0..<length es]) @ line_at ff counts (es @ [e]) (length es)"
    by (simp only: length_append_singleton upt_Suc_append [OF le0] map_append concat_append lines) simp
  have keys: "keys_of (es @ [e]) = (if changed_write e then insert (write_key e) (keys_of es) else keys_of es)"
    by (auto simp: keys_of_def)
  show ?case
  proof (cases "changed_write e")
    case True
    then show ?thesis
      unfolding run upt keys
      by (simp add: step_write line_at_def [of _ _ "es @ [e]" "length es"] key_before_last insert_absorb)
  next
    case False
    then show ?thesis
      unfolding run upt keys by (simp add: step_plain line_at_def [of _ _ "es @ [e]" "length es"])
  qed
qed

text \<open>C25. The time line is the reference time line: every event is reported in its place, except
  that all changing writes of one process to one path are reported once, at the first of them,
  with their total number.\<close>

theorem timeline_is_reference: "timeline ff es = timeline_ref ff es"
  by (simp add: timeline_def timeline_run timeline_ref_def write_counts_eq)

section \<open>The number of lines\<close>

definition known_types :: "string list" where
  "known_types = [TypeExecve, TypeChmod, TypeFileWrite, TypeConnect, TypeSensitiveRead,
     TypeFileLifecycle, TypePrivilegeChange, TypeNamespaceChange, TypeProcessAccess,
     TypeNetworkServer, TypeKernelTamper]"

lemma plain_line_length:
  "\<not> changed_write e \<Longrightarrow> length (plain_line ff e) = (if EventType e \<in> set known_types then 1 else 0)"
  by (auto simp: plain_line_def timeline_step_def write_step_def changed_write_def known_types_def)

lemma line_count_run:
  "length (fst (foldl (timeline_step ff counts) ([], {}) es)) =
     length (filter (\<lambda>e. \<not> changed_write e \<and> EventType e \<in> set known_types) es) + card (keys_of es) \<and>
   snd (foldl (timeline_step ff counts) ([], {}) es) = keys_of es"
proof (induction es rule: rev_induct)
  case Nil
  then show ?case by (simp add: keys_of_def)
next
  case (snoc e es)
  obtain entries emitted where st: "foldl (timeline_step ff counts) ([], {}) es = (entries, emitted)"
    by fastforce
  have keys: "keys_of (es @ [e]) = (if changed_write e then insert (write_key e) (keys_of es) else keys_of es)"
    by (auto simp: keys_of_def)
  have fin: "finite (keys_of es)" by (simp add: keys_of_def)
  show ?case
  proof (cases "changed_write e")
    case True
    with snoc.IH keys fin st show ?thesis
      by (simp add: step_write card_insert_if insert_absorb)
  next
    case False
    with snoc.IH keys st show ?thesis by (simp add: step_plain plain_line_length)
  qed
qed

text \<open>The time line has one line for each event of a known type that is not a changing write,
  and one line for each pair of a process and a path it changed: no event of a known type is left
  out and no write is reported twice.\<close>

theorem timeline_line_count:
  "length (timeline ff es) =
     length (filter (\<lambda>e. \<not> changed_write e \<and> EventType e \<in> set known_types) es) +
     card (write_key ` {e \<in> set es. changed_write e})"
  using line_count_run [of ff "write_counts es" es] by (simp add: timeline_def keys_of_def)

section \<open>The incident\<close>

lemma sorted_first: "sorted (map k xs) \<Longrightarrow> xs \<noteq> [] \<Longrightarrow> x \<in> set xs \<Longrightarrow> k (xs ! 0) \<le> k x"
  by (cases xs) auto

lemma sorted_last: "sorted (map k xs) \<Longrightarrow> x \<in> set xs \<Longrightarrow> k x \<le> k (xs ! (length xs - 1))"
  by (auto simp: in_set_conv_nth sorted_iff_nth_mono)

lemma timeline_short: "length (timeline ff es) \<le> length es"
proof -
  have "card (keys_of es) \<le> length (filter changed_write es)"
    unfolding keys_of_def set_filter [symmetric]
    by (metis List.finite_set card_image_le card_length le_trans)
  moreover have "length (filter (\<lambda>e. \<not> changed_write e \<and> EventType e \<in> set known_types) es) \<le>
      length (filter (\<lambda>e. \<not> changed_write e) es)"
    by (induction es) auto
  moreover have "length (filter changed_write es) + length (filter (\<lambda>e. \<not> changed_write e) es) = length es"
    by (rule sum_length_filter_compl)
  ultimately show ?thesis
    using line_count_run [of ff "write_counts es" es] by (simp add: timeline_def)
qed

text \<open>C28. \<open>Compress\<close> fails exactly on an empty event set. Otherwise the incident spans the
  events from the earliest to the latest time stamp, is named after an earliest event and rooted at
  it or its parent, carries the score and rule identifiers of the detection, is pending, and has
  no more time-line entries than there are events.\<close>

theorem compress_incident:
  assumes "sorts_by Timestamp srt"
  shows "case Compress srt ff es det of
      Inl err \<Rightarrow> es = [] \<and> err = ''cannot compress an empty event set''
    | Inr inc \<Rightarrow> es \<noteq> [] \<and>
        StartTime inc = Min (Timestamp ` set es) \<and> EndTime inc = Max (Timestamp ` set es) \<and>
        (\<exists>e\<in>set es. Timestamp e = StartTime inc \<and> IncidentID inc = ''inc-'' @ EventID e \<and>
           inc_RootProcess inc = inferRoot e) \<and>
        inc_RiskScore inc = RiskScore det \<and> inc_Signals inc = map RuleID (Signals det) \<and>
        LLMStatus inc = ''pending'' \<and> inc_DroppedEvents inc = 0 \<and> Timeline inc = timeline ff (srt es) \<and>
        length (Timeline inc) \<le> length es"
proof (cases "es = []")
  case True
  then show ?thesis by (simp add: Compress_def)
next
  case False
  let ?o = "srt es"
  have o: "set ?o = set es" "sorted (map Timestamp ?o)" "?o \<noteq> []" "length ?o = length es"
    using assms False by (simp_all add: sorts_by_set sorts_by_sorted sorts_by_Nil_iff sorts_by_length)
  then have mem: "?o ! 0 \<in> set es" "?o ! (length es - 1) \<in> set es"
    using nth_mem [of 0 ?o] nth_mem [of "length es - 1" ?o] False by auto
  have "Timestamp (?o ! 0) = Min (Timestamp ` set es)"
    using mem sorted_first [OF o(2,3)] o(1) by (intro Min_eqI [symmetric]) auto
  moreover have "Timestamp (?o ! (length es - 1)) = Max (Timestamp ` set es)"
    using mem sorted_last [OF o(2)] o(1,4) by (intro Max_eqI [symmetric]) auto
  ultimately show ?thesis
    using False mem(1) timeline_short [of ff ?o] o(4)
    by (auto simp: Compress_def Let_def)
qed

lemma compress_incident_witness:
  "\<exists>inc. Compress (sort_key Timestamp) (\<lambda>_. []) [sample_download, sample_shell] \<lparr>Signals = [], RiskScore = 0\<rparr> = Inr inc \<and>
     StartTime inc = 1 \<and> EndTime inc = 2 \<and> length (Timeline inc) \<le> 2"
proof -
  have img: "Timestamp ` set [sample_download, sample_shell] = {2, 1}"
    by (simp add: sample_download_def sample_shell_def)
  show ?thesis
    using compress_incident [OF sorts_by_sort_key, where es = "[sample_download, sample_shell]" and ff = "\<lambda>_. []"
        and det = "\<lparr>Signals = [], RiskScore = 0\<rparr>"]
    unfolding img by (auto split: sum.splits)
qed

section \<open>Every successful \<open>chmod\<close> is called an executable bit\<close>

definition sample_chmod :: event where
  "sample_chmod = zero_event\<lparr>EventID := ''e6'', Timestamp := 6, Host := ''h'', PID := 7,
     ProcessName := ''chmod'', EventType := TypeChmod, FilePath := ''/tmp/x'',
     Metadata := Some [(''added_execute_bit'', VBool False)]\<rparr>"

text \<open>
  The time line says that the file was made executable although no execute bit was added; the
  rule of the detector for the same event looks at the bit and is silent.
\<close>

lemma chmod_line_ignores_bit:
  "timeline ff [sample_chmod] = [''chmod made /tmp/x executable'']"
  "\<not> metadataBool sample_chmod ''added_execute_bit''"
  "\<not> rule_fires ''tmp_file_made_executable'' sample_chmod"
proof -
  show "timeline ff [sample_chmod] = [''chmod made /tmp/x executable'']"
    by (simp add: timeline_def timeline_step_def chmod_entry_def sample_chmod_def zero_event_def
        type_defs mutationSucceeded_def metadataString_def meta_get_def)
qed code_simp+

end
