(* ===== verification/Pipeline.thy ===== *)
theory Pipeline
  imports Compress_Laws Grouping_Laws
begin

text \<open>
  The processor (\<open>internal/pipeline/processor.go\<close>): the stream grouper followed by a detector
  and a compressor, which are the interface the processor is built on. The \<open>Basic\<close>
  implementations of both keep the laws of that interface, so the processor never fails with them.
  A panic of the grouper is the value \<open>None\<close>; an error comes with the processor it leaves.
\<close>

definition DefaultInactivityTimeout :: duration where
  "DefaultInactivityTimeout = 15 * second"

definition DefaultMaxCandidates :: int where
  "DefaultMaxCandidates = 4096"

record Config =
  pl_CorrelationWindow :: duration
  pl_InactivityTimeout :: duration
  pl_MaxCandidates :: int
  pl_MaxEvents :: int
  pl_MaxRetainedEvents :: int

record Analysis =
  an_Incident :: Incident
  an_Events :: "event list"

record Stats =
  GroupedCandidates :: "64 word"
  AnalyzedCandidates :: "64 word"
  Incidents :: "64 word"

record Processor =
  p_grouper :: StreamGrouper
  p_stats :: Stats

type_synonym detector_fn = "event list \<Rightarrow> Result"
type_synonym compressor_fn = "event list \<Rightarrow> Result \<Rightarrow> go_error + Incident"

definition grouper_config :: "Config \<Rightarrow> StreamGrouperConfig" where
  "grouper_config cfg =
     \<lparr>CorrelationWindow = (if pl_CorrelationWindow cfg \<le> 0 then DefaultCorrelationWindow
        else pl_CorrelationWindow cfg),
      InactivityTimeout = (if pl_InactivityTimeout cfg \<le> 0 then DefaultInactivityTimeout
        else pl_InactivityTimeout cfg),
      MaxCandidates = (if pl_MaxCandidates cfg \<le> 0 then DefaultMaxCandidates else pl_MaxCandidates cfg),
      MaxEvents = (if pl_MaxEvents cfg \<le> 0 then DefaultMaxEventsPerCandidate else pl_MaxEvents cfg),
      MaxRetainedEvents = (if pl_MaxRetainedEvents cfg \<le> 0 then DefaultMaxRetainedEvents
        else pl_MaxRetainedEvents cfg)\<rparr>"

definition New :: "Config \<Rightarrow> Processor" where
  "New cfg = \<lparr>p_grouper = NewStreamGrouper (grouper_config cfg),
     p_stats = \<lparr>GroupedCandidates = 0, AnalyzedCandidates = 0, Incidents = 0\<rparr>\<rparr>"

section \<open>Analysis of groups\<close>

fun analyze_groups ::
  "detector_fn \<Rightarrow> compressor_fn \<Rightarrow> Group list \<Rightarrow> Stats \<Rightarrow> (go_error + Analysis list) \<times> Stats" where
  "analyze_groups det cmp [] st = (Inr [], st)"
| "analyze_groups det cmp (g # gs) st =
     (let st1 = st\<lparr>AnalyzedCandidates := AnalyzedCandidates st + 1\<rparr>;
          detection = det (Events g)
      in if Signals detection = [] then analyze_groups det cmp gs st1
         else case cmp (Events g) detection of
             Inl err \<Rightarrow> (Inl (''compress incident candidate: '' @ err), st1)
           | Inr incident \<Rightarrow>
               (case analyze_groups det cmp gs (st1\<lparr>Incidents := Incidents st1 + 1\<rparr>) of
                  (Inl err, st2) \<Rightarrow> (Inl err, st2)
                | (Inr analyses, st2) \<Rightarrow>
                    (Inr (\<lparr>an_Incident = incident\<lparr>inc_DroppedEvents := int (DroppedEvents g)\<rparr>,
                           an_Events = Events g\<rparr> # analyses), st2)))"

definition proc_analyze ::
  "detector_fn \<Rightarrow> compressor_fn \<Rightarrow> Group list \<Rightarrow> Processor \<Rightarrow>
    (go_error + Analysis list) \<times> Processor" where
  "proc_analyze det cmp groups p =
     (let st = p_stats p;
          st0 = st\<lparr>GroupedCandidates := GroupedCandidates st + of_nat (length groups)\<rparr>
      in case analyze_groups det cmp groups st0 of (r, st1) \<Rightarrow> (r, p\<lparr>p_stats := st1\<rparr>))"

definition proc_Add ::
  "detector_fn \<Rightarrow> compressor_fn \<Rightarrow> event \<Rightarrow> Processor \<Rightarrow>
    ((go_error + Analysis list) \<times> Processor) option" where
  "proc_Add det cmp e p =
     map_option (\<lambda>(groups, g). proc_analyze det cmp groups (p\<lparr>p_grouper := g\<rparr>))
       (stream_Add e (p_grouper p))"

definition proc_FlushInactive ::
  "detector_fn \<Rightarrow> compressor_fn \<Rightarrow> go_time \<Rightarrow> Processor \<Rightarrow> (go_error + Analysis list) \<times> Processor" where
  "proc_FlushInactive det cmp now p =
     (case FlushInactive now (p_grouper p) of
        (groups, g) \<Rightarrow> proc_analyze det cmp groups (p\<lparr>p_grouper := g\<rparr>))"

definition proc_Drain ::
  "detector_fn \<Rightarrow> compressor_fn \<Rightarrow> Processor \<Rightarrow> (go_error + Analysis list) \<times> Processor" where
  "proc_Drain det cmp p =
     (case stream_Drain (p_grouper p) of
        (groups, g) \<Rightarrow> proc_analyze det cmp groups (p\<lparr>p_grouper := g\<rparr>))"

definition proc_ActiveCandidates :: "Processor \<Rightarrow> int" where
  "proc_ActiveCandidates p = ActiveCandidates (p_grouper p)"

text \<open>A stream: the events in turn, then the drain; the first error ends it.\<close>

fun proc_run ::
  "detector_fn \<Rightarrow> compressor_fn \<Rightarrow> Processor \<Rightarrow> event list \<Rightarrow>
    ((go_error + Analysis list) \<times> Processor) option" where
  "proc_run det cmp p [] = Some (proc_Drain det cmp p)"
| "proc_run det cmp p (e # es) =
     (case proc_Add det cmp e p of
        None \<Rightarrow> None
      | Some (Inl err, p1) \<Rightarrow> Some (Inl err, p1)
      | Some (Inr analyses, p1) \<Rightarrow>
          map_option (\<lambda>(r, p2). (map_sum id (\<lambda>rest. analyses @ rest) r, p2))
            (proc_run det cmp p1 es))"

section \<open>The interface of the analysis back end\<close>

text \<open>What a group becomes: it is reported when the detector gives a signal.\<close>

definition suspicious :: "detector_fn \<Rightarrow> Group \<Rightarrow> bool" where
  "suspicious det g \<longleftrightarrow> Signals (det (Events g)) \<noteq> []"

definition analysis_of :: "detector_fn \<Rightarrow> compressor_fn \<Rightarrow> Group \<Rightarrow> Analysis" where
  "analysis_of det cmp g = (case cmp (Events g) (det (Events g)) of
     Inr inc \<Rightarrow> \<lparr>an_Incident = inc\<lparr>inc_DroppedEvents := int (DroppedEvents g)\<rparr>, an_Events = Events g\<rparr>
   | Inl _ \<Rightarrow> undefined)"

definition reported :: "detector_fn \<Rightarrow> compressor_fn \<Rightarrow> Group list \<Rightarrow> Analysis list" where
  "reported det cmp gs = map (analysis_of det cmp) (filter (suspicious det) gs)"

definition counted :: "nat \<Rightarrow> nat \<Rightarrow> Stats \<Rightarrow> Stats" where
  "counted n k st = st\<lparr>AnalyzedCandidates := AnalyzedCandidates st + of_nat n,
     Incidents := Incidents st + of_nat k\<rparr>"

text \<open>
  \<open>detect.Detector\<close> is any function; of \<open>compress.Compressor\<close> the processor needs that it
  succeeds on a non-empty group and copies the detection into the incident.
\<close>

locale analysis_backend =
  fixes det :: detector_fn and cmp :: compressor_fn
  assumes cmp_total: "es \<noteq> [] \<Longrightarrow> \<exists>inc. cmp es d = Inr inc"
    and cmp_score: "cmp es d = Inr inc \<Longrightarrow> inc_RiskScore inc = RiskScore d"
    and cmp_signals: "cmp es d = Inr inc \<Longrightarrow> inc_Signals inc = map RuleID (Signals d)"
begin

lemma groups_analyzed:
  assumes "\<forall>g\<in>set gs. Events g \<noteq> []"
  shows "analyze_groups det cmp gs st =
    (Inr (reported det cmp gs), counted (length gs) (length (reported det cmp gs)) st)"
  using assms
proof (induction gs arbitrary: st)
  case Nil
  then show ?case by (simp add: counted_def reported_def)
next
  case (Cons g gs)
  from Cons.prems cmp_total [of "Events g" "det (Events g)"]
  obtain inc where inc: "cmp (Events g) (det (Events g)) = Inr inc" by auto
  show ?case
  proof (cases "suspicious det g")
    case False
    with Cons show ?thesis by (simp add: suspicious_def Let_def counted_def reported_def algebra_simps)
  next
    case True
    with Cons inc show ?thesis
      by (simp add: suspicious_def Let_def counted_def reported_def analysis_of_def algebra_simps)
  qed
qed

lemma analysis_fields:
  assumes "Events g \<noteq> []"
  shows "an_Events (analysis_of det cmp g) = Events g"
    "inc_DroppedEvents (an_Incident (analysis_of det cmp g)) = int (DroppedEvents g)"
    "inc_RiskScore (an_Incident (analysis_of det cmp g)) = RiskScore (det (Events g))"
    "inc_Signals (an_Incident (analysis_of det cmp g)) = map RuleID (Signals (det (Events g)))"
proof -
  from cmp_total [OF assms] obtain inc where inc: "cmp (Events g) (det (Events g)) = Inr inc" by blast
  from inc cmp_score [OF inc] cmp_signals [OF inc]
  show "an_Events (analysis_of det cmp g) = Events g"
    "inc_DroppedEvents (an_Incident (analysis_of det cmp g)) = int (DroppedEvents g)"
    "inc_RiskScore (an_Incident (analysis_of det cmp g)) = RiskScore (det (Events g))"
    "inc_Signals (an_Incident (analysis_of det cmp g)) = map RuleID (Signals (det (Events g)))"
    by (simp_all add: analysis_of_def)
qed

end

section \<open>Whole streams\<close>

lemma homogeneous_nonempty: "\<forall>G\<in>set gs. group_homogeneous G \<Longrightarrow> \<forall>g\<in>set gs. Events g \<noteq> []"
  by (auto simp: group_homogeneous_def)

lemma reported_append: "reported det cmp (gs @ hs) = reported det cmp gs @ reported det cmp hs"
  by (simp add: reported_def)

definition all_counted :: "nat \<Rightarrow> nat \<Rightarrow> Stats \<Rightarrow> Stats" where
  "all_counted n k st = \<lparr>GroupedCandidates = GroupedCandidates st + of_nat n,
     AnalyzedCandidates = AnalyzedCandidates st + of_nat n, Incidents = Incidents st + of_nat k\<rparr>"

lemma counted_all: "counted n k (st\<lparr>GroupedCandidates := GroupedCandidates st + of_nat n\<rparr>) = all_counted n k st"
  by (simp add: counted_def all_counted_def)

lemma all_counted_add: "all_counted n k (all_counted m j st) = all_counted (m + n) (j + k) st"
  by (simp add: all_counted_def)

context analysis_backend begin

lemma proc_analyze_ok:
  assumes "\<forall>g\<in>set gs. Events g \<noteq> []"
  shows "proc_analyze det cmp gs p =
    (Inr (reported det cmp gs), p\<lparr>p_stats := counted (length gs) (length (reported det cmp gs))
       ((p_stats p)\<lparr>GroupedCandidates := GroupedCandidates (p_stats p) + of_nat (length gs)\<rparr>)\<rparr>)"
  using groups_analyzed [OF assms] by (simp add: proc_analyze_def Let_def)

lemma proc_run_ok:
  assumes "sg_inv (p_grouper p)"
  shows "\<exists>out g. stream_run (p_grouper p) es = Some (out, g) \<and>
    proc_run det cmp p es = Some (Inr (reported det cmp (out @ fst (stream_Drain g))),
      \<lparr>p_grouper = snd (stream_Drain g),
       p_stats = all_counted (length (out @ fst (stream_Drain g)))
         (length (reported det cmp (out @ fst (stream_Drain g)))) (p_stats p)\<rparr>)"
  using assms
proof (induction es arbitrary: p)
  case Nil
  from Nil.prems have "\<forall>c\<in>set (sg_candidates (p_grouper p)). group_homogeneous (cand_group c)"
    by (auto simp: sg_inv_def sg_core_def intro: cand_inv_homogeneous)
  then have "\<forall>G\<in>set (fst (stream_Drain (p_grouper p))). group_homogeneous G"
    by (simp add: stream_Drain_def)
  note ok = proc_analyze_ok [OF homogeneous_nonempty [OF this]]
  show ?case
    by (cases "stream_Drain (p_grouper p)") (use ok in \<open>simp add: proc_Drain_def counted_all\<close>)
next
  case (Cons e es)
  from stream_Add_ok [OF Cons.prems, of e] obtain xs g1 where
    add: "stream_Add e (p_grouper p) = Some (xs, g1)" "add_ok e (p_grouper p) xs g1" by blast
  let ?p1 = "\<lparr>p_grouper = g1, p_stats = all_counted (length xs) (length (reported det cmp xs)) (p_stats p)\<rparr>"
  from add(2) have hom: "\<forall>G\<in>set xs. group_homogeneous G" and inv: "sg_inv (p_grouper ?p1)"
    by (simp_all add: add_ok_def)
  from proc_analyze_ok [OF homogeneous_nonempty [OF hom], of "p\<lparr>p_grouper := g1\<rparr>"]
  have step: "proc_Add det cmp e p = Some (Inr (reported det cmp xs), ?p1)"
    by (simp add: proc_Add_def add(1) counted_all)
  from Cons.IH [OF inv] obtain out g where
    rest: "stream_run g1 es = Some (out, g)"
      "proc_run det cmp ?p1 es = Some (Inr (reported det cmp (out @ fst (stream_Drain g))),
        \<lparr>p_grouper = snd (stream_Drain g),
         p_stats = all_counted (length (out @ fst (stream_Drain g)))
           (length (reported det cmp (out @ fst (stream_Drain g)))) (p_stats ?p1)\<rparr>)" by auto
  show ?case
    by (rule exI [of _ "xs @ out"], rule exI [of _ g])
      (simp add: add(1) rest(1) step rest(2) reported_append all_counted_add)
qed

end

interpretation basic: analysis_backend "Analyze srt" "Compress srt ff" for srt ff
  by unfold_locales (auto simp: Compress_def Let_def split: if_splits)

section \<open>The processor with the \<open>Basic\<close> back end\<close>

text \<open>C14. The processor is total and incremental analysis loses nothing: with the rule-based detector
  and the basic compressor, feeding any events to a new processor and draining it neither panics nor
  fails; it yields exactly the analyses of the groups the stream grouper forms, in order; and its
  counters agree with them, with every grouped candidate analysed.\<close>

theorem pipeline_total:
  "\<exists>p. proc_run (Analyze srt) (Compress srt ff) (New cfg) es =
      Some (Inr (reported (Analyze srt) (Compress srt ff) (stream_Group (grouper_config cfg) es)), p) \<and>
    proc_ActiveCandidates p = 0 \<and>
    GroupedCandidates (p_stats p) = of_nat (length (stream_Group (grouper_config cfg) es)) \<and>
    AnalyzedCandidates (p_stats p) = GroupedCandidates (p_stats p) \<and>
    Incidents (p_stats p) =
      of_nat (length (reported (Analyze srt) (Compress srt ff) (stream_Group (grouper_config cfg) es)))"
proof -
  have "sg_inv (p_grouper (New cfg))" by (simp add: New_def sg_inv_New)
  from basic.proc_run_ok [OF this, where srt = srt and ff = ff and es = es] obtain out g where
    run: "stream_run (NewStreamGrouper (grouper_config cfg)) es = Some (out, g)"
      "proc_run (Analyze srt) (Compress srt ff) (New cfg) es =
        Some (Inr (reported (Analyze srt) (Compress srt ff) (out @ fst (stream_Drain g))),
      \<lparr>p_grouper = snd (stream_Drain g),
       p_stats = all_counted (length (out @ fst (stream_Drain g)))
         (length (reported (Analyze srt) (Compress srt ff) (out @ fst (stream_Drain g)))) (p_stats (New cfg))\<rparr>)"
    by (auto simp: New_def)
  from run(1) have groups: "stream_Group (grouper_config cfg) es = out @ fst (stream_Drain g)"
    by (simp add: stream_Group_def)
  show ?thesis
    unfolding groups run(2)
    by (simp add: all_counted_def New_def proc_ActiveCandidates_def ActiveCandidates_def stream_Drain_def)
qed

text \<open>What a reported incident is made of.\<close>

definition incident_sound :: "event list \<Rightarrow> Analysis \<Rightarrow> bool" where
  "incident_sound es a \<longleftrightarrow>
     an_Events a \<noteq> [] \<and> set (an_Events a) \<subseteq> set es \<and>
     list_all (\<lambda>e. Host e = Host (hd (an_Events a)) \<and> ContainerID e = ContainerID (hd (an_Events a)))
       (an_Events a) \<and>
     inc_Signals (an_Incident a) \<noteq> [] \<and> set (inc_Signals (an_Incident a)) \<subseteq> set RuleIDs \<and>
     5 \<le> inc_RiskScore (an_Incident a) \<and> inc_RiskScore (an_Incident a) \<le> 100"

lemma reported_sound:
  assumes "sorts_by Timestamp srt" "a \<in> set (reported (Analyze srt) (Compress srt ff) (stream_Group cfg es))"
  shows "incident_sound es a"
proof -
  from assms(2) obtain G where G: "G \<in> set (stream_Group cfg es)" "suspicious (Analyze srt) G"
    and a: "a = analysis_of (Analyze srt) (Compress srt ff) G" by (auto simp: reported_def)
  from stream.homogeneous [OF G(1)] have hom: "Events G \<noteq> []"
    "\<forall>e\<in>set (Events G). Host e = Host (hd (Events G)) \<and> ContainerID e = ContainerID (hd (Events G))"
    unfolding group_homogeneous_def by (auto dest: hd_in_set)
  note fields = basic.analysis_fields [OF hom(1), of srt ff]
  have ok: "det_ok (set (Events G)) (detect_all (srt (Events G)))"
    using detect_all_ok [of "srt (Events G)"] by (simp add: sorts_by_set [OF assms(1)])
  let ?sig = "Signals (Analyze srt (Events G))"
  have rows: "\<exists>cols. (RuleID s, ScoreImpact s, cols) \<in> set catalog_rows" if "s \<in> set ?sig" for s
    using ok that by (auto simp: det_ok_def signal_ok_def Analyze_def)
  have impact: "5 \<le> i" if "(r, i, cols) \<in> set catalog_rows" for r i cols
    using that by (auto simp: catalog_rows_eq)
  from G(2) obtain s ss where sig: "?sig = s # ss" by (cases ?sig) (auto simp: suspicious_def)
  have "5 \<le> ScoreImpact x" if "x \<in> set ?sig" for x
    using rows [OF that] impact by blast
  then have "5 \<le> ScoreImpact s" "\<forall>x\<in>set ss. 0 \<le> ScoreImpact x" unfolding sig by force+
  moreover from this(2) have "0 \<le> (\<Sum>s\<leftarrow>ss. ScoreImpact s)" by (intro sum_list_nonneg) auto
  ultimately have "5 \<le> (\<Sum>s\<leftarrow>?sig. ScoreImpact s)" unfolding sig by simp
  with ok have score: "5 \<le> RiskScore (Analyze srt (Events G))" "RiskScore (Analyze srt (Events G)) \<le> 100"
    by (simp_all add: det_ok_def score_ok_def Analyze_def)
  have "RuleID s \<in> set RuleIDs" if "s \<in> set ?sig" for s
    using rows [OF that] by (auto simp: catalog_rows_def RuleIDs_def)
  then have ids: "set (map RuleID ?sig) \<subseteq> set RuleIDs" by auto
  have ne: "map RuleID ?sig \<noteq> []" by (simp add: sig)
  have origin: "set (Events G) \<subseteq> set es" using stream.event_origin [OF G(1)] by blast
  show ?thesis
    unfolding incident_sound_def a fields list_all_iff using hom score ids ne origin by (intro conjI)
qed

text \<open>C2. Every analysis the processor yields is a real incident: its events are input events of
  one host and one container, it has at least one signal, every one of a rule of the catalogue,
  and its score lies between 5 and 100.\<close>

theorem pipeline_incidents_sound:
  assumes "sorts_by Timestamp srt"
  shows "\<exists>analyses p. proc_run (Analyze srt) (Compress srt ff) (New cfg) es = Some (Inr analyses, p) \<and>
    list_all (incident_sound es) analyses"
proof -
  have inv: "sg_inv (p_grouper (New cfg))" by (simp add: New_def sg_inv_New)
  then obtain out g p where run: "stream_run (NewStreamGrouper (grouper_config cfg)) es = Some (out, g)"
    "proc_run (Analyze srt) (Compress srt ff) (New cfg) es =
      Some (Inr (reported (Analyze srt) (Compress srt ff) (out @ fst (stream_Drain g))), p)"
    using basic.proc_run_ok [OF inv, where srt = srt and ff = ff and es = es] by (auto simp: New_def)
  then have "out @ fst (stream_Drain g) = stream_Group (grouper_config cfg) es"
    by (simp add: stream_Group_def)
  with run(2) reported_sound [OF assms, of _ ff "grouper_config cfg" es] show ?thesis
    by (simp add: list_all_iff)
qed

lemma pipeline_incidents_sound_witness:
  "\<exists>analyses p. proc_run (Analyze (sort_key Timestamp)) (Compress (sort_key Timestamp) (\<lambda>_. []))
      (New \<lparr>pl_CorrelationWindow = 0, pl_InactivityTimeout = 0, pl_MaxCandidates = 0, pl_MaxEvents = 0,
        pl_MaxRetainedEvents = 0\<rparr>) [sample_shell, sample_download] = Some (Inr analyses, p) \<and>
    list_all (incident_sound [sample_shell, sample_download]) analyses"
  by (rule pipeline_incidents_sound [OF sorts_by_sort_key])

end
