(* ===== verification/PersistQueue.thy ===== *)
theory PersistQueue
  imports Compress "HOL-Library.Word"
begin

text \<open>
  The two persistence queues (\<open>internal/persistqueue\<close>) as one machine: callers of \<open>Enqueue\<close>
  and \<open>Close\<close>, whose bodies run under the mutex, and the worker goroutine \<open>run\<close>, interleaved
  at the granularity of single channel operations and atomic additions. The saver is the
  environment: each save may succeed or fail. The event queue collects batches when its saver can
  save batches; the incident queue saves one record at a time.
\<close>

record IncidentRecord =
  ir_Incident :: Incident
  ir_Events :: "event list option"

section \<open>Copies of incident records\<close>

fun cloneValue :: "any_value \<Rightarrow> any_value" where
  "cloneValue (VStrings ss) = VStrings (map (\<lambda>s. s) ss)"
| "cloneValue (VList vs) = VList (map cloneValue vs)"
| "cloneValue (VMap kvs) = VMap (map (\<lambda>(k, v). (k, cloneValue v)) kvs)"
| "cloneValue v = v"

definition cloneMap :: "(string \<times> any_value) list \<Rightarrow> (string \<times> any_value) list" where
  "cloneMap kvs = map (\<lambda>(k, v). (k, cloneValue v)) kvs"

definition cloneEvents :: "event list option \<Rightarrow> event list option" where
  "cloneEvents input = map_option (map (\<lambda>e. e\<lparr>Metadata := map_option cloneMap (Metadata e)\<rparr>)) input"

definition cloneIncidentRecord :: "IncidentRecord \<Rightarrow> IncidentRecord" where
  "cloneIncidentRecord r = r\<lparr>ir_Events := cloneEvents (ir_Events r)\<rparr>"

section \<open>Configuration\<close>

record QueueConfig =
  Capacity :: int
  BatchSize :: int
  SaveTimeout :: duration

definition DefaultCapacity :: int where "DefaultCapacity = 8192"
definition DefaultBatchSize :: int where "DefaultBatchSize = 256"
definition DefaultSaveTimeout :: duration where "DefaultSaveTimeout = 10 * second"
definition DefaultIncidentCapacity :: int where "DefaultIncidentCapacity = 256"

text \<open>What a made queue is parameterised with; \<open>qp_batching\<close> is the type assertion on the saver.\<close>

record 'a queue_params =
  qp_capacity :: nat
  qp_batchSize :: nat
  qp_batching :: bool
  qp_saveTimeout :: duration
  qp_describe :: "'a list \<Rightarrow> go_error \<Rightarrow> go_error"
  qp_clone :: "'a \<Rightarrow> 'a"

text \<open>The quoted form of a string that \<open>%q\<close> prints is the argument \<open>qt\<close>.\<close>

definition describeBatchError :: "(string \<Rightarrow> string) \<Rightarrow> event list \<Rightarrow> go_error \<Rightarrow> go_error" where
  "describeBatchError qt batch err =
     (if length batch = 1 then ''save event '' @ qt (EventID (batch ! 0)) @ '': '' @ err
      else ''save event batch starting with '' @ qt (EventID (batch ! 0)) @ '' ('' @
        Itoa (int (length batch)) @ '' events): '' @ err)"

definition event_queue_params :: "(string \<Rightarrow> string) \<Rightarrow> bool \<Rightarrow> QueueConfig \<Rightarrow> event queue_params" where
  "event_queue_params qt batching cfg =
     \<lparr>qp_capacity = nat (if Capacity cfg \<le> 0 then DefaultCapacity else Capacity cfg),
      qp_batchSize = nat (if BatchSize cfg \<le> 0 then DefaultBatchSize else BatchSize cfg),
      qp_batching = batching,
      qp_saveTimeout = (if SaveTimeout cfg = 0 then DefaultSaveTimeout else SaveTimeout cfg),
      qp_describe = describeBatchError qt, qp_clone = (\<lambda>e. e)\<rparr>"

definition NewWithConfig ::
  "(string \<Rightarrow> string) \<Rightarrow> bool \<Rightarrow> bool \<Rightarrow> QueueConfig \<Rightarrow> go_error + event queue_params" where
  "NewWithConfig qt saver_nil batching cfg =
     (if saver_nil then Inl ''event saver is required''
      else if SaveTimeout cfg < 0 then Inl ''save timeout must be zero or positive''
      else Inr (event_queue_params qt batching cfg))"

definition describeIncidentError ::
  "(string \<Rightarrow> string) \<Rightarrow> IncidentRecord list \<Rightarrow> go_error \<Rightarrow> go_error" where
  "describeIncidentError qt rs err =
     ''save incident '' @ qt (IncidentID (ir_Incident (rs ! 0))) @ '': '' @ err"

definition incident_queue_params :: "(string \<Rightarrow> string) \<Rightarrow> QueueConfig \<Rightarrow> IncidentRecord queue_params" where
  "incident_queue_params qt cfg =
     \<lparr>qp_capacity = nat (if Capacity cfg \<le> 0 then DefaultIncidentCapacity else Capacity cfg),
      qp_batchSize = 1, qp_batching = False,
      qp_saveTimeout = (if SaveTimeout cfg = 0 then DefaultSaveTimeout else SaveTimeout cfg),
      qp_describe = describeIncidentError qt, qp_clone = cloneIncidentRecord\<rparr>"

definition NewIncidentQueueWithConfig ::
  "(string \<Rightarrow> string) \<Rightarrow> bool \<Rightarrow> QueueConfig \<Rightarrow> go_error + IncidentRecord queue_params" where
  "NewIncidentQueueWithConfig qt saver_nil cfg =
     (if saver_nil then Inl ''incident saver is required''
      else if SaveTimeout cfg < 0 then Inl ''save timeout must be zero or positive''
      else Inr (incident_queue_params qt cfg))"

section \<open>State\<close>

text \<open>
  Where the holder of the mutex stands: before the test of \<open>closed\<close>, between the increments and
  the channel operation of \<open>Enqueue\<close>, inside \<open>Close\<close>, inside \<open>recordError\<close>.
\<close>

datatype 'a lock_phase =
    Free
  | EnqEntered 'a
  | EnqRefused 'a
  | EnqReceived 'a
  | EnqSent 'a
  | EnqFull 'a
  | CloseEntered
  | CloseChannel
  | RecEntered nat go_error
  | RecCount nat
  | RecClose
  | RecNotify

text \<open>Where the worker stands; \<open>WFailing\<close> is inside \<open>recordError\<close>.\<close>

datatype 'a worker_phase =
    WReceive
  | WCollect "'a list"
  | WSave "'a list"
  | WPersisted "'a list"
  | WFailed nat go_error
  | WFailing
  | WReturn
  | WExit

record 'a queue =
  q_chan :: "'a list"
  q_chanClosed :: bool
  q_doneClosed :: bool
  q_errCh :: "go_error list"
  q_closed :: bool
  q_err :: "go_error option"
  q_received :: "64 word"
  q_enqueued :: "64 word"
  q_persisted :: "64 word"
  q_dropped :: "64 word"
  q_lock :: "'a lock_phase"
  q_worker :: "'a worker_phase"
  q_panicked :: bool
  q_returned :: "('a \<times> bool) list"
  q_sent :: "'a list"
  q_saved :: "'a list"
  q_lost :: "'a list"

text \<open>
  The last five fields are history: a panic, the calls of \<open>Enqueue\<close> that returned with their
  results, the items sent to the channel, those the saver has saved, and the batch it failed on.
\<close>

definition new_queue :: "'a queue" where
  "new_queue = \<lparr>q_chan = [], q_chanClosed = False, q_doneClosed = False, q_errCh = [],
     q_closed = False, q_err = None, q_received = 0, q_enqueued = 0, q_persisted = 0, q_dropped = 0,
     q_lock = Free, q_worker = WReceive, q_panicked = False, q_returned = [], q_sent = [],
     q_saved = [], q_lost = []\<rparr>"

section \<open>Channel operations\<close>

text \<open>Closing a closed channel and sending on one panic.\<close>

definition close_chan :: "'a queue \<Rightarrow> 'a queue" where
  "close_chan s = (if q_chanClosed s then s\<lparr>q_panicked := True\<rparr> else s\<lparr>q_chanClosed := True\<rparr>)"

definition close_done :: "'a queue \<Rightarrow> 'a queue" where
  "close_done s = (if q_doneClosed s then s\<lparr>q_panicked := True\<rparr> else s\<lparr>q_doneClosed := True\<rparr>)"

text \<open>The \<open>select\<close> of \<open>Enqueue\<close>: a send if there is room, else the default.\<close>

definition try_send :: "'a queue_params \<Rightarrow> 'a \<Rightarrow> 'a queue \<Rightarrow> 'a queue" where
  "try_send P x s =
     (if q_chanClosed s then s\<lparr>q_panicked := True, q_lock := Free\<rparr>
      else if length (q_chan s) < qp_capacity P
      then s\<lparr>q_chan := q_chan s @ [qp_clone P x], q_sent := q_sent s @ [qp_clone P x],
               q_lock := EnqSent x\<rparr>
      else s\<lparr>q_lock := EnqFull x\<rparr>)"

section \<open>The holder of the mutex\<close>

definition Enqueue_step :: "'a queue_params \<Rightarrow> 'a queue \<Rightarrow> 'a queue option" where
  "Enqueue_step P s =
     (case q_lock s of
        EnqEntered x \<Rightarrow>
          Some (s\<lparr>q_received := q_received s + 1,
                  q_lock := if q_closed s then EnqRefused x else EnqReceived x\<rparr>)
      | EnqRefused x \<Rightarrow>
          Some (s\<lparr>q_dropped := q_dropped s + 1, q_returned := q_returned s @ [(x, False)], q_lock := Free\<rparr>)
      | EnqReceived x \<Rightarrow> Some (try_send P x s)
      | EnqSent x \<Rightarrow>
          Some (s\<lparr>q_enqueued := q_enqueued s + 1, q_returned := q_returned s @ [(x, True)], q_lock := Free\<rparr>)
      | EnqFull x \<Rightarrow>
          Some (s\<lparr>q_dropped := q_dropped s + 1, q_returned := q_returned s @ [(x, False)], q_lock := Free\<rparr>)
      | _ \<Rightarrow> None)"

definition Close_step :: "'a queue \<Rightarrow> 'a queue option" where
  "Close_step s =
     (case q_lock s of
        CloseEntered \<Rightarrow>
          Some (if q_closed s then s\<lparr>q_lock := Free\<rparr> else s\<lparr>q_closed := True, q_lock := CloseChannel\<rparr>)
      | CloseChannel \<Rightarrow> Some ((close_chan s)\<lparr>q_lock := Free\<rparr>)
      | _ \<Rightarrow> None)"

definition recordError_step :: "'a queue \<Rightarrow> 'a queue option" where
  "recordError_step s =
     (case q_lock s of
        RecEntered n err \<Rightarrow>
          Some (if q_err s \<noteq> None then s\<lparr>q_lock := Free, q_worker := WReturn\<rparr>
                else s\<lparr>q_err := Some err, q_lock := RecCount n\<rparr>)
      | RecCount n \<Rightarrow>
          Some (s\<lparr>q_dropped := q_dropped s + of_nat (n + length (q_chan s)), q_lock := RecClose\<rparr>)
      | RecClose \<Rightarrow>
          Some (if q_closed s then s\<lparr>q_lock := RecNotify\<rparr>
                else (close_chan (s\<lparr>q_closed := True\<rparr>))\<lparr>q_lock := RecNotify\<rparr>)
      | RecNotify \<Rightarrow>
          Some (s\<lparr>q_errCh := (if length (q_errCh s) < 1 then q_errCh s @ [the (q_err s)] else q_errCh s),
                  q_lock := Free, q_worker := WReturn\<rparr>)
      | _ \<Rightarrow> None)"

definition holder_step :: "'a queue_params \<Rightarrow> 'a queue \<Rightarrow> 'a queue option" where
  "holder_step P s =
     (case Enqueue_step P s of
        Some s' \<Rightarrow> Some s'
      | None \<Rightarrow> (case Close_step s of Some s' \<Rightarrow> Some s' | None \<Rightarrow> recordError_step s))"

section \<open>The worker\<close>

text \<open>
  \<open>run\<close> with \<open>collectBatch\<close> inside it. The outcome of a save is \<open>None\<close> or its error.
\<close>

definition collectBatch_step :: "'a queue_params \<Rightarrow> 'a list \<Rightarrow> 'a queue \<Rightarrow> 'a queue" where
  "collectBatch_step P batch s =
     (if \<not> qp_batching P then s\<lparr>q_worker := WSave batch\<rparr>
      else if length batch < qp_batchSize P then
        (case q_chan s of
           x # xs \<Rightarrow> s\<lparr>q_chan := xs, q_worker := WCollect (batch @ [x])\<rparr>
         | [] \<Rightarrow> s\<lparr>q_worker := WSave batch\<rparr>)
      else s\<lparr>q_worker := WSave batch\<rparr>)"

definition run_step :: "'a queue_params \<Rightarrow> go_error option \<Rightarrow> 'a queue \<Rightarrow> 'a queue option" where
  "run_step P outcome s =
     (case q_worker s of
        WReceive \<Rightarrow>
          (case q_chan s of
             x # xs \<Rightarrow> Some (s\<lparr>q_chan := xs, q_worker := WCollect [x]\<rparr>)
           | [] \<Rightarrow> if q_chanClosed s then Some (s\<lparr>q_worker := WReturn\<rparr>) else None)
      | WCollect batch \<Rightarrow> Some (collectBatch_step P batch s)
      | WSave batch \<Rightarrow>
          (case outcome of
             None \<Rightarrow> Some (s\<lparr>q_saved := q_saved s @ batch, q_worker := WPersisted batch\<rparr>)
           | Some err \<Rightarrow> 
                Some (s\<lparr>q_lost := batch, q_worker := WFailed (length batch) (qp_describe P batch err)\<rparr>))
      | WPersisted batch \<Rightarrow>
          Some (s\<lparr>q_persisted := q_persisted s + of_nat (length batch), q_worker := WReceive\<rparr>)
      | WFailed n err \<Rightarrow>
          (if q_lock s = Free then Some (s\<lparr>q_lock := RecEntered n err, q_worker := WFailing\<rparr>) else None)
      | WFailing \<Rightarrow> None
      | WReturn \<Rightarrow> Some ((close_done s)\<lparr>q_worker := WExit\<rparr>)
      | WExit \<Rightarrow> None)"

section \<open>The machine\<close>

text \<open>A call takes the mutex when it is free; the holder and the worker move in any order.\<close>

inductive q_internal :: "'a queue_params \<Rightarrow> 'a queue \<Rightarrow> 'a queue \<Rightarrow> bool" for P where
  holder: "holder_step P s = Some s' \<Longrightarrow> q_internal P s s'"
| worker: "run_step P outcome s = Some s' \<Longrightarrow> q_internal P s s'"

inductive q_step :: "'a queue_params \<Rightarrow> 'a queue \<Rightarrow> 'a queue \<Rightarrow> bool" for P where
  internal: "q_internal P s s' \<Longrightarrow> q_step P s s'"
| call_Enqueue: "q_lock s = Free \<Longrightarrow> q_step P s (s\<lparr>q_lock := EnqEntered x\<rparr>)"
| call_Close: "q_lock s = Free \<Longrightarrow> q_step P s (s\<lparr>q_lock := CloseEntered\<rparr>)"

inductive reachable :: "'a queue_params \<Rightarrow> 'a queue \<Rightarrow> bool" for P where
  start: "reachable P new_queue"
| step: "reachable P s \<Longrightarrow> q_step P s s' \<Longrightarrow> reachable P s'"

text \<open>\<open>Close\<close> returns the error once \<open>done\<close> is closed and the mutex is free.\<close>

definition Close_result :: "'a queue \<Rightarrow> go_error option option" where
  "Close_result s = (if q_doneClosed s \<and> q_lock s = Free then Some (q_err s) else None)"

section \<open>Schedules\<close>

text \<open>A schedule names each move, so that a run of the machine can be computed.\<close>

datatype 'a move = CallEnqueue 'a | CallClose | Holder | Worker "go_error option"

definition q_move :: "'a queue_params \<Rightarrow> 'a move \<Rightarrow> 'a queue \<Rightarrow> 'a queue option" where
  "q_move P m s =
     (case m of
        CallEnqueue x \<Rightarrow> if q_lock s = Free then Some (s\<lparr>q_lock := EnqEntered x\<rparr>) else None
      | CallClose \<Rightarrow> if q_lock s = Free then Some (s\<lparr>q_lock := CloseEntered\<rparr>) else None
      | Holder \<Rightarrow> holder_step P s
      | Worker outcome \<Rightarrow> run_step P outcome s)"

fun q_exec :: "'a queue_params \<Rightarrow> 'a move list \<Rightarrow> 'a queue \<Rightarrow> 'a queue option" where
  "q_exec P [] s = Some s"
| "q_exec P (m # ms) s = (case q_move P m s of None \<Rightarrow> None | Some s' \<Rightarrow> q_exec P ms s')"

end
