(* ===== verification/PersistQueue_Laws.thy ===== *)
theory PersistQueue_Laws
  imports PersistQueue
begin

text \<open>
  The persistence queue under every interleaving: no panic, first in first out, exact counters,
  a single error that is reported once, and a worker that ends after \<open>Close\<close>. The laws are proved
  once for the machine and hold for the event queue and the incident queue.
\<close>

section \<open>Control\<close>

text \<open>What holds while the mutex is in a phase, and what while the worker is in one.\<close>

definition lock_ok :: "'a queue \<Rightarrow> bool" where
  "lock_ok s =
     (case q_lock s of
        EnqReceived x \<Rightarrow> \<not> q_closed s \<and> \<not> q_chanClosed s \<and> q_worker s \<noteq> WFailing
      | CloseChannel \<Rightarrow> q_closed s \<and> \<not> q_chanClosed s \<and> q_worker s \<noteq> WFailing
      | RecEntered n err \<Rightarrow> q_worker s = WFailing \<and> q_err s = None \<and> n = length (q_lost s) \<and>
          q_chanClosed s = q_closed s
      | RecCount n \<Rightarrow> q_worker s = WFailing \<and> q_err s \<noteq> None \<and> n = length (q_lost s) \<and>
          q_chanClosed s = q_closed s
      | RecClose \<Rightarrow> q_worker s = WFailing \<and> q_err s \<noteq> None \<and> q_chanClosed s = q_closed s
      | RecNotify \<Rightarrow> q_worker s = WFailing \<and> q_err s \<noteq> None \<and> q_closed s \<and> q_chanClosed s
      | _ \<Rightarrow> q_chanClosed s = q_closed s \<and> q_worker s \<noteq> WFailing)"

definition worker_ok :: "'a queue \<Rightarrow> bool" where
  "worker_ok s =
     (case q_worker s of
        WFailed n err \<Rightarrow> n = length (q_lost s) \<and> q_err s = None \<and> \<not> q_doneClosed s \<and> q_errCh s = []
      | WFailing \<Rightarrow> \<not> q_doneClosed s \<and> q_errCh s = []
      | WReturn \<Rightarrow> q_closed s \<and> q_chanClosed s \<and> \<not> q_doneClosed s \<and>
          q_errCh s = (case q_err s of None \<Rightarrow> [] | Some err \<Rightarrow> [err])
      | WExit \<Rightarrow> q_closed s \<and> q_chanClosed s \<and> q_doneClosed s \<and>
          q_errCh s = (case q_err s of None \<Rightarrow> [] | Some err \<Rightarrow> [err])
      | _ \<Rightarrow> q_err s = None \<and> \<not> q_doneClosed s \<and> q_errCh s = [])"

definition control_ok :: "'a queue \<Rightarrow> bool" where
  "control_ok s \<longleftrightarrow> \<not> q_panicked s \<and> lock_ok s \<and> worker_ok s"

lemmas control_defs = control_ok_def lock_ok_def worker_ok_def

lemma worker_ok_frame [queue_simps]:
  "worker_ok (s\<lparr>q_lock := l\<rparr>) = worker_ok s" "worker_ok (s\<lparr>q_received := w\<rparr>) = worker_ok s"
  "worker_ok (s\<lparr>q_enqueued := w\<rparr>) = worker_ok s" "worker_ok (s\<lparr>q_dropped := w\<rparr>) = worker_ok s"
  "worker_ok (s\<lparr>q_returned := r\<rparr>) = worker_ok s" "worker_ok (s\<lparr>q_chan := c\<rparr>) = worker_ok s"
  "worker_ok (s\<lparr>q_sent := c\<rparr>) = worker_ok s"
  by (simp_all add: worker_ok_def cong: worker_phase.case_cong)

lemma worker_ok_closed [queue_simps]:
  "worker_ok s \<Longrightarrow> worker_ok (s\<lparr>q_closed := True\<rparr>)" "worker_ok s \<Longrightarrow> worker_ok (s\<lparr>q_chanClosed := True\<rparr>)"
  by (auto simp: worker_ok_def split: worker_phase.splits)

lemma lock_ok_frame [queue_simps]:
  "lock_ok (s\<lparr>q_chan := c\<rparr>) = lock_ok s" "lock_ok (s\<lparr>q_persisted := w\<rparr>) = lock_ok s"
  "lock_ok (s\<lparr>q_saved := c\<rparr>) = lock_ok s" "lock_ok (s\<lparr>q_doneClosed := b\<rparr>) = lock_ok s"
  by (simp_all add: lock_ok_def cong: lock_phase.case_cong)

lemma lock_ok_worker [queue_simps]:
  "q_worker s \<noteq> WFailing \<Longrightarrow> w \<noteq> WFailing \<Longrightarrow> lock_ok (s\<lparr>q_worker := w\<rparr>) = lock_ok s"
  "q_worker s \<noteq> WFailing \<Longrightarrow> lock_ok (s\<lparr>q_lost := c\<rparr>) = lock_ok s"
  by (auto simp: lock_ok_def split: lock_phase.splits)

lemma lock_ok_chan: "lock_ok s \<Longrightarrow> q_chanClosed s \<Longrightarrow> q_closed s"
  by (auto simp: lock_ok_def split: lock_phase.splits)

lemma control_new: "control_ok new_queue"
  by (simp add: control_defs new_queue_def)

lemma control_Enqueue: "control_ok s \<Longrightarrow> Enqueue_step P s = Some s' \<Longrightarrow> control_ok s'"
  by (cases "q_lock s")
    (auto simp: Enqueue_step_def control_ok_def lock_ok_def try_send_def queue_simps split: if_splits)

lemma control_Close: "control_ok s \<Longrightarrow> Close_step s = Some s' \<Longrightarrow> control_ok s'"
  by (cases "q_lock s")
    (auto simp: Close_step_def control_ok_def lock_ok_def close_chan_def queue_simps split: if_splits)

lemma control_recordError: "control_ok s \<Longrightarrow> recordError_step s = Some s' \<Longrightarrow> control_ok s'"
  by (cases "q_lock s")
    (auto simp: recordError_step_def control_defs close_chan_def split: if_splits)

lemma control_holder: "control_ok s \<Longrightarrow> holder_step P s = Some s' \<Longrightarrow> control_ok s'"
  unfolding holder_step_def
  by (auto split: option.splits dest: control_Enqueue control_Close control_recordError)

lemma control_collect: "control_ok s \<Longrightarrow> q_worker s = WCollect b \<Longrightarrow> control_ok (collectBatch_step P b s)"
  by (auto simp: collectBatch_step_def control_ok_def worker_ok_def queue_simps split: list.splits)

lemma control_run:
  assumes "control_ok s" "run_step P outcome s = Some s'" shows "control_ok s'"
proof (cases "q_worker s")
  case (WCollect b)
  with assms control_collect [OF assms(1) WCollect] show ?thesis by (auto simp: run_step_def)
next
  case (WFailed n err)
  with assms show ?thesis by (auto simp: run_step_def control_defs split: if_splits)
qed (use assms in \<open>auto simp: run_step_def control_ok_def worker_ok_def queue_simps close_done_def lock_ok_chan
      split: list.splits if_splits option.splits\<close>)

lemma control_step: "q_step P s s' \<Longrightarrow> control_ok s \<Longrightarrow> control_ok s'"
proof (induction rule: q_step.induct)
  case (internal s s')
  then show ?case by (auto elim!: q_internal.cases intro: control_holder control_run)
next
  case (call_Enqueue s x)
  then show ?case by (simp add: control_ok_def queue_simps) (simp add: lock_ok_def)
next
  case (call_Close s)
  then show ?case by (simp add: control_ok_def queue_simps) (simp add: lock_ok_def)
qed

lemma control_reachable: "reachable P s \<Longrightarrow> control_ok s"
  by (induction rule: reachable.induct) (auto intro: control_new control_step)

section \<open>First in, first out\<close>

definition hand :: "'a worker_phase \<Rightarrow> 'a list" where
  "hand w = (case w of WCollect b \<Rightarrow> b | WSave b \<Rightarrow> b | _ \<Rightarrow> [])"

definition batch_limit :: "'a queue_params \<Rightarrow> nat" where
  "batch_limit P = (if qp_batching P then qp_batchSize P else 1)"

definition fifo_ok :: "'a queue_params \<Rightarrow> 'a queue \<Rightarrow> bool" where
  "fifo_ok P s \<longleftrightarrow>
     q_sent s = q_saved s @ q_lost s @ hand (q_worker s) @ q_chan s \<and>
     length (q_chan s) \<le> qp_capacity P \<and>
     length (q_lost s) \<le> batch_limit P \<and> length (hand (q_worker s)) \<le> batch_limit P \<and>
     (case q_worker s of
        WReceive \<Rightarrow> q_lost s = [] | WPersisted b \<Rightarrow> q_lost s = [] \<and> b \<noteq> []
      | WCollect b \<Rightarrow> q_lost s = [] \<and> b \<noteq> [] | WSave b \<Rightarrow> q_lost s = [] \<and> b \<noteq> []
      | WFailed n err \<Rightarrow> q_lost s \<noteq> [] | WFailing \<Rightarrow> q_lost s \<noteq> []
      | _ \<Rightarrow> if q_err s = None then q_lost s = [] \<and> q_chan s = [] else q_lost s \<noteq> [])"

definition sending :: "'a lock_phase \<Rightarrow> 'a list" where
  "sending l = (case l of EnqSent x \<Rightarrow> [x] | _ \<Rightarrow> [])"

definition accepted :: "'a queue \<Rightarrow> 'a list" where
  "accepted s = map fst (filter snd (q_returned s)) @ sending (q_lock s)"

definition accept_ok :: "'a queue_params \<Rightarrow> 'a queue \<Rightarrow> bool" where
  "accept_ok P s \<longleftrightarrow> q_sent s = map (qp_clone P) (accepted s)"

lemma fifo_frame [queue_simps]:
  "fifo_ok P (s\<lparr>q_lock := l\<rparr>) = fifo_ok P s" "fifo_ok P (s\<lparr>q_received := w\<rparr>) = fifo_ok P s"
  "fifo_ok P (s\<lparr>q_enqueued := w\<rparr>) = fifo_ok P s" "fifo_ok P (s\<lparr>q_dropped := w\<rparr>) = fifo_ok P s"
  "fifo_ok P (s\<lparr>q_returned := r\<rparr>) = fifo_ok P s" "fifo_ok P (s\<lparr>q_closed := b\<rparr>) = fifo_ok P s"
  "fifo_ok P (s\<lparr>q_chanClosed := b\<rparr>) = fifo_ok P s" "fifo_ok P (s\<lparr>q_errCh := c\<rparr>) = fifo_ok P s"
  "fifo_ok P (s\<lparr>q_panicked := b\<rparr>) = fifo_ok P s" "fifo_ok P (s\<lparr>q_persisted := w\<rparr>) = fifo_ok P s"
  "fifo_ok P (s\<lparr>q_doneClosed := b\<rparr>) = fifo_ok P s"
  by (simp_all add: fifo_ok_def cong: worker_phase.case_cong)

lemma fifo_failing [queue_simps]:
  "q_worker s = WFailing \<Longrightarrow> fifo_ok P (s\<lparr>q_err := e\<rparr>) = fifo_ok P s"
  "q_worker s = WFailing \<Longrightarrow> q_err s \<noteq> None \<Longrightarrow> fifo_ok P s \<Longrightarrow> fifo_ok P (s\<lparr>q_worker := WReturn\<rparr>)"
  by (auto simp: fifo_ok_def hand_def)

lemma fifo_send:
  assumes "fifo_ok P s" "length (q_chan s) < qp_capacity P" "q_worker s \<notin> {WReturn, WExit}"
  shows "fifo_ok P (s\<lparr>q_chan := q_chan s @ [x], q_sent := q_sent s @ [x]\<rparr>)"
  using assms by (cases "q_worker s") (simp_all add: fifo_ok_def)

lemma working: "control_ok s \<Longrightarrow> \<not> q_closed s \<Longrightarrow> q_worker s \<notin> {WReturn, WExit}"
  by (auto simp: control_ok_def worker_ok_def)

lemma no_error_yet:
  "control_ok s \<Longrightarrow> (case q_worker s of WFailing \<Rightarrow> False | WReturn \<Rightarrow> False | WExit \<Rightarrow> False | _ \<Rightarrow> True) \<Longrightarrow>
    q_err s = None"
  by (auto simp: control_ok_def worker_ok_def split: worker_phase.splits)

lemma fifo_Enqueue:
  assumes "control_ok s" "fifo_ok P s" "Enqueue_step P s = Some s'" shows "fifo_ok P s'"
proof (cases "q_lock s")
  case (EnqReceived x)
  with assms(1) have opened: "\<not> q_closed s" "\<not> q_chanClosed s"
    by (auto simp: control_ok_def lock_ok_def)
  from fifo_send [OF assms(2) _ working [OF assms(1) opened(1)], of "qp_clone P x"] opened(2) EnqReceived assms(2,3)
  show ?thesis by (auto simp: Enqueue_step_def try_send_def queue_simps split: if_splits)
qed (use assms(2,3) in \<open>auto simp: Enqueue_step_def queue_simps\<close>)

lemma fifo_Close: "fifo_ok P s \<Longrightarrow> Close_step s = Some s' \<Longrightarrow> fifo_ok P s'"
  by (cases "q_lock s") (auto simp: Close_step_def close_chan_def queue_simps split: if_splits)

lemma fifo_recordError:
  assumes "control_ok s" "fifo_ok P s" "recordError_step s = Some s'" shows "fifo_ok P s'"
  using assms
  by (cases "q_lock s")
    (auto simp: recordError_step_def close_chan_def queue_simps control_ok_def lock_ok_def split: if_splits)

lemma fifo_collect:
  assumes "1 \<le> batch_limit P" "fifo_ok P s" "q_worker s = WCollect b"
  shows "fifo_ok P (collectBatch_step P b s)"
  using assms by (cases "q_chan s") (auto simp: collectBatch_step_def fifo_ok_def hand_def batch_limit_def)

lemma fifo_run:
  assumes "1 \<le> batch_limit P" "control_ok s" "fifo_ok P s" "run_step P outcome s = Some s'"
  shows "fifo_ok P s'"
proof (cases "q_worker s")
  case WReceive
  with no_error_yet [OF assms(2)] have "q_err s = None" by simp
  with WReceive assms(1,3,4) show ?thesis
    by (cases "q_chan s") (auto simp: run_step_def fifo_ok_def hand_def split: if_splits)
next
  case (WCollect b)
  with assms(4) fifo_collect [OF assms(1,3) WCollect] show ?thesis by (auto simp: run_step_def)
next
  case (WSave b)
  with assms(3,4) show ?thesis
    by (cases outcome) (auto simp: run_step_def fifo_ok_def hand_def)
next
  case (WPersisted b)
  with assms(3,4) show ?thesis by (auto simp: run_step_def fifo_ok_def hand_def)
next
  case (WFailed n err)
  with assms(3,4) show ?thesis by (auto simp: run_step_def fifo_ok_def hand_def split: if_splits)
next
  case WReturn
  with assms(3,4) show ?thesis
    by (auto simp: run_step_def fifo_ok_def hand_def close_done_def split: if_splits)
qed (use assms(4) in \<open>simp_all add: run_step_def\<close>)

lemma accept_Enqueue: "accept_ok P s \<Longrightarrow> Enqueue_step P s = Some s' \<Longrightarrow> accept_ok P s'"
  by (cases "q_lock s")
    (auto simp: Enqueue_step_def try_send_def accept_ok_def accepted_def sending_def split: if_splits)

lemma accept_Close: "accept_ok P s \<Longrightarrow> Close_step s = Some s' \<Longrightarrow> accept_ok P s'"
  by (cases "q_lock s")
    (auto simp: Close_step_def close_chan_def accept_ok_def accepted_def sending_def split: if_splits)

lemma accept_recordError: "accept_ok P s \<Longrightarrow> recordError_step s = Some s' \<Longrightarrow> accept_ok P s'"
  by (cases "q_lock s")
    (auto simp: recordError_step_def close_chan_def accept_ok_def accepted_def sending_def split: if_splits)

lemma accept_run: "accept_ok P s \<Longrightarrow> run_step P outcome s = Some s' \<Longrightarrow> accept_ok P s'"
  by (cases "q_worker s")
    (auto simp: run_step_def collectBatch_step_def close_done_def accept_ok_def accepted_def sending_def
      split: if_splits list.splits option.splits)

section \<open>Counters\<close>

definition receiving :: "'a lock_phase \<Rightarrow> nat" where
  "receiving l = (case l of EnqRefused _ \<Rightarrow> 1 | EnqReceived _ \<Rightarrow> 1 | EnqSent _ \<Rightarrow> 1 | EnqFull _ \<Rightarrow> 1 | _ \<Rightarrow> 0)"

definition uncounted :: "'a worker_phase \<Rightarrow> nat" where
  "uncounted w = (case w of WPersisted b \<Rightarrow> length b | _ \<Rightarrow> 0)"

text \<open>The items an error has been charged for: the failed batch and what was left in the channel.\<close>

definition has_charged :: "'a queue \<Rightarrow> bool" where
  "has_charged s \<longleftrightarrow>
     q_lock s \<in> {RecClose, RecNotify} \<or> q_worker s \<in> {WReturn, WExit} \<and> q_err s \<noteq> None"

definition charged :: "'a queue \<Rightarrow> nat" where
  "charged s = (if has_charged s then length (q_lost s) + length (q_chan s) else 0)"

lemma lock_Free [simp]: "sending Free = []" "receiving Free = 0"
  by (simp_all add: sending_def receiving_def)

definition received_ok :: "'a queue \<Rightarrow> bool" where
  "received_ok s \<longleftrightarrow>
     q_received s = of_nat (length (q_returned s) + receiving (q_lock s)) \<and>
     q_enqueued s = of_nat (length (filter snd (q_returned s)))"

definition persisted_ok :: "'a queue \<Rightarrow> bool" where
  "persisted_ok s \<longleftrightarrow> q_persisted s + of_nat (uncounted (q_worker s)) = of_nat (length (q_saved s))"

definition dropped_ok :: "'a queue \<Rightarrow> bool" where
  "dropped_ok s \<longleftrightarrow>
     q_dropped s = of_nat (length (filter (\<lambda>r. \<not> snd r) (q_returned s)) + charged s)"

lemma sending_open: "control_ok s \<Longrightarrow> q_lock s = EnqReceived x \<Longrightarrow> \<not> q_chanClosed s \<and> \<not> q_closed s"
  by (simp add: control_ok_def lock_ok_def)

lemma received_Enqueue:
  "control_ok s \<Longrightarrow> received_ok s \<Longrightarrow> Enqueue_step P s = Some s' \<Longrightarrow> received_ok s'"
  by (cases "q_lock s")
    (auto dest: sending_open simp: Enqueue_step_def try_send_def received_ok_def receiving_def split: if_splits)

lemma received_Close: "received_ok s \<Longrightarrow> Close_step s = Some s' \<Longrightarrow> received_ok s'"
  by (cases "q_lock s")
    (auto simp: Close_step_def close_chan_def received_ok_def receiving_def split: if_splits)

lemma received_recordError: "received_ok s \<Longrightarrow> recordError_step s = Some s' \<Longrightarrow> received_ok s'"
  by (cases "q_lock s")
    (auto simp: recordError_step_def close_chan_def received_ok_def receiving_def split: if_splits)

lemma received_run: "received_ok s \<Longrightarrow> run_step P outcome s = Some s' \<Longrightarrow> received_ok s'"
  by (cases "q_worker s")
    (auto simp: run_step_def collectBatch_step_def close_done_def received_ok_def receiving_def
      split: if_splits list.splits option.splits)

lemma persisted_Enqueue: "persisted_ok s \<Longrightarrow> Enqueue_step P s = Some s' \<Longrightarrow> persisted_ok s'"
  by (cases "q_lock s")
    (auto simp: Enqueue_step_def try_send_def persisted_ok_def split: if_splits)

lemma persisted_Close: "persisted_ok s \<Longrightarrow> Close_step s = Some s' \<Longrightarrow> persisted_ok s'"
  by (cases "q_lock s") (auto simp: Close_step_def close_chan_def persisted_ok_def split: if_splits)

lemma persisted_recordError:
  "control_ok s \<Longrightarrow> persisted_ok s \<Longrightarrow> recordError_step s = Some s' \<Longrightarrow> persisted_ok s'"
  by (cases "q_lock s")
    (auto simp: recordError_step_def close_chan_def persisted_ok_def control_ok_def lock_ok_def
      uncounted_def split: if_splits)

lemma persisted_run: "persisted_ok s \<Longrightarrow> run_step P outcome s = Some s' \<Longrightarrow> persisted_ok s'"
  by (cases "q_worker s")
    (auto simp: run_step_def collectBatch_step_def close_done_def persisted_ok_def uncounted_def
      split: if_splits list.splits option.splits)

text \<open>Charges are made by the worker only, in \<open>recordError\<close>; after that the channel stays as it is.\<close>

lemma has_charged_frame [queue_simps]:
  "has_charged (s\<lparr>q_received := w\<rparr>) = has_charged s" "has_charged (s\<lparr>q_enqueued := w\<rparr>) = has_charged s"
  "has_charged (s\<lparr>q_dropped := w\<rparr>) = has_charged s" "has_charged (s\<lparr>q_returned := r\<rparr>) = has_charged s"
  "has_charged (s\<lparr>q_closed := b\<rparr>) = has_charged s" "has_charged (s\<lparr>q_chanClosed := b\<rparr>) = has_charged s"
  "has_charged (s\<lparr>q_sent := c\<rparr>) = has_charged s" "has_charged (s\<lparr>q_errCh := e\<rparr>) = has_charged s"
  "has_charged (s\<lparr>q_chan := c\<rparr>) = has_charged s" "has_charged (s\<lparr>q_panicked := b\<rparr>) = has_charged s"
  by (simp_all add: has_charged_def)

lemma has_charged_lock [queue_simps]:
  "q_lock s \<notin> {RecClose, RecNotify} \<Longrightarrow> l \<notin> {RecClose, RecNotify} \<Longrightarrow>
    has_charged (s\<lparr>q_lock := l\<rparr>) = has_charged s"
  by (auto simp: has_charged_def)

lemma not_charged:
  "q_lock s \<notin> {RecClose, RecNotify} \<Longrightarrow> q_worker s \<notin> {WReturn, WExit} \<Longrightarrow> \<not> has_charged s"
  by (auto simp: has_charged_def)

lemma dropped_Enqueue:
  assumes "control_ok s" "dropped_ok s" "Enqueue_step P s = Some s'" shows "dropped_ok s'"
proof (cases "q_lock s")
  case (EnqReceived x)
  from sending_open [OF assms(1) EnqReceived] have op: "\<not> q_chanClosed s" "\<not> q_closed s" by auto
  have "\<not> has_charged s" by (rule not_charged [OF _ working [OF assms(1) op(2)]]) (simp add: EnqReceived)
  with op(1) EnqReceived assms(2,3) show ?thesis
    by (auto simp: Enqueue_step_def try_send_def dropped_ok_def charged_def queue_simps split: if_splits)
qed (use assms(2,3) in \<open>auto simp: Enqueue_step_def dropped_ok_def charged_def queue_simps\<close>)

lemma dropped_Close: "dropped_ok s \<Longrightarrow> Close_step s = Some s' \<Longrightarrow> dropped_ok s'"
  by (cases "q_lock s")
    (auto simp: Close_step_def close_chan_def dropped_ok_def charged_def queue_simps split: if_splits)

lemma dropped_recordError:
  assumes "control_ok s" "dropped_ok s" "recordError_step s = Some s'" shows "dropped_ok s'"
proof (cases "q_lock s")
  case (RecEntered n err)
  with assms(1) have "q_worker s = WFailing" "q_err s = None" by (auto simp: control_ok_def lock_ok_def)
  with RecEntered assms(2,3) show ?thesis
    by (auto simp: recordError_step_def dropped_ok_def charged_def has_charged_def)
next
  case (RecCount n)
  with assms(1) have "q_worker s = WFailing" "n = length (q_lost s)" by (auto simp: control_ok_def lock_ok_def)
  with RecCount assms(2,3) show ?thesis
    by (auto simp: recordError_step_def dropped_ok_def charged_def has_charged_def)
next
  case RecClose
  with assms(2,3) show ?thesis
    by (cases "q_closed s"; cases "q_chanClosed s")
      (auto simp: recordError_step_def close_chan_def dropped_ok_def charged_def has_charged_def)
next
  case RecNotify
  with assms(1) have "q_err s \<noteq> None" by (auto simp: control_ok_def lock_ok_def)
  with RecNotify assms(2,3) show ?thesis
    by (auto simp: recordError_step_def dropped_ok_def charged_def has_charged_def)
qed (use assms(3) in \<open>auto simp: recordError_step_def\<close>)

lemma charging:
  "control_ok s \<Longrightarrow> q_worker s \<noteq> WFailing \<Longrightarrow> q_worker s \<notin> {WReturn, WExit} \<Longrightarrow> charged s = 0"
  by (auto simp: charged_def has_charged_def control_ok_def lock_ok_def)

lemma run_charged:
  assumes "control_ok s" "run_step P outcome s = Some s'" shows "charged s' = charged s"
proof -
  have nofail: "q_worker s \<noteq> WFailing" using assms(2) by (auto simp: run_step_def)
  with assms(1) have lk: "q_lock s \<notin> {RecClose, RecNotify}" by (auto simp: control_ok_def lock_ok_def)
  show ?thesis
  proof (cases "q_worker s = WReturn")
    case True
    with assms(2) show ?thesis
      by (cases "q_doneClosed s") (auto simp: run_step_def charged_def has_charged_def close_done_def)
  next
    case False
    with assms(2) have "q_worker s \<noteq> WExit" by (auto simp: run_step_def)
    with False nofail charging [OF assms(1)] have zero: "charged s = 0" by simp
    have err: "q_err s = None"
      using no_error_yet [OF assms(1)] False nofail \<open>q_worker s \<noteq> WExit\<close>
      by (auto split: worker_phase.splits)
    have "q_err s' = None \<and> q_lock s' \<notin> {RecClose, RecNotify}"
      using assms(2) err lk False
      by (cases "q_worker s") (auto simp: run_step_def collectBatch_step_def
          split: if_splits list.splits option.splits)
    with zero show ?thesis by (simp add: charged_def has_charged_def)
  qed
qed

lemma run_returned: "run_step P outcome s = Some s' \<Longrightarrow> q_returned s' = q_returned s \<and> q_dropped s' = q_dropped s"
  by (cases "q_worker s") (auto simp: run_step_def collectBatch_step_def close_done_def
      split: if_splits list.splits option.splits)

lemma dropped_run: "control_ok s \<Longrightarrow> dropped_ok s \<Longrightarrow> run_step P outcome s = Some s' \<Longrightarrow> dropped_ok s'"
  using run_charged run_returned unfolding dropped_ok_def by metis

section \<open>The invariant of reachable states\<close>

definition queue_inv :: "'a queue_params \<Rightarrow> 'a queue \<Rightarrow> bool" where
  "queue_inv P s \<longleftrightarrow> control_ok s \<and> fifo_ok P s \<and> accept_ok P s \<and> received_ok s \<and> persisted_ok s \<and> dropped_ok s"

lemma inv_new: "1 \<le> batch_limit P \<Longrightarrow> queue_inv P new_queue"
  unfolding queue_inv_def using control_new
  by (simp add: fifo_ok_def hand_def accept_ok_def accepted_def sending_def received_ok_def receiving_def
      persisted_ok_def uncounted_def dropped_ok_def charged_def has_charged_def new_queue_def)

lemma inv_Enqueue:
  assumes "queue_inv P s" "Enqueue_step P s = Some s'" shows "queue_inv P s'"
  using assms(1) control_Enqueue [OF _ assms(2)] fifo_Enqueue [OF _ _ assms(2)] accept_Enqueue [OF _ assms(2)]
    received_Enqueue [OF _ _ assms(2)] persisted_Enqueue [OF _ assms(2)] dropped_Enqueue [OF _ _ assms(2)]
  unfolding queue_inv_def by blast

lemma inv_Close:
  assumes "queue_inv P s" "Close_step s = Some s'" shows "queue_inv P s'"
  using assms(1) control_Close [OF _ assms(2)] fifo_Close [OF _ assms(2)] accept_Close [OF _ assms(2)]
    received_Close [OF _ assms(2)] persisted_Close [OF _ assms(2)] dropped_Close [OF _ assms(2)]
  unfolding queue_inv_def by blast

lemma inv_recordError:
  assumes "queue_inv P s" "recordError_step s = Some s'" shows "queue_inv P s'"
  using assms(1) control_recordError [OF _ assms(2)] fifo_recordError [OF _ _ assms(2)] accept_recordError [OF _ assms(2)]
    received_recordError [OF _ assms(2)] persisted_recordError [OF _ _ assms(2)] dropped_recordError [OF _ _ assms(2)]
  unfolding queue_inv_def by blast

lemma inv_holder: "queue_inv P s \<Longrightarrow> holder_step P s = Some s' \<Longrightarrow> queue_inv P s'"
  unfolding holder_step_def by (auto split: option.splits dest: inv_Enqueue inv_Close inv_recordError)

lemma inv_run:
  assumes "1 \<le> batch_limit P" "queue_inv P s" "run_step P outcome s = Some s'" shows "queue_inv P s'"
  using assms(2) control_run [OF _ assms(3)] fifo_run [OF assms(1) _ _ assms(3)] accept_run [OF _ assms(3)]
    received_run [OF _ assms(3)] persisted_run [OF _ assms(3)] dropped_run [OF _ _ assms(3)]
  unfolding queue_inv_def by blast

lemma inv_call:
  assumes "queue_inv P s" "q_lock s = Free" "l = EnqEntered x \<or> l = CloseEntered"
  shows "queue_inv P (s\<lparr>q_lock := l\<rparr>)"
proof -
  have l: "sending l = []" "receiving l = 0" "l \<notin> {RecClose, RecNotify}"
    using assms(3) by (auto simp: sending_def receiving_def)
  from assms have "control_ok (s\<lparr>q_lock := l\<rparr>)"
    by (auto simp: queue_inv_def control_ok_def queue_simps) (auto simp: lock_ok_def)
  moreover from assms(1,2) l have "accept_ok P (s\<lparr>q_lock := l\<rparr>)" "received_ok (s\<lparr>q_lock := l\<rparr>)"
    "persisted_ok (s\<lparr>q_lock := l\<rparr>)" "fifo_ok P (s\<lparr>q_lock := l\<rparr>)"
    by (simp_all add: queue_inv_def accept_ok_def accepted_def received_ok_def persisted_ok_def queue_simps)
  moreover have "has_charged (s\<lparr>q_lock := l\<rparr>) = has_charged s"
    using assms(2) l(3) by (intro has_charged_lock) auto
  with assms(1) have "dropped_ok (s\<lparr>q_lock := l\<rparr>)" by (simp add: queue_inv_def dropped_ok_def charged_def)
  ultimately show ?thesis by (simp add: queue_inv_def)
qed

lemma inv_step: "q_step P s s' \<Longrightarrow> 1 \<le> batch_limit P \<Longrightarrow> queue_inv P s \<Longrightarrow> queue_inv P s'"
proof (induction rule: q_step.induct)
  case (internal s s')
  then show ?case by (auto elim!: q_internal.cases intro: inv_holder inv_run)
qed (auto intro: inv_call)

lemma inv_reachable: "reachable P s \<Longrightarrow> 1 \<le> batch_limit P \<Longrightarrow> queue_inv P s"
  by (induction rule: reachable.induct) (auto intro: inv_new inv_step)

lemma exec_reachable:
  "q_exec P ms s = Some s' \<Longrightarrow> reachable P s \<Longrightarrow> reachable P s'"
proof (induction ms arbitrary: s)
  case (Cons m ms)
  then obtain s1 where s1: "q_move P m s = Some s1" "q_exec P ms s1 = Some s'" by (auto split: option.splits)
  from s1(1) have "q_step P s s1"
    by (auto simp: q_move_def split: move.splits if_splits
        intro: q_step.intros q_internal.intros)
  with Cons.IH [OF s1(2)] Cons.prems(2) show ?case by (blast intro: reachable.step)
qed simp

section \<open>Termination and progress\<close>

definition lock_rank :: "'a lock_phase \<Rightarrow> nat" where
  "lock_rank l = (case l of Free \<Rightarrow> 0 | EnqEntered _ \<Rightarrow> 13 | EnqRefused _ \<Rightarrow> 1 | EnqReceived _ \<Rightarrow> 12
     | EnqSent _ \<Rightarrow> 1 | EnqFull _ \<Rightarrow> 1 | CloseEntered \<Rightarrow> 2 | CloseChannel \<Rightarrow> 1 | RecEntered _ _ \<Rightarrow> 4
     | RecCount _ \<Rightarrow> 3 | RecClose \<Rightarrow> 2 | RecNotify \<Rightarrow> 1)"

definition worker_rank :: "'a worker_phase \<Rightarrow> nat" where
  "worker_rank w = (case w of WReceive \<Rightarrow> 2 | WCollect _ \<Rightarrow> 8 | WSave _ \<Rightarrow> 7 | WPersisted _ \<Rightarrow> 3
     | WFailed _ _ \<Rightarrow> 6 | WFailing \<Rightarrow> 1 | WReturn \<Rightarrow> 1 | WExit \<Rightarrow> 0)"

definition q_measure :: "'a queue \<Rightarrow> nat" where
  "q_measure s = 10 * length (q_chan s) + lock_rank (q_lock s) + worker_rank (q_worker s)"

lemma close_frames [queue_simps]:
  "q_chan (close_chan s) = q_chan s" "q_lock (close_chan s) = q_lock s" "q_worker (close_chan s) = q_worker s"
  "q_chan (close_done s) = q_chan s" "q_lock (close_done s) = q_lock s" "q_worker (close_done s) = q_worker s"
  by (simp_all add: close_chan_def close_done_def)

lemma measure_Enqueue: "Enqueue_step P s = Some s' \<Longrightarrow> q_measure s' < q_measure s"
  by (cases "q_lock s")
    (auto simp: Enqueue_step_def try_send_def q_measure_def lock_rank_def split: if_splits)

lemma measure_Close: "Close_step s = Some s' \<Longrightarrow> q_measure s' < q_measure s"
  by (cases "q_lock s")
    (auto simp: Close_step_def q_measure_def lock_rank_def queue_simps split: if_splits)

lemma measure_recordError:
  "control_ok s \<Longrightarrow> recordError_step s = Some s' \<Longrightarrow> q_measure s' < q_measure s"
  by (cases "q_lock s")
    (auto simp: recordError_step_def q_measure_def lock_rank_def worker_rank_def queue_simps
      control_ok_def lock_ok_def split: if_splits)

lemma measure_run: "run_step P outcome s = Some s' \<Longrightarrow> q_measure s' < q_measure s"
  by (cases "q_worker s")
    (auto simp: run_step_def collectBatch_step_def q_measure_def lock_rank_def worker_rank_def queue_simps
      split: if_splits list.splits option.splits)

lemma measure_internal: "q_internal P s s' \<Longrightarrow> control_ok s \<Longrightarrow> q_measure s' < q_measure s"
  by (auto elim!: q_internal.cases simp: holder_step_def split: option.splits
      dest: measure_Enqueue measure_Close measure_recordError measure_run)

lemma holder_moves: "q_lock s \<noteq> Free \<Longrightarrow> \<exists>s'. holder_step P s = Some s'"
  by (cases "q_lock s") (auto simp: holder_step_def Enqueue_step_def Close_step_def recordError_step_def
      split: option.splits)

lemma worker_moves:
  assumes "q_lock s = Free" "control_ok s" "\<not> (q_worker s = WReceive \<and> q_chan s = [] \<and> \<not> q_chanClosed s)"
    "q_worker s \<noteq> WExit"
  shows "\<exists>s'. run_step P None s = Some s'"
proof -
  from assms(1,2) have "q_worker s \<noteq> WFailing" by (simp add: control_ok_def lock_ok_def)
  with assms(1,3,4) show ?thesis
    by (cases "q_worker s") (auto simp: run_step_def split: list.splits)
qed

lemma stuck_states:
  assumes "control_ok s" "\<nexists>s'. q_internal P s s'"
  shows "q_lock s = Free \<and> (q_worker s = WExit \<or> q_worker s = WReceive \<and> q_chan s = [] \<and> \<not> q_closed s)"
proof -
  have lk: "q_lock s = Free"
    using assms(2) holder_moves [of s P] by (blast intro: q_internal.intros)
  with assms(1) have "q_chanClosed s = q_closed s" by (simp add: control_ok_def lock_ok_def)
  with lk assms worker_moves [of s P] show ?thesis by (blast intro: q_internal.intros)
qed

end
