(* ===== verification/PersistQueue_Props.thy ===== *)
theory PersistQueue_Props
  imports PersistQueue_Laws "HOL-Library.Sublist"
begin

text \<open>
  The contract of a persistence queue, proved in a locale for any made queue and interpreted on
  the event queue and the incident queue; the abstract queue that both implement; and the
  properties of the event queue.
\<close>

section \<open>The abstract queue\<close>

text \<open>
  What a caller may rely on: accepted items leave in order and only by being saved, a bounded
  number at a time, until an error stops the queue for good.
\<close>

record 'a fifo =
  f_waiting :: "'a list"
  f_saved :: "'a list"
  f_failed :: bool

inductive fifo_step :: "nat \<Rightarrow> nat \<Rightarrow> 'a fifo \<Rightarrow> 'a fifo \<Rightarrow> bool" for bound limit where
  stutter: "fifo_step bound limit a a"
| accept: "\<not> f_failed a \<Longrightarrow> length (f_waiting a) < bound \<Longrightarrow>
    fifo_step bound limit a (a\<lparr>f_waiting := f_waiting a @ [x]\<rparr>)"
| save: "\<not> f_failed a \<Longrightarrow> f_waiting a = b @ r \<Longrightarrow> b \<noteq> [] \<Longrightarrow> length b \<le> limit \<Longrightarrow>
    fifo_step bound limit a (a\<lparr>f_waiting := r, f_saved := f_saved a @ b\<rparr>)"
| fail: "\<not> f_failed a \<Longrightarrow> f_waiting a \<noteq> [] \<Longrightarrow> fifo_step bound limit a (a\<lparr>f_failed := True\<rparr>)"

text \<open>The abstraction: what is sent and not saved waits; the error makes the queue failed.\<close>

definition abs_queue :: "'a queue \<Rightarrow> 'a fifo" where
  "abs_queue s = \<lparr>f_waiting = drop (length (q_saved s)) (q_sent s), f_saved = q_saved s,
     f_failed = (q_err s \<noteq> None)\<rparr>"

section \<open>The contract\<close>

locale queue_machine =
  fixes P :: "'a queue_params"
  assumes capacity_pos: "0 < qp_capacity P" and limit_pos: "1 \<le> batch_limit P"
begin

lemma inv: "reachable P s \<Longrightarrow> queue_inv P s"
  by (rule inv_reachable [OF _ limit_pos])

lemma control: "reachable P s \<Longrightarrow> control_ok s"
  using inv by (simp add: queue_inv_def)

lemma safe: "reachable P s \<Longrightarrow> \<not> q_panicked s"
  using control by (simp add: control_ok_def)

lemma in_order: "reachable P s \<Longrightarrow> prefix (q_saved s) (map (qp_clone P) (accepted s))"
  using inv [of s] by (auto simp: queue_inv_def fifo_ok_def accept_ok_def intro: prefixI)

lemma bounded: "reachable P s \<Longrightarrow> length (q_chan s) \<le> qp_capacity P"
  using inv [of s] by (simp add: queue_inv_def fifo_ok_def)

lemma complete:
  "reachable P s \<Longrightarrow> q_worker s = WExit \<Longrightarrow> q_err s = None \<Longrightarrow> q_saved s = map (qp_clone P) (accepted s)"
  using inv [of s] by (auto simp: queue_inv_def fifo_ok_def accept_ok_def hand_def)

lemma error_reported:
  "reachable P s \<Longrightarrow> q_worker s = WExit \<Longrightarrow> q_err s = Some err \<Longrightarrow>
    q_errCh s = [err] \<and> q_lost s \<noteq> [] \<and> length (q_lost s) \<le> batch_limit P"
  using inv [of s] by (auto simp: queue_inv_def fifo_ok_def control_ok_def worker_ok_def)

lemma counted:
  assumes "reachable P s" "q_lock s = Free" "q_worker s = WExit"
  shows "q_received s = of_nat (length (q_returned s)) \<and> q_enqueued s = of_nat (length (accepted s)) \<and>
    q_persisted s = of_nat (length (q_saved s)) \<and> q_received s = q_persisted s + q_dropped s"
proof -
  note i = inv [OF assms(1)]
  from i assms(2,3) have c: "q_received s = of_nat (length (q_returned s))"
    "q_enqueued s = of_nat (length (filter snd (q_returned s)))"
    "q_persisted s = of_nat (length (q_saved s))"
    "q_dropped s = of_nat (length (filter (\<lambda>r. \<not> snd r) (q_returned s)) + charged s)"
    by (simp_all add: queue_inv_def received_ok_def persisted_ok_def uncounted_def dropped_ok_def)
  have acc: "length (accepted s) = length (filter snd (q_returned s))"
    using assms(2) by (simp add: accepted_def)
  from i assms(3) have sent: "length (q_sent s) = length (q_saved s) + (length (q_lost s) + length (q_chan s))"
    "q_err s = None \<longrightarrow> q_lost s = [] \<and> q_chan s = []"
    by (auto simp: queue_inv_def fifo_ok_def hand_def)
  from i have "length (q_sent s) = length (accepted s)" by (simp add: queue_inv_def accept_ok_def)
  with sent(1) acc have total: "length (filter snd (q_returned s)) =
      length (q_saved s) + (length (q_lost s) + length (q_chan s))" by simp
  have "charged s = length (q_lost s) + length (q_chan s)"
    using sent(2) assms(2,3) by (simp add: charged_def has_charged_def)
  with total sum_length_filter_compl [of snd "q_returned s"]
  have "length (q_returned s) = length (q_saved s) + (length (filter (\<lambda>r. \<not> snd r) (q_returned s)) + charged s)"
    by simp
  then have "(of_nat (length (q_returned s)) :: 64 word) =
      of_nat (length (q_saved s)) + of_nat (length (filter (\<lambda>r. \<not> snd r) (q_returned s)) + charged s)"
    by (simp only: of_nat_add)
  with c acc show ?thesis by simp
qed

lemma internal_keeps: "q_internal P s s' \<Longrightarrow> reachable P s \<Longrightarrow> reachable P s'"
  by (blast intro: reachable.step q_step.internal)

lemma internal_bound: "(q_internal P ^^ n) s s' \<Longrightarrow> reachable P s \<Longrightarrow> reachable P s' \<and> n + q_measure s' \<le> q_measure s"
proof (induction n arbitrary: s')
  case (Suc n)
  then obtain t where t: "(q_internal P ^^ n) s t" "q_internal P t s'" by auto
  from Suc.IH [OF t(1) Suc.prems(2)] have r: "reachable P t" "n + q_measure t \<le> q_measure s" by auto
  from measure_internal [OF t(2) control [OF r(1)]] r internal_keeps [OF t(2) r(1)] show ?case by simp
qed simp

lemma stays_closed: "q_internal P s s' \<Longrightarrow> q_closed s \<Longrightarrow> q_closed s'"
  by (erule q_internal.cases; cases "q_lock s"; cases "q_worker s")
    (auto simp: holder_step_def Enqueue_step_def try_send_def Close_step_def close_chan_def recordError_step_def
      run_step_def collectBatch_step_def close_done_def split: if_splits list.splits option.splits)

lemma closed_run: "(q_internal P ^^ n) s s' \<Longrightarrow> q_closed s \<Longrightarrow> q_closed s'"
  by (induction n arbitrary: s') (auto dest: stays_closed)

lemma closed_ends:
  assumes "(q_internal P ^^ n) s s'" "reachable P s" "q_closed s" "\<nexists>t. q_internal P s' t"
  shows "Close_result s' = Some (q_err s')"
proof -
  from internal_bound [OF assms(1,2)] have "control_ok s'" by (auto intro: control)
  with stuck_states [OF this assms(4)] closed_run [OF assms(1,3)] show ?thesis
    by (auto simp: Close_result_def control_ok_def worker_ok_def)
qed

end

section \<open>Refinement\<close>

lemma abs_queue_same:
  "q_saved s' = q_saved s \<Longrightarrow> q_sent s' = q_sent s \<Longrightarrow> q_err s' = q_err s \<Longrightarrow> abs_queue s' = abs_queue s"
  by (simp add: abs_queue_def)

lemma fifo_waiting: "fifo_ok P s \<Longrightarrow> drop (length (q_saved s)) (q_sent s) = q_lost s @ hand (q_worker s) @ q_chan s"
  by (simp add: fifo_ok_def)

lemma refine_holder:
  assumes i: "queue_inv P s" and h: "holder_step P s = Some s'"
  shows "fifo_step (qp_capacity P + batch_limit P) (batch_limit P) (abs_queue s) (abs_queue s')"
proof (cases "q_lock s")
  case (EnqReceived x)
  from i have c: "control_ok s" and f: "fifo_ok P s" by (simp_all add: queue_inv_def)
  from sending_open [OF c EnqReceived] have op: "\<not> q_chanClosed s" "\<not> q_closed s" by auto
  from c EnqReceived have "q_worker s \<noteq> WFailing" by (simp add: control_ok_def lock_ok_def)
  with working [OF c op(2)] have err: "q_err s = None"
    using no_error_yet [OF c] by (auto split: worker_phase.splits)
  from h EnqReceived have s': "s' = try_send P x s" by (simp add: holder_step_def Enqueue_step_def)
  show ?thesis
  proof (cases "length (q_chan s) < qp_capacity P")
    case True
    have "length (q_lost s @ hand (q_worker s)) \<le> batch_limit P"
      using f working [OF c op(2)] by (cases "q_worker s") (auto simp: fifo_ok_def hand_def)
    with True have len: "length (f_waiting (abs_queue s)) < qp_capacity P + batch_limit P"
      by (simp add: abs_queue_def fifo_waiting [OF f])
    have "length (q_saved s) \<le> length (q_sent s)" using f by (simp add: fifo_ok_def)
    with True op(1) have eq: "abs_queue s' = (abs_queue s)\<lparr>f_waiting := f_waiting (abs_queue s) @ [qp_clone P x]\<rparr>"
      by (simp add: s' try_send_def abs_queue_def)
    show ?thesis
      unfolding eq by (rule fifo_step.accept [OF _ len]) (simp add: abs_queue_def err)
  next
    case False
    with op(1) have "abs_queue s' = abs_queue s" by (simp add: s' try_send_def abs_queue_def)
    then show ?thesis by (simp add: fifo_step.stutter)
  qed
next
  case (RecEntered n err)
  with i have e: "q_err s = None" "q_worker s = WFailing"
    by (auto simp: queue_inv_def control_ok_def lock_ok_def)
  with RecEntered h have eq: "abs_queue s' = (abs_queue s)\<lparr>f_failed := True\<rparr>"
    by (auto simp: holder_step_def Enqueue_step_def Close_step_def recordError_step_def abs_queue_def)
  from i e(2) have ne: "f_waiting (abs_queue s) \<noteq> []"
    by (auto simp: queue_inv_def fifo_ok_def abs_queue_def)
  show ?thesis
    unfolding eq by (rule fifo_step.fail [OF _ ne]) (simp add: abs_queue_def e(1))
qed (use h in \<open>auto simp: holder_step_def Enqueue_step_def Close_step_def close_chan_def recordError_step_def
      abs_queue_def fifo_step.stutter split: if_splits\<close>)

lemma refine_run:
  assumes i: "queue_inv P s" and r: "run_step P outcome s = Some s'"
  shows "fifo_step (qp_capacity P + batch_limit P) (batch_limit P) (abs_queue s) (abs_queue s')"
proof (cases "\<exists>b. q_worker s = WSave b \<and> outcome = None")
  case True
  then obtain b where b: "q_worker s = WSave b" "outcome = None" by blast
  from i b have f: "q_sent s = q_saved s @ b @ q_chan s" "b \<noteq> []" "length b \<le> batch_limit P"
    by (auto simp: queue_inv_def fifo_ok_def hand_def)
  from i b(1) have "q_err s = None" using no_error_yet [of s] by (simp add: queue_inv_def)
  with f(1) have a: "\<not> f_failed (abs_queue s)" "f_waiting (abs_queue s) = b @ q_chan s"
    by (simp_all add: abs_queue_def)
  from r b f(1) have "abs_queue s' = (abs_queue s)\<lparr>f_waiting := q_chan s, f_saved := f_saved (abs_queue s) @ b\<rparr>"
    by (auto simp: run_step_def abs_queue_def)
  with fifo_step.save [OF a f(2,3)] show ?thesis by simp
next
  case False
  with r have "abs_queue s' = abs_queue s"
    by (cases "q_worker s") (auto simp: run_step_def collectBatch_step_def close_done_def abs_queue_def
        split: if_splits list.splits option.splits)
  then show ?thesis by (simp add: fifo_step.stutter)
qed

context queue_machine begin

lemma refines:
  assumes "reachable P s" "q_step P s s'"
  shows "fifo_step (qp_capacity P + batch_limit P) (batch_limit P) (abs_queue s) (abs_queue s')"
  using assms(2)
proof (cases rule: q_step.cases)
  case internal
  with inv [OF assms(1)] show ?thesis
    by (auto elim!: q_internal.cases intro: refine_holder refine_run)
qed (simp_all add: abs_queue_def fifo_step.stutter)

end

section \<open>Both queues keep the contract\<close>

interpretation event_queue: queue_machine "event_queue_params qt batching cfg" for qt batching cfg
  by unfold_locales
    (auto simp: event_queue_params_def batch_limit_def DefaultCapacity_def DefaultBatchSize_def)

interpretation incident_queue: queue_machine "incident_queue_params qt cfg" for qt cfg
  by unfold_locales (auto simp: incident_queue_params_def batch_limit_def DefaultIncidentCapacity_def)

lemma clone_event: "map (qp_clone (event_queue_params qt batching cfg)) xs = xs"
  by (simp add: event_queue_params_def)

lemma cloneValue_same: "cloneValue v = v"
  by (induction v) (auto intro!: map_idI)

lemma clone_record: "qp_clone (incident_queue_params qt cfg) r = r"
proof -
  have "cloneMap kvs = kvs" for kvs by (simp add: cloneMap_def cloneValue_same)
  then have "map_option cloneMap m = m" for m by (cases m) auto
  then have "cloneEvents es = es" for es by (cases es) (auto simp: cloneEvents_def intro!: map_idI)
  then show ?thesis by (simp add: incident_queue_params_def cloneIncidentRecord_def)
qed

section \<open>Properties\<close>

definition tiny_config :: QueueConfig where
  "tiny_config = \<lparr>Capacity = 1, BatchSize = 2, SaveTimeout = 0\<rparr>"

abbreviation tiny_queue :: "event queue_params" where
  "tiny_queue \<equiv> event_queue_params (\<lambda>s. s) True tiny_config"

text \<open>One event is sent and saved, a second is sent, a third is refused, and the queue is closed.\<close>

definition tiny_schedule :: "event move list" where
  "tiny_schedule = [CallEnqueue zero_event, Holder, Holder, Holder, Worker None, Worker None, Worker None,
     Worker None, CallEnqueue zero_event, Holder, Holder, Holder, CallEnqueue zero_event, Holder, Holder,
     Holder, CallClose, Holder, Holder]"

definition tiny_open :: "event queue" where
  "tiny_open = the (q_exec tiny_queue tiny_schedule new_queue)"

definition tiny_closed :: "event queue" where
  "tiny_closed = the (q_exec tiny_queue [Worker None, Worker None, Worker None, Worker None, Worker None, Worker None] tiny_open)"

lemmas queue_eval = q_move_def holder_step_def Enqueue_step_def Close_step_def recordError_step_def
  try_send_def close_chan_def close_done_def run_step_def collectBatch_step_def event_queue_params_def
  tiny_config_def new_queue_def

lemma tiny_open_run: "q_exec tiny_queue tiny_schedule new_queue = Some tiny_open"
  by (simp add: tiny_open_def tiny_schedule_def queue_eval)

lemma tiny_open_eq:
  "tiny_open = \<lparr>q_chan = [zero_event], q_chanClosed = True, q_doneClosed = False, q_errCh = [],
     q_closed = True, q_err = None, q_received = 3, q_enqueued = 2, q_persisted = 1, q_dropped = 1,
     q_lock = Free, q_worker = WReceive, q_panicked = False,
     q_returned = [(zero_event, True), (zero_event, True), (zero_event, False)],
     q_sent = [zero_event, zero_event], q_saved = [zero_event], q_lost = []\<rparr>"
  by (simp add: tiny_open_def tiny_schedule_def queue_eval)

lemma tiny_closed_run:
  "q_exec tiny_queue [Worker None, Worker None, Worker None, Worker None, Worker None, Worker None] tiny_open =
    Some tiny_closed"
  by (simp add: tiny_closed_def tiny_open_eq queue_eval)

lemma tiny_closed_eq:
  "tiny_closed = tiny_open\<lparr>q_chan := [], q_doneClosed := True, q_persisted := 2, q_worker := WExit,
     q_saved := [zero_event, zero_event]\<rparr>"
  by (simp add: tiny_closed_def tiny_open_eq queue_eval)

lemma tiny_reachable: "reachable tiny_queue tiny_open" "reachable tiny_queue tiny_closed"
proof -
  show o: "reachable tiny_queue tiny_open" by (rule exec_reachable [OF tiny_open_run reachable.start])
  show "reachable tiny_queue tiny_closed" by (rule exec_reachable [OF tiny_closed_run o])
qed

text \<open>C4. The event queue never sends on a closed channel and never closes a channel twice, in any
  interleaving of \<open>Enqueue\<close>, \<open>Close\<close> and the worker, whatever the saver answers. What has been
  saved is always a prefix of the accepted events in the order they were accepted, and the channel
  stays within its capacity. Once the worker has ended without an error everything accepted is
  saved; if it ended with one, that error is reported once and at most one batch failed.\<close>

theorem event_queue_fifo:
  assumes "reachable (event_queue_params qt batching cfg) s"
  shows "\<not> q_panicked s \<and> prefix (q_saved s) (accepted s) \<and>
    length (q_chan s) \<le> qp_capacity (event_queue_params qt batching cfg) \<and>
    (q_worker s = WExit \<longrightarrow>
       (case q_err s of
          None \<Rightarrow> q_saved s = accepted s \<and> q_errCh s = []
        | Some err \<Rightarrow> q_errCh s = [err] \<and> q_lost s \<noteq> [] \<and>
            length (q_lost s) \<le> batch_limit (event_queue_params qt batching cfg)))"
proof -
  note r = assms
  from event_queue.control [OF r] have "q_worker s = WExit \<Longrightarrow> q_err s = None \<Longrightarrow> q_errCh s = []"
    by (auto simp: control_ok_def worker_ok_def)
  with event_queue.safe [OF r] event_queue.in_order [OF r] event_queue.bounded [OF r]
    event_queue.complete [OF r] event_queue.error_reported [OF r] show ?thesis
    unfolding clone_event by (auto split: option.splits)
qed

lemma event_queue_fifo_witness: "q_saved tiny_closed = accepted tiny_closed"
  using event_queue_fifo [OF tiny_reachable(2)] by (simp add: tiny_closed_eq tiny_open_eq)

text \<open>C16. At rest the counters of the event queue are exact: when the worker has ended and no call
  is in progress, \<open>Received\<close> is the number of calls of \<open>Enqueue\<close>, \<open>Enqueued\<close> the number of those
  that returned true, \<open>Persisted\<close> the number of saved events, and every received event is either
  persisted or dropped, all modulo the width of the counters.\<close>

theorem event_queue_accounting:
  assumes "reachable (event_queue_params qt batching cfg) s" "q_lock s = Free" "q_worker s = WExit"
  shows "q_received s = of_nat (length (q_returned s)) \<and> q_enqueued s = of_nat (length (accepted s)) \<and>
    q_persisted s = of_nat (length (q_saved s)) \<and> q_received s = q_persisted s + q_dropped s"
  by (rule event_queue.counted [OF assms])

lemma event_queue_accounting_witness:
  "q_received tiny_closed = q_persisted tiny_closed + q_dropped tiny_closed \<and> q_received tiny_closed = 3"
  using event_queue_accounting [OF tiny_reachable(2)] by (simp add: tiny_closed_eq tiny_open_eq)

text \<open>C17. \<open>Close\<close> returns: from any reachable state in which the queue is closed, the holder of the
  mutex and the worker can make only a bounded number of moves, and when none is left the worker has
  ended and \<open>Close\<close> yields the recorded error.\<close>

theorem event_queue_close_returns:
  assumes "reachable (event_queue_params qt batching cfg) s" "q_closed s"
    "(q_internal (event_queue_params qt batching cfg) ^^ n) s s'"
  shows "n \<le> q_measure s \<and>
    ((\<nexists>t. q_internal (event_queue_params qt batching cfg) s' t) \<longrightarrow> Close_result s' = Some (q_err s'))"
  using event_queue.internal_bound [OF assms(3,1)] event_queue.closed_ends [OF assms(3,1,2)] by auto

lemma event_queue_close_returns_witness:
  "\<exists>n s'. (q_internal tiny_queue ^^ n) tiny_open s' \<and> n \<le> 12 \<and> Close_result s' = Some None"
proof -
  have step: "(q_internal tiny_queue ^^ length ms) s t"
    if "q_exec tiny_queue (map Worker ms) s = Some t" for ms s t
    using that
  proof (induction ms arbitrary: s)
    case (Cons m ms)
    then obtain s1 where s1: "run_step tiny_queue m s = Some s1" "q_exec tiny_queue (map Worker ms) s1 = Some t"
      by (auto simp: q_move_def split: option.splits)
    from relpowp_Suc_I2 [OF q_internal.worker [OF s1(1)] Cons.IH [OF s1(2)]]
    show ?case by (simp only: list.size(4) add_0_right add_Suc_right)
  qed simp
  have "map Worker [None, None, None, None, None, None] =
      [Worker None, Worker None, Worker None, Worker None, Worker None, Worker None]" by simp
  from step [of "[None, None, None, None, None, None]" tiny_open tiny_closed, unfolded this, OF tiny_closed_run]
  have run: "(q_internal tiny_queue ^^ 6) tiny_open tiny_closed"
    by (simp only: list.size add_0_right add_Suc_right eval_nat_numeral One_nat_def BitM.simps pred_numeral_simps)
  have "\<nexists>t. q_internal tiny_queue tiny_closed t"
    by (auto elim!: q_internal.cases simp: tiny_closed_eq tiny_open_eq holder_step_def Enqueue_step_def
        Close_step_def recordError_step_def run_step_def)
  with event_queue_close_returns [OF tiny_reachable(1) _ run] have "Close_result tiny_closed = Some (q_err tiny_closed)"
    by (simp_all add: tiny_open_eq)
  moreover have "q_err tiny_closed = None" by (simp add: tiny_closed_eq tiny_open_eq)
  ultimately have "Close_result tiny_closed = Some None" by simp
  with run show ?thesis by (intro exI [of _ 6] exI [of _ tiny_closed] conjI) simp_all
qed

text \<open>C18. The event queue refines the abstract bounded queue: every step of the machine is an
  acceptance at the end, the saving of a bounded number of items from the front, a failure that stops
  the queue for good, or no step at all.\<close>

theorem event_queue_refines:
  assumes "reachable (event_queue_params qt batching cfg) s" "q_step (event_queue_params qt batching cfg) s s'"
  shows "fifo_step
    (qp_capacity (event_queue_params qt batching cfg) + batch_limit (event_queue_params qt batching cfg))
    (batch_limit (event_queue_params qt batching cfg)) (abs_queue s) (abs_queue s')"
  by (rule event_queue.refines [OF assms])

lemma event_queue_refines_witness:
  "fifo_step 3 2 (abs_queue tiny_open) (abs_queue (tiny_open\<lparr>q_chan := [], q_worker := WCollect [zero_event]\<rparr>))"
proof -
  have "q_step tiny_queue tiny_open (tiny_open\<lparr>q_chan := [], q_worker := WCollect [zero_event]\<rparr>)"
    by (rule q_step.internal, rule q_internal.worker [of _ None])
      (simp add: tiny_open_eq run_step_def)
  from event_queue_refines [OF tiny_reachable(1) this] show ?thesis
    by (simp add: event_queue_params_def batch_limit_def tiny_config_def numeral_3_eq_3)
qed

end
