(* ===== verification/IncidentQueue.thy ===== *)
theory IncidentQueue
  imports PersistQueue_Props
begin

text \<open>
  The incident queue (\<open>incident_queue.go\<close>) with the operations it has of its own: it saves one record
  at a time, with the record's events, and never collects batches. Its machine is shown to be the
  machine of \<open>PersistQueue\<close> without batching, from which it inherits every law.
\<close>

section \<open>Operations\<close>

text \<open>The channels, the error, the flag and the counters are those of \<open>Queue\<close>.\<close>

type_synonym IncidentQueue = "IncidentRecord queue"

definition NewIncidentQueue :: "(string \<Rightarrow> string) \<Rightarrow> bool \<Rightarrow> int \<Rightarrow> go_error + IncidentRecord queue_params" where
  "NewIncidentQueue qt saver_nil capacity =
     NewIncidentQueueWithConfig qt saver_nil \<lparr>Capacity = capacity, BatchSize = 0, SaveTimeout = 0\<rparr>"

text \<open>The saver is given the time it may take; it answers with its error.\<close>

type_synonym incident_saver = "duration \<Rightarrow> Incident \<Rightarrow> event list option \<Rightarrow> go_error option"

definition saveIncident :: "IncidentRecord queue_params \<Rightarrow> incident_saver \<Rightarrow> IncidentRecord \<Rightarrow> go_error option" where
  "saveIncident P saver r = saver (qp_saveTimeout P) (ir_Incident r) (ir_Events r)"

definition incident_Enqueue :: "IncidentRecord queue_params \<Rightarrow> IncidentQueue \<Rightarrow> IncidentQueue option" where
  "incident_Enqueue P s =
     (case q_lock s of
        EnqEntered r \<Rightarrow>
          Some (s\<lparr>q_received := q_received s + 1,
                  q_lock := if q_closed s then EnqRefused r else EnqReceived r\<rparr>)
      | EnqRefused r \<Rightarrow>
          Some (s\<lparr>q_dropped := q_dropped s + 1, q_returned := q_returned s @ [(r, False)], q_lock := Free\<rparr>)
      | EnqReceived r \<Rightarrow>
          Some (if q_chanClosed s then s\<lparr>q_panicked := True, q_lock := Free\<rparr>
                else if length (q_chan s) < qp_capacity P
                then s\<lparr>q_chan := q_chan s @ [cloneIncidentRecord r], q_sent := q_sent s @ [cloneIncidentRecord r],
                         q_lock := EnqSent r\<rparr>
                else s\<lparr>q_lock := EnqFull r\<rparr>)
      | EnqSent r \<Rightarrow>
          Some (s\<lparr>q_enqueued := q_enqueued s + 1, q_returned := q_returned s @ [(r, True)], q_lock := Free\<rparr>)
      | EnqFull r \<Rightarrow>
          Some (s\<lparr>q_dropped := q_dropped s + 1, q_returned := q_returned s @ [(r, False)], q_lock := Free\<rparr>)
      | _ \<Rightarrow> None)"

definition incident_Close :: "IncidentQueue \<Rightarrow> IncidentQueue option" where
  "incident_Close s =
     (case q_lock s of
        CloseEntered \<Rightarrow>
          Some (if q_closed s then s\<lparr>q_lock := Free\<rparr> else s\<lparr>q_closed := True, q_lock := CloseChannel\<rparr>)
      | CloseChannel \<Rightarrow> Some ((close_chan s)\<lparr>q_lock := Free\<rparr>)
      | _ \<Rightarrow> None)"

definition incident_recordError :: "IncidentQueue \<Rightarrow> IncidentQueue option" where
  "incident_recordError s =
     (case q_lock s of
        RecEntered n err \<Rightarrow>
          Some (if q_err s \<noteq> None then s\<lparr>q_lock := Free, q_worker := WReturn\<rparr>
                else s\<lparr>q_err := Some err, q_lock := RecCount n\<rparr>)
      | RecCount n \<Rightarrow>
          Some (s\<lparr>q_dropped := q_dropped s + of_nat (n + length (q_chan s)), q_lock := RecClose\<rparr>)
      | RecClose \<Rightarrow>
          Some (if q_closed s then s\<lparr>q_lock := RecNotify\<rparr>
                else (close_chan (s\<lparr>q_closed := True\<rparr>))\<lparr>q_lock := RecNotify\<rparr>)
      | RecNotify \<Rightarrow>
          Some (s\<lparr>q_errCh := (if length (q_errCh s) < 1 then q_errCh s @ [the (q_err s)] else q_errCh s),
                  q_lock := Free, q_worker := WReturn\<rparr>)
      | _ \<Rightarrow> None)"

definition incident_run ::
  "(string \<Rightarrow> string) \<Rightarrow> IncidentRecord queue_params \<Rightarrow> incident_saver \<Rightarrow> IncidentQueue \<Rightarrow> IncidentQueue option" where
  "incident_run qt P saver s =
     (case q_worker s of
        WReceive \<Rightarrow>
          (case q_chan s of
             r # rs \<Rightarrow> Some (s\<lparr>q_chan := rs, q_worker := WSave [r]\<rparr>)
           | [] \<Rightarrow> if q_chanClosed s then Some (s\<lparr>q_worker := WReturn\<rparr>) else None)
      | WSave [r] \<Rightarrow>
          (case saveIncident P saver r of
             None \<Rightarrow> Some (s\<lparr>q_saved := q_saved s @ [r], q_worker := WPersisted [r]\<rparr>)
           | Some err \<Rightarrow> Some (s\<lparr>q_lost := [r], q_worker := WFailed 1 (describeIncidentError qt [r] err)\<rparr>))
      | WPersisted [r] \<Rightarrow> Some (s\<lparr>q_persisted := q_persisted s + 1, q_worker := WReceive\<rparr>)
      | WFailed n err \<Rightarrow>
          (if q_lock s = Free then Some (s\<lparr>q_lock := RecEntered n err, q_worker := WFailing\<rparr>) else None)
      | WReturn \<Rightarrow> Some ((close_done s)\<lparr>q_worker := WExit\<rparr>)
      | _ \<Rightarrow> None)"

section \<open>The machine\<close>

text \<open>The holder of the mutex and the worker move in any order, the saver answers anything.\<close>

inductive incident_step ::
  "(string \<Rightarrow> string) \<Rightarrow> IncidentRecord queue_params \<Rightarrow> IncidentQueue \<Rightarrow> IncidentQueue \<Rightarrow> bool" for qt P where
  call_Enqueue: "q_lock s = Free \<Longrightarrow> incident_step qt P s (s\<lparr>q_lock := EnqEntered r\<rparr>)"
| call_Close: "q_lock s = Free \<Longrightarrow> incident_step qt P s (s\<lparr>q_lock := CloseEntered\<rparr>)"
| enqueue: "incident_Enqueue P s = Some s' \<Longrightarrow> incident_step qt P s s'"
| close: "incident_Close s = Some s' \<Longrightarrow> incident_step qt P s s'"
| record_error: "incident_recordError s = Some s' \<Longrightarrow> incident_step qt P s s'"
| worker: "incident_run qt P saver s = Some s' \<Longrightarrow> incident_step qt P s s'"

inductive incident_reachable ::
  "(string \<Rightarrow> string) \<Rightarrow> IncidentRecord queue_params \<Rightarrow> IncidentQueue \<Rightarrow> bool" for qt P where
  start: "incident_reachable qt P new_queue"
| step: "incident_reachable qt P s \<Longrightarrow> incident_step qt P s s' \<Longrightarrow> incident_reachable qt P s'"

section \<open>It is the shared machine without batches\<close>

lemma incident_params [simp]:
  "qp_batching (incident_queue_params qt cfg) = False"
  "qp_describe (incident_queue_params qt cfg) = describeIncidentError qt"
  "qp_clone (incident_queue_params qt cfg) = cloneIncidentRecord"
  by (simp_all add: incident_queue_params_def)

lemma incident_Enqueue_shared:
  "incident_Enqueue (incident_queue_params qt cfg) s = Enqueue_step (incident_queue_params qt cfg) s"
  by (simp add: incident_Enqueue_def Enqueue_step_def try_send_def split: lock_phase.split)

lemma incident_Close_shared: "incident_Close s = Close_step s"
  by (simp add: incident_Close_def Close_step_def)

lemma incident_recordError_shared: "incident_recordError s = recordError_step s"
  by (simp add: incident_recordError_def recordError_step_def)

lemma shared_moves:
  "Enqueue_step P s = Some s' \<Longrightarrow> q_step P s s'" "Close_step s = Some s' \<Longrightarrow> q_step P s s'"
  "recordError_step s = Some s' \<Longrightarrow> q_step P s s'"
proof -
  have "holder_step P s = Some s' \<Longrightarrow> q_step P s s'" by (rule q_step.internal, rule q_internal.holder)
  then show "Enqueue_step P s = Some s' \<Longrightarrow> q_step P s s'" "Close_step s = Some s' \<Longrightarrow> q_step P s s'"
    "recordError_step s = Some s' \<Longrightarrow> q_step P s s'"
    by (cases "q_lock s"; simp add: holder_step_def Enqueue_step_def Close_step_def recordError_step_def)+
qed

text \<open>A record taken from the channel is a batch of one; every other move is a move of the worker.\<close>

lemma incident_run_shared:
  assumes "incident_run qt P saver s = Some s'" "P = incident_queue_params qt cfg" "reachable P s"
  shows "reachable P s'"
proof (cases "q_worker s = WReceive \<and> q_chan s \<noteq> []")
  case True
  then obtain r rs where c: "q_chan s = r # rs" by (cases "q_chan s") auto
  let ?t = "s\<lparr>q_chan := rs, q_worker := WCollect [r]\<rparr>"
  have "run_step P None s = Some ?t" using True c by (simp add: run_step_def)
  then have "reachable P ?t" by (meson assms(3) q_internal.worker q_step.internal reachable.step)
  moreover have "run_step P None ?t = Some s'"
    using assms(1,2) True c by (simp add: run_step_def collectBatch_step_def incident_run_def)
  ultimately show ?thesis by (meson q_internal.worker q_step.internal reachable.step)
next
  case False
  have "\<exists>outcome. run_step P outcome s = Some s'"
  proof (cases "q_worker s")
    case (WSave batch)
    with assms(1,2) have "run_step P (saveIncident P saver (hd batch)) s = Some s'"
      by (auto simp: run_step_def incident_run_def split: list.splits option.splits)
    then show ?thesis by blast
  qed (use assms(1,2) False in \<open>auto simp: run_step_def incident_run_def split: list.splits if_splits\<close>)
  then show ?thesis by (meson assms(3) q_internal.worker q_step.internal reachable.step)
qed

lemma incident_reachable_shared:
  "incident_reachable qt (incident_queue_params qt cfg) s \<Longrightarrow> reachable (incident_queue_params qt cfg) s"
proof (induction rule: incident_reachable.induct)
  case (step s s')
  from step.hyps(2) show ?case
  proof cases
    case (worker saver)
    with step.IH show ?thesis by (auto intro: incident_run_shared)
  qed (use step.IH in \<open>auto simp: incident_Enqueue_shared incident_Close_shared incident_recordError_shared
      intro: reachable.step shared_moves q_step.intros\<close>)
qed (rule reachable.start)

section \<open>Its contract\<close>

definition incident_contract :: "IncidentQueue \<Rightarrow> bool" where
  "incident_contract s \<longleftrightarrow>
     \<not> q_panicked s \<and> prefix (q_saved s) (accepted s) \<and>
     (q_lock s = Free \<and> q_worker s = WExit \<longrightarrow>
        q_received s = of_nat (length (q_returned s)) \<and> q_persisted s = of_nat (length (q_saved s)) \<and>
        q_received s = q_persisted s + q_dropped s \<and>
        (case q_err s of
           None \<Rightarrow> q_saved s = accepted s
         | Some err \<Rightarrow> q_errCh s = [err] \<and> length (q_lost s) = 1))"

text \<open>C15. The incident queue keeps the contract of the event queue with one record at a time, whatever the
  interleaving and the answers of the saver: no panic, the saved records are a prefix of the accepted
  ones, copied without change; at rest every received record is persisted or dropped, and an error
  means that exactly one record failed, was reported once, and the rest was counted as dropped.\<close>

theorem incident_queue_contract:
  assumes "incident_reachable qt (incident_queue_params qt cfg) s"
  shows "incident_contract s"
proof -
  note r = incident_reachable_shared [OF assms]
  have same: "map (qp_clone (incident_queue_params qt cfg)) xs = xs" for xs
    by (rule map_idI) (simp only: clone_record)
  have "batch_limit (incident_queue_params qt cfg) = 1"
    by (simp add: batch_limit_def incident_queue_params_def)
  with incident_queue.error_reported [OF r]
  have "q_worker s = WExit \<Longrightarrow> q_err s = Some err \<Longrightarrow> q_errCh s = [err] \<and> length (q_lost s) = 1" for err
    by (cases "q_lost s") auto
  with incident_queue.safe [OF r] incident_queue.in_order [OF r] incident_queue.complete [OF r]
    incident_queue.counted [OF r] show ?thesis
    unfolding same by (auto simp: incident_contract_def split: option.splits)
qed

text \<open>A schedule of the machine, to compute a run.\<close>

definition incident_move :: 
  "(string \<Rightarrow> string) \<Rightarrow> IncidentRecord queue_params \<Rightarrow> IncidentRecord move \<Rightarrow> IncidentQueue \<Rightarrow> IncidentQueue option" where
  "incident_move qt P m s =
     (case m of
        CallEnqueue r \<Rightarrow> if q_lock s = Free then Some (s\<lparr>q_lock := EnqEntered r\<rparr>) else None
      | CallClose \<Rightarrow> if q_lock s = Free then Some (s\<lparr>q_lock := CloseEntered\<rparr>) else None
      | Holder \<Rightarrow> (case incident_Enqueue P s of Some s' \<Rightarrow> Some s'
                  | None \<Rightarrow> (case incident_Close s of Some s' \<Rightarrow> Some s' | None \<Rightarrow> incident_recordError s))
      | Worker answer \<Rightarrow> incident_run qt P (\<lambda>_ _ _. answer) s)"

fun incident_exec ::
  "(string \<Rightarrow> string) \<Rightarrow> IncidentRecord queue_params \<Rightarrow> IncidentRecord move list \<Rightarrow> IncidentQueue \<Rightarrow> IncidentQueue option" where
  "incident_exec qt P [] s = Some s"
| "incident_exec qt P (m # ms) s = (case incident_move qt P m s of None \<Rightarrow> None | Some s' \<Rightarrow> incident_exec qt P ms s')"

lemma incident_exec_reachable:
  "incident_exec qt P ms s = Some s' \<Longrightarrow> incident_reachable qt P s \<Longrightarrow> incident_reachable qt P s'"
proof (induction ms arbitrary: s)
  case (Cons m ms)
  then obtain t where t: "incident_move qt P m s = Some t" "incident_exec qt P ms t = Some s'"
    by (auto split: option.splits)
  from t(1) have "incident_step qt P s t"
    by (auto simp: incident_move_def split: move.splits if_splits option.splits intro: incident_step.intros)
  with Cons.IH [OF t(2)] Cons.prems(2) show ?case by (blast intro: incident_reachable.step)
qed simp

definition sample_record :: IncidentRecord where
  "sample_record = \<lparr>ir_Incident = \<lparr>IncidentID = ''inc-e1'', StartTime = 1, EndTime = 2,
     inc_RootProcess = inferRoot zero_event, ProcessTree = [], inc_RiskScore = 30, inc_Signals = [],
     Timeline = [], Summary = [], LLMStatus = ''pending'', inc_DroppedEvents = 0\<rparr>, ir_Events = Some []\<rparr>"

abbreviation tiny_incidents :: "IncidentRecord queue_params" where
  "tiny_incidents \<equiv> incident_queue_params (\<lambda>s. s) tiny_config"

text \<open>A record is sent, its save fails, and the worker ends.\<close>

definition failed_incidents :: IncidentQueue where
  "failed_incidents = the (incident_exec (\<lambda>s. s) tiny_incidents
     [CallEnqueue sample_record, Holder, Holder, Holder, Worker None, Worker (Some ''disk''),
      Worker None, Holder, Holder, Holder, Holder, Worker None] new_queue)"

lemmas incident_eval = incident_move_def incident_Enqueue_def incident_Close_def incident_recordError_def
  incident_run_def saveIncident_def close_chan_def close_done_def incident_queue_params_def tiny_config_def
  new_queue_def describeIncidentError_def cloneIncidentRecord_def sample_record_def

lemma failed_incidents_eq:
  "incident_exec (\<lambda>s. s) tiny_incidents
     [CallEnqueue sample_record, Holder, Holder, Holder, Worker None, Worker (Some ''disk''),
      Worker None, Holder, Holder, Holder, Holder, Worker None] new_queue = Some failed_incidents"
  "q_lock failed_incidents = Free" "q_worker failed_incidents = WExit"
  "q_err failed_incidents = Some ''save incident inc-e1: disk''"
  by (simp_all add: failed_incidents_def incident_eval)

lemma incident_queue_contract_witness:
  "q_received failed_incidents = q_persisted failed_incidents + q_dropped failed_incidents \<and>
   q_errCh failed_incidents = [''save incident inc-e1: disk'']"
proof -
  note r = incident_exec_reachable [OF failed_incidents_eq(1) incident_reachable.start]
  from incident_queue_contract [OF r] failed_incidents_eq(2,3)
  have "q_received failed_incidents = q_persisted failed_incidents + q_dropped failed_incidents"
    "case q_err failed_incidents of None \<Rightarrow> q_saved failed_incidents = accepted failed_incidents
     | Some err \<Rightarrow> q_errCh failed_incidents = [err] \<and> length (q_lost failed_incidents) = 1"
    unfolding incident_contract_def by blast+
  then show ?thesis unfolding failed_incidents_eq(4) by (simp only: option.case)
qed

end
