(* ===== verification/Redact.thy ===== *)
theory Redact
  imports Compress "HOL-Library.List_Lexorder"
begin

text \<open>
  Redaction (\<open>internal/redact/redact.go\<close>): which keys are sensitive, how flags, assignments,
  header lines, URLs, command lines and metadata values are rewritten. \<open>url.Parse\<close> and
  \<open>(*URL).String\<close> are the argument \<open>L\<close>; the query syntax, which decides what is rewritten
  inside a URL, is modelled.
\<close>

section \<open>Sensitive keys\<close>

text \<open>
  The pattern has no anchors, so it matches when one of the words occurs in the key up to simple
  case folding; \<open>[_-]?\<close> gives three spellings.
\<close>

definition sensitive_words :: "string list" where
  "sensitive_words = [''authorization'', ''apikey'', ''api_key'', ''api-key'', ''accesskey'', ''access_key'',
     ''access-key'', ''token'', ''secret'', ''password'', ''passwd'', ''pwd'', ''session'', ''bearer'',
     ''cookie'', ''credential'', ''privatekey'', ''private_key'', ''private-key'']"

definition sensitiveKeyPattern :: "string \<Rightarrow> bool" where
  "sensitiveKeyPattern key = (let k = fold_case key in list_ex (\<lambda>w. Contains k w) sensitive_words)"

definition REDACTED :: string where
  "REDACTED = ''[REDACTED]''"

section \<open>URL queries\<close>

definition hex_digit :: "nat \<Rightarrow> char" where
  "hex_digit n = (if n < 10 then char_of (48 + n) else char_of (55 + n))"

definition unhex :: "char \<Rightarrow> nat option" where
  "unhex c =
     (if 48 \<le> byte c \<and> byte c \<le> 57 then Some (byte c - 48)
      else if 97 \<le> byte c \<and> byte c \<le> 102 then Some (byte c - 87)
      else if 65 \<le> byte c \<and> byte c \<le> 70 then Some (byte c - 55)
      else None)"

text \<open>\<open>url.QueryUnescape\<close>; \<open>None\<close> is its error.\<close>

fun QueryUnescape :: "string \<Rightarrow> string option" where
  "QueryUnescape [] = Some []"
| "QueryUnescape (c # s) =
     (if c = CHR ''%'' then
        (case s of
           a # b # r \<Rightarrow>
             (case (unhex a, unhex b) of
                (Some x, Some y) \<Rightarrow> map_option (\<lambda>t. char_of (16 * x + y) # t) (QueryUnescape r)
              | _ \<Rightarrow> None)
         | _ \<Rightarrow> None)
      else map_option (\<lambda>t. (if c = CHR ''+'' then CHR '' '' else c) # t) (QueryUnescape s))"

definition unreserved :: "char \<Rightarrow> bool" where
  "unreserved c \<longleftrightarrow>
     65 \<le> byte c \<and> byte c \<le> 90 \<or> 97 \<le> byte c \<and> byte c \<le> 122 \<or> 48 \<le> byte c \<and> byte c \<le> 57 \<or>
     c \<in> {CHR ''-'', CHR ''_'', CHR ''.'', CHR ''~''}"

definition escape_char :: "char \<Rightarrow> string" where
  "escape_char c =
     (if unreserved c then [c]
      else if c = CHR '' '' then ''+''
      else [CHR ''%'', hex_digit (byte c div 16), hex_digit (byte c mod 16)])"

definition QueryEscape :: "string \<Rightarrow> string" where
  "QueryEscape s = concat (map escape_char s)"

text \<open>
  \<open>url.Values\<close> in the order its keys first occur. A pair with a semicolon or an escape error is
  skipped, as \<open>Query\<close> does by ignoring the error.
\<close>

type_synonym url_values = "(string \<times> string list) list"

fun add_value :: "string \<Rightarrow> string \<Rightarrow> url_values \<Rightarrow> url_values" where
  "add_value k v [] = [(k, [v])]"
| "add_value k v ((k', vs) # q) = (if k = k' then (k', vs @ [v]) # q else (k', vs) # add_value k v q)"

definition parse_pair :: "url_values \<Rightarrow> string \<Rightarrow> url_values" where
  "parse_pair q part =
     (if CHR '';'' \<in> set part \<or> part = [] then q
      else case Cut CHR ''='' part of
        (k, v, _) \<Rightarrow>
          (case (QueryUnescape k, QueryUnescape v) of
             (Some k', Some v') \<Rightarrow> add_value k' v' q
           | _ \<Rightarrow> q))"

definition ParseQuery :: "string \<Rightarrow> url_values" where
  "ParseQuery raw = foldl parse_pair [] (Split CHR ''&'' raw)"

definition key_order :: "string \<Rightarrow> nat list" where
  "key_order k = map (\<lambda>c. byte c) k"

definition Encode :: "url_values \<Rightarrow> string" where
  "Encode q =
     Join ''&'' (concat (map (\<lambda>(k, vs). map (\<lambda>v. QueryEscape k @ ''='' @ QueryEscape v) vs)
       (sort_key (\<lambda>(k, vs). key_order k) q)))"

section \<open>URLs\<close>

record url =
  u_Scheme :: string
  u_User :: "(string \<times> string option) option"
  u_Host :: string
  u_Path :: string
  u_RawQuery :: string
  u_Fragment :: string
  u_Opaque :: string
  u_RawPath :: string
  u_RawFragment :: string
  u_ForceQuery :: bool
  u_OmitHost :: bool

record url_lib =
  url_Parse :: "string \<Rightarrow> url option"
  url_String :: "url \<Rightarrow> string"

definition redact_query :: "url_values \<Rightarrow> url_values" where
  "redact_query q = map (\<lambda>(k, vs). if sensitiveKeyPattern k then (k, [REDACTED]) else (k, vs)) q"

definition redactURL :: "url_lib \<Rightarrow> string \<Rightarrow> string option" where
  "redactURL L value =
     (case url_Parse L value of
        None \<Rightarrow> None
      | Some parsed \<Rightarrow>
          if u_Scheme parsed = [] \<or> u_Host parsed = [] then None
          else
            let hasUser = u_User parsed \<noteq> None;
                p1 = (if hasUser then parsed\<lparr>u_User := Some (REDACTED, Some REDACTED)\<rparr> else parsed);
                query = ParseQuery (u_RawQuery p1);
                changed = hasUser \<or> list_ex (\<lambda>(k, vs). sensitiveKeyPattern k) query
            in if \<not> changed then None
               else
                 let p2 = (if u_RawQuery p1 \<noteq> []
                           then p1\<lparr>u_RawQuery := Encode (redact_query query)\<rparr> else p1)
                 in Some (url_String L p2))"

section \<open>Flags and arguments\<close>

definition requiresSensitiveValueRedaction :: "string \<Rightarrow> bool" where
  "requiresSensitiveValueRedaction value \<longleftrightarrow> ToLower value \<in>
     {''--token'', ''--password'', ''--passwd'', ''--pwd'', ''--secret'', ''--api-key'', ''--apikey''}"

definition isUserFlag :: "string \<Rightarrow> bool" where
  "isUserFlag value \<longleftrightarrow> EqualFold value ''-u'' \<or> EqualFold value ''--user''"

definition isHeaderFlag :: "string \<Rightarrow> bool" where
  "isHeaderFlag value \<longleftrightarrow> EqualFold value ''-H'' \<or> EqualFold value ''--header''"

definition before_equals :: "string \<Rightarrow> string" where
  "before_equals value = (case Cut CHR ''='' value of (k, _, _) \<Rightarrow> k)"

definition argument_prefixes :: "string list" where
  "argument_prefixes = [''--token='', ''--password='', ''--passwd='', ''--pwd='', ''--secret='', ''--api-key='',
     ''--apikey='', ''--access-key='', ''--access_key='', ''--cookie='', ''--credential='',
     ''--private-key='', ''--private_key='', ''token='', ''password='', ''passwd='', ''pwd='', ''secret='',
     ''api_key='', ''apikey='', ''access_key='', ''access-key='', ''cookie='', ''credential='',
     ''private_key='', ''private-key='']"

text \<open>The result \<open>None\<close> is \<open>ok = false\<close>; the caller then leaves the field as it is.\<close>

definition redactArgument :: "url_lib \<Rightarrow> string \<Rightarrow> string option" where
  "redactArgument L value =
     (let lower = ToLower value in
      if lower = ''-h'' \<or> lower = ''--header'' then None
      else if list_ex (\<lambda>p. HasPrefix lower p) argument_prefixes
      then Some (before_equals value @ ''='' @ REDACTED)
      else if EqualFold value ''-u'' \<or> EqualFold value ''--user'' then None
      else if EqualFold value ''-H'' \<or> EqualFold value ''--header'' then None
      else if Contains value ''://'' then redactURL L value
      else if Contains value ''='' \<and> sensitiveKeyPattern (before_equals value)
      then Some (before_equals value @ ''='' @ REDACTED)
      else None)"

text \<open>The loop over the fields; \<open>prev\<close> is the field before, as already rewritten.\<close>

fun redact_fields :: "url_lib \<Rightarrow> string option \<Rightarrow> string list \<Rightarrow> string list \<times> bool" where
  "redact_fields L prev [] = ([], False)"
| "redact_fields L prev (w # ws) =
     (let hit = (case prev of
                   None \<Rightarrow> False
                 | Some p \<Rightarrow> requiresSensitiveValueRedaction p \<or> isUserFlag p);
          r = (if hit then Some REDACTED else redactArgument L w);
          w' = (case r of Some x \<Rightarrow> x | None \<Rightarrow> w)
      in case redact_fields L (Some w') ws of
           (rest, changed) \<Rightarrow> (w' # rest, r \<noteq> None \<or> changed))"

definition redactFlag :: "url_lib \<Rightarrow> string \<Rightarrow> string" where
  "redactFlag L value =
     (let lower = ToLower value in
      if Contains lower ''authorization:'' \<or> Contains lower ''bearer '' \<or>
         Contains lower ''set-cookie:'' \<or> Contains lower ''private key-----''
      then REDACTED
      else case Cut CHR '':'' value of
        (key, _, found) \<Rightarrow>
          if found \<and> \<not> (CHR '' '' \<in> set key \<or> CHR 0x09 \<in> set key) \<and> sensitiveKeyPattern key
          then REDACTED
          else
            (case redact_fields L None (Fields value) of
               (ws, redacted) \<Rightarrow>
                 if Fields value = [] then value
                 else if \<not> redacted then value
                 else Join '' '' ws))"

definition redactAssignment :: "string \<Rightarrow> string" where
  "redactAssignment value =
     (case Cut CHR ''='' value of
        (key, _, found) \<Rightarrow>
          if found \<and> sensitiveKeyPattern key then key @ ''='' @ REDACTED else value)"

definition RedactString :: "url_lib \<Rightarrow> string \<Rightarrow> string" where
  "RedactString L value =
     (if value = [] then value
      else case redactURL L value of
        Some redacted \<Rightarrow> redacted
      | None \<Rightarrow>
          if redactFlag L value \<noteq> value then redactFlag L value
          else if redactAssignment value \<noteq> value then redactAssignment value
          else value)"

section \<open>Lists, values and maps\<close>

definition RedactStrings :: "url_lib \<Rightarrow> string list \<Rightarrow> string list" where
  "RedactStrings L values = map (RedactString L) values"

text \<open>The second loop of \<open>RedactCommandLine\<close>, from index \<open>i\<close> on.\<close>

fun redact_split :: "url_lib \<Rightarrow> string list \<Rightarrow> string list \<Rightarrow> nat \<Rightarrow> string list" where
  "redact_split L (value # next # rest) redacted i =
     redact_split L (next # rest)
       (if requiresSensitiveValueRedaction value \<or> isUserFlag value then redacted[i + 1 := REDACTED]
        else if isHeaderFlag value then redacted[i + 1 := RedactString L next]
        else redacted) (i + 1)"
| "redact_split L _ redacted i = redacted"

definition RedactCommandLine :: "url_lib \<Rightarrow> string list \<Rightarrow> string list" where
  "RedactCommandLine L values = redact_split L values (RedactStrings L values) 0"

fun RedactValue :: "url_lib \<Rightarrow> any_value \<Rightarrow> any_value" where
  "RedactValue L (VString s) = VString (RedactString L s)"
| "RedactValue L (VStrings ss) = VStrings (RedactStrings L ss)"
| "RedactValue L (VList vs) = VList (map (RedactValue L) vs)"
| "RedactValue L (VMap kvs) =
     VMap (map (\<lambda>(k, v). (k, if sensitiveKeyPattern k then VString REDACTED else RedactValue L v)) kvs)"
| "RedactValue L v = v"

definition RedactMap :: "url_lib \<Rightarrow> metadata \<Rightarrow> metadata" where
  "RedactMap L values =
     map_option (map (\<lambda>(k, v). (k, if sensitiveKeyPattern k then VString REDACTED else RedactValue L v))) values"

section \<open>Events and incidents\<close>

definition redact_Event :: "url_lib \<Rightarrow> event \<Rightarrow> event" where
  "redact_Event L e =
     e\<lparr>CommandLine := RedactCommandLine L (CommandLine e),
       ExecutablePath := RedactString L (ExecutablePath e),
       ProcessName := RedactString L (ProcessName e),
       ParentProcessName := RedactString L (ParentProcessName e),
       CWD := RedactString L (CWD e),
       FilePath := RedactString L (FilePath e),
       RemoteAddr := RedactString L (RemoteAddr e),
       Metadata := RedactMap L (Metadata e)\<rparr>"

definition redact_Incident :: "url_lib \<Rightarrow> Incident \<Rightarrow> Incident" where
  "redact_Incident L inc =
     inc\<lparr>IncidentID := RedactString L (IncidentID inc),
         inc_RootProcess := (inc_RootProcess inc)
           \<lparr>rp_ProcessName := RedactString L (rp_ProcessName (inc_RootProcess inc)),
            rp_ExecutablePath := RedactString L (rp_ExecutablePath (inc_RootProcess inc))\<rparr>,
         ProcessTree := RedactStrings L (ProcessTree inc),
         Timeline := RedactStrings L (Timeline inc),
         Summary := RedactString L (Summary inc)\<rparr>"

text \<open>\<open>filepath.Dir\<close>, and the path form of redaction.\<close>

definition path_Dir :: "string \<Rightarrow> string" where
  "path_Dir p = Clean (rev (dropWhile (\<lambda>c. c \<noteq> CHR ''/'') (rev p)))"

definition CleanFilePath :: "string \<Rightarrow> string" where
  "CleanFilePath path =
     (if path = [] then path
      else if Contains (ToLower path) ''secret'' \<or> Contains (ToLower path) ''token'' \<or>
        Contains (ToLower path) ''password''
      then path_Join [path_Dir path, REDACTED, Base path]
      else path)"

end
