(* ===== verification/Redact_Laws.thy ===== *)
theory Redact_Laws
  imports Redact
begin

text \<open>
  What redaction guarantees: no sensitive key keeps its value at any depth of the metadata, command
  lines are rewritten argument by argument, sensitive assignments and headers do not survive, and
  the query of a URL is rewritten without touching the other parameters.
\<close>

section \<open>Metadata\<close>

fun scrubbed :: "any_value \<Rightarrow> bool" where
  "scrubbed (VList vs) = list_all scrubbed vs"
| "scrubbed (VMap kvs) =
     list_all (\<lambda>(k, v). scrubbed v \<and> (sensitiveKeyPattern k \<longrightarrow> v = VString REDACTED)) kvs"
| "scrubbed v = True"

text \<open>The same keys and lengths, and the same values that are neither text nor containers.\<close>

fun same_shape :: "any_value \<Rightarrow> any_value \<Rightarrow> bool" where
  "same_shape (VString s) w = (case w of VString _ \<Rightarrow> True | _ \<Rightarrow> False)"
| "same_shape (VStrings ss) w = (case w of VStrings ts \<Rightarrow> length ss = length ts | _ \<Rightarrow> False)"
| "same_shape (VList vs) w = (case w of VList ws \<Rightarrow> list_all2 same_shape vs ws | _ \<Rightarrow> False)"
| "same_shape (VMap kvs) w =
     (case w of VMap kws \<Rightarrow> list_all2 (\<lambda>(k, v) (k', v'). k = k' \<and> (sensitiveKeyPattern k \<or> same_shape v v')) kvs kws
      | _ \<Rightarrow> False)"
| "same_shape v w = (v = w)"

lemma scrubbed_RedactValue: "scrubbed (RedactValue L v)"
  by (induction L v rule: RedactValue.induct) (auto simp: list_all_iff)

lemma same_shape_RedactValue: "same_shape v (RedactValue L v)"
  by (induction L v rule: RedactValue.induct)
    (auto simp: RedactStrings_def list_all2_conv_all_nth split: prod.splits, metis nth_mem)

text \<open>C22. After redaction no sensitive key keeps its value, at any depth of nested maps and lists of
  the metadata; and redaction changes nothing else than text: keys, lengths, numbers and booleans
  stay.\<close>

theorem metadata_scrubbed:
  "scrubbed (VMap (case RedactMap L m of None \<Rightarrow> [] | Some kvs \<Rightarrow> kvs)) \<and>
   (RedactMap L m = None) = (m = None) \<and>
   same_shape (VMap (case m of None \<Rightarrow> [] | Some kvs \<Rightarrow> kvs))
     (VMap (case RedactMap L m of None \<Rightarrow> [] | Some kvs \<Rightarrow> kvs))"
proof (cases m)
  case None
  then show ?thesis by (simp add: RedactMap_def)
next
  case (Some kvs)
  then have "VMap (case RedactMap L m of None \<Rightarrow> [] | Some kvs \<Rightarrow> kvs) = RedactValue L (VMap kvs)"
    by (simp add: RedactMap_def)
  with scrubbed_RedactValue [of L "VMap kvs"] same_shape_RedactValue [of "VMap kvs" L] Some show ?thesis
    by (simp only:) (simp add: RedactMap_def)
qed

section \<open>Command lines\<close>

lemma redact_split_length: "length (redact_split L vs red i) = length red"
  by (induction L vs red i rule: redact_split.induct) auto

definition masks_next :: "string \<Rightarrow> bool" where
  "masks_next value \<longleftrightarrow> requiresSensitiveValueRedaction value \<or> isUserFlag value"

lemma redact_split_nth:
  assumes "length red = i + length vs" "j < length red"
    "\<forall>k<length vs. 0 < k \<longrightarrow> red ! (i + k) = RedactString L (vs ! k)"
  shows "redact_split L vs red i ! j =
    (if i < j \<and> masks_next (vs ! (j - i - 1)) then REDACTED
     else if i < j then RedactString L (vs ! (j - i)) else red ! j)"
  using assms
proof (induction L vs red i rule: redact_split.induct)
  case (1 L v nxt rest red i)
  define red' where "red' = (if requiresSensitiveValueRedaction v \<or> isUserFlag v then red[i + 1 := REDACTED]
        else if isHeaderFlag v then red[i + 1 := RedactString L nxt] else red)"
  have step: "redact_split L (v # nxt # rest) red i = redact_split L (nxt # rest) red' (i + 1)"
    by (simp add: red'_def)
  have len: "length red' = i + 1 + length (nxt # rest)" using "1.prems"(1) by (simp add: red'_def)
  have below: "red' ! k = red ! k" if "k \<le> i" for k using that by (simp add: red'_def)
  have above: "red' ! (i + 1 + k) = red ! (i + 1 + k)" if "0 < k" for k using that by (simp add: red'_def)
  have after: "\<forall>k<length (nxt # rest). 0 < k \<longrightarrow> red' ! (i + 1 + k) = RedactString L ((nxt # rest) ! k)"
  proof (intro allI impI)
    fix k assume k: "k < length (nxt # rest)" "0 < k"
    with "1.prems"(3) have "red ! (i + Suc k) = RedactString L ((v # nxt # rest) ! Suc k)"
      by (metis length_Cons not_less_eq zero_less_Suc)
    with above [OF k(2)] show "red' ! (i + 1 + k) = RedactString L ((nxt # rest) ! k)" by simp
  qed
  have "red ! (i + 1) = RedactString L ((v # nxt # rest) ! 1)"
    using "1.prems"(3) by (metis length_Cons less_one not_less_eq zero_less_Suc)
  with "1.prems"(1) have first: "red' ! (i + 1) = (if masks_next v then REDACTED else RedactString L nxt)"
    by (auto simp: masks_next_def red'_def)
  have "j < length red'" using "1.prems"(2) by (simp add: red'_def)
  note IH = "1.IH" [folded red'_def, OF len this after]
  consider "j \<le> i" | "j = i + 1" | "i + 1 < j" by linarith
  then show ?case
  proof cases
    case 1
    with below IH show ?thesis unfolding step by simp
  next
    case 2
    with IH first show ?thesis unfolding step by simp
  next
    case 3
    then have m: "j = i + 2 + (j - i - 2)" by simp
    from 3 IH have "redact_split L (nxt # rest) red' (i + 1) ! j =
        (if masks_next ((nxt # rest) ! (j - i - 2)) then REDACTED else RedactString L ((nxt # rest) ! (j - i - 1)))"
      by simp
    moreover have "j - i = Suc (j - i - 1)" "j - i - 1 = Suc (j - i - 2)" using 3 by simp_all
    ultimately show ?thesis unfolding step using 3 by (metis add_lessD1 nth_Cons_Suc)
  qed
qed (auto simp: less_Suc_eq)

text \<open>A command line keeps its length, and each argument is rewritten on its own: the argument
  after a flag that takes a secret or a user is masked, every other one is redacted as a string.\<close>

theorem command_line_argumentwise:
  "length (RedactCommandLine L values) = length values \<and>
   RedactCommandLine L values =
     map (\<lambda>i. if 0 < i \<and> masks_next (values ! (i - 1)) then REDACTED else RedactString L (values ! i))
       [0..<length values]"
proof -
  have len: "length (RedactCommandLine L values) = length values"
    by (simp add: RedactCommandLine_def redact_split_length RedactStrings_def)
  have "RedactCommandLine L values ! j =
      (if 0 < j \<and> masks_next (values ! (j - 1)) then REDACTED else RedactString L (values ! j))"
    if "j < length values" for j
    using redact_split_nth [of "RedactStrings L values" 0 "values" j L] that
    by (cases "j = 0") (simp_all add: RedactCommandLine_def RedactStrings_def)
  with len show ?thesis by (auto intro: nth_equalityI)
qed

section \<open>Assignments and headers\<close>

lemma Cut_append: "sep \<notin> set a \<Longrightarrow> Cut sep (a @ sep # b) = (a, b, True)"
  by (induction a) auto

lemma argument_of_assignment:
  assumes "CHR ''='' \<notin> set k" "redactURL L (k @ ''='' @ v) = None"
  shows "redactArgument L (k @ ''='' @ v) \<in> {None, Some (k @ ''='' @ REDACTED)}"
proof -
  have "before_equals (k @ ''='' @ v) = k" using Cut_append [OF assms(1)] by (simp add: before_equals_def)
  with assms(2) show ?thesis unfolding redactArgument_def Let_def by simp
qed

lemma flag_of_assignment:
  assumes "CHR ''='' \<notin> set k" "redactURL L (k @ ''='' @ v) = None"
    "Fields (k @ ''='' @ v) = [k @ ''='' @ v]"
  shows "redactFlag L (k @ ''='' @ v) \<in> {REDACTED, k @ ''='' @ v, k @ ''='' @ REDACTED}"
  using argument_of_assignment [OF assms(1,2)] assms(3)
  by (auto simp: redactFlag_def Let_def split: prod.splits option.splits if_splits)

text \<open>The value of a sensitive assignment does not survive: a word \<open>key=value\<close> whose key is
  sensitive becomes either the mask or the key with the mask, whatever the value is.\<close>

theorem assignment_masked:
  assumes "sensitiveKeyPattern k" "CHR ''='' \<notin> set k" "redactURL L (k @ ''='' @ v) = None"
    "Fields (k @ ''='' @ v) = [k @ ''='' @ v]"
  shows "RedactString L (k @ ''='' @ v) \<in> {REDACTED, k @ ''='' @ REDACTED}"
proof -
  have "redactAssignment (k @ ''='' @ v) = k @ ''='' @ REDACTED"
    using assms(1) Cut_append [OF assms(2)] by (simp add: redactAssignment_def)
  with flag_of_assignment [OF assms(2,3,4)] assms(3) show ?thesis
    by (auto simp: RedactString_def)
qed

definition no_urls :: url_lib where
  "no_urls = \<lparr>url_Parse = (\<lambda>_. None), url_String = (\<lambda>_. [])\<rparr>"

text \<open>A header line with a sensitive name is masked whole: what follows the colon does not
  survive, whatever it is.\<close>

theorem header_masked:
  assumes "sensitiveKeyPattern k" "CHR '':'' \<notin> set k" "CHR '' '' \<notin> set k" "CHR 0x09 \<notin> set k"
    "redactURL L (k @ '':'' @ v) = None"
  shows "RedactString L (k @ '':'' @ v) = REDACTED"
proof -
  have "redactFlag L (k @ '':'' @ v) = REDACTED"
    using assms(1,3,4) Cut_append [OF assms(2)] by (auto simp: redactFlag_def Let_def)
  moreover have "REDACTED \<noteq> k @ '':'' @ v"
  proof
    assume "REDACTED = k @ '':'' @ v"
    from arg_cong [OF this, of set] have "CHR '':'' \<in> set REDACTED" by simp
    then show False by (simp add: REDACTED_def)
  qed
  ultimately show ?thesis using assms(5) by (simp add: RedactString_def)
qed

section \<open>The query of a URL\<close>

lemma byte_char: "n < 256 \<Longrightarrow> byte (char_of n :: char) = n"
  by simp

lemma unhex_hex: "n < 16 \<Longrightarrow> unhex (hex_digit n) = Some n"
  by (auto simp: unhex_def hex_digit_def)

lemma byte_less: "byte c < 256"
  by (metis of_char_mod_256 mod_less_divisor zero_less_numeral)

lemma nibbles: "byte c div 16 < 16" "byte c mod 16 < 16"
  using byte_less [of c] by (simp_all add: less_mult_imp_div_less)

lemma hex_not_special:
  "n < 16 \<Longrightarrow> hex_digit n \<notin> {CHR ''&'', CHR ''='', CHR '';'', CHR ''%'', CHR ''+''}"
proof -
  assume "n < 16"
  then have "48 \<le> byte (hex_digit n) \<and> byte (hex_digit n) \<noteq> 59 \<and> byte (hex_digit n) \<noteq> 61"
    by (auto simp: hex_digit_def)
  then show ?thesis by auto
qed

lemma unreserved_not_special: "unreserved c \<Longrightarrow> c \<notin> {CHR ''&'', CHR ''='', CHR '';'', CHR ''%'', CHR ''+''}"
  by (auto simp: unreserved_def)

lemma escape_unescape: "QueryUnescape (escape_char c @ s) = map_option (\<lambda>t. c # t) (QueryUnescape s)"
proof (cases "unreserved c \<or> c = CHR '' ''")
  case True
  then show ?thesis using unreserved_not_special [of c] by (auto simp: escape_char_def)
next
  case False
  have "16 * (byte c div 16) + byte c mod 16 = byte c" by simp
  with False nibbles [of c] show ?thesis by (simp add: escape_char_def unhex_hex)
qed

lemma QueryUnescape_Escape: "QueryUnescape (QueryEscape s) = Some s"
proof (induction s)
  case (Cons c s)
  then show ?case using escape_unescape [of c "QueryEscape s"] by (simp add: QueryEscape_def)
qed (simp add: QueryEscape_def)

lemma escape_char_clean: "x \<in> set (escape_char c) \<Longrightarrow> x \<notin> {CHR ''&'', CHR ''='', CHR '';''}"
  using hex_not_special [OF nibbles(1) [of c]] hex_not_special [OF nibbles(2) [of c]]
    unreserved_not_special [of c]
  by (auto simp: escape_char_def split: if_splits)

lemma QueryEscape_clean: "x \<in> {CHR ''&'', CHR ''='', CHR '';''} \<Longrightarrow> x \<notin> set (QueryEscape s)"
  using escape_char_clean by (fastforce simp: QueryEscape_def)

text \<open>Values as \<open>url.Values\<close> has them: distinct keys, each with at least one value.\<close>

definition values_ok :: "url_values \<Rightarrow> bool" where
  "values_ok q \<longleftrightarrow> distinct (map fst q) \<and> (\<forall>(k, vs)\<in>set q. vs \<noteq> [])"

lemma values_ok_Nil: "values_ok []"
  by (simp add: values_ok_def)

lemma values_ok_Cons:
  "values_ok ((k, vs) # q) \<longleftrightarrow> values_ok q \<and> vs \<noteq> [] \<and> k \<notin> fst ` set q"
  by (auto simp: values_ok_def)

lemma add_value_keys: "fst ` set (add_value k v q) = insert k (fst ` set q)"
  by (induction k v q rule: add_value.induct) auto

lemma add_value_ok: "values_ok q \<Longrightarrow> values_ok (add_value k v q)"
  by (induction k v q rule: add_value.induct) (auto simp: values_ok_Cons values_ok_Nil add_value_keys)

lemma parse_pair_ok: "values_ok q \<Longrightarrow> values_ok (parse_pair q part)"
  by (auto simp: parse_pair_def add_value_ok split: prod.splits option.splits)

lemma ParseQuery_ok: "values_ok (ParseQuery raw)"
  unfolding ParseQuery_def
  by (rule list_all_foldl_invariant) (auto intro: parse_pair_ok values_ok_Nil)

text \<open>Reading back what \<open>Encode\<close> wrote.\<close>

definition encode_pair :: "string \<Rightarrow> string \<Rightarrow> string" where
  "encode_pair k v = QueryEscape k @ ''='' @ QueryEscape v"

lemma encode_pair_clean: "CHR ''&'' \<notin> set (encode_pair k v)"
  using QueryEscape_clean [of "CHR ''&''"] by (auto simp: encode_pair_def)

lemma parse_encoded_pair: "parse_pair q (encode_pair k v) = add_value k v q"
proof -
  have "CHR '';'' \<notin> set (encode_pair k v)"
    using QueryEscape_clean [of "CHR '';''"] by (auto simp: encode_pair_def)
  moreover have "Cut CHR ''='' (encode_pair k v) = (QueryEscape k, QueryEscape v, True)"
    using Cut_append [of "CHR ''=''" "QueryEscape k"] QueryEscape_clean [of "CHR ''=''"]
    by (simp add: encode_pair_def)
  moreover have "encode_pair k v \<noteq> []" by (simp add: encode_pair_def)
  ultimately show ?thesis by (simp add: parse_pair_def QueryUnescape_Escape)
qed

lemma add_value_new: "k \<notin> fst ` set q \<Longrightarrow> add_value k v q = q @ [(k, [v])]"
  by (induction k v q rule: add_value.induct) auto

lemma add_value_last: "k \<notin> fst ` set q \<Longrightarrow> add_value k v (q @ [(k, vs)]) = q @ [(k, vs @ [v])]"
  by (induction k v q rule: add_value.induct) auto

lemma add_values_last:
  "k \<notin> fst ` set q \<Longrightarrow> foldl (\<lambda>q v. add_value k v q) (q @ [(k, vs)]) ws = q @ [(k, vs @ ws)]"
  by (induction ws arbitrary: vs) (simp_all add: add_value_last)

lemma add_values_new:
  "k \<notin> fst ` set q \<Longrightarrow> vs \<noteq> [] \<Longrightarrow> foldl (\<lambda>q v. add_value k v q) q vs = q @ [(k, vs)]"
  by (cases vs) (simp_all add: add_value_new add_values_last)

lemma foldl_map_pairs:
  "foldl parse_pair q (map (encode_pair k) vs) = foldl (\<lambda>q v. add_value k v q) q vs"
  by (induction vs arbitrary: q) (simp_all add: parse_encoded_pair)

lemma foldl_encoded:
  "values_ok (p @ q) \<Longrightarrow> foldl parse_pair p (concat (map (\<lambda>(k, vs). map (encode_pair k) vs) q)) = p @ q"
proof (induction q arbitrary: p)
  case (Cons kvs q)
  obtain k vs where kvs: "kvs = (k, vs)" by fastforce
  from Cons.prems kvs have "k \<notin> fst ` set p" "vs \<noteq> []" "values_ok ((p @ [(k, vs)]) @ q)"
    by (auto simp: values_ok_def)
  with Cons.IH show ?case by (simp add: kvs foldl_map_pairs add_values_new)
qed simp

lemma values_ok_mset: "mset p = mset q \<Longrightarrow> values_ok p = values_ok q"
  unfolding values_ok_def by (metis mset_eq_imp_distinct_iff mset_map set_mset_mset)

lemma ParseQuery_Encode:
  assumes "values_ok q"
  shows "ParseQuery (Encode q) = sort_key (\<lambda>(k, vs). key_order k) q"
proof -
  let ?s = "sort_key (\<lambda>(k, vs). key_order k) q"
  let ?parts = "concat (map (\<lambda>(k, vs). map (encode_pair k) vs) ?s)"
  have ok: "values_ok ?s" using assms values_ok_mset [of ?s q] by simp
  have "(\<lambda>(k, vs). map (\<lambda>v. QueryEscape k @ ''='' @ QueryEscape v) vs) = (\<lambda>(k, vs). map (encode_pair k) vs)"
    by (auto simp: encode_pair_def fun_eq_iff)
  then have enc: "Encode q = Join ''&'' ?parts" by (simp add: Encode_def)
  show ?thesis
  proof (cases "?s = []")
    case True
    then show ?thesis by (simp add: enc ParseQuery_def parse_pair_def)
  next
    case False
    then obtain k vs r where "?s = (k, vs) # r" by (cases ?s) auto
    with ok have ne: "?parts \<noteq> []" by (auto simp: values_ok_Cons)
    have "\<forall>w\<in>set ?parts. CHR ''&'' \<notin> set w" using encode_pair_clean by auto
    from Split_Join [OF ne this] foldl_encoded [of "[]" ?s] ok show ?thesis
      by (simp add: ParseQuery_def enc)
  qed
qed

lemma redact_query_ok: "values_ok q \<Longrightarrow> values_ok (redact_query q)"
proof -
  have "map fst (redact_query q) = map fst q" by (induction q) (auto simp: redact_query_def)
  moreover have "\<forall>(k, vs)\<in>set q. vs \<noteq> [] \<Longrightarrow> \<forall>(k, vs)\<in>set (redact_query q). vs \<noteq> []"
    by (auto simp: redact_query_def split: if_splits)
  ultimately show "values_ok q \<Longrightarrow> values_ok (redact_query q)" by (simp add: values_ok_def)
qed

lemma map_of_redact: "map_of (redact_query q) k =
    map_option (\<lambda>vs. if sensitiveKeyPattern k then [REDACTED] else vs) (map_of q k)"
  by (induction q) (auto simp: redact_query_def)


section \<open>A flag whose split form is not covered\<close>

text \<open>
  The value of \<open>--access-key\<close> is masked after an equals sign and kept as a separate argument,
  because the list of flags that mask the next argument is shorter than the list of prefixes.
\<close>

lemma split_access_key_kept:
  "RedactCommandLine no_urls [''aws'', ''--access-key'', ''AKIA''] = [''aws'', ''--access-key'', ''AKIA'']"
  "RedactCommandLine no_urls [''aws'', ''--access-key=AKIA''] = [''aws'', ''--access-key=[REDACTED]'']"
  by code_simp+

end
