(* ===== verification/Utf8.thy ===== *)
theory Utf8
  imports GoLib
begin

text \<open>
  UTF-8 as Go reads and writes it: decoding a byte string into runes, where a byte that starts no
  valid sequence is the rune U+FFFD of width one, encoding, \<open>strings.Map\<close>, and
  \<open>unicode.IsControl\<close>.
\<close>

abbreviation RuneError :: nat where
  "RuneError \<equiv> 0xFFFD"

definition cont :: "nat \<Rightarrow> bool" where
  "cont b \<longleftrightarrow> 0x80 \<le> b \<and> b \<le> 0xBF"

text \<open>The first rune of a non-empty list of bytes and its width.\<close>

definition decode_first :: "nat list \<Rightarrow> nat \<times> nat" where
  "decode_first bs =
     (case bs of
        b0 # r \<Rightarrow>
          if b0 < 0x80 then (b0, 1)
          else if 0xC2 \<le> b0 \<and> b0 \<le> 0xDF then
            (case r of b1 # _ \<Rightarrow> if cont b1 then ((b0 - 0xC0) * 64 + (b1 - 0x80), 2) else (RuneError, 1)
             | [] \<Rightarrow> (RuneError, 1))
          else if 0xE0 \<le> b0 \<and> b0 \<le> 0xEF then
            (case r of
               b1 # b2 # _ \<Rightarrow>
                 if cont b1 \<and> cont b2 \<and> (b0 = 0xE0 \<longrightarrow> 0xA0 \<le> b1) \<and> (b0 = 0xED \<longrightarrow> b1 \<le> 0x9F)
                 then ((b0 - 0xE0) * 4096 + (b1 - 0x80) * 64 + (b2 - 0x80), 3) else (RuneError, 1)
             | _ \<Rightarrow> (RuneError, 1))
          else if 0xF0 \<le> b0 \<and> b0 \<le> 0xF4 then
            (case r of
               b1 # b2 # b3 # _ \<Rightarrow>
                 if cont b1 \<and> cont b2 \<and> cont b3 \<and> (b0 = 0xF0 \<longrightarrow> 0x90 \<le> b1) \<and> (b0 = 0xF4 \<longrightarrow> b1 \<le> 0x8F)
                 then ((b0 - 0xF0) * 262144 + (b1 - 0x80) * 4096 + (b2 - 0x80) * 64 + (b3 - 0x80), 4)
                 else (RuneError, 1)
             | _ \<Rightarrow> (RuneError, 1))
          else (RuneError, 1)
      | [] \<Rightarrow> (RuneError, 1))"

lemma decode_first_width: "0 < snd (decode_first bs)"
  by (simp add: decode_first_def split: list.splits)

function decode_bytes :: "nat list \<Rightarrow> nat list" where
  "decode_bytes bs =
     (if bs = [] then [] else fst (decode_first bs) # decode_bytes (drop (snd (decode_first bs)) bs))"
  by pat_completeness auto
termination
  by (relation "measure length") (auto simp: decode_first_width)

declare decode_bytes.simps [simp del]

definition runes :: "string \<Rightarrow> nat list" where
  "runes s = decode_bytes (map (\<lambda>c. byte c) s)"

definition encode_bytes :: "nat \<Rightarrow> nat list" where
  "encode_bytes r =
     (if r < 0x80 then [r]
      else if r < 0x800 then [0xC0 + r div 64, 0x80 + r mod 64]
      else if r < 0x10000 then [0xE0 + r div 4096, 0x80 + (r div 64) mod 64, 0x80 + r mod 64]
      else [0xF0 + r div 262144, 0x80 + (r div 4096) mod 64, 0x80 + (r div 64) mod 64, 0x80 + r mod 64])"

definition encode_rune :: "nat \<Rightarrow> string" where
  "encode_rune r = map char_of (encode_bytes r)"

text \<open>The runes that UTF-8 can carry.\<close>

definition valid_rune :: "nat \<Rightarrow> bool" where
  "valid_rune r \<longleftrightarrow> r < 0xD800 \<or> 0xE000 \<le> r \<and> r < 0x110000"

definition strings_Map :: "(nat \<Rightarrow> nat) \<Rightarrow> string \<Rightarrow> string" where
  "strings_Map f s = concat (map (\<lambda>r. encode_rune (f r)) (runes s))"

definition IsControl :: "nat \<Rightarrow> bool" where
  "IsControl r \<longleftrightarrow> r < 0x20 \<or> 0x7F \<le> r \<and> r < 0xA0"

section \<open>Round trip\<close>

lemma decode_encode1:
  assumes "valid_rune r"
  shows "decode_first (encode_bytes r @ bs) = (r, length (encode_bytes r))"
proof -
  have d: "r div 64 div 64 = r div 4096" "r div 4096 div 64 = r div 262144" by (simp_all add: div_mult2_eq)
  have r64: "r div 64 * 64 + r mod 64 = r" by simp
  have r4096: "r div 4096 * 64 + (r div 64) mod 64 = r div 64" using d(1) by (metis div_mult_mod_eq)
  have r262144: "r div 262144 * 64 + (r div 4096) mod 64 = r div 4096" using d(2) by (metis div_mult_mod_eq)
  have m: "r mod 64 \<le> 63" "(r div 64) mod 64 \<le> 63" "(r div 4096) mod 64 \<le> 63"
    by (simp_all add: less_Suc_eq_le flip: less_Suc_eq_le)
  consider "r < 0x80" | "0x80 \<le> r" "r < 0x800" | "0x800 \<le> r" "r < 0x10000" | "0x10000 \<le> r" by linarith
  then show ?thesis
  proof cases
    case 1
    then show ?thesis by (simp add: encode_bytes_def decode_first_def)
  next
    case 2
    then have "2 \<le> r div 64" "r div 64 < 32" by auto
    moreover have "encode_bytes r = [0xC0 + r div 64, 0x80 + r mod 64]" using 2 by (simp add: encode_bytes_def)
    ultimately show ?thesis using r64 m by (simp add: decode_first_def cont_def)
  next
    case 3
    then have q: "r div 4096 < 16" by auto
    have "r div 4096 = 0 \<longrightarrow> 32 \<le> (r div 64) mod 64" using 3 r4096 by auto
    moreover have "r div 4096 = 13 \<longrightarrow> (r div 64) mod 64 < 32"
    proof
      assume "r div 4096 = 13"
      then have "r < 14 * 4096" "13 * 4096 \<le> r" by auto
      with assms have "r < 0xD800" by (auto simp: valid_rune_def)
      then have "r div 64 < 864" by auto
      with r4096 \<open>r div 4096 = 13\<close> show "(r div 64) mod 64 < 32" by linarith
    qed
    moreover have "r div 4096 * 4096 + (r div 64) mod 64 * 64 + r mod 64 = r" using r64 r4096 by linarith
    ultimately show ?thesis using 3 q m by (auto simp: encode_bytes_def decode_first_def cont_def)
  next
    case 4
    with assms have lt: "r < 0x110000" by (auto simp: valid_rune_def)
    then have q: "r div 262144 \<le> 4" by auto
    have "r div 262144 = 0 \<longrightarrow> 16 \<le> (r div 4096) mod 64" using 4 r262144 by auto
    moreover have "r div 4096 < 272" using lt by auto
    then have "r div 262144 = 4 \<longrightarrow> (r div 4096) mod 64 < 16" using r262144 by linarith
    moreover have "r div 262144 * 262144 + (r div 4096) mod 64 * 4096 + (r div 64) mod 64 * 64 + r mod 64 = r"
      using r64 r4096 r262144 by linarith
    ultimately show ?thesis using 4 q m by (auto simp: encode_bytes_def decode_first_def cont_def)
  qed
qed

lemma encode_bytes_ne: "encode_bytes r \<noteq> []"
  by (simp add: encode_bytes_def)

lemma encode_bytes_range: "r < 0x110000 \<Longrightarrow> \<forall>b\<in>set (encode_bytes r). b < 256"
  by (auto simp: encode_bytes_def)

lemma bytes_encode_rune: "valid_rune r \<Longrightarrow> map (\<lambda>c. byte c) (encode_rune r) = encode_bytes r"
  using encode_bytes_range [of r] by (auto simp: encode_rune_def valid_rune_def intro!: map_idI)

lemma runes_Nil [simp]: "runes [] = []"
  by (simp add: runes_def decode_bytes.simps)

lemma runes_encode: "valid_rune r \<Longrightarrow> runes (encode_rune r @ s) = r # runes s"
proof -
  assume r: "valid_rune r"
  have "decode_bytes (encode_bytes r @ bs) = r # decode_bytes bs" for bs
    by (subst decode_bytes.simps) (simp add: decode_encode1 [OF r] encode_bytes_ne)
  then show ?thesis by (simp add: runes_def bytes_encode_rune [OF r])
qed

lemma runes_concat: "\<forall>r\<in>set rs. valid_rune r \<Longrightarrow> runes (concat (map encode_rune rs) @ s) = rs @ runes s"
  by (induction rs) (auto simp: runes_encode)

lemma valid_two: "b0 \<le> 0xDF \<Longrightarrow> cont b1 \<Longrightarrow> valid_rune ((b0 - 0xC0) * 64 + (b1 - 0x80))"
proof -
  assume "b0 \<le> 0xDF" "cont b1"
  then have "b0 - 0xC0 \<le> 31" "b1 - 0x80 \<le> 63" by (auto simp: cont_def)
  then show ?thesis unfolding valid_rune_def by linarith
qed

lemma valid_three:
  assumes "b0 \<le> 0xEF" "cont b1" "cont b2" "b0 = 0xED \<longrightarrow> b1 \<le> 0x9F"
  shows "valid_rune ((b0 - 0xE0) * 4096 + (b1 - 0x80) * 64 + (b2 - 0x80))"
proof -
  consider "b0 \<le> 0xEC" | "b0 = 0xED" | "0xEE \<le> b0" by linarith
  then show ?thesis using assms by cases (auto simp: valid_rune_def cont_def)
qed

lemma valid_four:
  assumes "b0 \<le> 0xF4" "0xF0 \<le> b0" "cont b1" "cont b2" "cont b3" "b0 = 0xF0 \<longrightarrow> 0x90 \<le> b1" "b0 = 0xF4 \<longrightarrow> b1 \<le> 0x8F"
  shows "valid_rune ((b0 - 0xF0) * 262144 + (b1 - 0x80) * 4096 + (b2 - 0x80) * 64 + (b3 - 0x80))"
proof -
  consider "b0 = 0xF0" | "b0 = 0xF4" | "0xF1 \<le> b0" "b0 \<le> 0xF3" using assms(1,2) by linarith
  then show ?thesis using assms by cases (auto simp: valid_rune_def cont_def)
qed

lemma valid_error: "valid_rune RuneError"
  by (simp add: valid_rune_def)

lemma decode_first_valid: "valid_rune (fst (decode_first bs))"
proof (cases bs)
  case (Cons b0 r)
  show ?thesis
    using valid_error valid_two [of b0] valid_three [of b0] valid_four [of b0]
    by (simp add: decode_first_def Cons split: list.split) (simp add: valid_rune_def)
qed (simp add: decode_first_def valid_error)

lemma runes_valid: "r \<in> set (runes s) \<Longrightarrow> valid_rune r"
proof -
  have "r \<in> set (decode_bytes bs) \<Longrightarrow> valid_rune r" for bs
  proof (induction bs rule: decode_bytes.induct)
    case (1 bs)
    from "1.prems" show ?case
      by (subst (asm) decode_bytes.simps) (use "1.IH" decode_first_valid in \<open>auto split: if_splits\<close>)
  qed
  then show "r \<in> set (runes s) \<Longrightarrow> valid_rune r" by (simp add: runes_def)
qed

lemma runes_strings_Map:
  assumes "\<And>r. valid_rune r \<Longrightarrow> valid_rune (f r)"
  shows "runes (strings_Map f s @ t) = map f (runes s) @ runes t"
proof -
  have "strings_Map f s = concat (map encode_rune (map f (runes s)))" by (simp add: strings_Map_def comp_def)
  moreover have "\<forall>r\<in>set (map f (runes s)). valid_rune r" using assms runes_valid by auto
  ultimately show ?thesis by (simp only: runes_concat)
qed

end
