(* ===== verification/GoTime.thy ===== *)
theory GoTime
  imports GoLib "HOL-Library.List_Lexorder"
begin

text \<open>
  Instants as text, the way package \<open>time\<close> writes and reads them: the date of a day of the proleptic
  Gregorian calendar, the two UTC layouts the program prints, and the parser of \<open>RFC3339Nano\<close>. For
  the years 0 to 9999 parsing inverts printing, and the printed texts are ordered as the instants,
  which is what the store's text comparisons rest on.
\<close>

section \<open>The calendar\<close>

definition is_leap :: "int \<Rightarrow> bool" where
  "is_leap y \<longleftrightarrow> y mod 4 = 0 \<and> (y mod 100 \<noteq> 0 \<or> y mod 400 = 0)"

definition month_lengths :: "int \<Rightarrow> nat list" where
  "month_lengths y = [31, if is_leap y then 29 else 28, 31, 30, 31, 30, 31, 31, 30, 31, 30, 31]"

definition days_before_year :: "int \<Rightarrow> int" where
  "days_before_year y = 365 * (y - 1) + (y - 1) div 4 - (y - 1) div 100 + (y - 1) div 400"

text \<open>The year of a day counted from the first of January of year 1, and the day in it.\<close>

definition year_of_day :: "int \<Rightarrow> int \<times> nat" where
  "year_of_day d =
     (let n400 = d div 146097; r = d mod 146097;
          n100 = min 3 (r div 36524); r1 = r - 36524 * n100;
          n4 = r1 div 1461; r2 = r1 mod 1461;
          n1 = min 3 (r2 div 365)
      in (400 * n400 + 100 * n100 + 4 * n4 + n1 + 1, nat (r2 - 365 * n1)))"

fun month_of :: "nat list \<Rightarrow> nat \<Rightarrow> nat \<times> nat" where
  "month_of [] n = (0, n)"
| "month_of (l # ls) n = (if n < l then (0, n) else case month_of ls (n - l) of (m, d) \<Rightarrow> (Suc m, d))"

definition date_of_day :: "int \<Rightarrow> int \<times> nat \<times> nat" where
  "date_of_day n =
     (case year_of_day n of (y, yday) \<Rightarrow>
        (case month_of (month_lengths y) yday of (m, d) \<Rightarrow> (y, m + 1, d + 1)))"

definition day_of_date :: "int \<Rightarrow> nat \<Rightarrow> nat \<Rightarrow> int" where
  "day_of_date y m d = days_before_year y + int (sum_list (take (m - 1) (month_lengths y))) + int d - 1"

section \<open>Printing\<close>

fun digits :: "nat \<Rightarrow> nat \<Rightarrow> string" where
  "digits 0 n = []"
| "digits (Suc w) n = digits w (n div 10) @ [digit_char (n mod 10)]"

definition pad :: "nat \<Rightarrow> nat \<Rightarrow> string" where
  "pad w n = (if n < 10 ^ w then digits w n else nat_decimal n)"

definition year_text :: "int \<Rightarrow> string" where
  "year_text y = (if y < 0 then CHR ''-'' # pad 4 (nat (- y)) else pad 4 (nat y))"

definition clock_text :: "int \<Rightarrow> string" where
  "clock_text secs = pad 2 (nat (secs div 3600)) @ '':'' @ pad 2 (nat (secs div 60 mod 60)) @ '':'' @ pad 2 (nat (secs mod 60))"

definition date_text :: "go_time \<Rightarrow> string" where
  "date_text t =
     (let secs = t div second in
      case date_of_day (secs div 86400) of
        (y, m, d) \<Rightarrow> year_text y @ ''-'' @ pad 2 m @ ''-'' @ pad 2 d @ ''T'' @ clock_text (secs mod 86400))"

definition formatTime :: "go_time \<Rightarrow> string" where
  "formatTime t = date_text t @ ''.'' @ pad 9 (nat (t mod second)) @ ''Z''"

definition format_seconds :: "go_time \<Rightarrow> string" where
  "format_seconds t = date_text t @ ''Z''"

text \<open>The bytes of a text, whose lexicographic order is the order of text in the database.\<close>

abbreviation bytes_of :: "string \<Rightarrow> nat list" where
  "bytes_of s \<equiv> map (\<lambda>c. byte c) s"

section \<open>Parsing\<close>

definition digit :: "char \<Rightarrow> bool" where
  "digit c \<longleftrightarrow> 48 \<le> byte c \<and> byte c \<le> 57"

definition get_digits :: "nat \<Rightarrow> string \<Rightarrow> (nat \<times> string) option" where
  "get_digits w s =
     (if w \<le> length s \<and> list_all digit (take w s) then Some (decimal_value (take w s), drop w s) else None)"

text \<open>The hour may have one digit.\<close>

definition get_hour :: "string \<Rightarrow> (nat \<times> string) option" where
  "get_hour s = (case get_digits 2 s of Some r \<Rightarrow> Some r | None \<Rightarrow> get_digits 1 s)"

definition skip :: "char \<Rightarrow> string \<Rightarrow> string option" where
  "skip c s = (if s \<noteq> [] \<and> hd s = c then Some (tl s) else None)"

text \<open>A fraction is optional; digits after the ninth are read and ignored.\<close>

definition get_fraction :: "string \<Rightarrow> nat \<times> string" where
  "get_fraction s =
     (if length s \<ge> 2 \<and> hd s \<in> {CHR ''.'', CHR '',''} \<and> digit (s ! 1) then
        let ds = takeWhile digit (tl s); used = take 9 ds
        in (decimal_value used * 10 ^ (9 - length used), drop (length ds) (tl s))
      else (0, s))"

definition get_zone :: "string \<Rightarrow> (int \<times> string) option" where
  "get_zone s =
     (if HasPrefix s ''Z'' then Some (0, tl s)
      else if length s < 6 \<or> s ! 3 \<noteq> CHR '':'' \<or> hd s \<notin> {CHR ''+'', CHR ''-''} then None
      else
        case (get_digits 2 (drop 1 s), get_digits 2 (drop 4 s)) of
          (Some (hr, _), Some (mm, rest)) \<Rightarrow>
            if hr > 24 \<or> mm > 60 then None
            else let offset = int ((hr * 60 + mm) * 60)
              in Some (if hd s = CHR ''-'' then - offset else offset, rest)
        | _ \<Rightarrow> None)"

definition parse_clock :: "string \<Rightarrow> (int \<times> string) option" where
  "parse_clock s0 =
     Option.bind (get_hour s0) (\<lambda>(h, s1). Option.bind (skip CHR '':'' s1) (\<lambda>s2.
     Option.bind (get_digits 2 s2) (\<lambda>(mi, s3). Option.bind (skip CHR '':'' s3) (\<lambda>s4.
     Option.bind (get_digits 2 s4) (\<lambda>(sec, s5).
       if h < 24 \<and> mi < 60 \<and> sec < 60 then Some (int (h * 3600 + mi * 60 + sec), s5) else None)))))"

definition parse_date :: "string \<Rightarrow> (int \<times> string) option" where
  "parse_date s0 =
     Option.bind (get_digits 4 s0) (\<lambda>(y, s1). Option.bind (skip CHR ''-'' s1) (\<lambda>s2.
     Option.bind (get_digits 2 s2) (\<lambda>(m, s3). Option.bind (skip CHR ''-'' s3) (\<lambda>s4.
     Option.bind (get_digits 2 s4) (\<lambda>(d, s5).
       if 1 \<le> m \<and> m \<le> 12 \<and> 1 \<le> d \<and> d \<le> month_lengths (int y) ! (m - 1)
       then Some (day_of_date (int y) m d, s5) else None)))))"

definition parseTime :: "string \<Rightarrow> go_time option" where
  "parseTime s0 =
     Option.bind (parse_date s0) (\<lambda>(day, s1). Option.bind (skip CHR ''T'' s1) (\<lambda>s2.
     Option.bind (parse_clock s2) (\<lambda>(clock, s3).
       case get_fraction s3 of (ns, s4) \<Rightarrow>
       Option.bind (get_zone s4) (\<lambda>(offset, s5).
         if s5 = [] then Some ((day * 86400 + clock - offset) * second + int ns) else None))))"

end
