(* ===== verification/Report.thy ===== *)
theory Report
  imports Llm Utf8
begin

text \<open>
  The terminal reports (\<open>internal/report/report.go\<close>): the texts written for an incident and for the
  analysis of a language model, piece by piece as the writer receives them, and the replacement of the
  characters that could steer a terminal.
\<close>

section \<open>Text for a terminal\<close>

definition unsafe_rune :: "nat \<Rightarrow> bool" where
  "unsafe_rune r \<longleftrightarrow> IsControl r \<or> 0x202A \<le> r \<and> r \<le> 0x202E \<or> 0x2066 \<le> r \<and> r \<le> 0x2069"

definition TerminalText :: "string \<Rightarrow> string" where
  "TerminalText s = strings_Map (\<lambda>r. if unsafe_rune r then byte CHR ''?'' else r) s"

section \<open>Writing\<close>

text \<open>
  A writer takes a piece and answers with its new state and its error; the first error ends the
  report.
\<close>

fun write_all :: "('w \<Rightarrow> string \<Rightarrow> 'w \<times> go_error option) \<Rightarrow> 'w \<Rightarrow> string list \<Rightarrow> 'w \<times> go_error option" where
  "write_all writer w [] = (w, None)"
| "write_all writer w (piece # pieces) =
     (case writer w piece of (w', None) \<Rightarrow> write_all writer w' pieces | (w', Some err) \<Rightarrow> (w', Some err))"

section \<open>An incident\<close>

definition upper_char :: "char \<Rightarrow> char" where
  "upper_char c = (if 97 \<le> byte c \<and> byte c \<le> 122 then char_of (byte c - 32) else c)"

definition incident_pieces :: "Incident \<Rightarrow> string list" where
  "incident_pieces inc =
     [''INCIDENT '' @ TerminalText (IncidentID inc) @ ''  '' @ map upper_char (RiskLevel (inc_RiskScore inc)) @
        ''  score='' @ Itoa (inc_RiskScore inc) @ ''  '' @ format_seconds (StartTime inc) @ newline,
      ''root: '' @ TerminalText (rp_ProcessName (inc_RootProcess inc)) @ ''('' @ Itoa (rp_PID (inc_RootProcess inc)) @
        '')'' @ newline @ newline @ ''Signals:'' @ newline] @
     map (\<lambda>signal. ''  '' @ TerminalText signal @ newline) (inc_Signals inc) @
     [newline @ ''Timeline:'' @ newline] @
     map (\<lambda>entry. ''  '' @ TerminalText entry @ newline) (Timeline inc) @
     (if inc_DroppedEvents inc > 0
      then [newline @ ''Dropped during grouping: '' @ Itoa (inc_DroppedEvents inc) @ '' events'' @ newline] else []) @
     [newline @ ''Summary:'' @ newline @ ''  '' @ TerminalText (Summary inc) @ newline]"

definition report_Write ::
  "url_lib \<Rightarrow> ('w \<Rightarrow> string \<Rightarrow> 'w \<times> go_error option) \<Rightarrow> 'w \<Rightarrow> Incident \<Rightarrow> 'w \<times> go_error option" where
  "report_Write L writer w incident = write_all writer w (incident_pieces (redact_Incident L incident))"

section \<open>The analysis of a language model\<close>

definition list_pieces :: "string \<Rightarrow> string list option \<Rightarrow> string list" where
  "list_pieces title entries =
     (newline @ title @ '':'' @ newline) #
     map (\<lambda>entry. ''  - '' @ TerminalText entry @ newline) (case entries of None \<Rightarrow> [] | Some es \<Rightarrow> es)"

definition analysis_pieces :: "Incident \<Rightarrow> Report \<Rightarrow> string list" where
  "analysis_pieces inc analysis =
     (let deterministicRisk = RiskLevel (inc_RiskScore inc) in
      [''LLM ANALYSIS '' @ TerminalText (IncidentID inc) @ newline,
       ''deterministic risk: '' @ deterministicRisk @ '' (score='' @ Itoa (inc_RiskScore inc) @ '')'' @ newline,
       ''llm risk: '' @ TerminalText (RiskLevel_of analysis)] @
      (if RiskLevel_of analysis \<noteq> deterministicRisk then ['' (disagrees with deterministic score)''] else []) @
      [newline @ newline @ ''Summary:'' @ newline @ ''  '' @ TerminalText (rep_Summary analysis) @ newline @ newline @
         ''Likely behavior:'' @ newline @ ''  '' @ TerminalText (LikelyBehavior analysis) @ newline] @
      list_pieces ''Why suspicious'' (WhySuspicious analysis) @
      list_pieces ''False positive possibilities'' (FalsePositivePossibilities analysis) @
      list_pieces ''Recommended commands'' (RecommendedCommands analysis) @
      list_pieces ''Containment advice'' (ContainmentAdvice analysis))"

definition report_WriteLLM ::
  "url_lib \<Rightarrow> ('w \<Rightarrow> string \<Rightarrow> 'w \<times> go_error option) \<Rightarrow> 'w \<Rightarrow> Incident \<Rightarrow> Report \<Rightarrow> 'w \<times> go_error option" where
  "report_WriteLLM L writer w incident analysis =
     write_all writer w (analysis_pieces (redact_Incident L incident) (RedactReport L analysis))"

end
