(* ===== verification/Report_Laws.thy ===== *)
theory Report_Laws
  imports Report
begin

text \<open>
  What a terminal receives: no rune of a written report is a control or a bidirectional override
  but the line ends of the layout, whatever the program observed or a model answered.
\<close>

section \<open>Runes of assembled text\<close>

text \<open>Text that decodes on its own: what follows it does not change its runes.\<close>

definition closed_text :: "string \<Rightarrow> bool" where
  "closed_text s \<longleftrightarrow> (\<forall>t. runes (s @ t) = runes s @ runes t)"

lemma closed_text_append: "closed_text s \<Longrightarrow> closed_text t \<Longrightarrow> closed_text (s @ t)"
  by (simp add: closed_text_def)

lemma runes_append: "closed_text s \<Longrightarrow> runes (s @ t) = runes s @ runes t"
  by (simp add: closed_text_def)

definition ascii :: "string \<Rightarrow> bool" where
  "ascii s \<longleftrightarrow> list_all (\<lambda>c. byte c < 128) s"

lemma runes_ascii_Cons: "byte c < 128 \<Longrightarrow> runes (c # s) = byte c # runes s"
  by (subst runes_def, subst decode_bytes.simps) (simp add: decode_first_def runes_def)

lemma ascii_runes: "ascii s \<Longrightarrow> runes (s @ t) = map (\<lambda>c. byte c) s @ runes t"
  by (induction s) (simp_all add: ascii_def runes_ascii_Cons)

lemma ascii_runes_self: "ascii s \<Longrightarrow> runes s = map (\<lambda>c. byte c) s"
  using ascii_runes [of s "[]"] by simp

lemma ascii_closed: "ascii s \<Longrightarrow> closed_text s"
  by (simp add: closed_text_def ascii_runes ascii_runes_self)

lemma TerminalText_runes:
  "runes (TerminalText s @ t) = map (\<lambda>r. if unsafe_rune r then byte CHR ''?'' else r) (runes s) @ runes t"
  unfolding TerminalText_def by (rule runes_strings_Map) (simp add: valid_rune_def)

lemma TerminalText_closed: "closed_text (TerminalText s)"
  using TerminalText_runes [of s] TerminalText_runes [of s "[]"] by (simp add: closed_text_def)

text \<open>A piece of a report: its runes are safe but for a number of line ends.\<close>

definition lines_of :: "string \<Rightarrow> nat \<Rightarrow> bool" where
  "lines_of s n \<longleftrightarrow> closed_text s \<and> (\<forall>r\<in>set (runes s). r = 10 \<or> \<not> unsafe_rune r) \<and> count_list (runes s) 10 = n"

lemma lines_append: "lines_of s n \<Longrightarrow> lines_of t m \<Longrightarrow> lines_of (s @ t) (n + m)"
  by (auto simp: lines_of_def closed_text_append runes_append)

lemma lines_Nil: "lines_of [] 0"
  by (simp add: lines_of_def closed_text_def)

lemma lines_Terminal: "lines_of (TerminalText s) 0"
proof -
  have q: "\<not> unsafe_rune (byte CHR ''?'')" "byte CHR ''?'' \<noteq> 10" "unsafe_rune 10"
    by (simp_all add: unsafe_rune_def IsControl_def)
  have "runes (TerminalText s) = map (\<lambda>r. if unsafe_rune r then byte CHR ''?'' else r) (runes s)"
    using TerminalText_runes [of s "[]"] by simp
  moreover have "10 \<notin> set (map (\<lambda>r. if unsafe_rune r then byte CHR ''?'' else r) (runes s))"
    using q by auto
  ultimately show ?thesis
    using q TerminalText_closed by (auto simp: lines_of_def count_list_0_iff)
qed

definition shown :: "char \<Rightarrow> bool" where
  "shown c \<longleftrightarrow> 32 \<le> byte c \<and> byte c < 127"

lemma lines_shown: "list_all shown s \<Longrightarrow> lines_of s 0"
proof -
  assume s: "list_all shown s"
  then have a: "ascii s" by (auto simp: ascii_def shown_def list_all_iff)
  have "r \<noteq> 10 \<and> \<not> unsafe_rune r" if "r \<in> set (runes s)" for r
    using that s by (auto simp: ascii_runes_self [OF a] shown_def unsafe_rune_def IsControl_def list_all_iff)
  then show ?thesis using ascii_closed [OF a] by (auto simp: lines_of_def count_list_0_iff)
qed

lemma lines_newline: "lines_of newline 1"
  by (simp add: lines_of_def ascii_closed ascii_runes_self ascii_def)

lemma lines_concat:
  "(\<And>x. x \<in> set xs \<Longrightarrow> lines_of (f x) 1) \<Longrightarrow> lines_of (concat (map f xs)) (length xs)"
proof (induction xs)
  case (Cons x xs)
  have "lines_of (f x @ concat (map f xs)) (1 + length xs)"
    by (rule lines_append) (use Cons in auto)
  then show ?case by simp
qed (simp add: lines_Nil)

section \<open>Numbers, dates and risk levels\<close>

lemma shown_decimal: "list_all shown (nat_decimal n)"
  using nat_decimal_digits digit_range by (fastforce simp: list_all_iff shown_def)

lemma shown_Itoa: "list_all shown (Itoa i)"
  by (simp add: Itoa_def shown_decimal) (simp add: shown_def)

lemma shown_digits: "list_all shown (digits w n)"
  by (induction w arbitrary: n) (simp_all add: shown_def of_digit_char)

lemma shown_pad: "list_all shown (pad w n)"
  by (simp add: pad_def shown_digits shown_decimal)

lemma shown_literals:
  "shown CHR ''-''" "shown CHR '':''" "shown CHR ''T''" "shown CHR ''Z''"
  by (simp_all add: shown_def)

lemma shown_date: "list_all shown (format_seconds t)"
  by (simp add: format_seconds_def date_text_def clock_text_def year_text_def Let_def shown_pad shown_literals
      split: prod.split)

lemma shown_risk: "list_all shown (RiskLevel n)" "list_all shown (map upper_char (RiskLevel n))"
  by (simp_all add: RiskLevel_def shown_def upper_char_def)

lemmas lines_parts = lines_Terminal lines_newline lines_shown [OF shown_Itoa] lines_shown [OF shown_date]
  lines_shown [OF shown_risk(1)] lines_shown [OF shown_risk(2)]

section \<open>Reports\<close>

definition good_pieces :: "string list \<Rightarrow> nat \<Rightarrow> bool" where
  "good_pieces ps n \<longleftrightarrow> (\<forall>p\<in>set ps. \<exists>m. lines_of p m) \<and> lines_of (concat ps) n"

lemma good_Nil: "good_pieces [] 0"
  by (simp add: good_pieces_def lines_Nil)

lemma good_append: "good_pieces ps n \<Longrightarrow> good_pieces qs m \<Longrightarrow> good_pieces (ps @ qs) (n + m)"
  by (auto simp: good_pieces_def lines_append)

lemma good_single: "lines_of p n \<Longrightarrow> good_pieces [p] n"
  by (auto simp: good_pieces_def)

lemma good_map: "(\<And>x. lines_of (f x) 1) \<Longrightarrow> good_pieces (map f xs) (length xs)"
  by (auto simp: good_pieces_def intro: lines_concat)

lemma good_take: "good_pieces ps n \<Longrightarrow> \<exists>m. lines_of (concat (take k ps)) m"
proof (induction k arbitrary: ps n)
  case 0
  show ?case using lines_Nil by auto
next
  case (Suc k)
  show ?case
  proof (cases ps)
    case (Cons p qs)
    have "\<exists>m. lines_of (concat qs') m" if "set qs' \<subseteq> set qs" for qs'
      using that
    proof (induction qs')
      case (Cons q qs')
      with Suc.prems \<open>ps = p # qs\<close> obtain m m' where "lines_of q m" "lines_of (concat qs') m'"
        by (auto simp: good_pieces_def)
      from lines_append [OF this] show ?case by auto
    qed (use lines_Nil in auto)
    then obtain m where "lines_of (concat (take k qs)) m" by (meson set_take_subset)
    moreover obtain m' where "lines_of p m'" using Suc.prems Cons by (auto simp: good_pieces_def)
    ultimately have "lines_of (p @ concat (take k qs)) (m' + m)" by (intro lines_append)
    with Cons show ?thesis by auto
  qed (use lines_Nil in auto)
qed

lemma lines_entry:
  "list_all shown s \<Longrightarrow> lines_of (s @ TerminalText t @ newline) 1"
  using lines_append [OF lines_shown lines_append [OF lines_Terminal lines_newline]] by simp

lemma lines_lit0: "list_all shown s \<Longrightarrow> lines_of t n \<Longrightarrow> lines_of (s @ t) n"
  using lines_append [OF lines_shown] by fastforce

lemma lines_nl: "lines_of t n \<Longrightarrow> lines_of (newline @ t) (Suc n)"
  using lines_append [OF lines_newline] by fastforce

lemma lines_term: "lines_of t n \<Longrightarrow> lines_of (TerminalText s @ t) n"
  using lines_append [OF lines_Terminal] by fastforce

lemma lines_line_end: "lines_of newline (Suc 0)"
  using lines_newline by simp

lemmas lines_rules = lines_term lines_nl lines_lit0 lines_line_end lines_Terminal
lemmas shown_rules = shown_Itoa shown_date shown_risk

lemma incident_good:
  "good_pieces (incident_pieces inc)
     (9 + length (inc_Signals inc) + length (Timeline inc) + (if inc_DroppedEvents inc > 0 then 2 else 0))"
proof -
  have head: "lines_of (''INCIDENT '' @ TerminalText (IncidentID inc) @ ''  '' @ map upper_char (RiskLevel (inc_RiskScore inc)) @
      ''  score='' @ Itoa (inc_RiskScore inc) @ ''  '' @ format_seconds (StartTime inc) @ newline) (Suc 0)"
    by (intro lines_rules shown_rules) (simp_all add: shown_def)
  have root: "lines_of (''root: '' @ TerminalText (rp_ProcessName (inc_RootProcess inc)) @ ''('' @
      Itoa (rp_PID (inc_RootProcess inc)) @ '')'' @ newline @ newline @ ''Signals:'' @ newline) (Suc (Suc (Suc 0)))"
    by (intro lines_rules shown_rules) (simp_all add: shown_def)
  have entry: "lines_of (''  '' @ TerminalText s @ newline) 1" for s
    by (rule lines_entry) (simp add: shown_def)
  have middle: "lines_of (newline @ ''Timeline:'' @ newline) (Suc (Suc 0))"
    by (intro lines_rules) (simp_all add: shown_def)
  have dropped: "lines_of (newline @ ''Dropped during grouping: '' @ Itoa n @ '' events'' @ newline) (Suc (Suc 0))" for n
    by (intro lines_rules shown_rules) (simp_all add: shown_def)
  have last: "lines_of (newline @ ''Summary:'' @ newline @ ''  '' @ TerminalText (Summary inc) @ newline) (Suc (Suc (Suc 0)))"
    by (intro lines_rules) (simp_all add: shown_def)
  have tail: "good_pieces (if inc_DroppedEvents inc > 0
      then [newline @ ''Dropped during grouping: '' @ Itoa (inc_DroppedEvents inc) @ '' events'' @ newline] else [])
      (if inc_DroppedEvents inc > 0 then 2 else 0)"
    using good_single [OF dropped] good_Nil by (simp add: numeral_2_eq_2)
  have front: "good_pieces ([''INCIDENT '' @ TerminalText (IncidentID inc) @ ''  '' @ map upper_char (RiskLevel (inc_RiskScore inc)) @
        ''  score='' @ Itoa (inc_RiskScore inc) @ ''  '' @ format_seconds (StartTime inc) @ newline] @
      [''root: '' @ TerminalText (rp_ProcessName (inc_RootProcess inc)) @ ''('' @
        Itoa (rp_PID (inc_RootProcess inc)) @ '')'' @ newline @ newline @ ''Signals:'' @ newline]) (Suc 0 + Suc (Suc (Suc 0)))"
    by (rule good_append [OF good_single [OF head] good_single [OF root]])
  note all = good_append [OF front good_append [OF good_map [where f = "\<lambda>s. ''  '' @ TerminalText s @ newline", OF entry]
    good_append [OF good_single [OF middle] good_append [OF good_map [where f = "\<lambda>s. ''  '' @ TerminalText s @ newline", OF entry]
    good_append [OF tail good_single [OF last]]]]]]
  from all [of "inc_Signals inc" "Timeline inc"] show ?thesis
    unfolding incident_pieces_def by (simp add: ac_simps eval_nat_numeral)
qed

definition entries :: "string list option \<Rightarrow> nat" where
  "entries l = (case l of None \<Rightarrow> 0 | Some es \<Rightarrow> length es)"

lemma list_good: "list_all shown title \<Longrightarrow> good_pieces (list_pieces title l) (2 + entries l)"
proof -
  assume title: "list_all shown title"
  have head: "lines_of (newline @ title @ '':'' @ newline) (Suc (Suc 0))"
    by (intro lines_rules title) (simp_all add: shown_def)
  have entry: "lines_of (''  - '' @ TerminalText s @ newline) 1" for s
    by (rule lines_entry) (simp add: shown_def)
  have "list_pieces title l = [newline @ title @ '':'' @ newline] @
      map (\<lambda>s. ''  - '' @ TerminalText s @ newline) (case l of None \<Rightarrow> [] | Some es \<Rightarrow> es)"
    by (simp add: list_pieces_def)
  moreover have "2 + entries l = Suc (Suc 0) + length (case l of None \<Rightarrow> [] | Some es \<Rightarrow> es)"
    by (simp add: entries_def split: option.split)
  ultimately show ?thesis
    using good_append [OF good_single [OF head] good_map [where f = "\<lambda>s. ''  - '' @ TerminalText s @ newline", OF entry]]
    by simp
qed

lemma analysis_good:
  "good_pieces (analysis_pieces inc r)
     (17 + entries (WhySuspicious r) + entries (FalsePositivePossibilities r) + entries (RecommendedCommands r) +
      entries (ContainmentAdvice r))"
proof -
  let ?risk = "RiskLevel (inc_RiskScore inc)"
  have a: "lines_of (''LLM ANALYSIS '' @ TerminalText (IncidentID inc) @ newline) (Suc 0)"
    by (intro lines_rules) (simp_all add: shown_def)
  have b: "lines_of (''deterministic risk: '' @ ?risk @ '' (score='' @ Itoa (inc_RiskScore inc) @ '')'' @ newline) (Suc 0)"
    by (intro lines_rules shown_rules) (simp_all add: shown_def)
  have c: "lines_of (''llm risk: '' @ TerminalText (RiskLevel_of r)) 0"
    by (intro lines_rules) (simp add: shown_def)
  have "lines_of '' (disagrees with deterministic score)'' 0" by (rule lines_shown) (simp add: shown_def)
  then have d: "good_pieces (if RiskLevel_of r \<noteq> ?risk then ['' (disagrees with deterministic score)''] else []) 0"
    using good_Nil by (simp add: good_single)
  have e: "lines_of (newline @ newline @ ''Summary:'' @ newline @ ''  '' @ TerminalText (rep_Summary r) @ newline @ newline @
      ''Likely behavior:'' @ newline @ ''  '' @ TerminalText (LikelyBehavior r) @ newline)
      (Suc (Suc (Suc (Suc (Suc (Suc (Suc 0)))))))"
    by (intro lines_rules) (simp_all add: shown_def)
  have titles: "list_all shown ''Why suspicious''" "list_all shown ''False positive possibilities''"
    "list_all shown ''Recommended commands''" "list_all shown ''Containment advice''"
    by (simp_all add: shown_def)
  note all = good_append [OF good_single [OF a] good_append [OF good_single [OF b] good_append [OF good_single [OF c]
    good_append [OF d good_append [OF good_single [OF e] good_append [OF list_good [OF titles(1)]
    good_append [OF list_good [OF titles(2)] good_append [OF list_good [OF titles(3)] list_good [OF titles(4)]]]]]]]]]
  from all [of "WhySuspicious r" "FalsePositivePossibilities r" "RecommendedCommands r" "ContainmentAdvice r"] show ?thesis
    unfolding analysis_pieces_def Let_def by (simp add: ac_simps eval_nat_numeral)
qed

text \<open>A piece that is safe to print.\<close>

definition plain_piece :: "string \<Rightarrow> bool" where
  "plain_piece p \<longleftrightarrow> (\<exists>n. lines_of p n)"

lemma good_plain: "good_pieces ps n \<Longrightarrow> \<forall>p\<in>set ps. plain_piece p"
  by (auto simp: good_pieces_def plain_piece_def)

text \<open>
  What the reports ask of a writer: what it does with a safe piece is allowed, and what is allowed may
  be done again and again.
\<close>

locale report_writer =
  fixes writer :: "'w \<Rightarrow> string \<Rightarrow> 'w \<times> go_error option"
    and allowed :: "'w \<Rightarrow> 'w \<Rightarrow> bool"
  assumes idle: "\<And>w. allowed w w"
    and again: "allowed w w1 \<Longrightarrow> allowed w1 w2 \<Longrightarrow> allowed w w2"
    and piece: "plain_piece p \<Longrightarrow> allowed w (fst (writer w p))"
begin

lemma pieces: "\<forall>p\<in>set ps. plain_piece p \<Longrightarrow> allowed w (fst (write_all writer w ps))"
proof (induction ps arbitrary: w)
  case Nil
  show ?case unfolding write_all.simps fst_conv by (rule idle)
next
  case (Cons p ps)
  then have "allowed w (fst (writer w p))" "\<And>w1. allowed w1 (fst (write_all writer w1 ps))" by (auto intro: piece)
  then show ?case by (auto split: prod.split option.split intro: again)
qed

lemma report: "allowed w (fst (report_Write L writer w inc))"
  unfolding report_Write_def by (rule pieces [OF good_plain [OF incident_good]])

lemma analysis: "allowed w (fst (report_WriteLLM L writer w inc r))"
  unfolding report_WriteLLM_def by (rule pieces [OF good_plain [OF analysis_good]])

end

text \<open>A writer that takes \<open>k\<close> pieces and then fails, and what it received.\<close>

definition bounded_writer :: "go_error \<Rightarrow> string \<times> nat \<Rightarrow> string \<Rightarrow> (string \<times> nat) \<times> go_error option" where
  "bounded_writer err w piece =
     (case w of (received, k) \<Rightarrow>
        if k = 0 then ((received, 0), Some err) else ((received @ piece, k - 1), None))"

lemma write_bounded:
  "write_all (bounded_writer err) (s, k) ps =
     ((s @ concat (take k ps), k - length ps), if length ps \<le> k then None else Some err)"
  by (induction ps arbitrary: s k) (auto simp: bounded_writer_def take_Cons')

definition safe_output :: "(string \<times> nat) \<times> go_error option \<Rightarrow> nat \<Rightarrow> bool" where
  "safe_output result n \<longleftrightarrow>
     (case result of ((out, _), failure) \<Rightarrow>
        list_all (\<lambda>r. r = 10 \<or> \<not> unsafe_rune r) (runes out) \<and> (failure = None \<longrightarrow> count_list (runes out) 10 = n))"

lemma safe_write: "good_pieces ps n \<Longrightarrow> safe_output (write_all (bounded_writer err) ([], k) ps) n"
proof -
  assume good: "good_pieces ps n"
  then obtain m where "lines_of (concat (take k ps)) m" using good_take by blast
  moreover have "lines_of (concat ps) n" using good by (simp add: good_pieces_def)
  ultimately show ?thesis
    by (auto simp: safe_output_def write_bounded lines_of_def list_all_iff)
qed

lemma entries_redact: "entries (redact_list L l) = entries l"
  by (simp add: redact_list_def RedactStrings_def entries_def split: option.split)

text \<open>What a report writes to the terminal, for any incident and any analysis and wherever the
  writer fails: every rune is a line end of the layout or neither a control nor a bidirectional
  override; and a report that was written in full has exactly the lines of its layout, one for each
  signal, time line entry and list entry, so no observed or generated text can forge a line.
\<close>

theorem reports_terminal_safe:
  "safe_output (report_Write L (bounded_writer err) ([], k) incident)
     (9 + length (inc_Signals incident) + length (Timeline incident) + (if inc_DroppedEvents incident > 0 then 2 else 0)) \<and>
   safe_output (report_WriteLLM L (bounded_writer err) ([], k) incident r)
     (17 + entries (WhySuspicious r) + entries (FalsePositivePossibilities r) + entries (RecommendedCommands r) +
      entries (ContainmentAdvice r))"
proof
  show "safe_output (report_Write L (bounded_writer err) ([], k) incident)
     (9 + length (inc_Signals incident) + length (Timeline incident) + (if inc_DroppedEvents incident > 0 then 2 else 0))"
    using safe_write [OF incident_good [of "redact_Incident L incident"]]
    by (simp add: report_Write_def redact_Incident_def RedactStrings_def)
  show "safe_output (report_WriteLLM L (bounded_writer err) ([], k) incident r)
     (17 + entries (WhySuspicious r) + entries (FalsePositivePossibilities r) + entries (RecommendedCommands r) +
      entries (ContainmentAdvice r))"
    using safe_write [OF analysis_good [of "redact_Incident L incident" "RedactReport L r"]]
    by (simp add: report_WriteLLM_def RedactReport_def entries_redact)
qed

text \<open>The marks that set the direction of text without overriding it pass: U+200E and U+200F.\<close>

lemma direction_marks_pass: "\<not> unsafe_rune 0x200E" "\<not> unsafe_rune 0x200F" "\<not> unsafe_rune 0x061C"
  by (simp_all add: unsafe_rune_def IsControl_def)

end
