(* ===== verification/Store.thy ===== *)
theory Store
  imports Llm GoTime "HOL-Library.AList"
begin

text \<open>
  The SQLite store (\<open>internal/store/sqlite.go\<close>, \<open>llm_reports.go\<close>, \<open>schema_upgrade.go\<close>): its tables,
  the effect of each statement of the source on them, the transactions, and every operation. A table
  is an association list from its primary key. JSON is the argument \<open>J\<close>; what can go wrong in a call
  to the database, beyond the constraints of the schema, is a script of faults.
\<close>

section \<open>Tables\<close>

text \<open>
  A row keeps the columns that are stored as they are in a copy of the struct whose encoded fields
  are zero, and the encoded ones as text.
\<close>

record event_row =
  er_columns :: event
  er_timestamp :: string
  er_commandLine :: string
  er_metadata :: string

record incident_row =
  ir_columns :: Incident
  ir_start :: string
  ir_end :: string
  ir_root :: string
  ir_tree :: string
  ir_signals :: string
  ir_timeline :: string

record report_row =
  rr_createdAt :: string
  rr_model :: string
  rr_report :: string
  rr_raw :: string

record database =
  events_table :: "(string \<times> event_row) list"
  incidents_table :: "(string \<times> incident_row) list"
  links_table :: "(string \<times> string) list"
  reports_table :: "(string \<times> report_row) list"

record store_lib =
  enc_strings :: "string list \<Rightarrow> go_error + string"
  dec_strings :: "string \<Rightarrow> go_error + string list"
  enc_metadata :: "metadata \<Rightarrow> go_error + string"
  dec_metadata :: "string \<Rightarrow> go_error + metadata"
  enc_root :: "RootProcess \<Rightarrow> go_error + string"
  dec_root :: "string \<Rightarrow> go_error + RootProcess"
  enc_report :: "Report \<Rightarrow> go_error + string"
  dec_report :: "string \<Rightarrow> go_error + Report"
  urls :: url_lib
  q :: "string \<Rightarrow> string"
  time_error :: "string \<Rightarrow> go_error"

section \<open>Statements\<close>

definition upsert_event :: "event_row \<Rightarrow> database \<Rightarrow> go_error + database" where
  "upsert_event row d = Inr (d\<lparr>events_table := AList.update (EventID (er_columns row)) row (events_table d)\<rparr>)"

definition upsert_incident :: "incident_row \<Rightarrow> database \<Rightarrow> go_error + database" where
  "upsert_incident row d =
     Inr (d\<lparr>incidents_table := AList.update (IncidentID (ir_columns row)) row (incidents_table d)\<rparr>)"

definition delete_links :: "string \<Rightarrow> database \<Rightarrow> go_error + database" where
  "delete_links incidentID d = Inr (d\<lparr>links_table := filter (\<lambda>(i, _). i \<noteq> incidentID) (links_table d)\<rparr>)"

text \<open>A link refers to a stored incident and a stored event and is unique.\<close>

definition insert_link :: "string \<Rightarrow> string \<Rightarrow> database \<Rightarrow> go_error + database" where
  "insert_link incidentID eventID d =
     (if (incidentID, eventID) \<in> set (links_table d) then
        Inl ''UNIQUE constraint failed: incident_events.incident_id, incident_events.event_id''
      else if map_of (incidents_table d) incidentID = None \<or> map_of (events_table d) eventID = None then
        Inl ''FOREIGN KEY constraint failed''
      else Inr (d\<lparr>links_table := links_table d @ [(incidentID, eventID)]\<rparr>))"

definition upsert_report :: "string \<Rightarrow> report_row \<Rightarrow> database \<Rightarrow> go_error + database" where
  "upsert_report incidentID row d =
     (if map_of (incidents_table d) incidentID = None then Inl ''FOREIGN KEY constraint failed''
      else Inr (d\<lparr>reports_table := AList.update incidentID row (reports_table d)\<rparr>))"

text \<open>The update of a status never fails on the schema; it answers how many rows it changed.\<close>

definition mark_complete :: "string \<Rightarrow> database \<Rightarrow> nat \<times> database" where
  "mark_complete incidentID d =
     (case map_of (incidents_table d) incidentID of
        None \<Rightarrow> (0, d)
      | Some row \<Rightarrow> (1, d\<lparr>incidents_table := AList.update incidentID
          (row\<lparr>ir_columns := (ir_columns row)\<lparr>LLMStatus := ''complete''\<rparr>\<rparr>) (incidents_table d)\<rparr>))"

section \<open>Calls and transactions\<close>

text \<open>
  \<open>committed\<close> is what the database holds; \<open>current\<close> what the open transaction sees. Every call takes
  the next entry of \<open>faults\<close>; none means that the database itself works.
\<close>

record store_state =
  committed :: database
  current :: database
  faults :: "go_error option list"

definition next_fault :: "store_state \<Rightarrow> go_error option \<times> store_state" where
  "next_fault S = (case faults S of [] \<Rightarrow> (None, S) | f # fs \<Rightarrow> (f, S\<lparr>faults := fs\<rparr>))"

definition exec :: "(database \<Rightarrow> go_error + database) \<Rightarrow> string \<Rightarrow> store_state \<Rightarrow> (go_error + unit) \<times> store_state" where
  "exec stmt msg S =
     (case next_fault S of
        (Some err, S') \<Rightarrow> (Inl (msg @ err), S')
      | (None, S') \<Rightarrow>
          (case stmt (current S') of
             Inl err \<Rightarrow> (Inl (msg @ err), S')
           | Inr d \<Rightarrow> (Inr (), S'\<lparr>current := d\<rparr>)))"

definition then_do ::
  "(go_error + 'a) \<times> store_state \<Rightarrow> ('a \<Rightarrow> store_state \<Rightarrow> (go_error + 'b) \<times> store_state) \<Rightarrow> (go_error + 'b) \<times> store_state" where
  "then_do result cont = (case result of (Inl err, S) \<Rightarrow> (Inl err, S) | (Inr x, S) \<Rightarrow> cont x S)"

text \<open>A statement outside a transaction commits by itself.\<close>

definition autocommit :: "(store_state \<Rightarrow> (go_error + 'a) \<times> store_state) \<Rightarrow> store_state \<Rightarrow> (go_error + 'a) \<times> store_state" where
  "autocommit body S =
     (case body S of
        (Inl err, S') \<Rightarrow> (Inl err, S'\<lparr>current := committed S'\<rparr>)
      | (Inr x, S') \<Rightarrow> (Inr x, S'\<lparr>committed := current S'\<rparr>))"

text \<open>
  \<open>BeginTx\<close>, the body, \<open>Commit\<close>, and the deferred \<open>Rollback\<close>, which discards what was not
  committed. A commit that fails has changed nothing.
\<close>

definition transaction ::
  "string \<Rightarrow> string \<Rightarrow> (store_state \<Rightarrow> (go_error + unit) \<times> store_state) \<Rightarrow> store_state \<Rightarrow> (go_error + unit) \<times> store_state" where
  "transaction begin_msg commit_msg body S =
     (case next_fault S of
        (Some err, S1) \<Rightarrow> (Inl (begin_msg @ err), S1)
      | (None, S1) \<Rightarrow>
          (case body S1 of
             (Inl err, S2) \<Rightarrow> (Inl err, S2\<lparr>current := committed S2\<rparr>)
           | (Inr _, S2) \<Rightarrow>
               (case next_fault S2 of
                  (Some err, S3) \<Rightarrow> (Inl (commit_msg @ err), S3\<lparr>current := committed S3\<rparr>)
                | (None, S3) \<Rightarrow> (Inr (), S3\<lparr>committed := current S3\<rparr>))))"

section \<open>Encoding rows\<close>

definition wrap :: "string \<Rightarrow> go_error + 'a \<Rightarrow> go_error + 'a" where
  "wrap msg r = (case r of Inl err \<Rightarrow> Inl (msg @ err) | Inr x \<Rightarrow> Inr x)"

definition sum_bind :: "'e + 'a \<Rightarrow> ('a \<Rightarrow> 'e + 'b) \<Rightarrow> 'e + 'b" where
  "sum_bind r f = (case r of Inl err \<Rightarrow> Inl err | Inr x \<Rightarrow> f x)"

definition event_to_row :: "store_lib \<Rightarrow> event \<Rightarrow> go_error + event_row" where
  "event_to_row J e =
     sum_bind (wrap ''encode command line: '' (enc_strings J (CommandLine e))) (\<lambda>commandLine.
     sum_bind (wrap ''encode metadata: '' (enc_metadata J (Metadata e))) (\<lambda>meta.
       Inr \<lparr>er_columns = e\<lparr>Timestamp := 0, CommandLine := [], Metadata := None\<rparr>,
            er_timestamp = formatTime (Timestamp e), er_commandLine = commandLine, er_metadata = meta\<rparr>))"

definition zero_root :: RootProcess where
  "zero_root = \<lparr>rp_PID = 0, rp_ProcessName = [], rp_ExecutablePath = []\<rparr>"

definition incident_to_row :: "store_lib \<Rightarrow> Incident \<Rightarrow> go_error + incident_row" where
  "incident_to_row J inc =
     sum_bind (wrap ''encode root process: '' (enc_root J (inc_RootProcess inc))) (\<lambda>rootProcess.
     sum_bind (wrap ''encode process tree: '' (enc_strings J (ProcessTree inc))) (\<lambda>processTree.
     sum_bind (wrap ''encode signals: '' (enc_strings J (inc_Signals inc))) (\<lambda>signals.
     sum_bind (wrap ''encode timeline: '' (enc_strings J (Timeline inc))) (\<lambda>timeline.
       Inr \<lparr>ir_columns = inc\<lparr>StartTime := 0, EndTime := 0, inc_RootProcess := zero_root, ProcessTree := [],
              inc_Signals := [], Timeline := []\<rparr>,
            ir_start = formatTime (StartTime inc), ir_end = formatTime (EndTime inc), ir_root = rootProcess,
            ir_tree = processTree, ir_signals = signals, ir_timeline = timeline\<rparr>))))"

definition insertEvent :: "store_lib \<Rightarrow> string \<Rightarrow> event \<Rightarrow> store_state \<Rightarrow> (go_error + unit) \<times> store_state" where
  "insertEvent J msg e S =
     (case event_to_row J e of Inl err \<Rightarrow> (Inl (msg @ err), S) | Inr row \<Rightarrow> exec (upsert_event row) msg S)"

definition insertIncident :: "store_lib \<Rightarrow> string \<Rightarrow> Incident \<Rightarrow> store_state \<Rightarrow> (go_error + unit) \<times> store_state" where
  "insertIncident J msg inc S =
     (case incident_to_row J inc of Inl err \<Rightarrow> (Inl (msg @ err), S) | Inr row \<Rightarrow> exec (upsert_incident row) msg S)"

section \<open>Saving\<close>

definition SaveEvent :: "store_lib \<Rightarrow> event \<Rightarrow> store_state \<Rightarrow> (go_error + unit) \<times> store_state" where
  "SaveEvent J e S =
     (case Validate e of
        Some err \<Rightarrow> (Inl (''save event: '' @ err), S)
      | None \<Rightarrow>
          autocommit (insertEvent J (''save event '' @ q J (EventID e) @ '': '') (redact_Event (urls J) e)) S)"

text \<open>The loop over a batch, with the prefix of its errors.\<close>

fun insert_events :: "store_lib \<Rightarrow> string \<Rightarrow> event list \<Rightarrow> store_state \<Rightarrow> (go_error + unit) \<times> store_state" where
  "insert_events J what [] S = (Inr (), S)"
| "insert_events J what (e # es) S =
     (let msg = what @ q J (EventID e) @ '': '' in
      case Validate e of
        Some err \<Rightarrow> (Inl (msg @ err), S)
      | None \<Rightarrow> then_do (insertEvent J msg (redact_Event (urls J) e) S) (\<lambda>_. insert_events J what es))"

definition SaveEvents :: "store_lib \<Rightarrow> event list \<Rightarrow> store_state \<Rightarrow> (go_error + unit) \<times> store_state" where
  "SaveEvents J es = transaction ''begin event batch: '' ''commit event batch: '' (insert_events J ''save event '' es)"

definition validateIncident :: "Incident \<Rightarrow> go_error option" where
  "validateIncident inc =
     (if IncidentID inc = [] then Some ''incident_id is required''
      else if IsZero (StartTime inc) then Some ''start_time is required''
      else if IsZero (EndTime inc) then Some ''end_time is required''
      else if LLMStatus inc = [] then Some ''llm_status is required''
      else None)"

definition SaveIncident :: "store_lib \<Rightarrow> Incident \<Rightarrow> store_state \<Rightarrow> (go_error + unit) \<times> store_state" where
  "SaveIncident J inc S =
     (case validateIncident inc of
        Some err \<Rightarrow> (Inl (''save incident: '' @ err), S)
      | None \<Rightarrow>
          autocommit (insertIncident J (''save incident '' @ q J (IncidentID inc) @ '': '')
            (redact_Incident (urls J) inc)) S)"

fun insert_links :: "store_lib \<Rightarrow> string \<Rightarrow> string list \<Rightarrow> store_state \<Rightarrow> (go_error + unit) \<times> store_state" where
  "insert_links J incidentID [] S = (Inr (), S)"
| "insert_links J incidentID (eventID # eventIDs) S =
     then_do (exec (insert_link incidentID eventID)
         (''link incident '' @ q J incidentID @ '' to event '' @ q J eventID @ '': '') S)
       (\<lambda>_. insert_links J incidentID eventIDs)"

definition replaceIncidentEventLinks ::
  "store_lib \<Rightarrow> string \<Rightarrow> string list \<Rightarrow> store_state \<Rightarrow> (go_error + unit) \<times> store_state" where
  "replaceIncidentEventLinks J incidentID eventIDs S =
     (if incidentID = [] then (Inl ''incident ID is required'', S)
      else then_do (exec (delete_links incidentID) (''clear incident event links '' @ q J incidentID @ '': '') S)
        (\<lambda>_. insert_links J incidentID eventIDs))"

definition LinkIncidentEvents ::
  "store_lib \<Rightarrow> string \<Rightarrow> string list \<Rightarrow> store_state \<Rightarrow> (go_error + unit) \<times> store_state" where
  "LinkIncidentEvents J incidentID eventIDs =
     transaction ''begin incident event links: '' ''commit incident event links: ''
       (replaceIncidentEventLinks J incidentID eventIDs)"

definition save_with_events ::
  "store_lib \<Rightarrow> Incident \<Rightarrow> event list \<Rightarrow> store_state \<Rightarrow> (go_error + unit) \<times> store_state" where
  "save_with_events J inc es S =
     then_do (insertIncident J (''save incident '' @ q J (IncidentID inc) @ '': '') (redact_Incident (urls J) inc) S) (\<lambda>_ S1.
     then_do (insert_events J ''save incident event '' es S1) (\<lambda>_.
       replaceIncidentEventLinks J (IncidentID inc) (map EventID es)))"

definition SaveIncidentWithEvents ::
  "store_lib \<Rightarrow> Incident \<Rightarrow> event list \<Rightarrow> store_state \<Rightarrow> (go_error + unit) \<times> store_state" where
  "SaveIncidentWithEvents J inc es S =
     (case validateIncident inc of
        Some err \<Rightarrow> (Inl (''save incident: '' @ err), S)
      | None \<Rightarrow> transaction ''begin incident batch: '' ''commit incident batch: '' (save_with_events J inc es) S)"

section \<open>Reports of the language model\<close>

record LLMReport =
  lr_IncidentID :: string
  CreatedAt :: go_time
  lr_Model :: string
  lr_Report :: Report
  lr_RawResponse :: string

definition validateLLMReport :: "store_lib \<Rightarrow> LLMReport \<Rightarrow> go_error option" where
  "validateLLMReport J r =
     (if lr_IncidentID r = [] then Some ''incident_id is required''
      else if IsZero (CreatedAt r) then Some ''created_at is required''
      else if lr_Model r = [] then Some ''model is required''
      else ValidateReport (q J) (lr_Report r))"

definition report_to_row :: "store_lib \<Rightarrow> LLMReport \<Rightarrow> string \<Rightarrow> report_row" where
  "report_to_row J r payload =
     \<lparr>rr_createdAt = formatTime (CreatedAt r), rr_model = lr_Model r, rr_report = payload,
      rr_raw = RedactString (urls J) (lr_RawResponse r)\<rparr>"

definition exec_count ::
  "(database \<Rightarrow> nat \<times> database) \<Rightarrow> string \<Rightarrow> store_state \<Rightarrow> (go_error + nat) \<times> store_state" where
  "exec_count stmt msg S =
     (case next_fault S of
        (Some err, S') \<Rightarrow> (Inl (msg @ err), S')
      | (None, S') \<Rightarrow> (case stmt (current S') of (n, d) \<Rightarrow> (Inr n, S'\<lparr>current := d\<rparr>)))"

definition save_report :: "store_lib \<Rightarrow> LLMReport \<Rightarrow> string \<Rightarrow> store_state \<Rightarrow> (go_error + unit) \<times> store_state" where
  "save_report J r payload S =
     (let i = lr_IncidentID r; mark = ''mark incident '' @ q J i @ '' LLM status complete: '' in
      then_do (exec (upsert_report i (report_to_row J r payload)) (''save LLM report for incident '' @ q J i @ '': '') S) (\<lambda>_ S1.
      then_do (exec_count (mark_complete i) mark S1) (\<lambda>updated S2.
        case next_fault S2 of
          (Some err, S3) \<Rightarrow> (Inl (''read incident '' @ q J i @ '' update count: '' @ err), S3)
        | (None, S3) \<Rightarrow> if updated \<noteq> 1 then (Inl (mark @ ''incident not found''), S3) else (Inr (), S3))))"

definition SaveLLMReport :: "store_lib \<Rightarrow> LLMReport \<Rightarrow> store_state \<Rightarrow> (go_error + unit) \<times> store_state" where
  "SaveLLMReport J r S =
     (case validateLLMReport J r of
        Some err \<Rightarrow> (Inl (''save LLM report: '' @ err), S)
      | None \<Rightarrow>
          (case enc_report J (RedactReport (urls J) (lr_Report r)) of
             Inl err \<Rightarrow> (Inl (''encode LLM report: '' @ err), S)
           | Inr payload \<Rightarrow> transaction ''begin LLM report: '' ''commit LLM report: '' (save_report J r payload) S))"

end
