(* ===== verification/Store_Query.thy ===== *)
theory Store_Query
  imports Store
begin

text \<open>
  The queries of the store (\<open>internal/store/sqlite.go\<close>, \<open>llm_reports.go\<close>): the filters and orders that
  the source writes into its statements, and reading a row back. Text is compared by its bytes.
\<close>

section \<open>Reading rows\<close>

definition read_time :: "store_lib \<Rightarrow> string \<Rightarrow> go_error + go_time" where
  "read_time J text = (case parseTime text of None \<Rightarrow> Inl (time_error J text) | Some t \<Rightarrow> Inr t)"

definition scanEvent :: "store_lib \<Rightarrow> event_row \<Rightarrow> go_error + event" where
  "scanEvent J row =
     (let id = q J (EventID (er_columns row)) in
      sum_bind (wrap (''parse event '' @ id @ '' timestamp: '') (read_time J (er_timestamp row))) (\<lambda>t.
      sum_bind (wrap (''decode event '' @ id @ '' command line: '') (dec_strings J (er_commandLine row))) (\<lambda>commandLine.
      sum_bind (wrap (''decode event '' @ id @ '' metadata: '') (dec_metadata J (er_metadata row))) (\<lambda>meta.
        Inr ((er_columns row)\<lparr>Timestamp := t, CommandLine := commandLine, Metadata := meta\<rparr>)))))"

definition scanIncident :: "store_lib \<Rightarrow> incident_row \<Rightarrow> go_error + Incident" where
  "scanIncident J row =
     (let id = q J (IncidentID (ir_columns row)) in
      sum_bind (wrap (''parse incident '' @ id @ '' start time: '') (read_time J (ir_start row))) (\<lambda>start.
      sum_bind (wrap (''parse incident '' @ id @ '' end time: '') (read_time J (ir_end row))) (\<lambda>end_time.
      sum_bind (wrap (''decode incident '' @ id @ '' root process: '') (dec_root J (ir_root row))) (\<lambda>rootProcess.
      sum_bind (wrap (''decode incident '' @ id @ '' process tree: '') (dec_strings J (ir_tree row))) (\<lambda>processTree.
      sum_bind (wrap (''decode incident '' @ id @ '' signals: '') (dec_strings J (ir_signals row))) (\<lambda>signals.
      sum_bind (wrap (''decode incident '' @ id @ '' timeline: '') (dec_strings J (ir_timeline row))) (\<lambda>timeline.
        Inr ((ir_columns row)\<lparr>StartTime := start, EndTime := end_time, inc_RootProcess := rootProcess,
          ProcessTree := processTree, inc_Signals := signals, Timeline := timeline\<rparr>))))))))"

text \<open>
  The database delivers all rows of a query, refuses it, or breaks off after some rows.
\<close>

datatype delivery = Delivered | QueryFailed go_error | RowsBroke nat go_error

fun scan_all :: "('r \<Rightarrow> go_error + 'a) \<Rightarrow> 'r list \<Rightarrow> go_error + 'a list" where
  "scan_all scan [] = Inr []"
| "scan_all scan (row # rows) =
     sum_bind (scan row) (\<lambda>x. sum_bind (scan_all scan rows) (\<lambda>xs. Inr (x # xs)))"

definition run_query :: "string \<Rightarrow> delivery \<Rightarrow> ('r \<Rightarrow> go_error + 'a) \<Rightarrow> 'r list \<Rightarrow> go_error + 'a list" where
  "run_query msg delivered scan rows =
     (case delivered of
        Delivered \<Rightarrow> scan_all scan rows
      | QueryFailed err \<Rightarrow> Inl (msg @ err)
      | RowsBroke n err \<Rightarrow> sum_bind (scan_all scan (take n rows)) (\<lambda>_. Inl (msg @ err)))"

section \<open>Orders and limits\<close>

definition sort_desc :: "('a \<Rightarrow> 'k :: linorder) \<Rightarrow> 'a list \<Rightarrow> 'a list" where
  "sort_desc key xs = rev (sort_key key (rev xs))"

definition defaultLimit :: int where "defaultLimit = 50"

definition normalizeLimit :: "int \<Rightarrow> int" where
  "normalizeLimit limit = (if limit \<le> 0 then defaultLimit else limit)"

definition limited :: "int \<Rightarrow> 'a list \<Rightarrow> 'a list" where
  "limited limit rows = take (nat (normalizeLimit limit)) rows"

section \<open>Events\<close>

record EventFilter =
  ef_Limit :: int
  ef_EventType :: string
  ef_ProcessName :: string
  ef_PID :: int
  ef_ContainerID :: string
  ef_Since :: go_time
  ef_Until :: go_time

definition between :: "go_time \<Rightarrow> go_time \<Rightarrow> string \<Rightarrow> bool" where
  "between since until text \<longleftrightarrow>
     (IsZero since \<or> bytes_of (formatTime since) \<le> bytes_of text) \<and>
     (IsZero until \<or> bytes_of text \<le> bytes_of (formatTime until))"

definition event_selected :: "EventFilter \<Rightarrow> event_row \<Rightarrow> bool" where
  "event_selected f row \<longleftrightarrow>
     (ef_EventType f = [] \<or> EventType (er_columns row) = ef_EventType f) \<and>
     (ef_ProcessName f = [] \<or> ProcessName (er_columns row) = ef_ProcessName f) \<and>
     (ef_PID f \<le> 0 \<or> PID (er_columns row) = ef_PID f) \<and>
     (ef_ContainerID f = [] \<or> ContainerID (er_columns row) = ef_ContainerID f) \<and>
     between (ef_Since f) (ef_Until f) (er_timestamp row)"

definition by_time :: "event_row list \<Rightarrow> event_row list" where
  "by_time rows =
     sort_key (\<lambda>row. bytes_of (er_timestamp row)) (sort_key (\<lambda>row. bytes_of (EventID (er_columns row))) rows)"

definition ListEventsFiltered :: "store_lib \<Rightarrow> delivery \<Rightarrow> EventFilter \<Rightarrow> database \<Rightarrow> go_error + event list" where
  "ListEventsFiltered J delivered f d =
     run_query ''list events: '' delivered (scanEvent J)
       (limited (ef_Limit f) (by_time (filter (event_selected f) (map snd (events_table d)))))"

definition ListEvents :: "store_lib \<Rightarrow> delivery \<Rightarrow> int \<Rightarrow> database \<Rightarrow> go_error + event list" where
  "ListEvents J delivered limit =
     ListEventsFiltered J delivered \<lparr>ef_Limit = limit, ef_EventType = [], ef_ProcessName = [], ef_PID = 0,
       ef_ContainerID = [], ef_Since = 0, ef_Until = 0\<rparr>"

record EventProcessSummary =
  ps_ProcessName :: string
  ps_ExecutablePath :: string
  ps_Count :: nat

definition of_type :: "string \<Rightarrow> event_row \<Rightarrow> bool" where
  "of_type eventType row \<longleftrightarrow> eventType = [] \<or> EventType (er_columns row) = eventType"

definition TopEventProcesses :: "delivery \<Rightarrow> string \<Rightarrow> int \<Rightarrow> database \<Rightarrow> go_error + EventProcessSummary list" where
  "TopEventProcesses delivered eventType limit d =
     (let keys = map (\<lambda>row. (ProcessName (er_columns row), ExecutablePath (er_columns row)))
            (filter (of_type eventType) (map snd (events_table d)));
          groups = map (\<lambda>k. \<lparr>ps_ProcessName = fst k, ps_ExecutablePath = snd k, ps_Count = count_list keys k\<rparr>) (remdups keys)
      in run_query ''summarize event processes: '' delivered Inr
           (limited limit (sort_desc ps_Count (sort_key (\<lambda>g. bytes_of (ps_ProcessName g))
             (sort_key (\<lambda>g. bytes_of (ps_ExecutablePath g)) groups)))))"

record EventValueSummary =
  vs_Value :: string
  vs_Count :: nat

definition TopEventPaths :: "delivery \<Rightarrow> string \<Rightarrow> int \<Rightarrow> database \<Rightarrow> go_error + EventValueSummary list" where
  "TopEventPaths delivered eventType limit d =
     (let paths = map (\<lambda>row. FilePath (er_columns row))
            (filter (\<lambda>row. FilePath (er_columns row) \<noteq> [] \<and> of_type eventType row) (map snd (events_table d)));
          groups = map (\<lambda>p. \<lparr>vs_Value = p, vs_Count = count_list paths p\<rparr>) (remdups paths)
      in run_query ''summarize event paths: '' delivered Inr
           (limited limit (sort_desc vs_Count (sort_key (\<lambda>g. bytes_of (vs_Value g)) groups))))"

section \<open>Incidents\<close>

record IncidentFilter =
  if_Limit :: int
  if_MinScore :: int
  if_LLMStatus :: string
  if_Since :: go_time
  if_Until :: go_time

definition incident_selected :: "IncidentFilter \<Rightarrow> incident_row \<Rightarrow> bool" where
  "incident_selected f row \<longleftrightarrow>
     (if_MinScore f \<le> 0 \<or> if_MinScore f \<le> inc_RiskScore (ir_columns row)) \<and>
     (if_LLMStatus f = [] \<or> LLMStatus (ir_columns row) = if_LLMStatus f) \<and>
     between (if_Since f) (if_Until f) (ir_start row)"

definition newest_first :: "incident_row list \<Rightarrow> incident_row list" where
  "newest_first rows =
     sort_desc (\<lambda>row. bytes_of (ir_start row)) (sort_key (\<lambda>row. bytes_of (IncidentID (ir_columns row))) rows)"

definition ListIncidentsFiltered ::
  "store_lib \<Rightarrow> delivery \<Rightarrow> IncidentFilter \<Rightarrow> database \<Rightarrow> go_error + Incident list" where
  "ListIncidentsFiltered J delivered f d =
     run_query ''list incidents: '' delivered (scanIncident J)
       (limited (if_Limit f) (newest_first (filter (incident_selected f) (map snd (incidents_table d)))))"

definition ListIncidents :: "store_lib \<Rightarrow> delivery \<Rightarrow> int \<Rightarrow> database \<Rightarrow> go_error + Incident list" where
  "ListIncidents J delivered limit =
     ListIncidentsFiltered J delivered
       \<lparr>if_Limit = limit, if_MinScore = 0, if_LLMStatus = [], if_Since = 0, if_Until = 0\<rparr>"

record TriageIncident =
  ti_Incident :: Incident
  EvidenceCount :: nat

definition evidence :: "database \<Rightarrow> incident_row \<Rightarrow> nat" where
  "evidence d row = length (filter (\<lambda>(i, _). i = IncidentID (ir_columns row)) (links_table d))"

definition scanTriageIncident :: "store_lib \<Rightarrow> database \<Rightarrow> incident_row \<Rightarrow> go_error + TriageIncident" where
  "scanTriageIncident J d row =
     sum_bind (scanIncident J row) (\<lambda>inc. Inr \<lparr>ti_Incident = inc, EvidenceCount = evidence d row\<rparr>)"

definition ListTriageIncidentsFiltered ::
  "store_lib \<Rightarrow> delivery \<Rightarrow> IncidentFilter \<Rightarrow> database \<Rightarrow> go_error + TriageIncident list" where
  "ListTriageIncidentsFiltered J delivered f d =
     run_query ''list triage incidents: '' delivered (scanTriageIncident J d)
       (limited (if_Limit f) (sort_desc (\<lambda>row. inc_RiskScore (ir_columns row))
         (newest_first (filter (incident_selected f) (map snd (incidents_table d))))))"

definition ListTriageIncidents ::
  "store_lib \<Rightarrow> delivery \<Rightarrow> int \<Rightarrow> int \<Rightarrow> database \<Rightarrow> go_error + TriageIncident list" where
  "ListTriageIncidents J delivered limit minScore =
     ListTriageIncidentsFiltered J delivered
       \<lparr>if_Limit = limit, if_MinScore = minScore, if_LLMStatus = [], if_Since = 0, if_Until = 0\<rparr>"

text \<open>The rows of the join of an incident's links with the events.\<close>

definition linked_rows :: "database \<Rightarrow> string \<Rightarrow> event_row list" where
  "linked_rows d incidentID =
     concat (map (\<lambda>(i, e). if i = incidentID then (case map_of (events_table d) e of None \<Rightarrow> [] | Some row \<Rightarrow> [row]) else [])
       (links_table d))"

definition GetIncident ::
  "store_lib \<Rightarrow> go_error option \<Rightarrow> delivery \<Rightarrow> string \<Rightarrow> database \<Rightarrow> go_error + Incident \<times> event list" where
  "GetIncident J row_fault delivered incidentID d =
     (case row_fault of
        Some err \<Rightarrow> Inl (''scan incident: '' @ err)
      | None \<Rightarrow>
          (case map_of (incidents_table d) incidentID of
             None \<Rightarrow> Inl (''scan incident: '' @ ''sql: no rows in result set'')
           | Some row \<Rightarrow>
               sum_bind (scanIncident J row) (\<lambda>inc.
               sum_bind (run_query (''list incident events '' @ q J incidentID @ '': '') delivered (scanEvent J)
                   (by_time (linked_rows d incidentID)))
                 (\<lambda>es. Inr (inc, es)))))"

section \<open>Reports\<close>

definition GetLLMReport :: "store_lib \<Rightarrow> go_error option \<Rightarrow> string \<Rightarrow> database \<Rightarrow> go_error + LLMReport" where
  "GetLLMReport J row_fault incidentID d =
     (let id = q J incidentID in
      case row_fault of
        Some err \<Rightarrow> Inl (''get LLM report '' @ id @ '': '' @ err)
      | None \<Rightarrow>
          (case map_of (reports_table d) incidentID of
             None \<Rightarrow> Inl (''get LLM report '' @ id @ '': sql: no rows in result set'')
           | Some row \<Rightarrow>
               sum_bind (wrap (''parse LLM report '' @ id @ '' creation time: '') (read_time J (rr_createdAt row))) (\<lambda>t.
               sum_bind (wrap (''decode LLM report '' @ id @ '': '') (dec_report J (rr_report row))) (\<lambda>report.
                 case ValidateReport (q J) report of
                   Some err \<Rightarrow> Inl (''validate stored LLM report '' @ id @ '': '' @ err)
                 | None \<Rightarrow> Inr \<lparr>lr_IncidentID = incidentID, CreatedAt = t, lr_Model = rr_model row,
                     lr_Report = RedactReport (urls J) report,
                     lr_RawResponse = RedactString (urls J) (rr_raw row)\<rparr>))))"

section \<open>Statistics\<close>

record SQLiteStats =
  ss_JournalMode :: string
  PageSize :: int
  PageCount :: int
  FreelistCount :: int
  EventCount :: int
  IncidentCount :: int
  IncidentEventCount :: int
  LLMReportCount :: int
  ApproxDatabaseBytes :: int

text \<open>
  The answers of the pragmas, and the faults by statement. The product is an \<open>int64\<close>.
\<close>

record pragmas =
  journal_mode :: string
  page_size :: int
  page_count :: int
  freelist_count :: int

definition ask :: "(string \<Rightarrow> go_error option) \<Rightarrow> string \<Rightarrow> string \<Rightarrow> 'a \<Rightarrow> go_error + 'a" where
  "ask refuses msg statement answer = (case refuses statement of Some err \<Rightarrow> Inl (msg @ err) | None \<Rightarrow> Inr answer)"

definition int64 :: "int \<Rightarrow> int" where
  "int64 n = sint (word_of_int n :: 64 word)"

definition JournalMode :: "(string \<Rightarrow> go_error option) \<Rightarrow> pragmas \<Rightarrow> go_error + string" where
  "JournalMode refuses P = ask refuses ''read SQLite journal mode: '' ''PRAGMA journal_mode'' (journal_mode P)"

definition store_Stats :: "(string \<Rightarrow> go_error option) \<Rightarrow> pragmas \<Rightarrow> database \<Rightarrow> go_error + SQLiteStats" where
  "store_Stats refuses P d =
     sum_bind (JournalMode refuses P) (\<lambda>mode.
     sum_bind (ask refuses ''read SQLite page size: '' ''PRAGMA page_size'' (page_size P)) (\<lambda>pageSize.
     sum_bind (ask refuses ''read SQLite page count: '' ''PRAGMA page_count'' (page_count P)) (\<lambda>pageCount.
     sum_bind (ask refuses ''read SQLite freelist count: '' ''PRAGMA freelist_count'' (freelist_count P)) (\<lambda>freelist.
     sum_bind (ask refuses ''count events: '' ''SELECT COUNT(*) FROM events'' (length (events_table d))) (\<lambda>ec.
     sum_bind (ask refuses ''count incidents: '' ''SELECT COUNT(*) FROM incidents'' (length (incidents_table d))) (\<lambda>ic.
     sum_bind (ask refuses ''count incident event links: '' ''SELECT COUNT(*) FROM incident_events'' (length (links_table d))) (\<lambda>lc.
     sum_bind (ask refuses ''count LLM reports: '' ''SELECT COUNT(*) FROM llm_reports'' (length (reports_table d))) (\<lambda>rc.
       Inr \<lparr>ss_JournalMode = mode, PageSize = pageSize, PageCount = pageCount, FreelistCount = freelist,
            EventCount = int ec, IncidentCount = int ic, IncidentEventCount = int lc, LLMReportCount = int rc,
            ApproxDatabaseBytes = int64 (pageSize * pageCount)\<rparr>))))))))"

end
