(* ===== verification/GoTime_Laws.thy ===== *)
theory GoTime_Laws
  imports GoTime
begin

text \<open>
  The calendar is inverted by \<open>day_of_date\<close>, which grows with the date; printed instants of the years
  0 to 9999 parse back and compare as the instants do.
\<close>

section \<open>The calendar\<close>

lemma year_of_day:
  assumes "year_of_day d = (y, yday)"
  shows "days_before_year y + int yday = d" "yday < (if is_leap y then 366 else 365)"
proof -
  define a r b r1 c r2 e where defs: "a = d div 146097" "r = d mod 146097" "b = min 3 (r div 36524)"
    "r1 = r - 36524 * b" "c = r1 div 1461" "r2 = r1 mod 1461" "e = min 3 (r2 div 365)"
  have "(400 * a + 100 * b + 4 * c + e + 1, nat (r2 - 365 * e)) = (y, yday)"
    using assms unfolding year_of_day_def Let_def defs .
  then have y: "y = 400 * a + 100 * b + 4 * c + e + 1" and yday: "yday = nat (r2 - 365 * e)"
    by (rule Pair_inject, simp)+
  have r: "0 \<le> r" "r < 146097" "d = 146097 * a + r" by (simp_all add: defs)
  have b: "0 \<le> b" "b \<le> 3" "0 \<le> r1" "b < 3 \<longrightarrow> r1 < 36524" "b = 3 \<longrightarrow> r1 < 36525" "r = 36524 * b + r1"
    using r by (auto simp: defs(3,4) min_def)
  have c: "0 \<le> c" "c \<le> 24" "0 \<le> r2" "r2 < 1461" "r1 = 1461 * c + r2"
    using b by (auto simp: defs(5,6))
  have e: "0 \<le> e" "e \<le> 3" "0 \<le> r2 - 365 * e" "e < 3 \<longrightarrow> r2 - 365 * e < 365" "e = 3 \<longrightarrow> r2 - 365 * e \<le> 365"
    using c by (auto simp: defs(7) min_def)
  have q: "(y - 1) div 4 = 100 * a + 25 * b + c" "(y - 1) div 100 = 4 * a + b" "(y - 1) div 400 = a"
    by (rule int_div_pos_eq [where r = e], use e in \<open>simp_all add: y algebra_simps\<close>)
      (rule int_div_pos_eq [where r = "4 * c + e"], use c e in \<open>simp_all add: y algebra_simps\<close>,
       rule int_div_pos_eq [where r = "100 * b + 4 * c + e"], use b c e in \<open>simp_all add: y algebra_simps\<close>)
  show "days_before_year y + int yday = d"
    unfolding days_before_year_def q yday using r(3) b(6) c(5) e by (simp add: y algebra_simps)
  have leap: "is_leap y" if "r2 - 365 * e = 365"
  proof -
    from that e c have e3: "e = 3" "r2 = 1460" by auto
    then have y4: "y = 4 * (100 * a + 25 * b + c + 1)" by (simp add: y)
    show ?thesis
    proof (cases "c = 24")
      case True
      then have "r1 = 36524" using c e3 by simp
      with b have "b = 3" by auto
      with True have "y = 400 * (a + 1)" by (simp add: y4)
      then show ?thesis by (simp add: is_leap_def)
    next
      case False
      with c have "c < 24" by simp
      have "y = 4 * (c + 1) + (4 * a + b) * 100" by (simp add: y4 algebra_simps)
      then have "y mod 100 = (4 * (c + 1)) mod 100" by (simp only: mod_mult_self1)
      also have "\<dots> \<noteq> 0" using \<open>c < 24\<close> c(1) by simp
      finally show ?thesis by (simp add: is_leap_def y4)
    qed
  qed
  have "r2 - 365 * e < (if is_leap y then 366 else 365)"
  proof (cases "r2 - 365 * e = 365")
    case False
    with e have "r2 - 365 * e < 365" by linarith
    then show ?thesis by simp
  qed (simp add: leap)
  then show "yday < (if is_leap y then 366 else 365)" using e(3) by (auto simp: yday)
qed

lemma month_of:
  "n < sum_list ls \<Longrightarrow> month_of ls n = (m, d) \<Longrightarrow> m < length ls \<and> d < ls ! m \<and> sum_list (take m ls) + d = n"
proof (induction ls arbitrary: n m)
  case (Cons l ls)
  show ?case
  proof (cases "n < l")
    case True
    with Cons.prems show ?thesis by auto
  next
    case False
    with Cons.prems obtain m' where m: "month_of ls (n - l) = (m', d)" "m = Suc m'"
      by (auto split: prod.splits)
    moreover have "n - l < sum_list ls" using Cons.prems(1) False by simp
    ultimately have "m' < length ls \<and> d < ls ! m' \<and> sum_list (take m' ls) + d = n - l" by (intro Cons.IH)
    with m(2) False show ?thesis by (simp, linarith)
  qed
qed simp

lemma sum_month_lengths: "sum_list (month_lengths y) = (if is_leap y then 366 else 365)"
  by (simp add: month_lengths_def)

definition date_ok :: "int \<Rightarrow> nat \<Rightarrow> nat \<Rightarrow> bool" where
  "date_ok y m d \<longleftrightarrow> 1 \<le> m \<and> m \<le> 12 \<and> 1 \<le> d \<and> d \<le> month_lengths y ! (m - 1)"

lemma date_of_day:
  assumes "date_of_day n = (y, m, d)"
  shows "date_ok y m d" "day_of_date y m d = n"
proof -
  obtain yday where y: "year_of_day n = (y, yday)"
    using assms by (auto simp: date_of_day_def split: prod.splits)
  obtain m' d' where md: "month_of (month_lengths y) yday = (m', d')" "m = m' + 1" "d = d' + 1"
    using assms y by (auto simp: date_of_day_def split: prod.splits)
  have "yday < sum_list (month_lengths y)" using year_of_day(2) [OF y] by (simp add: sum_month_lengths)
  from month_of [OF this md(1)] have "m' < length (month_lengths y)" "d' < month_lengths y ! m'"
    "sum_list (take m' (month_lengths y)) + d' = yday" by simp_all
  with md year_of_day(1) [OF y] show "date_ok y m d" "day_of_date y m d = n"
    by (auto simp: date_ok_def day_of_date_def month_lengths_def)
qed

lemma div_pred:
  fixes y k :: int
  assumes "0 < k"
  shows "y div k = (y - 1) div k + (if k dvd y then 1 else 0)"
proof (cases "k dvd y")
  case True
  then obtain q where "y = k * q" ..
  moreover have "(k * q - 1) div k = q - 1"
    by (rule int_div_pos_eq [where r = "k - 1"]) (use assms in \<open>simp_all add: algebra_simps\<close>)
  ultimately show ?thesis using assms by simp
next
  case False
  then have "0 < y mod k" using assms by (metis dvd_eq_mod_eq_0 order_le_less pos_mod_sign)
  moreover have bound: "y mod k < k" using assms by (rule pos_mod_bound)
  ultimately have "(y - 1) div k = y div k"
    by (intro int_div_pos_eq [where r = "y mod k - 1"])
      (use bound in \<open>simp_all add: algebra_simps\<close>)
  with False show ?thesis by simp
qed

lemma leap_dvd: "is_leap y \<longleftrightarrow> 4 dvd y \<and> (\<not> 100 dvd y \<or> 400 dvd y)"
  by (simp add: is_leap_def dvd_eq_mod_eq_0)

lemma leap_count:
  fixes y p q s :: int
  assumes "p = p' + (if A then 1 else 0)" "q = q' + (if B then 1 else 0)" "s = s' + (if C then 1 else 0)"
    and "C \<Longrightarrow> B" "B \<Longrightarrow> A"
  shows "365 * y + p - q + s = 365 * (y - 1) + p' - q' + s' + (if A \<and> (\<not> B \<or> C) then 366 else 365)"
  using assms by auto

lemma days_before_Suc: "days_before_year (y + 1) = days_before_year y + (if is_leap y then 366 else 365)"
  unfolding days_before_year_def leap_dvd add_diff_cancel_right'
  by (rule leap_count; (rule div_pred, simp)?) (erule dvd_trans [rotated], simp)+

lemma days_before_mono: "y \<le> z \<Longrightarrow> days_before_year y \<le> days_before_year z"
proof (induction z rule: int_ge_induct)
  case (step z)
  then show ?case by (simp add: days_before_Suc)
qed simp

lemma sum_take_mono: "i \<le> j \<Longrightarrow> sum_list (take i (ls :: nat list)) \<le> sum_list (take j ls)"
  by (metis le_add1 le_add_diff_inverse sum_list.append take_add)

lemma day_in_year:
  assumes "date_ok y m d"
  shows "days_before_year y \<le> day_of_date y m d" "day_of_date y m d < days_before_year (y + 1)"
proof -
  have m: "m - 1 < length (month_lengths y)" "1 \<le> d" "d \<le> month_lengths y ! (m - 1)"
    using assms by (auto simp: date_ok_def month_lengths_def)
  then have "sum_list (take (m - 1) (month_lengths y)) + d \<le> sum_list (take (Suc (m - 1)) (month_lengths y))"
    by (simp add: take_Suc_conv_app_nth)
  also have "\<dots> \<le> sum_list (take 12 (month_lengths y))"
    by (rule sum_take_mono) (use assms in \<open>auto simp: date_ok_def\<close>)
  also have "\<dots> = (if is_leap y then 366 else 365)" by (simp add: month_lengths_def)
  finally show "days_before_year y \<le> day_of_date y m d" "day_of_date y m d < days_before_year (y + 1)"
    using m by (auto simp: day_of_date_def days_before_Suc split: if_splits)
qed

lemma day_of_date_less:
  assumes "date_ok y m d" "date_ok y' m' d'" "y < y' \<or> y = y' \<and> (m < m' \<or> m = m' \<and> d < d')"
  shows "day_of_date y m d < day_of_date y' m' d'"
proof -
  consider "y < y'" | "y = y'" "m < m'" | "y = y'" "m = m'" "d < d'" using assms(3) by blast
  then show ?thesis
  proof cases
    case 1
    with day_in_year(2) [OF assms(1)] day_in_year(1) [OF assms(2)] days_before_mono [of "y + 1" y']
    show ?thesis by simp
  next
    case 2
    have m: "m - 1 < length (month_lengths y)" "d \<le> month_lengths y ! (m - 1)" "1 \<le> d'" "Suc (m - 1) \<le> m' - 1"
      using assms(1,2) 2 by (auto simp: date_ok_def month_lengths_def)
    then have "sum_list (take (m - 1) (month_lengths y)) + d \<le> sum_list (take (Suc (m - 1)) (month_lengths y))"
      by (simp add: take_Suc_conv_app_nth)
    also have "\<dots> \<le> sum_list (take (m' - 1) (month_lengths y))" by (rule sum_take_mono) (rule m(4))
    finally show ?thesis using 2 m by (simp add: day_of_date_def)
  next
    case 3
    then show ?thesis by (simp add: day_of_date_def)
  qed
qed

lemma date_of_day_less:
  assumes "n < n'" "date_of_day n = (y, m, d)" "date_of_day n' = (y', m', d')"
  shows "y < y' \<or> y = y' \<and> (m < m' \<or> m = m' \<and> d < d')"
proof (rule ccontr)
  assume "\<not> ?thesis"
  then have "y' < y \<or> y' = y \<and> (m' < m \<or> m' = m \<and> d' < d) \<or> (y', m', d') = (y, m, d)" by auto
  with day_of_date_less [OF date_of_day(1) [OF assms(3)] date_of_day(1) [OF assms(2)]]
    date_of_day(2) [OF assms(2)] date_of_day(2) [OF assms(3)] assms(1)
  show False by fastforce
qed

section \<open>Digits\<close>

lemma length_digits [simp]: "length (digits w n) = w"
  by (induction w arbitrary: n) simp_all

lemma digits_digit: "list_all digit (digits w n)"
  by (induction w arbitrary: n) (simp_all add: digit_def of_digit_char)

lemma digits_value: "n < 10 ^ w \<Longrightarrow> decimal_value (digits w n) = n"
proof (induction w arbitrary: n)
  case 0
  then show ?case by (simp add: decimal_value_def)
next
  case (Suc w)
  then have "n div 10 < 10 ^ w" by (simp add: less_mult_imp_div_less)
  from Suc.IH [OF this] show ?case by (simp add: decimal_value_def of_digit_char)
qed

lemma append_less_same:
  fixes a b c d :: "nat list"
  shows "length a = length b \<Longrightarrow> a @ c < b @ d \<longleftrightarrow> a < b \<or> a = b \<and> c < d"
proof (induction a arbitrary: b)
  case (Cons x a)
  then show ?case by (cases b) auto
qed simp

lemma digits_less: "a < b \<Longrightarrow> bytes_of (digits w a) < bytes_of (digits w b)" if "b < 10 ^ w" for a b w
  using that
proof (induction w arbitrary: a b)
  case (Suc w)
  have b: "b div 10 < 10 ^ w" using Suc.prems(2) by (simp add: less_mult_imp_div_less)
  consider "a div 10 < b div 10" | "a div 10 = b div 10" "a mod 10 < b mod 10"
    using Suc.prems(1) by (metis div_le_mono div_mult_mod_eq le_neq_implies_less less_or_eq_imp_le nat_add_left_cancel_less)
  then show ?case
  proof cases
    case 1
    from Suc.IH [OF 1 b] show ?thesis by (simp add: append_less_same)
  next
    case 2
    then show ?thesis by (simp add: append_less_same of_digit_char)
  qed
qed simp

lemma pad_digits: "n < 10 ^ w \<Longrightarrow> pad w n = digits w n"
  by (simp add: pad_def)

lemma get_digits_digits: "n < 10 ^ w \<Longrightarrow> get_digits w (digits w n @ rest) = Some (n, rest)"
  by (simp add: get_digits_def digits_digit digits_value)

section \<open>Texts\<close>

definition date_part :: "int \<Rightarrow> string" where
  "date_part n = (case date_of_day n of (y, m, d) \<Rightarrow> digits 4 (nat y) @ ''-'' @ digits 2 m @ ''-'' @ digits 2 d)"

definition clock_part :: "int \<Rightarrow> string" where
  "clock_part c = digits 2 (nat (c div 3600)) @ '':'' @ digits 2 (nat (c div 60 mod 60)) @ '':'' @ digits 2 (nat (c mod 60))"

text \<open>The instants of the years 0 to 9999.\<close>

definition printable :: "go_time \<Rightarrow> bool" where
  "printable t \<longleftrightarrow> fst (date_of_day (t div second div 86400)) \<in> {0..9999}"

lemma date_small: "date_ok y m d \<Longrightarrow> m < 100 \<and> d < 100"
proof -
  assume ok: "date_ok y m d"
  then have "month_lengths y ! (m - 1) \<in> set (month_lengths y)"
    by (intro nth_mem) (auto simp: date_ok_def month_lengths_def)
  moreover have "\<forall>l\<in>set (month_lengths y). l \<le> 31" by (simp add: month_lengths_def)
  ultimately have "month_lengths y ! (m - 1) \<le> 31" by blast
  with ok show ?thesis by (auto simp: date_ok_def)
qed

lemma clock_small: "0 \<le> c \<Longrightarrow> c < 86400 \<Longrightarrow> nat (c div 3600) < 24 \<and> nat (c div 60 mod 60) < 60 \<and> nat (c mod 60) < 60"
  by (auto simp: nat_less_iff)

lemma formatTime_parts:
  assumes "printable t"
  shows "formatTime t = date_part (t div second div 86400) @ ''T'' @ clock_part (t div second mod 86400) @ ''.'' @
    digits 9 (nat (t mod second)) @ ''Z''"
proof -
  obtain y m d where date: "date_of_day (t div second div 86400) = (y, m, d)" by (metis prod_cases3)
  with assms have y: "0 \<le> y" "y \<le> 9999" by (auto simp: printable_def)
  have md: "m < 100" "d < 100" using date_small [OF date_of_day(1) [OF date]] by simp_all
  let ?c = "t div second mod 86400"
  have "nat (?c div 3600) < 24 \<and> nat (?c div 60 mod 60) < 60 \<and> nat (?c mod 60) < 60"
    by (rule clock_small) simp_all
  then have "clock_text ?c = clock_part ?c" by (simp add: clock_text_def clock_part_def pad_digits)
  moreover have "nat (t mod second) < 10 ^ 9" by (simp add: nat_less_iff)
  moreover have "year_text y = digits 4 (nat y)" using y by (simp add: year_text_def pad_digits)
  ultimately show ?thesis
    by (simp add: formatTime_def date_text_def Let_def date date_part_def md pad_digits)
qed

lemma date_part_less:
  assumes "n < n'" "fst (date_of_day n) \<in> {0..9999}" "fst (date_of_day n') \<in> {0..9999}"
  shows "bytes_of (date_part n) < bytes_of (date_part n')"
proof -
  obtain y m d y' m' d' where d: "date_of_day n = (y, m, d)" "date_of_day n' = (y', m', d')" by (metis prod_cases3)
  note less = date_of_day_less [OF assms(1) d]
  have small: "m' < 100" "d' < 100" using date_small [OF date_of_day(1) [OF d(2)]] by simp_all
  have "0 \<le> y" "0 \<le> y'" "nat y' < 10 ^ 4" using assms d by auto
  then have "nat y < nat y' \<or> nat y = nat y' \<and> (m < m' \<or> m = m' \<and> d < d')" using less by auto
  with small \<open>nat y' < 10 ^ 4\<close> show ?thesis
    by (auto simp: date_part_def d append_less_same digits_less)
qed

lemma div_mod_less:
  fixes a b k :: int
  assumes "a < b" "0 < k"
  shows "a div k < b div k \<or> a div k = b div k \<and> a mod k < b mod k"
proof (rule ccontr)
  assume not: "\<not> ?thesis"
  have "a div k \<le> b div k" using assms by (simp add: zdiv_mono1)
  with not have "a div k = b div k" "b mod k \<le> a mod k" by auto
  then have "b \<le> a" by (metis add_le_cancel_left div_mult_mod_eq)
  with assms(1) show False by simp
qed

lemma clock_part_less:
  assumes "0 \<le> c" "c < c'" "c' < 86400"
  shows "bytes_of (clock_part c) < bytes_of (clock_part c')"
proof -
  have small: "nat (c' div 3600) < 10 ^ 2" "nat (c' div 60 mod 60) < 10 ^ 2" "nat (c' mod 60) < 10 ^ 2"
    using clock_small [of c'] assms by auto
  have hour: "x div 60 div 60 = x div 3600" for x :: int by (simp add: zdiv_zmult2_eq [of 60 x 60, simplified])
  have top: "c div 60 < c' div 60 \<or> c div 60 = c' div 60 \<and> c mod 60 < c' mod 60"
    by (rule div_mod_less [OF assms(2)]) simp
  have low: "c div 3600 < c' div 3600 \<or> c div 3600 = c' div 3600 \<and> c div 60 mod 60 < c' div 60 mod 60"
    if "c div 60 < c' div 60"
    unfolding hour [symmetric] by (rule div_mod_less [OF that]) simp
  have same: "c div 3600 = c' div 3600 \<and> c div 60 mod 60 = c' div 60 mod 60" if "c div 60 = c' div 60"
    by (simp add: that flip: hour)
  from top low same consider "c div 3600 < c' div 3600" | "c div 3600 = c' div 3600" "c div 60 mod 60 < c' div 60 mod 60"
    | "c div 3600 = c' div 3600" "c div 60 mod 60 = c' div 60 mod 60" "c mod 60 < c' mod 60"
    by blast
  then show ?thesis
  proof cases
    case 1
    have "nat (c div 3600) < nat (c' div 3600)"
      by (rule nat_less_eq_zless [THEN iffD2, OF _ 1]) (simp add: assms(1) pos_imp_zdiv_nonneg_iff)
    from digits_less [OF small(1) this] show ?thesis by (simp add: clock_part_def append_less_same)
  next
    case 2
    have "nat (c div 60 mod 60) < nat (c' div 60 mod 60)" by (rule nat_less_eq_zless [THEN iffD2, OF _ 2(2)]) simp
    from digits_less [OF small(2) this] show ?thesis by (simp add: clock_part_def append_less_same 2(1))
  next
    case 3
    have "nat (c mod 60) < nat (c' mod 60)" by (rule nat_less_eq_zless [THEN iffD2, OF _ 3(3)]) simp
    from digits_less [OF small(3) this] show ?thesis by (simp add: clock_part_def append_less_same 3(1,2))
  qed
qed

lemma length_parts [simp]: "length (date_part n) = 10" "length (clock_part c) = 8"
  by (simp_all add: date_part_def clock_part_def split: prod.splits)

lemma formatTime_less:
  assumes "t < u" "printable t" "printable u"
  shows "bytes_of (formatTime t) < bytes_of (formatTime u)"
proof -
  let ?D = "\<lambda>t. t div second div 86400" and ?C = "\<lambda>t. t div second mod 86400"
  have C: "0 \<le> ?C t" "?C u < 86400" by simp_all
  have N: "nat (u mod second) < 10 ^ 9" by (simp add: nat_less_iff)
  have top: "t div second < u div second \<or> t div second = u div second \<and> t mod second < u mod second"
    by (rule div_mod_less [OF assms(1)]) simp
  have low: "?D t < ?D u \<or> ?D t = ?D u \<and> ?C t < ?C u" if "t div second < u div second"
    by (rule div_mod_less [OF that]) simp
  have same: "?D t = ?D u \<and> ?C t = ?C u" if "t div second = u div second"
    by (simp only: that)
  from top low same consider "?D t < ?D u" | "?D t = ?D u" "?C t < ?C u" | "?D t = ?D u" "?C t = ?C u" "t mod second < u mod second"
    by blast
  then show ?thesis
  proof cases
    case 1
    from date_part_less [OF 1] assms show ?thesis
      by (simp add: formatTime_parts append_less_same printable_def)
  next
    case 2
    from clock_part_less [OF C(1) 2(2) C(2)] show ?thesis
      by (simp add: formatTime_parts [OF assms(2)] formatTime_parts [OF assms(3)] append_less_same 2(1))
  next
    case 3
    have "nat (t mod second) < nat (u mod second)" by (rule nat_less_eq_zless [THEN iffD2, OF _ 3(3)]) simp
    from digits_less [OF N this] show ?thesis
      by (simp add: formatTime_parts [OF assms(2)] formatTime_parts [OF assms(3)] append_less_same 3(1,2))
  qed
qed

lemma formatTime_le:
  assumes "printable t" "printable u"
  shows "bytes_of (formatTime t) \<le> bytes_of (formatTime u) \<longleftrightarrow> t \<le> u"
  using formatTime_less [OF _ assms] formatTime_less [OF _ assms(2,1)]
  by (metis less_le_not_le linorder_le_cases order.order_iff_strict)

lemma radix_sum:
  fixes c q :: int
  shows "c = q * 60 + s \<Longrightarrow> q = h * 60 + m \<Longrightarrow> 0 \<le> h \<Longrightarrow> 0 \<le> m \<Longrightarrow> 0 \<le> s \<Longrightarrow>
    int (nat h * 3600 + nat m * 60 + nat s) = c"
  by simp

lemma clock_sum: "0 \<le> c \<Longrightarrow> int (nat (c div 3600) * 3600 + nat (c div 60 mod 60) * 60 + nat (c mod 60)) = c"
proof (rule radix_sum)
  have "c div 3600 = c div 60 div 60" by (simp add: zdiv_zmult2_eq [of 60 c 60, simplified])
  then show "c div 60 = c div 3600 * 60 + c div 60 mod 60" by (simp only: div_mult_mod_eq)
qed (simp_all only: div_mult_mod_eq pos_imp_zdiv_nonneg_iff zero_less_numeral pos_mod_sign)

lemma parse_clock_digits:
  "h < 24 \<Longrightarrow> mi < 60 \<Longrightarrow> sec < 60 \<Longrightarrow>
     parse_clock (digits 2 h @ '':'' @ digits 2 mi @ '':'' @ digits 2 sec @ rest) = Some (int (h * 3600 + mi * 60 + sec), rest)"
  by (simp add: parse_clock_def get_hour_def get_digits_digits skip_def del: digits.simps)

lemma digits_fraction:
  assumes "n < 10 ^ 9"
  shows "get_fraction (CHR ''.'' # digits 9 n @ ''Z'') = (n, ''Z'')"
proof -
  have all: "list_all digit (digits 9 n)" by (rule digits_digit)
  then have "takeWhile digit (digits 9 n @ ''Z'') = digits 9 n"
    by (subst takeWhile_append2) (auto simp: list_all_iff digit_def)
  moreover have "digit ((digits 9 n @ ''Z'') ! 0)"
    using all by (simp add: nth_append list_all_length)
  ultimately show ?thesis
    by (simp add: get_fraction_def digits_value [OF assms])
qed

lemma parse_formatTime:
  assumes "printable t"
  shows "parseTime (formatTime t) = Some t"
proof -
  let ?day = "t div second div 86400" and ?c = "t div second mod 86400" and ?ns = "nat (t mod second)"
  obtain y m d where date: "date_of_day ?day = (y, m, d)" by (metis prod_cases3)
  with assms have y: "0 \<le> y" "nat y < 10 ^ 4" by (auto simp: printable_def)
  have ok: "date_ok y m d" "day_of_date y m d = ?day" using date_of_day [OF date] by simp_all
  then have md: "m < 100" "d < 100" using date_small by auto
  have d: "parse_date (date_part ?day @ rest) = Some (?day, rest)" for rest
    using ok y by (simp add: parse_date_def date_part_def date get_digits_digits md skip_def date_ok_def)
  have c: "0 \<le> ?c" "?c < 86400" by simp_all
  note small = clock_small [OF c]
  have clock: "parse_clock (clock_part ?c @ rest) = Some (?c, rest)" for rest
    unfolding clock_part_def append_assoc using small
    by (simp only: parse_clock_digits clock_sum [OF c(1)])
  have ns: "?ns < 10 ^ 9" by (simp add: nat_less_iff)
  have zone: "get_zone ''Z'' = Some (0, [])" by (simp add: get_zone_def)
  have total: "(?day * 86400 + ?c - 0) * second + int ?ns = t"
  proof -
    have "?day * 86400 + ?c = t div second" by (rule div_mult_mod_eq)
    moreover have "int ?ns = t mod second" by simp
    ultimately show ?thesis by (simp only: diff_0_right div_mult_mod_eq)
  qed
  show ?thesis
    unfolding formatTime_parts [OF assms] parseTime_def
    by (simp only: d clock digits_fraction [OF ns] append_assoc append_Cons append_Nil skip_def list.sel
        Option.bind.bind_lunit list.distinct simp_thms if_True prod.case zone total)
qed

end
