(* ===== verification/Store_Laws.thy ===== *)
theory Store_Laws
  imports Store_Query GoTime_Laws
begin

text \<open>
  Laws of the store: every operation commits all it does or nothing, keeps the references between the
  tables, and the queries on the textual time columns are the queries on instants.
\<close>

section \<open>Integrity\<close>

text \<open>Keys are unique and agree with their rows, and every reference leads to a row.\<close>

definition db_ok :: "database \<Rightarrow> bool" where
  "db_ok d \<longleftrightarrow>
     distinct (map fst (events_table d)) \<and> distinct (map fst (incidents_table d)) \<and>
     distinct (map fst (reports_table d)) \<and> distinct (links_table d) \<and>
     (\<forall>(k, row)\<in>set (events_table d). k = EventID (er_columns row)) \<and>
     (\<forall>(k, row)\<in>set (incidents_table d). k = IncidentID (ir_columns row)) \<and>
     fst ` set (links_table d) \<subseteq> fst ` set (incidents_table d) \<and>
     snd ` set (links_table d) \<subseteq> fst ` set (events_table d) \<and>
     fst ` set (reports_table d) \<subseteq> fst ` set (incidents_table d)"

lemma update_keys: "fst ` set (AList.update k v al) = insert k (fst ` set al)"
  by (induction al) auto

lemma update_all:
  "\<forall>(k, row)\<in>set al. P k row \<Longrightarrow> P k v \<Longrightarrow> \<forall>(k, row)\<in>set (AList.update k v al). P k row"
  by (induction al) auto

lemmas update_rules = distinct_update update_keys update_all subset_insertI2

lemma key_iff: "map_of al k = None \<longleftrightarrow> k \<notin> fst ` set al"
  by (rule map_of_eq_None_iff)

lemma ok_upsert_event: "upsert_event row d = Inr d' \<Longrightarrow> db_ok d \<Longrightarrow> db_ok d'"
  unfolding upsert_event_def db_ok_def by (elim conjE) (clarsimp simp: update_rules)

lemma ok_upsert_incident: "upsert_incident row d = Inr d' \<Longrightarrow> db_ok d \<Longrightarrow> db_ok d'"
  unfolding upsert_incident_def db_ok_def by (elim conjE) (clarsimp simp: update_rules)

lemma ok_delete_links: "delete_links i d = Inr d' \<Longrightarrow> db_ok d \<Longrightarrow> db_ok d'"
  unfolding delete_links_def db_ok_def by (elim conjE) (force simp: image_subset_iff)

lemma ok_insert_link:
  assumes "insert_link i e d = Inr d'" "db_ok d"
  shows "db_ok d'"
proof -
  from assms(1) have "(i, e) \<notin> set (links_table d)" "i \<in> fst ` set (incidents_table d)"
    "e \<in> fst ` set (events_table d)" "d' = d\<lparr>links_table := links_table d @ [(i, e)]\<rparr>"
    unfolding insert_link_def key_iff by (simp_all split: if_split_asm)
  with assms(2) show ?thesis by (simp add: db_ok_def)
qed

lemma ok_upsert_report:
  assumes "upsert_report i row d = Inr d'" "db_ok d"
  shows "db_ok d'"
proof -
  from assms(1) have "i \<in> fst ` set (incidents_table d)"
    "d' = d\<lparr>reports_table := AList.update i row (reports_table d)\<rparr>"
    unfolding upsert_report_def key_iff by (simp_all split: if_split_asm)
  with assms(2) show ?thesis by (simp add: db_ok_def update_rules)
qed

lemma ok_mark_complete:
  assumes "mark_complete i d = (n, d')" "db_ok d"
  shows "db_ok d'"
proof (cases "map_of (incidents_table d) i")
  case (Some row)
  from map_of_SomeD [OF this] assms(2) have i: "IncidentID (ir_columns row) = i" "i \<in> fst ` set (incidents_table d)"
    by (auto simp: db_ok_def intro: rev_image_eqI)
  let ?row = "row\<lparr>ir_columns := (ir_columns row)\<lparr>LLMStatus := ''complete''\<rparr>\<rparr>"
  have d': "d' = d\<lparr>incidents_table := AList.update i ?row (incidents_table d)\<rparr>"
    using assms(1) by (simp add: mark_complete_def Some)
  have "\<forall>(k, r)\<in>set (AList.update i ?row (incidents_table d)). k = IncidentID (ir_columns r)"
    by (rule update_all) (use assms(2) i(1) in \<open>simp_all add: db_ok_def\<close>)
  with assms(2) show ?thesis by (simp add: db_ok_def d' distinct_update update_keys subset_insertI2)
qed (use assms in \<open>simp add: mark_complete_def\<close>)

section \<open>Bodies and transactions\<close>

text \<open>A body of statements leaves the committed database alone and keeps the integrity of what it sees.\<close>

definition safe_body :: "(store_state \<Rightarrow> (go_error + 'a) \<times> store_state) \<Rightarrow> bool" where
  "safe_body body \<longleftrightarrow>
     (\<forall>S. case body S of (_, S') \<Rightarrow> committed S' = committed S \<and> (db_ok (current S) \<longrightarrow> db_ok (current S')))"

lemma safe_bodyD:
  "safe_body body \<Longrightarrow> body S = (r, S') \<Longrightarrow> committed S' = committed S \<and> (db_ok (current S) \<longrightarrow> db_ok (current S'))"
  by (auto simp: safe_body_def split: prod.splits)

lemma next_fault_frame: "next_fault S = (f, S') \<Longrightarrow> committed S' = committed S \<and> current S' = current S"
  by (auto simp: next_fault_def split: list.splits)

lemma safe_exec: "(\<And>d d'. stmt d = Inr d' \<Longrightarrow> db_ok d \<Longrightarrow> db_ok d') \<Longrightarrow> safe_body (exec stmt msg)"
  unfolding safe_body_def exec_def
  by (auto split: prod.splits option.splits sum.splits dest!: next_fault_frame)

lemma safe_exec_count: "(\<And>d n d'. stmt d = (n, d') \<Longrightarrow> db_ok d \<Longrightarrow> db_ok d') \<Longrightarrow> safe_body (exec_count stmt msg)"
  unfolding safe_body_def exec_count_def
  by (auto split: prod.splits option.splits sum.splits dest!: next_fault_frame)

lemma safe_then:
  assumes "safe_body body" "\<And>x. safe_body (cont x)"
  shows "safe_body (\<lambda>S. then_do (body S) cont)"
  unfolding safe_body_def then_do_def
  using safe_bodyD [OF assms(1)] safe_bodyD [OF assms(2)]
  by (fastforce split: prod.splits sum.splits)

lemma safe_fail: "safe_body (\<lambda>S. (Inl err, S))" "safe_body (\<lambda>S. (Inr x, S))"
  by (simp_all add: safe_body_def)

lemma safe_insertEvent: "safe_body (insertEvent J msg e)"
  by (cases "event_to_row J e") (simp_all add: insertEvent_def [abs_def] safe_fail safe_exec ok_upsert_event)

lemma safe_insertIncident: "safe_body (insertIncident J msg inc)"
  by (cases "incident_to_row J inc") (simp_all add: insertIncident_def [abs_def] safe_fail safe_exec ok_upsert_incident)

lemma safe_insert_events: "safe_body (insert_events J what es)"
proof (induction es)
  case Nil
  show ?case by (simp add: safe_body_def)
next
  case (Cons e es)
  have "insert_events J what (e # es) = (case Validate e of
      Some err \<Rightarrow> (\<lambda>S. (Inl (what @ q J (EventID e) @ '': '' @ err), S))
    | None \<Rightarrow> (\<lambda>S. then_do (insertEvent J (what @ q J (EventID e) @ '': '') (redact_Event (urls J) e) S)
        (\<lambda>_. insert_events J what es)))"
    by (auto split: option.split)
  then show ?case by (auto simp: safe_fail safe_then safe_insertEvent Cons.IH split: option.split)
qed

lemma safe_insert_links: "safe_body (insert_links J i ids)"
proof (induction ids)
  case Nil
  show ?case by (simp add: safe_body_def)
next
  case (Cons e ids)
  show ?case
    unfolding insert_links.simps [abs_def]
    by (intro safe_then safe_exec Cons.IH) (rule ok_insert_link)
qed

lemma safe_replace: "safe_body (replaceIncidentEventLinks J i ids)"
  by (cases "i = []")
    (simp_all add: replaceIncidentEventLinks_def [abs_def] safe_fail safe_then safe_exec ok_delete_links safe_insert_links)

lemma safe_with_events: "safe_body (save_with_events J inc es)"
  unfolding save_with_events_def [abs_def]
  by (intro safe_then safe_insertIncident safe_insert_events safe_replace)

lemma safe_count_end: "safe_body (\<lambda>S. case next_fault S of
    (Some err, S') \<Rightarrow> (Inl (f err), S') | (None, S') \<Rightarrow> if b then (Inl g, S') else (Inr (), S'))"
  unfolding safe_body_def by (auto split: prod.splits option.splits dest!: next_fault_frame)

lemma safe_save_report: "safe_body (save_report J r payload)"
  unfolding save_report_def [abs_def] Let_def
  by (intro safe_then safe_exec safe_exec_count safe_count_end) (erule ok_upsert_report ok_mark_complete; assumption)+

text \<open>An operation of the store: whole or nothing, and integrity is kept.\<close>

definition atomic_op :: "(store_state \<Rightarrow> (go_error + unit) \<times> store_state) \<Rightarrow> bool" where
  "atomic_op f \<longleftrightarrow>
     (\<forall>S. current S = committed S \<and> db_ok (committed S) \<longrightarrow>
        (case f S of (r, S') \<Rightarrow> current S' = committed S' \<and> db_ok (committed S') \<and>
           (case r of Inl _ \<Rightarrow> committed S' = committed S | Inr _ \<Rightarrow> True)))"

lemma atomic_opD:
  assumes "atomic_op f" "current S = committed S \<and> db_ok (committed S)" "f S = (r, S')"
  shows "current S' = committed S' \<and> db_ok (committed S') \<and>
    (case r of Inl _ \<Rightarrow> committed S' = committed S | Inr _ \<Rightarrow> True)"
proof -
  have "case f S of (r, S') \<Rightarrow> current S' = committed S' \<and> db_ok (committed S') \<and>
      (case r of Inl _ \<Rightarrow> committed S' = committed S | Inr _ \<Rightarrow> True)"
    using assms(1) unfolding atomic_op_def by (rule allE [of _ S]) (erule mp, rule assms(2))
  then show ?thesis unfolding assms(3) prod.case .
qed

lemma atomic_fail: "atomic_op (\<lambda>S. (Inl err, S))"
  by (simp add: atomic_op_def)

lemma atomic_autocommit:
  assumes "safe_body body"
  shows "atomic_op (autocommit body)"
proof -
  note body = safe_bodyD [OF assms]
  show ?thesis
    unfolding atomic_op_def autocommit_def
    by (auto split: prod.splits sum.splits dest!: body)
qed

lemma atomic_transaction:
  assumes "safe_body body"
  shows "atomic_op (transaction b c body)"
proof -
  note body = safe_bodyD [OF assms]
  show ?thesis
    unfolding atomic_op_def transaction_def
    by (auto split: prod.splits sum.splits option.splits dest!: body next_fault_frame)
qed

lemma atomic_cases:
  "(\<And>err. x = Some err \<Longrightarrow> atomic_op (f err)) \<Longrightarrow> (x = None \<Longrightarrow> atomic_op g) \<Longrightarrow>
     atomic_op (\<lambda>S. case x of Some err \<Rightarrow> f err S | None \<Rightarrow> g S)"
  by (cases x) simp_all

datatype store_op =
    OpEvent event
  | OpEvents "event list"
  | OpIncident Incident
  | OpLinks string "string list"
  | OpIncidentWithEvents Incident "event list"
  | OpReport LLMReport

fun run_op :: "store_lib \<Rightarrow> store_op \<Rightarrow> store_state \<Rightarrow> (go_error + unit) \<times> store_state" where
  "run_op J (OpEvent e) = SaveEvent J e"
| "run_op J (OpEvents es) = SaveEvents J es"
| "run_op J (OpIncident inc) = SaveIncident J inc"
| "run_op J (OpLinks i ids) = LinkIncidentEvents J i ids"
| "run_op J (OpIncidentWithEvents inc es) = SaveIncidentWithEvents J inc es"
| "run_op J (OpReport r) = SaveLLMReport J r"

lemma atomic_run_op: "atomic_op (run_op J op)"
proof (cases op)
  case (OpEvent e)
  show ?thesis unfolding OpEvent run_op.simps SaveEvent_def [abs_def]
    by (intro atomic_cases atomic_fail atomic_autocommit safe_insertEvent)
next
  case (OpIncident inc)
  show ?thesis unfolding OpIncident run_op.simps SaveIncident_def [abs_def]
    by (intro atomic_cases atomic_fail atomic_autocommit safe_insertIncident)
next
  case (OpIncidentWithEvents inc es)
  show ?thesis unfolding OpIncidentWithEvents run_op.simps SaveIncidentWithEvents_def [abs_def]
    by (intro atomic_cases atomic_fail atomic_transaction safe_with_events)
next
  case (OpReport r)
  have "atomic_op (\<lambda>S. case enc_report J (RedactReport (urls J) (lr_Report r)) of
      Inl err \<Rightarrow> (Inl (''encode LLM report: '' @ err), S)
    | Inr payload \<Rightarrow> transaction ''begin LLM report: '' ''commit LLM report: '' (save_report J r payload) S)"
    by (cases "enc_report J (RedactReport (urls J) (lr_Report r))") (simp_all add: atomic_fail atomic_transaction safe_save_report)
  then show ?thesis unfolding OpReport run_op.simps SaveLLMReport_def [abs_def] by (intro atomic_cases atomic_fail)
qed (simp_all add: SaveEvents_def LinkIncidentEvents_def atomic_transaction safe_insert_events safe_replace)

definition empty_database :: database where
  "empty_database = \<lparr>events_table = [], incidents_table = [], links_table = [], reports_table = []\<rparr>"

definition run_ops :: "store_lib \<Rightarrow> go_error option list \<Rightarrow> store_op list \<Rightarrow> store_state" where
  "run_ops J script ops =
     fold (\<lambda>op S. snd (run_op J op S)) ops \<lparr>committed = empty_database, current = empty_database, faults = script\<rparr>"

text \<open>What the clients of the store rely on, for whatever it counts as sound.\<close>

locale store_contract =
  fixes perform :: "'op \<Rightarrow> store_state \<Rightarrow> (go_error + unit) \<times> store_state"
    and sound :: "database \<Rightarrow> bool"
    and initial :: database
  assumes initially: "sound initial"
    and all_or_nothing: "current S = committed S \<and> sound (committed S) \<Longrightarrow> perform op S = (r, S') \<Longrightarrow>
      current S' = committed S' \<and> sound (committed S') \<and> (case r of Inl _ \<Rightarrow> committed S' = committed S | Inr _ \<Rightarrow> True)"
begin

lemma history:
  "case fold (\<lambda>op S. snd (perform op S)) ops \<lparr>committed = initial, current = initial, faults = script\<rparr> of
     S \<Rightarrow> current S = committed S \<and> sound (committed S)"
proof (induction ops rule: rev_induct)
  case Nil
  show ?case by (simp add: initially)
next
  case (snoc op ops)
  define S where "S = fold (\<lambda>op S. snd (perform op S)) ops \<lparr>committed = initial, current = initial, faults = script\<rparr>"
  obtain r S' where S': "perform op S = (r, S')" by (cases "perform op S")
  from snoc.IH have "current S = committed S \<and> sound (committed S)" by (simp add: S_def)
  from all_or_nothing [OF this S'] S' show ?case by (simp add: S_def [symmetric])
qed

end

interpretation store: store_contract "run_op J" db_ok empty_database for J
proof
  show "db_ok empty_database" by (simp add: db_ok_def empty_database_def)
  show "current S' = committed S' \<and> db_ok (committed S') \<and> (case r of Inl _ \<Rightarrow> committed S' = committed S | Inr _ \<Rightarrow> True)"
    if "current S = committed S \<and> db_ok (committed S)" "run_op J op S = (r, S')" for S op r S'
    using atomic_opD [OF atomic_run_op that] .
qed

lemma run_ops_ok: "current (run_ops J script ops) = committed (run_ops J script ops) \<and> db_ok (committed (run_ops J script ops))"
  using store.history [of J ops script] by (simp add: run_ops_def)

text \<open>C5. The store after any sequence of operations and any faults of the database: no transaction
  is left open; keys are unique, links and reports refer to stored incidents and events; and one
  more operation either succeeds or, whichever of its statements or commit fails, leaves the database
  exactly as it was.
\<close>

theorem store_all_or_nothing:
  "case run_ops J script ops of S \<Rightarrow>
     current S = committed S \<and> db_ok (committed S) \<and>
     (case run_op J op S of (r, S') \<Rightarrow>
        current S' = committed S' \<and> db_ok (committed S') \<and>
        (case r of Inl _ \<Rightarrow> committed S' = committed S | Inr _ \<Rightarrow> True))"
proof -
  obtain r S' where S': "run_op J op (run_ops J script ops) = (r, S')" by (cases "run_op J op (run_ops J script ops)")
  from run_ops_ok [of J script ops] store.all_or_nothing [OF run_ops_ok S'] show ?thesis
    unfolding S' prod.case by blast
qed

end
