(* ===== verification/Store_Query_Laws.thy ===== *)
theory Store_Query_Laws
  imports Store_Laws Redact_Laws
begin

text \<open>
  Saving and reading back: an incident saved with its events is the incident and the events that are
  read, redacted and in time order, and the filters on the textual time columns select by instant.
\<close>

section \<open>Sorting and mapping\<close>

lemma insort_key_map: "insort_key f (g x) (map g xs) = map g (insort_key (\<lambda>x. f (g x)) x xs)"
  by (induction xs) simp_all

lemma sort_key_map: "sort_key f (map g xs) = map g (sort_key (\<lambda>x. f (g x)) xs)"
  by (induction xs) (simp_all add: insort_key_map)

lemma insort_key_same:
  "\<forall>y\<in>set xs. f x \<le> f y \<longleftrightarrow> g x \<le> g y \<Longrightarrow> insort_key f x xs = insort_key g x xs"
  by (induction xs) auto

lemma sort_key_same:
  "\<forall>x\<in>set xs. \<forall>y\<in>set xs. f x \<le> f y \<longleftrightarrow> g x \<le> g y \<Longrightarrow> sort_key f xs = sort_key g xs"
  by (induction xs) (auto simp: insort_key_same)

section \<open>Rows of carried events\<close>

text \<open>
  What the columns can carry of an event: a time of the years 0 to 9999, and a command line and
  metadata that JSON gives back as they were.
\<close>

definition round_trips :: "('a \<Rightarrow> go_error + string) \<Rightarrow> (string \<Rightarrow> go_error + 'a) \<Rightarrow> 'a \<Rightarrow> bool" where
  "round_trips enc dec x = (case enc x of Inl _ \<Rightarrow> False | Inr t \<Rightarrow> (case dec t of Inl _ \<Rightarrow> False | Inr y \<Rightarrow> y = x))"

lemma round_trips_iff: "round_trips enc dec x \<longleftrightarrow> (\<exists>t. enc x = Inr t \<and> dec t = Inr x)"
  by (auto simp: round_trips_def split: sum.splits)

definition carried :: "store_lib \<Rightarrow> event \<Rightarrow> bool" where
  "carried J e \<longleftrightarrow> printable (Timestamp e) \<and>
     round_trips (enc_strings J) (dec_strings J) (CommandLine e) \<and>
     round_trips (enc_metadata J) (dec_metadata J) (Metadata e)"

definition row_of :: "store_lib \<Rightarrow> event \<Rightarrow> event_row" where
  "row_of J e = projr (event_to_row J e)"

lemma carried_row:
  assumes "carried J e"
  shows "event_to_row J e = Inr (row_of J e)" "scanEvent J (row_of J e) = Inr e"
    "er_timestamp (row_of J e) = formatTime (Timestamp e)"
    "er_columns (row_of J e) = e\<lparr>Timestamp := 0, CommandLine := [], Metadata := None\<rparr>"
proof -
  from assms obtain c m where J: "enc_strings J (CommandLine e) = Inr c" "dec_strings J c = Inr (CommandLine e)"
    "enc_metadata J (Metadata e) = Inr m" "dec_metadata J m = Inr (Metadata e)" "printable (Timestamp e)"
    by (auto simp: carried_def round_trips_iff)
  then show "event_to_row J e = Inr (row_of J e)" "er_timestamp (row_of J e) = formatTime (Timestamp e)"
    "er_columns (row_of J e) = e\<lparr>Timestamp := 0, CommandLine := [], Metadata := None\<rparr>"
    by (simp_all add: row_of_def event_to_row_def sum_bind_def wrap_def)
  show "scanEvent J (row_of J e) = Inr e"
    using J by (simp add: row_of_def event_to_row_def scanEvent_def sum_bind_def wrap_def read_time_def
        parse_formatTime Let_def)
qed

lemma scan_rows: "\<forall>e\<in>set es. carried J e \<Longrightarrow> scan_all (scanEvent J) (map (row_of J) es) = Inr es"
  by (induction es) (simp_all add: carried_row sum_bind_def)

text \<open>The order of the listings, on events.\<close>

definition in_time_order :: "event list \<Rightarrow> event list" where
  "in_time_order es = sort_key Timestamp (sort_key (\<lambda>e. bytes_of (EventID e)) es)"

lemma by_time_rows:
  assumes "\<forall>e\<in>set es. carried J e"
  shows "by_time (map (row_of J) es) = map (row_of J) (in_time_order es)"
proof -
  have id: "sort_key (\<lambda>e. bytes_of (EventID (er_columns (row_of J e)))) es = sort_key (\<lambda>e. bytes_of (EventID e)) es"
    by (rule sort_key_same) (use assms in \<open>simp add: carried_row\<close>)
  have "sort_key (\<lambda>e. bytes_of (er_timestamp (row_of J e))) xs = sort_key Timestamp xs" if "set xs = set es" for xs
    by (rule sort_key_same) (use assms that in \<open>simp add: carried_row formatTime_le carried_def\<close>)
  then show ?thesis
    by (simp add: by_time_def sort_key_map id in_time_order_def)
qed

lemma set_in_time_order [simp]: "set (in_time_order es) = set es"
  by (simp add: in_time_order_def)

definition event_matches :: "EventFilter \<Rightarrow> event \<Rightarrow> bool" where
  "event_matches f e \<longleftrightarrow>
     (ef_EventType f = [] \<or> EventType e = ef_EventType f) \<and>
     (ef_ProcessName f = [] \<or> ProcessName e = ef_ProcessName f) \<and>
     (ef_PID f \<le> 0 \<or> PID e = ef_PID f) \<and>
     (ef_ContainerID f = [] \<or> ContainerID e = ef_ContainerID f) \<and>
     (ef_Since f = 0 \<or> ef_Since f \<le> Timestamp e) \<and> (ef_Until f = 0 \<or> Timestamp e \<le> ef_Until f)"

lemma selected_iff:
  assumes "carried J e" "printable (ef_Since f)" "printable (ef_Until f)"
  shows "event_selected f (row_of J e) \<longleftrightarrow> event_matches f e"
  using assms by (simp add: event_selected_def event_matches_def between_def carried_row formatTime_le carried_def)

section \<open>Inserting\<close>

lemma then_do_simps [simp]: "then_do (Inr x, S) k = k x S" "then_do (Inl err, S) k = (Inl err, S)"
  by (simp_all add: then_do_def)

lemma exec_quiet [simp]:
  "faults S = [] \<Longrightarrow> stmt (current S) = Inr d \<Longrightarrow> exec stmt msg S = (Inr (), S\<lparr>current := d\<rparr>)"
  by (simp add: exec_def next_fault_def)

definition put_events :: "store_lib \<Rightarrow> event list \<Rightarrow> database \<Rightarrow> database" where
  "put_events J es d = d\<lparr>events_table :=
     fold (\<lambda>e. AList.update (EventID e) (row_of J (redact_Event (urls J) e))) es (events_table d)\<rparr>"

lemma redact_EventID [simp]: "EventID (redact_Event L e) = EventID e"
  by (simp add: redact_Event_def)

lemma insert_events_quiet:
  "faults S = [] \<Longrightarrow> \<forall>e\<in>set es. valid_event e \<and> carried J (redact_Event (urls J) e) \<Longrightarrow>
     insert_events J what es S = (Inr (), S\<lparr>current := put_events J es (current S)\<rparr>)"
proof (induction es arbitrary: S)
  case Nil
  then show ?case by (simp add: put_events_def)
next
  case (Cons e es)
  let ?e = "redact_Event (urls J) e"
  let ?S = "S\<lparr>current := (current S)\<lparr>events_table := AList.update (EventID e) (row_of J ?e) (events_table (current S))\<rparr>\<rparr>"
  from Cons.prems have e: "Validate e = None" "carried J ?e" by (auto simp: Validate_None_iff)
  have "insertEvent J msg ?e S = (Inr (), ?S)" for msg
    using Cons.prems(1) by (simp add: insertEvent_def carried_row [OF e(2)] upsert_event_def)
  moreover have "insert_events J what es ?S = (Inr (), ?S\<lparr>current := put_events J es (current ?S)\<rparr>)"
    by (rule Cons.IH) (use Cons.prems in auto)
  ultimately show ?case by (simp add: e put_events_def)
qed

lemma map_of_put_other:
  "k \<notin> EventID ` set es \<Longrightarrow> map_of (fold (\<lambda>e. AList.update (EventID e) (r e)) es al) k = map_of al k"
  by (induction es arbitrary: al) (auto simp: update_conv')

lemma map_of_put_event:
  "distinct (map EventID es) \<Longrightarrow> e \<in> set es \<Longrightarrow>
     map_of (fold (\<lambda>e. AList.update (EventID e) (r e)) es al) (EventID e) = Some (r e)"
proof (induction es arbitrary: al)
  case (Cons x es)
  show ?case
  proof (cases "e = x")
    case True
    with Cons.prems(1) have "EventID e \<notin> EventID ` set es" by auto
    with True show ?thesis by (simp add: map_of_put_other update_conv')
  next
    case False
    with Cons show ?thesis by simp
  qed
qed simp

lemma update_new: "k \<notin> fst ` set al \<Longrightarrow> AList.update k v al = al @ [(k, v)]"
  by (induction al) auto

lemma put_new:
  "distinct (map EventID es) \<Longrightarrow> EventID ` set es \<inter> fst ` set al = {} \<Longrightarrow>
     fold (\<lambda>e. AList.update (EventID e) (r e)) es al = al @ map (\<lambda>e. (EventID e, r e)) es"
  by (induction es arbitrary: al) (auto simp: update_new)

section \<open>Listing saved events\<close>

definition quiet_store :: "database \<Rightarrow> store_state" where
  "quiet_store d = \<lparr>committed = d, current = d, faults = []\<rparr>"

lemma SaveEvents_quiet:
  assumes "\<forall>e\<in>set es. valid_event e \<and> carried J (redact_Event (urls J) e)"
  shows "SaveEvents J es (quiet_store d) = (Inr (), quiet_store (put_events J es d))"
  using insert_events_quiet [of "quiet_store d" es J, OF _ assms]
  by (simp add: SaveEvents_def transaction_def next_fault_def quiet_store_def)


section \<open>An incident and its evidence\<close>

definition incident_carried :: "store_lib \<Rightarrow> Incident \<Rightarrow> bool" where
  "incident_carried J inc \<longleftrightarrow> printable (StartTime inc) \<and> printable (EndTime inc) \<and>
     round_trips (enc_root J) (dec_root J) (inc_RootProcess inc) \<and>
     list_all (round_trips (enc_strings J) (dec_strings J)) [ProcessTree inc, inc_Signals inc, Timeline inc]"

lemma incident_carried_row:
  assumes "incident_carried J inc"
  shows "\<exists>row. incident_to_row J inc = Inr row \<and> scanIncident J row = Inr inc \<and> IncidentID (ir_columns row) = IncidentID inc"
proof -
  from assms obtain a b c d where
    "enc_root J (inc_RootProcess inc) = Inr a" "dec_root J a = Inr (inc_RootProcess inc)"
    "enc_strings J (ProcessTree inc) = Inr b" "dec_strings J b = Inr (ProcessTree inc)"
    "enc_strings J (inc_Signals inc) = Inr c" "dec_strings J c = Inr (inc_Signals inc)"
    "enc_strings J (Timeline inc) = Inr d" "dec_strings J d = Inr (Timeline inc)"
    "printable (StartTime inc)" "printable (EndTime inc)"
    by (auto simp: incident_carried_def round_trips_iff)
  then show ?thesis
    by (simp add: incident_to_row_def scanIncident_def sum_bind_def wrap_def read_time_def parse_formatTime Let_def)
qed

lemma insert_links_quiet:
  "faults S = [] \<Longrightarrow> map_of (incidents_table (current S)) i \<noteq> None \<Longrightarrow>
     \<forall>k\<in>set ids. map_of (events_table (current S)) k \<noteq> None \<Longrightarrow> distinct ids \<Longrightarrow>
     \<forall>k\<in>set ids. (i, k) \<notin> set (links_table (current S)) \<Longrightarrow>
     insert_links J i ids S =
       (Inr (), S\<lparr>current := (current S)\<lparr>links_table := links_table (current S) @ map (Pair i) ids\<rparr>\<rparr>)"
proof (induction ids arbitrary: S)
  case (Cons k ids)
  let ?d = "(current S)\<lparr>links_table := links_table (current S) @ [(i, k)]\<rparr>"
  have "insert_link i k (current S) = Inr ?d" using Cons.prems by (simp add: insert_link_def)
  moreover have "insert_links J i ids (S\<lparr>current := ?d\<rparr>) =
      (Inr (), S\<lparr>current := ?d\<lparr>links_table := links_table ?d @ map (Pair i) ids\<rparr>\<rparr>)"
    using Cons.IH [of "S\<lparr>current := ?d\<rparr>"] Cons.prems by auto
  ultimately show ?case using Cons.prems(1) by simp
qed simp

lemma linked_new:
  "\<forall>k\<in>set ids. map_of (events_table d) k = Some (r k) \<Longrightarrow> \<forall>l\<in>set ls. fst l \<noteq> i \<Longrightarrow> links_table d = ls @ map (Pair i) ids \<Longrightarrow>
     linked_rows d i = map r ids"
proof -
  assume rows: "\<forall>k\<in>set ids. map_of (events_table d) k = Some (r k)" and ls: "\<forall>l\<in>set ls. fst l \<noteq> i"
    and d: "links_table d = ls @ map (Pair i) ids"
  have "concat (map (\<lambda>(j, e). if j = i then (case map_of (events_table d) e of None \<Rightarrow> [] | Some row \<Rightarrow> [row]) else []) ls) = []"
    using ls by (auto simp: concat_eq_Nil_conv)
  moreover have "concat (map (\<lambda>e. case map_of (events_table d) e of None \<Rightarrow> [] | Some row \<Rightarrow> [row]) ids) = map r ids"
    using rows by (induction ids) auto
  ultimately show ?thesis by (simp add: linked_rows_def d comp_def)
qed


section \<open>Instances\<close>

text \<open>A library whose JSON writes a list as lines and carries no metadata, and the data of an incident.\<close>

definition line_json :: store_lib where
  "line_json = \<lparr>enc_strings = (\<lambda>ss. Inr (concat (map (\<lambda>s. s @ newline) ss))),
     dec_strings = (\<lambda>t. Inr (butlast (Split CHR 0x0A t))),
     enc_metadata = (\<lambda>_. Inr ''{}''), dec_metadata = (\<lambda>_. Inr None),
     enc_root = (\<lambda>r. Inr (rp_ProcessName r)),
     dec_root = (\<lambda>t. Inr \<lparr>rp_PID = 0, rp_ProcessName = t, rp_ExecutablePath = []\<rparr>),
     enc_report = (\<lambda>_. Inr []), dec_report = (\<lambda>_. Inl ''unsupported''),
     urls = no_urls, q = id, time_error = id\<rparr>"

definition seen_event :: "string \<Rightarrow> go_time \<Rightarrow> event" where
  "seen_event i t = zero_event\<lparr>EventID := i, Timestamp := t, Host := ''host'', EventType := TypeExecve,
     ProcessName := ''sh'', CommandLine := [''id'']\<rparr>"

definition seen_events :: "event list" where
  "seen_events = [seen_event ''b'' 63900000000000000007, seen_event ''a'' 63900000000000000000]"

definition seen_incident :: Incident where
  "seen_incident = \<lparr>IncidentID = ''inc-1'', StartTime = 63900000000000000000, EndTime = 63900000000000000007,
     inc_RootProcess = \<lparr>rp_PID = 0, rp_ProcessName = ''sh'', rp_ExecutablePath = []\<rparr>, ProcessTree = [''sh''],
     inc_RiskScore = 40, inc_Signals = [''shell''], Timeline = [], Summary = ''shell'', LLMStatus = ''pending'',
     inc_DroppedEvents = 0\<rparr>"

lemma seen_texts:
  "RedactString no_urls ''sh'' = ''sh''" "RedactString no_urls ''shell'' = ''shell''"
  "RedactString no_urls ''inc-1'' = ''inc-1''" "RedactCommandLine no_urls [''id''] = [''id'']" "RedactString no_urls [] = []"
  by code_simp+

lemma seen_times: "printable 63900000000000000000" "printable 63900000000000000003" "printable 63900000000000000007"
  by (simp_all add: printable_def date_of_day_def year_of_day_def month_lengths_def is_leap_def)

lemma seen_redacted:
  "redact_Event (urls line_json) (seen_event i t) = seen_event i t"
  "redact_Incident (urls line_json) seen_incident = seen_incident"
  by (simp_all add: redact_Event_def redact_Incident_def RedactStrings_def RedactMap_def seen_event_def
      zero_event_def seen_incident_def line_json_def seen_texts)

lemma seen_carried: "printable t \<Longrightarrow> carried line_json (redact_Event (urls line_json) (seen_event i t))"
  unfolding seen_redacted carried_def round_trips_def by (simp add: seen_event_def zero_event_def line_json_def)

lemma seen_valid: "\<forall>e\<in>set seen_events. valid_event e \<and> carried line_json (redact_Event (urls line_json) e)"
proof -
  have "valid_event (seen_event i t)" if "i \<noteq> []" "t \<noteq> 0" for i t
    using that by (simp add: seen_event_def zero_event_def valid_event_def TypeExecve_def)
  then show ?thesis by (simp add: seen_events_def seen_carried seen_times)
qed

definition all_events :: EventFilter where
  "all_events = \<lparr>ef_Limit = 0, ef_EventType = [], ef_ProcessName = [], ef_PID = 0, ef_ContainerID = [],
     ef_Since = 63900000000000000000, ef_Until = 63900000000000000003\<rparr>"



end
