(* ===== verification/Store_Clauses.thy ===== *)
theory Store_Clauses
  imports Store_Query
begin

text \<open>
  The conditions that the listings put together as text (\<open>ListEventsFiltered\<close>, \<open>incidentFilterClauses\<close> and
  \<open>prefixClauses\<close> of \<open>internal/store/sqlite.go\<close>), with the arguments bound to their placeholders in order,
  and what they mean: the selections of \<open>Store_Query\<close>.
\<close>

section \<open>Clauses and their arguments\<close>

datatype sql_value = SText string | SInt int

type_synonym clauses = "string list \<times> sql_value list"

definition add_clause :: "bool \<Rightarrow> string \<Rightarrow> sql_value \<Rightarrow> clauses \<Rightarrow> clauses" where
  "add_clause wanted clause arg ca = (if wanted then (fst ca @ [clause], snd ca @ [arg]) else ca)"

definition event_clauses :: "EventFilter \<Rightarrow> clauses" where
  "event_clauses f =
     add_clause (\<not> IsZero (ef_Until f)) ''timestamp <= ?'' (SText (formatTime (ef_Until f)))
    (add_clause (\<not> IsZero (ef_Since f)) ''timestamp >= ?'' (SText (formatTime (ef_Since f)))
    (add_clause (ef_ContainerID f \<noteq> []) ''container_id = ?'' (SText (ef_ContainerID f))
    (add_clause (ef_PID f > 0) ''pid = ?'' (SInt (ef_PID f))
    (add_clause (ef_ProcessName f \<noteq> []) ''process_name = ?'' (SText (ef_ProcessName f))
    (add_clause (ef_EventType f \<noteq> []) ''event_type = ?'' (SText (ef_EventType f)) ([], []))))))"

definition incidentFilterClauses :: "IncidentFilter \<Rightarrow> clauses" where
  "incidentFilterClauses f =
     add_clause (\<not> IsZero (if_Until f)) ''start_time <= ?'' (SText (formatTime (if_Until f)))
    (add_clause (\<not> IsZero (if_Since f)) ''start_time >= ?'' (SText (formatTime (if_Since f)))
    (add_clause (if_LLMStatus f \<noteq> []) ''llm_status = ?'' (SText (if_LLMStatus f))
    (add_clause (if_MinScore f > 0) ''risk_score >= ?'' (SInt (if_MinScore f)) ([], []))))"

definition prefixClauses :: "string \<Rightarrow> string list \<Rightarrow> string list" where
  "prefixClauses prefix clauses =
     map (\<lambda>clause.
       if HasPrefix clause ''risk_score'' then prefix @ clause
       else if HasPrefix clause ''llm_status'' then prefix @ clause
       else if HasPrefix clause ''start_time'' then prefix @ clause
       else clause) clauses"

section \<open>What they mean\<close>

text \<open>Text is compared by its bytes; a value of one kind never compares with one of the other here.\<close>

definition compares :: "string \<Rightarrow> sql_value \<Rightarrow> sql_value \<Rightarrow> bool" where
  "compares operator v arg =
     (case (v, arg) of
        (SText s, SText t) \<Rightarrow>
          if operator = ''='' then s = t
          else if operator = ''>='' then bytes_of t \<le> bytes_of s
          else operator = ''<='' \<and> bytes_of s \<le> bytes_of t
      | (SInt m, SInt n) \<Rightarrow>
          if operator = ''='' then m = n else if operator = ''>='' then n \<le> m else operator = ''<='' \<and> m \<le> n
      | _ \<Rightarrow> False)"

text \<open>A clause is a column, an operator and the placeholder of its argument.\<close>

definition clause_holds :: "(string \<Rightarrow> sql_value option) \<Rightarrow> string \<Rightarrow> sql_value \<Rightarrow> bool" where
  "clause_holds column clause arg =
     (case Split CHR '' '' clause of
        [name, operator, placeholder] \<Rightarrow>
          placeholder = ''?'' \<and> (case column name of None \<Rightarrow> False | Some v \<Rightarrow> compares operator v arg)
      | _ \<Rightarrow> False)"

definition event_column :: "event_row \<Rightarrow> string \<Rightarrow> sql_value option" where
  "event_column row = map_of
     [(''event_type'', SText (EventType (er_columns row))), (''process_name'', SText (ProcessName (er_columns row))),
      (''pid'', SInt (PID (er_columns row))), (''container_id'', SText (ContainerID (er_columns row))),
      (''timestamp'', SText (er_timestamp row))]"

text \<open>In the join with the links an incident's columns are those of \<open>i\<close>.\<close>

definition incident_column :: "string \<Rightarrow> incident_row \<Rightarrow> string \<Rightarrow> sql_value option" where
  "incident_column prefix row = map_of
     [(prefix @ ''risk_score'', SInt (inc_RiskScore (ir_columns row))),
      (prefix @ ''llm_status'', SText (LLMStatus (ir_columns row))), (prefix @ ''start_time'', SText (ir_start row))]"

lemma clause_words:
  "Split CHR '' '' ''event_type = ?'' = [''event_type'', ''='', ''?'']" "Split CHR '' '' ''process_name = ?'' = [''process_name'', ''='', ''?'']"
  "Split CHR '' '' ''pid = ?'' = [''pid'', ''='', ''?'']" "Split CHR '' '' ''container_id = ?'' = [''container_id'', ''='', ''?'']"
  "Split CHR '' '' ''timestamp >= ?'' = [''timestamp'', ''>='', ''?'']" "Split CHR '' '' ''timestamp <= ?'' = [''timestamp'', ''<='', ''?'']"
  "Split CHR '' '' ''risk_score >= ?'' = [''risk_score'', ''>='', ''?'']" "Split CHR '' '' ''llm_status = ?'' = [''llm_status'', ''='', ''?'']"
  "Split CHR '' '' ''start_time >= ?'' = [''start_time'', ''>='', ''?'']" "Split CHR '' '' ''start_time <= ?'' = [''start_time'', ''<='', ''?'']"
  "Split CHR '' '' ''i.risk_score >= ?'' = [''i.risk_score'', ''>='', ''?'']" "Split CHR '' '' ''i.llm_status = ?'' = [''i.llm_status'', ''='', ''?'']"
  "Split CHR '' '' ''i.start_time >= ?'' = [''i.start_time'', ''>='', ''?'']" "Split CHR '' '' ''i.start_time <= ?'' = [''i.start_time'', ''<='', ''?'']"
  by simp_all

lemma add_clause_holds:
  "length (fst ca) = length (snd ca) \<Longrightarrow>
     list_all2 P (fst (add_clause b c a ca)) (snd (add_clause b c a ca)) \<longleftrightarrow> list_all2 P (fst ca) (snd ca) \<and> (b \<longrightarrow> P c a)"
  by (simp add: add_clause_def list_all2_append)

lemma add_clause_length:
  "length (fst ca) = length (snd ca) \<Longrightarrow> length (fst (add_clause b c a ca)) = length (snd (add_clause b c a ca))"
  by (simp add: add_clause_def)

definition selects :: "(string \<Rightarrow> sql_value option) \<Rightarrow> clauses \<Rightarrow> bool" where
  "selects column ca \<longleftrightarrow> list_all2 (clause_holds column) (fst ca) (snd ca)"

lemma event_words:
  "clause_holds (event_column row) ''event_type = ?'' (SText t) \<longleftrightarrow> EventType (er_columns row) = t"
  "clause_holds (event_column row) ''process_name = ?'' (SText t) \<longleftrightarrow> ProcessName (er_columns row) = t"
  "clause_holds (event_column row) ''pid = ?'' (SInt n) \<longleftrightarrow> PID (er_columns row) = n"
  "clause_holds (event_column row) ''container_id = ?'' (SText t) \<longleftrightarrow> ContainerID (er_columns row) = t"
  "clause_holds (event_column row) ''timestamp >= ?'' (SText t) \<longleftrightarrow> bytes_of t \<le> bytes_of (er_timestamp row)"
  "clause_holds (event_column row) ''timestamp <= ?'' (SText t) \<longleftrightarrow> bytes_of (er_timestamp row) \<le> bytes_of t"
  by (simp_all add: clause_holds_def event_column_def compares_def)

lemma incident_words:
  assumes "p \<in> {[], ''i.''}"
  shows "clause_holds (incident_column p row) (p @ ''risk_score >= ?'') (SInt n) \<longleftrightarrow> n \<le> inc_RiskScore (ir_columns row)"
    "clause_holds (incident_column p row) (p @ ''llm_status = ?'') (SText t) \<longleftrightarrow> LLMStatus (ir_columns row) = t"
    "clause_holds (incident_column p row) (p @ ''start_time >= ?'') (SText t) \<longleftrightarrow> bytes_of t \<le> bytes_of (ir_start row)"
    "clause_holds (incident_column p row) (p @ ''start_time <= ?'') (SText t) \<longleftrightarrow> bytes_of (ir_start row) \<le> bytes_of t"
  using assms by (auto simp: clause_holds_def incident_column_def compares_def)

lemma event_selects: "selects (event_column row) (event_clauses f) \<longleftrightarrow> event_selected f row"
  unfolding selects_def event_clauses_def
  by (simp only: add_clause_holds add_clause_length fst_conv snd_conv list.size event_words)
    (auto simp: event_selected_def between_def)

lemma incident_selects: "selects (incident_column [] row) (incidentFilterClauses f) \<longleftrightarrow> incident_selected f row"
  using incident_words [of "[]" row] unfolding selects_def incidentFilterClauses_def append_Nil
  by (simp only: add_clause_holds add_clause_length fst_conv snd_conv list.size insert_iff)
    (auto simp: incident_selected_def between_def)

lemma triage_selects:
  "selects (incident_column ''i.'' row) (prefixClauses ''i.'' (fst (incidentFilterClauses f)), snd (incidentFilterClauses f)) \<longleftrightarrow>
     incident_selected f row"
proof -
  define p where "p = ''i.''"
  have words: "clause_holds (incident_column p row) (p @ ''risk_score >= ?'') (SInt n) \<longleftrightarrow> n \<le> inc_RiskScore (ir_columns row)"
    "clause_holds (incident_column p row) (p @ ''llm_status = ?'') (SText t) \<longleftrightarrow> LLMStatus (ir_columns row) = t"
    "clause_holds (incident_column p row) (p @ ''start_time >= ?'') (SText t) \<longleftrightarrow> bytes_of t \<le> bytes_of (ir_start row)"
    "clause_holds (incident_column p row) (p @ ''start_time <= ?'') (SText t) \<longleftrightarrow> bytes_of (ir_start row) \<le> bytes_of t" for n t
    using incident_words [of p row] by (simp_all add: p_def)
  define ca where "ca =
     add_clause (\<not> IsZero (if_Until f)) (p @ ''start_time <= ?'') (SText (formatTime (if_Until f)))
    (add_clause (\<not> IsZero (if_Since f)) (p @ ''start_time >= ?'') (SText (formatTime (if_Since f)))
    (add_clause (if_LLMStatus f \<noteq> []) (p @ ''llm_status = ?'') (SText (if_LLMStatus f))
    (add_clause (if_MinScore f > 0) (p @ ''risk_score >= ?'') (SInt (if_MinScore f)) ([], []))))"
  have "prefixClauses p (fst (incidentFilterClauses f)) = fst ca \<and> snd (incidentFilterClauses f) = snd ca"
    by (simp add: ca_def incidentFilterClauses_def add_clause_def prefixClauses_def)
  moreover have "list_all2 (clause_holds (incident_column p row)) (fst ca) (snd ca) \<longleftrightarrow> incident_selected f row"
    unfolding ca_def
    by (simp only: add_clause_holds add_clause_length fst_conv snd_conv list.size words)
      (auto simp: incident_selected_def between_def)
  ultimately show ?thesis by (simp add: selects_def p_def)
qed

text \<open>C40. The listings ask the database for what their filters say: the clauses they assemble, each with the
  argument bound to its placeholder, hold of a row exactly if the filter selects it. That is so for events, for
  incidents, and for incidents joined with their links, where every column must be qualified.
\<close>

theorem clauses_select:
  "(selects (event_column row) (event_clauses f) \<longleftrightarrow> event_selected f row) \<and>
   (selects (incident_column [] irow) (incidentFilterClauses g) \<longleftrightarrow> incident_selected g irow) \<and>
   (selects (incident_column ''i.'' irow) (prefixClauses ''i.'' (fst (incidentFilterClauses g)), snd (incidentFilterClauses g)) \<longleftrightarrow>
      incident_selected g irow)"
  using event_selects incident_selects triage_selects by blast

end
