(* ===== verification/Store_Open.thy ===== *)
theory Store_Open
  imports Store_Query
begin

text \<open>
  Opening the store (\<open>internal/store/path_security.go\<close>, \<open>schema_upgrade.go\<close>, \<open>migrations.go\<close> and
  \<open>OpenSQLite\<close>): the checks of the path before the database is opened and after, the creation of a
  private file, the pragmas, the schema, and the column an older database lacks. What the operating
  system answers is the record \<open>os_view\<close>.
\<close>

section \<open>Files\<close>

record file_info =
  fi_regular :: bool
  fi_dir :: bool
  fi_perm :: int
  fi_uid :: "int option"

datatype stat_result = NotExist go_error | StatFailed go_error | Info file_info

text \<open>
  \<open>lstat\<close> before and \<open>lstat_after\<close> after the database was opened; \<open>stat\<close> follows symbolic links.
\<close>

record os_view =
  lstat :: "string \<Rightarrow> stat_result"
  lstat_after :: "string \<Rightarrow> stat_result"
  stat :: "string \<Rightarrow> stat_result"
  getwd :: "go_error + string"
  euid :: int
  create_file :: "string \<Rightarrow> go_error option"
  close_file :: "go_error option"
  sql_open :: "go_error option"
  oq :: "string \<Rightarrow> string"

definition octal_digits :: "int \<Rightarrow> string" where
  "octal_digits p =
     map (\<lambda>i. digit_char (nat (p div 8 ^ i mod 8))) (rev [0..<4])"

definition sqliteSidecarPaths :: "string \<Rightarrow> string list" where
  "sqliteSidecarPaths path = [path @ ''-wal'', path @ ''-shm'']"

definition validateSQLiteFileInfo :: "(string \<Rightarrow> string) \<Rightarrow> string \<Rightarrow> file_info \<Rightarrow> go_error option" where
  "validateSQLiteFileInfo qt path info =
     (if \<not> fi_regular info then Some (''SQLite database must be a regular file: '' @ qt path)
      else if and (fi_perm info) 0x3F \<noteq> 0 then
        Some (''SQLite database permissions '' @ octal_digits (fi_perm info) @
          '' grant group or other access; run chmod 0600 '' @ qt path)
      else None)"

fun validate_sidecars :: "(string \<Rightarrow> string) \<Rightarrow> (string \<Rightarrow> stat_result) \<Rightarrow> string list \<Rightarrow> go_error option" where
  "validate_sidecars qt ls [] = None"
| "validate_sidecars qt ls (p # ps) =
     (case ls p of
        NotExist _ \<Rightarrow> validate_sidecars qt ls ps
      | StatFailed err \<Rightarrow> Some (''inspect SQLite sidecar path: '' @ err)
      | Info info \<Rightarrow>
          (case validateSQLiteFileInfo qt p info of Some err \<Rightarrow> Some err | None \<Rightarrow> validate_sidecars qt ls ps))"

definition validateSQLiteSidecars :: "(string \<Rightarrow> string) \<Rightarrow> (string \<Rightarrow> stat_result) \<Rightarrow> string \<Rightarrow> go_error option" where
  "validateSQLiteSidecars qt ls path = validate_sidecars qt ls (sqliteSidecarPaths path)"

fun reject_sidecars :: "(string \<Rightarrow> string) \<Rightarrow> (string \<Rightarrow> stat_result) \<Rightarrow> string list \<Rightarrow> go_error option" where
  "reject_sidecars qt ls [] = None"
| "reject_sidecars qt ls (p # ps) =
     (case ls p of
        NotExist _ \<Rightarrow> reject_sidecars qt ls ps
      | StatFailed err \<Rightarrow> Some (''inspect SQLite sidecar path: '' @ err)
      | Info _ \<Rightarrow> Some (''SQLite sidecar exists without database: '' @ qt p))"

definition rejectSQLiteSidecars :: "(string \<Rightarrow> string) \<Rightarrow> (string \<Rightarrow> stat_result) \<Rightarrow> string \<Rightarrow> go_error option" where
  "rejectSQLiteSidecars qt ls path = reject_sidecars qt ls (sqliteSidecarPaths path)"

definition validateSQLiteFile :: "(string \<Rightarrow> string) \<Rightarrow> (string \<Rightarrow> stat_result) \<Rightarrow> string \<Rightarrow> go_error option" where
  "validateSQLiteFile qt ls path =
     (case ls path of
        NotExist err \<Rightarrow> Some (''inspect SQLite database path after open: '' @ err)
      | StatFailed err \<Rightarrow> Some (''inspect SQLite database path after open: '' @ err)
      | Info info \<Rightarrow>
          (case validateSQLiteFileInfo qt path info of
             Some err \<Rightarrow> Some err
           | None \<Rightarrow> validateSQLiteSidecars qt ls path))"

text \<open>\<open>filepath.Abs\<close>, and the directory of the database.\<close>

definition absolute_path :: "os_view \<Rightarrow> string \<Rightarrow> go_error + string" where
  "absolute_path W path =
     (if IsAbs path then Inr (Clean path)
      else case getwd W of Inl err \<Rightarrow> Inl err | Inr wd \<Rightarrow> Inr (path_Join [wd, path]))"

definition validateSQLiteParent :: "os_view \<Rightarrow> string \<Rightarrow> go_error option" where
  "validateSQLiteParent W path =
     (case absolute_path W path of
        Inl err \<Rightarrow> Some (''resolve SQLite database path: '' @ err)
      | Inr absolutePath \<Rightarrow>
          let parent = path_Dir absolutePath in
          (case stat W parent of
             NotExist err \<Rightarrow> Some (''inspect SQLite parent directory: '' @ err)
           | StatFailed err \<Rightarrow> Some (''inspect SQLite parent directory: '' @ err)
           | Info info \<Rightarrow>
               if \<not> fi_dir info then Some (''SQLite parent path must be a directory: '' @ oq W parent)
               else if and (fi_perm info) 0x12 \<noteq> 0 then
                 Some (''SQLite parent directory permissions '' @ octal_digits (fi_perm info) @
                   '' permit group or other writes: '' @ oq W parent)
               else (case fi_uid info of
                 None \<Rightarrow> Some (''inspect SQLite parent directory owner: '' @ oq W parent)
               | Some uid \<Rightarrow>
                   if uid \<noteq> euid W mod 2 ^ 32 then
                     Some (''SQLite parent directory owner UID '' @ Itoa uid @ '' does not match process UID '' @
                       Itoa (euid W) @ '': '' @ oq W parent)
                   else None)))"

definition prepareSQLitePath :: "os_view \<Rightarrow> string \<Rightarrow> go_error option" where
  "prepareSQLitePath W path =
     (if path = '':memory:'' then None
      else if HasPrefix path ''file:'' \<or> Contains path ''?'' then Some ''SQLite URI and option paths are not supported''
      else case validateSQLiteParent W path of
        Some err \<Rightarrow> Some err
      | None \<Rightarrow>
          (case lstat W path of
             Info info \<Rightarrow>
               (case validateSQLiteSidecars (oq W) (lstat W) path of
                  Some err \<Rightarrow> Some err
                | None \<Rightarrow> validateSQLiteFileInfo (oq W) path info)
           | StatFailed err \<Rightarrow> Some (''inspect SQLite database path: '' @ err)
           | NotExist _ \<Rightarrow>
               (case rejectSQLiteSidecars (oq W) (lstat W) path of
                  Some err \<Rightarrow> Some err
                | None \<Rightarrow>
                    (case create_file W path of
                       Some err \<Rightarrow> Some (''create private SQLite database: '' @ err)
                     | None \<Rightarrow> map_option (\<lambda>err. ''close new SQLite database: '' @ err) (close_file W)))))"

section \<open>The schema\<close>

text \<open>The tables of a database file with their columns.\<close>

type_synonym tables = "(string \<times> string list) list"

definition schema :: tables where
  "schema =
     [(''events'', [''event_id'', ''timestamp'', ''host'', ''container_id'', ''container_name'', ''pid'', ''ppid'', ''uid'',
         ''process_name'', ''parent_process_name'', ''event_type'', ''executable_path'', ''command_line_json'', ''cwd'',
         ''file_path'', ''remote_addr'', ''remote_port'', ''metadata_json'']),
      (''incidents'', [''incident_id'', ''start_time'', ''end_time'', ''root_process_json'', ''process_tree_json'',
         ''risk_score'', ''signals_json'', ''timeline_json'', ''summary'', ''llm_status'', ''dropped_events'']),
      (''incident_events'', [''incident_id'', ''event_id'']),
      (''llm_reports'', [''incident_id'', ''created_at'', ''model'', ''report_json'', ''raw_response'']),
      (''rules'', [''rule_id'', ''enabled'', ''score_impact'', ''config_json'']),
      (''config'', [''key'', ''value_json''])]"

text \<open>\<open>CREATE TABLE IF NOT EXISTS\<close>.\<close>

definition create_missing :: "tables \<Rightarrow> string \<times> string list \<Rightarrow> tables" where
  "create_missing T entry = (if map_of T (fst entry) = None then T @ [entry] else T)"

definition apply_schema :: "tables \<Rightarrow> tables" where
  "apply_schema T = foldl create_missing T schema"

text \<open>
  The statements of the upgrade may fail: the query, a row, the end of the rows, closing them, and the
  change of the table. \<open>bad_row\<close> is the row that cannot be read.
\<close>

record upgrade_faults =
  query_fault :: "go_error option"
  bad_row :: "(nat \<times> go_error) option"
  rows_fault :: "go_error option"
  close_fault :: "go_error option"
  alter_fault :: "go_error option"

text \<open>The loop over \<open>table_info\<close>: an error, whether the column was found.\<close>

fun find_column :: "string \<Rightarrow> (nat \<times> go_error) option \<Rightarrow> nat \<Rightarrow> string list \<Rightarrow> go_error + bool" where
  "find_column name bad i [] = Inr False"
| "find_column name bad i (c # cs) =
     (case bad of
        Some (k, err) \<Rightarrow>
          if k = i then Inl (''inspect incidents schema: '' @ err)
          else if c = name then Inr True else find_column name bad (Suc i) cs
      | None \<Rightarrow> if c = name then Inr True else find_column name bad (Suc i) cs)"

definition ensureIncidentDroppedEventsColumn :: "upgrade_faults \<Rightarrow> tables \<Rightarrow> go_error + tables" where
  "ensureIncidentDroppedEventsColumn U T =
     (let columns = (case map_of T ''incidents'' of None \<Rightarrow> [] | Some cs \<Rightarrow> cs) in
      case query_fault U of
        Some err \<Rightarrow> Inl (''inspect incidents schema: '' @ err)
      | None \<Rightarrow>
          (case find_column ''dropped_events'' (bad_row U) 0 columns of
             Inl err \<Rightarrow> Inl err
           | Inr True \<Rightarrow> Inr T
           | Inr False \<Rightarrow>
               (case rows_fault U of
                  Some err \<Rightarrow> Inl (''inspect incidents schema: '' @ err)
                | None \<Rightarrow>
                    (case close_fault U of
                       Some err \<Rightarrow> Inl (''close incidents schema rows: '' @ err)
                     | None \<Rightarrow>
                         (case alter_fault U of
                            Some err \<Rightarrow> Inl (''add incidents dropped_events column: '' @ err)
                          | None \<Rightarrow> Inr (AList.update ''incidents'' (columns @ [''dropped_events'']) T))))))"

definition initial_pragmas :: "string list" where
  "initial_pragmas = [''PRAGMA foreign_keys = ON'', ''PRAGMA busy_timeout = 5000'', ''PRAGMA journal_mode = WAL'']"

fun run_pragmas :: "(string \<Rightarrow> string) \<Rightarrow> (string \<Rightarrow> go_error option) \<Rightarrow> string list \<Rightarrow> go_error option" where
  "run_pragmas qt refuses [] = None"
| "run_pragmas qt refuses (p # ps) =
     (case refuses p of
        Some err \<Rightarrow> Some (''initialize SQLite with '' @ qt p @ '': '' @ err)
      | None \<Rightarrow> run_pragmas qt refuses ps)"

definition store_initialize ::
  "(string \<Rightarrow> string) \<Rightarrow> (string \<Rightarrow> go_error option) \<Rightarrow> go_error option \<Rightarrow> upgrade_faults \<Rightarrow> tables \<Rightarrow> go_error + tables" where
  "store_initialize qt refuses schema_fault U T =
     (case run_pragmas qt refuses initial_pragmas of
        Some err \<Rightarrow> Inl err
      | None \<Rightarrow>
          (case schema_fault of
             Some err \<Rightarrow> Inl (''apply SQLite schema: '' @ err)
           | None \<Rightarrow> ensureIncidentDroppedEventsColumn U (apply_schema T)))"

section \<open>Opening\<close>

definition OpenSQLite ::
  "os_view \<Rightarrow> (string \<Rightarrow> go_error option) \<Rightarrow> go_error option \<Rightarrow> upgrade_faults \<Rightarrow> tables \<Rightarrow> string \<Rightarrow> go_error + tables" where
  "OpenSQLite W refuses schema_fault U T path =
     (if path = [] then Inl ''SQLite path is required''
      else case prepareSQLitePath W path of
        Some err \<Rightarrow> Inl err
      | None \<Rightarrow>
          (case sql_open W of
             Some err \<Rightarrow> Inl (''open SQLite database: '' @ err)
           | None \<Rightarrow>
               (case store_initialize (oq W) refuses schema_fault U T of
                  Inl err \<Rightarrow> Inl err
                | Inr T' \<Rightarrow>
                    if path \<noteq> '':memory:'' then
                      (case validateSQLiteFile (oq W) (lstat_after W) path of Some err \<Rightarrow> Inl err | None \<Rightarrow> Inr T')
                    else Inr T')))"

section \<open>What an opened store guarantees\<close>

definition missing :: "stat_result \<Rightarrow> bool" where
  "missing s = (case s of NotExist _ \<Rightarrow> True | _ \<Rightarrow> False)"

definition private_file :: "stat_result \<Rightarrow> bool" where
  "private_file s = (case s of Info info \<Rightarrow> fi_regular info \<and> and (fi_perm info) 0x3F = 0 | _ \<Rightarrow> False)"

definition private_dir :: "int \<Rightarrow> stat_result \<Rightarrow> bool" where
  "private_dir uid s =
     (case s of Info info \<Rightarrow> fi_dir info \<and> and (fi_perm info) 0x12 = 0 \<and> fi_uid info = Some (uid mod 2 ^ 32) | _ \<Rightarrow> False)"

lemma file_ok: "validateSQLiteFileInfo qt path info = None \<longleftrightarrow> private_file (Info info)"
  by (auto simp: validateSQLiteFileInfo_def private_file_def)

lemma sidecars_ok:
  "validate_sidecars qt ls ps = None \<longleftrightarrow> (\<forall>p\<in>set ps. missing (ls p) \<or> private_file (ls p))"
proof (induction ps)
  case (Cons p ps)
  show ?case
  proof (cases "ls p")
    case (Info info)
    show ?thesis
      using Cons.IH file_ok [of qt p info] by (cases "validateSQLiteFileInfo qt p info") (auto simp: Info missing_def)
  qed (simp_all add: Cons.IH private_file_def missing_def)
qed simp

lemma file_after_ok:
  "validateSQLiteFile qt ls path = None \<longleftrightarrow>
     private_file (ls path) \<and> (\<forall>p\<in>set (sqliteSidecarPaths path). missing (ls p) \<or> private_file (ls p))"
proof (cases "ls path")
  case (Info info)
  show ?thesis
    using file_ok [of qt path info]
    by (cases "validateSQLiteFileInfo qt path info")
      (auto simp: validateSQLiteFile_def Info missing_def validateSQLiteSidecars_def sidecars_ok)
qed (simp_all add: validateSQLiteFile_def private_file_def)

lemma parent_ok:
  "validateSQLiteParent W path = None \<Longrightarrow>
     \<exists>abs. absolute_path W path = Inr abs \<and> private_dir (euid W) (stat W (path_Dir abs))"
  by (auto simp: validateSQLiteParent_def Let_def private_dir_def split: sum.splits stat_result.splits if_splits option.splits)

lemma prepared:
  "prepareSQLitePath W path = None \<Longrightarrow> path \<noteq> '':memory:'' \<Longrightarrow>
     \<not> HasPrefix path ''file:'' \<and> \<not> Contains path ''?'' \<and> validateSQLiteParent W path = None"
  by (auto simp: prepareSQLitePath_def split: if_splits option.splits)

lemma created_tables: "map_of (foldl create_missing T entries) name = None \<longleftrightarrow> map_of T name = None \<and> name \<notin> fst ` set entries"
  by (induction entries arbitrary: T) (auto simp: create_missing_def map_add_def map_of_append split: option.splits)

lemma upgraded:
  assumes "ensureIncidentDroppedEventsColumn U T = Inr T'"
  shows "\<exists>columns. map_of T' ''incidents'' = Some columns \<and> ''dropped_events'' \<in> set columns"
    "map_of T name \<noteq> None \<Longrightarrow> map_of T' name \<noteq> None"
proof -
  have found: "find_column c bad i cs = Inr b \<Longrightarrow> b = (c \<in> set cs)" for c bad i cs b
    by (induction c bad i cs rule: find_column.induct) (auto split: option.splits if_splits prod.splits)
  show "\<exists>columns. map_of T' ''incidents'' = Some columns \<and> ''dropped_events'' \<in> set columns"
    using assms by (auto simp: ensureIncidentDroppedEventsColumn_def Let_def update_conv' split: option.splits sum.splits bool.splits
        dest!: found)
  show "map_of T name \<noteq> None \<Longrightarrow> map_of T' name \<noteq> None"
    using assms by (auto simp: ensureIncidentDroppedEventsColumn_def Let_def update_conv' split: option.splits sum.splits bool.splits)
qed


end
