(* ===== verification/GoFlag.thy ===== *)
theory GoFlag
  imports GoLib "HOL-Library.AList"
begin

text \<open>
  Package \<open>flag\<close> as the commands use it: flag sets with defaults, and \<open>Parse\<close> with the integers and
  truth values of \<open>strconv\<close>.
\<close>

section \<open>Numbers of flags\<close>

text \<open>\<open>strconv.ParseInt(s, 0, 64)\<close>: a sign, a base prefix, digits, and underscores between digits.\<close>

definition digit_value :: "char \<Rightarrow> nat option" where
  "digit_value c =
     (let b = byte c; l = byte (lower_char c) in
      if 48 \<le> b \<and> b \<le> 57 then Some (b - 48) else if 97 \<le> l \<and> l \<le> 122 then Some (l - 97 + 10) else None)"

fun digits_in_base :: "nat \<Rightarrow> string \<Rightarrow> nat \<Rightarrow> nat option" where
  "digits_in_base base [] n = Some n"
| "digits_in_base base (c # cs) n =
     (if c = CHR ''_'' then digits_in_base base cs n
      else case digit_value c of
        None \<Rightarrow> None
      | Some d \<Rightarrow> if d \<ge> base then None else digits_in_base base cs (n * base + d))"

definition base_of :: "string \<Rightarrow> nat \<times> string" where
  "base_of s =
     (case s of
        CHR ''0'' # rest \<Rightarrow>
          (let kind = (if length s \<ge> 3 then lower_char (s ! 1) else CHR ''0'') in
           if kind = CHR ''b'' then (2, drop 2 s)
           else if kind = CHR ''o'' then (8, drop 2 s)
           else if kind = CHR ''x'' then (16, drop 2 s)
           else (8, rest))
      | _ \<Rightarrow> (10, s))"

text \<open>The last thing seen: the start, a digit, an underscore or another character.\<close>

datatype seen = SeenStart | SeenDigit | SeenUnderscore | SeenOther

fun underscores_ok :: "bool \<Rightarrow> seen \<Rightarrow> string \<Rightarrow> bool" where
  "underscores_ok hex i [] = (i \<noteq> SeenUnderscore)"
| "underscores_ok hex i (c # cs) =
     (let l = byte (lower_char c) in
      if 48 \<le> byte c \<and> byte c \<le> 57 \<or> hex \<and> 97 \<le> l \<and> l \<le> 102 then underscores_ok hex SeenDigit cs
      else if c = CHR ''_'' then i = SeenDigit \<and> underscores_ok hex SeenUnderscore cs
      else i \<noteq> SeenUnderscore \<and> underscores_ok hex SeenOther cs)"

definition underscoreOK :: "string \<Rightarrow> bool" where
  "underscoreOK s =
     (let kind = (if length s \<ge> 2 \<and> s ! 0 = CHR ''0'' then lower_char (s ! 1) else CHR ''0'') in
      if kind \<in> {CHR ''b'', CHR ''o'', CHR ''x''} then underscores_ok (kind = CHR ''x'') SeenDigit (drop 2 s)
      else underscores_ok False SeenStart s)"

definition ParseUint :: "string \<Rightarrow> nat option" where
  "ParseUint s =
     (if s = [] then None
      else case base_of s of (base, ds) \<Rightarrow>
        (case digits_in_base base ds 0 of
           None \<Rightarrow> None
         | Some n \<Rightarrow> if n \<ge> 2 ^ 64 \<or> CHR ''_'' \<in> set ds \<and> \<not> underscoreOK s then None else Some n))"

definition ParseInt :: "string \<Rightarrow> int option" where
  "ParseInt s =
     (let neg = HasPrefix s ''-'';
          digits = (if neg \<or> HasPrefix s ''+'' then tl s else s)
      in case ParseUint digits of
           None \<Rightarrow> None
         | Some n \<Rightarrow>
             if \<not> neg \<and> n \<ge> 2 ^ 63 \<or> neg \<and> n > 2 ^ 63 then None
             else Some (if neg then - int n else int n))"

definition ParseBool :: "string \<Rightarrow> bool option" where
  "ParseBool s =
     (if s \<in> {''1'', ''t'', ''T'', ''true'', ''TRUE'', ''True''} then Some True
      else if s \<in> {''0'', ''f'', ''F'', ''false'', ''FALSE'', ''False''} then Some False
      else None)"

section \<open>Flags\<close>

text \<open>
  A flag set is the list of its flags with their values, at first the defaults. \<open>flags.Parse\<close> answers
  with the values and the arguments that are left; every caller replaces its error by a text of its
  own, so the error is \<open>None\<close>. The texts of durations are read by the argument \<open>dur\<close>.
\<close>

datatype flag_value = FString string | FInt int | FBool bool | FDuration duration

type_synonym flag_set = "(string \<times> flag_value) list"

definition set_flag :: "(string \<Rightarrow> duration option) \<Rightarrow> flag_value \<Rightarrow> string \<Rightarrow> flag_value option" where
  "set_flag dur old s =
     (case old of
        FString _ \<Rightarrow> Some (FString s)
      | FInt _ \<Rightarrow> map_option FInt (ParseInt s)
      | FBool _ \<Rightarrow> map_option FBool (ParseBool s)
      | FDuration _ \<Rightarrow> map_option FDuration (dur s))"

text \<open>The name of an argument that is a flag, and what follows its equals sign.\<close>

datatype flag_arg = NoFlag | EndOfFlags | BadFlag | FlagNamed string "string option"

definition flag_arg :: "string \<Rightarrow> flag_arg" where
  "flag_arg s =
     (if length s < 2 \<or> hd s \<noteq> CHR ''-'' then NoFlag
      else if s = ''--'' then EndOfFlags
      else let name = drop (if s ! 1 = CHR ''-'' then 2 else 1) s in
        if name = [] \<or> hd name = CHR ''-'' \<or> hd name = CHR ''='' then BadFlag
        else case Cut CHR ''='' name of (n, v, found) \<Rightarrow> FlagNamed n (if found then Some v else None))"

fun parse_flags :: "(string \<Rightarrow> duration option) \<Rightarrow> flag_set \<Rightarrow> string list \<Rightarrow> (flag_set \<times> string list) option" where
  "parse_flags dur fs [] = Some (fs, [])"
| "parse_flags dur fs (s # args) =
     (case flag_arg s of
        NoFlag \<Rightarrow> Some (fs, s # args)
      | EndOfFlags \<Rightarrow> Some (fs, args)
      | BadFlag \<Rightarrow> None
      | FlagNamed name given \<Rightarrow>
          (case map_of fs name of
             None \<Rightarrow> None
           | Some old \<Rightarrow>
               (case (old, given, args) of
                  (FBool _, None, _) \<Rightarrow> parse_flags dur (AList.update name (FBool True) fs) args
                | (_, Some v, _) \<Rightarrow>
                    (case set_flag dur old v of
                       None \<Rightarrow> None
                     | Some new \<Rightarrow> parse_flags dur (AList.update name new fs) args)
                | (_, None, []) \<Rightarrow> None
                | (_, None, v # rest) \<Rightarrow>
                    (case set_flag dur old v of
                       None \<Rightarrow> None
                     | Some new \<Rightarrow> parse_flags dur (AList.update name new fs) rest))))"

definition string_flag :: "flag_set \<Rightarrow> string \<Rightarrow> string" where
  "string_flag fs name = (case map_of fs name of Some (FString s) \<Rightarrow> s | _ \<Rightarrow> [])"

definition int_flag :: "flag_set \<Rightarrow> string \<Rightarrow> int" where
  "int_flag fs name = (case map_of fs name of Some (FInt n) \<Rightarrow> n | Some (FDuration d) \<Rightarrow> d | _ \<Rightarrow> 0)"

definition bool_flag :: "flag_set \<Rightarrow> string \<Rightarrow> bool" where
  "bool_flag fs name = (case map_of fs name of Some (FBool b) \<Rightarrow> b | _ \<Rightarrow> False)"

end
