(* ===== verification/Cli.thy ===== *)
theory Cli
  imports Store_Open Report Collector GoFlag
begin

text \<open>
  The command line (\<open>cmd/tracejutsu\<close>): the terminal it writes to, the helpers of \<open>cli_helpers.go\<close>, the
  defaults of \<open>internal/config\<close>, and the commands \<open>init\<close>, \<open>doctor\<close>, \<open>rules\<close>, \<open>config\<close> and \<open>version\<close>.
\<close>

section \<open>The terminal\<close>

text \<open>What was written, piece by piece, and the failures of the writes to come.\<close>

record console =
  printed :: "string list"
  write_faults :: "go_error option list"

definition console_write :: "console \<Rightarrow> string \<Rightarrow> console \<times> go_error option" where
  "console_write w piece =
     (case write_faults w of
        Some err # fs \<Rightarrow> (w\<lparr>write_faults := fs\<rparr>, Some err)
      | fs \<Rightarrow> (w\<lparr>printed := printed w @ [piece], write_faults := tl fs\<rparr>, None))"

text \<open>\<open>fmt.Fprintf\<close> with its error ignored, for one piece and for many.\<close>

definition say :: "string \<Rightarrow> console \<Rightarrow> console" where
  "say piece w = fst (console_write w piece)"

definition says :: "string list \<Rightarrow> console \<Rightarrow> console" where
  "says pieces w = foldl (\<lambda>w piece. say piece w) w pieces"

text \<open>A command leaves the terminal and an error; \<open>attempt\<close> returns the error of a step before it.\<close>

type_synonym outcome_of = "console \<times> go_error option"

definition attempt :: "go_error + 'a \<Rightarrow> ('a \<Rightarrow> console \<Rightarrow> outcome_of) \<Rightarrow> console \<Rightarrow> outcome_of" where
  "attempt r k w = (case r of Inl err \<Rightarrow> (w, Some err) | Inr x \<Rightarrow> k x w)"

definition no_error :: "go_error option \<Rightarrow> go_error + unit" where
  "no_error e = (case e of Some err \<Rightarrow> Inl err | None \<Rightarrow> Inr ())"

definition require :: "bool \<Rightarrow> go_error \<Rightarrow> go_error + unit" where
  "require ok msg = (if ok then Inr () else Inl msg)"

text \<open>The widths of \<open>%-48s\<close> and \<open>%8d\<close> count runes.\<close>

definition pad_right :: "nat \<Rightarrow> string \<Rightarrow> string" where
  "pad_right w s = s @ replicate (w - length (runes s)) CHR '' ''"

definition pad_left :: "nat \<Rightarrow> string \<Rightarrow> string" where
  "pad_left w s = replicate (w - length (runes s)) CHR '' '' @ s"

section \<open>The surroundings of a command\<close>

text \<open>What is written as JSON.\<close>

record LLMConfig =
  lc_Endpoint :: string
  lc_Model :: string
  lc_Timeout :: string
  lc_RemoteEndpointOptIn :: bool
  lc_PreserveRawResponse :: bool

record AppConfig =
  LocalOnly :: bool
  LLM :: LLMConfig

definition config_Default :: AppConfig where
  "config_Default = \<lparr>LocalOnly = True, LLM = \<lparr>lc_Endpoint = ''http://127.0.0.1:8080'', lc_Model = ''local-model'',
     lc_Timeout = ''5m'', lc_RemoteEndpointOptIn = False, lc_PreserveRawResponse = False\<rparr>\<rparr>"

record db_stats_output =
  do_Path :: string
  DatabaseBytes :: int
  WALBytes :: int
  SHMBytes :: int
  do_Stats :: SQLiteStats

datatype payload =
    RulesJSON "RuleDefinition list"
  | ConfigJSON AppConfig
  | EventJSON event
  | SummaryJSON string "EventProcessSummary list" "EventValueSummary list"
  | DBStatsJSON db_stats_output
  | IncidentsJSON "Incident list"
  | TriageJSON "(TriageIncident \<times> event list option) list"
  | ShowJSON Incident "event list" "LLMReport option"

text \<open>
  The environment, the operating system, what opening a database meets, and what is stored; \<open>size\<close> of a
  file, \<open>mkdir_all\<close>, the read-only connection of \<open>doctor\<close>, and \<open>systemctl\<close>.
\<close>

record cli_env =
  getenv :: "string \<Rightarrow> string"
  dur_of :: "string \<Rightarrow> go_error + duration"
  encode :: "payload \<Rightarrow> go_error + string"
  osv :: os_view
  parent_stat :: "string \<Rightarrow> stat_result"
  mkdir_all :: "string \<Rightarrow> go_error option"
  file_bytes :: "string \<Rightarrow> int"
  pragma_refuses :: "string \<Rightarrow> go_error option"
  schema_refused :: "go_error option"
  upgrade :: upgrade_faults
  file_tables :: "string \<Rightarrow> tables"
  lib :: store_lib
  open_readonly :: "string \<Rightarrow> go_error + (go_error + string)"
  lookpath_fault :: "go_error option"
  systemctl :: "string \<times> go_error option"
  goos :: string
  goarch :: string

definition dur_option :: "cli_env \<Rightarrow> string \<Rightarrow> duration option" where
  "dur_option E s = (case dur_of E s of Inl _ \<Rightarrow> None | Inr d \<Rightarrow> Some d)"

definition writeJSON :: "cli_env \<Rightarrow> payload \<Rightarrow> console \<Rightarrow> outcome_of" where
  "writeJSON E p w = attempt (encode E p) (\<lambda>json w. console_write w json) w"

definition formatText :: string where "formatText = ''text''"
definition formatJSON :: string where "formatJSON = ''json''"
definition defaultDB :: string where "defaultDB = ''tracejutsu.db''"

abbreviation double_quote :: string where
  "double_quote \<equiv> [CHR 0x22]"

section \<open>Helpers\<close>

definition defaultDatabasePath :: "cli_env \<Rightarrow> string" where
  "defaultDatabasePath E =
     (if getenv E ''TRACEJUTSU_DB'' \<noteq> [] then getenv E ''TRACEJUTSU_DB''
      else if getenv E ''XDG_STATE_HOME'' \<noteq> [] then
        path_Join [getenv E ''XDG_STATE_HOME'', ''tracejutsu'', ''tracejutsu.db'']
      else if getenv E ''HOME'' \<noteq> [] then
        path_Join [getenv E ''HOME'', ''.local'', ''state'', ''tracejutsu'', ''tracejutsu.db'']
      else defaultDB)"

definition ensureDatabaseParent :: "cli_env \<Rightarrow> string \<Rightarrow> go_error option" where
  "ensureDatabaseParent E path =
     (if path = '':memory:'' then Some ''init requires a filesystem SQLite database''
      else let parent = path_Dir path in
        (case parent_stat E parent of
           Info info \<Rightarrow>
             if \<not> fi_dir info then Some (''SQLite parent path must be a directory: '' @ oq (osv E) parent) else None
         | StatFailed err \<Rightarrow> Some (''inspect SQLite parent directory: '' @ err)
         | NotExist _ \<Rightarrow>
             map_option (\<lambda>err. ''create SQLite parent directory '' @ oq (osv E) parent @ '': '' @ err) (mkdir_all E parent)))"

definition withSQLitePathHint :: "go_error \<Rightarrow> string \<Rightarrow> go_error" where
  "withSQLitePathHint err path =
     (if Contains err ''does not exist'' then
        err @ '' (hint: run `tracejutsu init --db '' @ path @ ''` to create a private database)''
      else if Contains err ''parent directory permissions'' \<or> Contains err ''parent directory owner'' \<or>
        Contains err ''permissions'' \<or> Contains err ''sidecar'' then
        err @ '' (hint: use `tracejutsu init --db '' @ path @
          ''` or move the database under a 0700 private state directory)''
      else err)"

definition parseOutputFormat :: "string \<Rightarrow> go_error + string" where
  "parseOutputFormat v =
     (if v = formatText \<or> v = formatJSON then Inr v
      else Inl (''format must be '' @ double_quote @ ''text'' @ double_quote @ '' or '' @ double_quote @ ''json'' @
        double_quote))"

definition parseOptionalTime :: "cli_env \<Rightarrow> string \<Rightarrow> string \<Rightarrow> go_error + go_time" where
  "parseOptionalTime E v flagName =
     (if v = [] then Inr 0
      else case parseTime v of
        None \<Rightarrow> Inl (flagName @ '' must be RFC3339 time: '' @ time_error (lib E) v)
      | Some t \<Rightarrow> Inr t)"

definition open_sqlite :: "cli_env \<Rightarrow> string \<Rightarrow> go_error + tables" where
  "open_sqlite E path = OpenSQLite (osv E) (pragma_refuses E) (schema_refused E) (upgrade E) (file_tables E path) path"

definition openExistingSQLite :: "cli_env \<Rightarrow> string \<Rightarrow> go_error + tables" where
  "openExistingSQLite E path =
     sum_bind
       (if path \<noteq> '':memory:'' then
          (case lstat (osv E) path of
             NotExist _ \<Rightarrow>
               Inl (withSQLitePathHint (''SQLite database does not exist: '' @ oq (osv E) path) path)
           | StatFailed err \<Rightarrow> Inl (''inspect SQLite database path: '' @ err)
           | Info _ \<Rightarrow> Inr ())
        else Inr ())
       (\<lambda>_. case open_sqlite E path of Inl err \<Rightarrow> Inl (withSQLitePathHint err path) | Inr T \<Rightarrow> Inr T)"

section \<open>The commands init, version, rules and config\<close>

definition runInit :: "cli_env \<Rightarrow> string list \<Rightarrow> console \<Rightarrow> outcome_of" where
  "runInit E args w =
     (case parse_flags (dur_option E) [(''db'', FString (defaultDatabasePath E))] args of
        Some (fs, []) \<Rightarrow>
          (let path = string_flag fs ''db'' in
           attempt (no_error (ensureDatabaseParent E path)) (\<lambda>_.
           attempt (map_sum (\<lambda>err. withSQLitePathHint err path) id (open_sqlite E path)) (\<lambda>_ w.
             (say (''initialized tracejutsu database: '' @ TerminalText path @ newline) w, None))) w)
      | _ \<Rightarrow> (w, Some ''usage: tracejutsu init [--db path]''))"

definition runVersion :: "string \<Rightarrow> string \<Rightarrow> string \<Rightarrow> string list \<Rightarrow> console \<Rightarrow> outcome_of" where
  "runVersion buildVersion buildCommit buildDate args w =
     (if args \<noteq> [] then (w, Some ''usage: tracejutsu version'')
      else (says [''tracejutsu '' @ TerminalText buildVersion @ newline, ''commit: '' @ TerminalText buildCommit @ newline,
          ''build_date: '' @ TerminalText buildDate @ newline] w, None))"

definition rule_line :: "RuleDefinition \<Rightarrow> string" where
  "rule_line d =
     pad_right 48 (TerminalText (rd_RuleID d)) @ '' score='' @ pad_right 3 (Itoa (rd_ScoreImpact d)) @ '' collectors='' @
     pad_right 48 (TerminalText (Join '','' (rd_Collectors d))) @ '' '' @ TerminalText (rd_Description d) @ newline"

definition runRules :: "cli_env \<Rightarrow> string list \<Rightarrow> console \<Rightarrow> outcome_of" where
  "runRules E args w =
     (case parse_flags (dur_option E) [(''format'', FString formatText)] args of
        Some (fs, []) \<Rightarrow>
          attempt (parseOutputFormat (string_flag fs ''format'')) (\<lambda>format w.
            if format = formatJSON then writeJSON E (RulesJSON RuleDefinitions) w
            else (says (map rule_line RuleDefinitions) w, None)) w
      | _ \<Rightarrow> (w, Some ''usage: tracejutsu rules [--format text|json]''))"

definition runConfig :: "cli_env \<Rightarrow> console \<Rightarrow> outcome_of" where
  "runConfig E w =
     (case encode E (ConfigJSON config_Default) of
        Inl err \<Rightarrow> (w, Some (''encode config: '' @ err))
      | Inr text_of \<Rightarrow> (say (text_of @ newline) w, None))"

section \<open>The command doctor\<close>

record doctorCheck =
  dc_Status :: string
  dc_Name :: string
  dc_Detail :: string

abbreviation check :: "string \<Rightarrow> string \<Rightarrow> string \<Rightarrow> doctorCheck" where
  "check st name detail \<equiv> \<lparr>dc_Status = st, dc_Name = name, dc_Detail = detail\<rparr>"

definition checkSQLiteSidecar :: "cli_env \<Rightarrow> string \<Rightarrow> string \<Rightarrow> doctorCheck" where
  "checkSQLiteSidecar E path suffix =
     (let sidecar = path @ suffix; name = ''sqlite'' @ suffix in
      case lstat (osv E) sidecar of
        NotExist _ \<Rightarrow> check ''OK'' name ''not present''
      | StatFailed err \<Rightarrow> check ''FAIL'' name err
      | Info info \<Rightarrow>
          if \<not> fi_regular info then check ''FAIL'' name (sidecar @ '' is not a regular file'')
          else if and (fi_perm info) 0x3F \<noteq> 0 then
            check ''FAIL'' name (sidecar @ '' permissions '' @ octal_digits (fi_perm info) @ '' grant group or other access'')
          else check ''OK'' name (sidecar @ '' is private''))"

definition checkReadOnlyJournalMode :: "cli_env \<Rightarrow> string \<Rightarrow> doctorCheck" where
  "checkReadOnlyJournalMode E path =
     (case open_readonly E path of
        Inl err \<Rightarrow> check ''WARN'' ''journal_mode'' err
      | Inr (Inl err) \<Rightarrow> check ''WARN'' ''journal_mode'' err
      | Inr (Inr mode) \<Rightarrow>
          if mode \<noteq> ''wal'' then check ''WARN'' ''journal_mode'' (mode @ '' (expected wal after initialization)'')
          else check ''OK'' ''journal_mode'' mode)"

text \<open>The checks of the parent directory, and those of the database file.\<close>

definition parent_checks :: "cli_env \<Rightarrow> string \<Rightarrow> file_info \<Rightarrow> doctorCheck list" where
  "parent_checks E parent info =
     [if and (fi_perm info) 0x12 \<noteq> 0 then
        check ''FAIL'' ''db_parent'' (parent @ '' permissions '' @ octal_digits (fi_perm info) @
          '' permit group or other writes'')
      else check ''OK'' ''db_parent'' (parent @ '' is private'')] @
     (case fi_uid info of
        None \<Rightarrow> []
      | Some uid \<Rightarrow>
          if uid \<noteq> euid (osv E) mod 2 ^ 32 then
            [check ''FAIL'' ''db_owner'' (''parent UID '' @ Itoa uid @ '' does not match process UID '' @ Itoa (euid (osv E)))]
          else [])"

definition file_checks :: "cli_env \<Rightarrow> string \<Rightarrow> doctorCheck list" where
  "file_checks E path =
     (case lstat (osv E) path of
        NotExist _ \<Rightarrow>
          [check ''WARN'' ''database'' (path @ '' does not exist; run `tracejutsu init --db '' @ path @ ''`'')]
      | StatFailed err \<Rightarrow> [check ''FAIL'' ''database'' err]
      | Info info \<Rightarrow>
          [if \<not> fi_regular info then check ''FAIL'' ''database'' (path @ '' is not a regular file'')
           else if and (fi_perm info) 0x3F \<noteq> 0 then
             check ''FAIL'' ''database'' (path @ '' permissions '' @ octal_digits (fi_perm info) @
               '' grant group or other access'')
           else check ''OK'' ''database'' (path @ '' is private''),
           checkSQLiteSidecar E path ''-wal'', checkSQLiteSidecar E path ''-shm'', checkReadOnlyJournalMode E path])"

definition checkDatabasePath :: "cli_env \<Rightarrow> string \<Rightarrow> doctorCheck list" where
  "checkDatabasePath E path =
     (if path = '':memory:'' then [check ''FAIL'' ''database'' ''doctor requires a filesystem SQLite database'']
      else case absolute_path (osv E) path of
        Inl err \<Rightarrow> [check ''FAIL'' ''db_path'' err]
      | Inr absolutePath \<Rightarrow>
          let parent = path_Dir absolutePath in
          (case stat (osv E) parent of
             Info info \<Rightarrow>
               if \<not> fi_dir info then [check ''FAIL'' ''db_parent'' (parent @ '' is not a directory'')]
               else parent_checks E parent info @ file_checks E path
           | _ \<Rightarrow>
               [check ''WARN'' ''db_parent'' (parent @ '' missing; run `tracejutsu init --db '' @ path @ ''`'')]))"

definition checkSystemdService :: "cli_env \<Rightarrow> doctorCheck" where
  "checkSystemdService E =
     (if lookpath_fault E \<noteq> None then check ''WARN'' ''service'' ''systemctl not found''
      else case systemctl E of (output, failure) \<Rightarrow>
        let status = TrimSuffix output newline in
        (case failure of
           Some err \<Rightarrow> check ''WARN'' ''service'' (if status = [] then err else status)
         | None \<Rightarrow> check ''OK'' ''service'' status))"

definition doctor_line :: "doctorCheck \<Rightarrow> string" where
  "doctor_line c = pad_right 4 (dc_Status c) @ '' '' @ pad_right 16 (dc_Name c) @ '' '' @ TerminalText (dc_Detail c) @ newline"

definition runDoctor :: "cli_env \<Rightarrow> string list \<Rightarrow> console \<Rightarrow> outcome_of" where
  "runDoctor E args w =
     (case parse_flags (dur_option E) [(''db'', FString (defaultDatabasePath E)), (''service'', FBool False)] args of
        Some (fs, []) \<Rightarrow>
          (let path = string_flag fs ''db'';
               checks = [check ''OK'' ''os'' (goos E), check ''OK'' ''arch'' (goarch E), check ''OK'' ''db_path'' path] @
                 checkDatabasePath E path @ (if bool_flag fs ''service'' then [checkSystemdService E] else []);
               failures = length (filter (\<lambda>c. dc_Status c = ''FAIL'') checks);
               w' = says (map doctor_line checks) (say (''tracejutsu doctor'' @ newline) w)
           in (w', if failures > 0 then Some (''doctor found '' @ Itoa (int failures) @ '' failed check(s)'') else None))
      | _ \<Rightarrow> (w, Some ''usage: tracejutsu doctor [--db path] [--service]''))"

end
