(* ===== verification/Cli_Laws.thy ===== *)
theory Cli_Laws
  imports Cli
begin

text \<open>
  What \<open>doctor\<close> says of a database against what the store does when it opens it.
\<close>

text \<open>The operating system shows the file; it shows the parent directory with its owner.\<close>

definition present :: "stat_result \<Rightarrow> bool" where
  "present s = (case s of Info _ \<Rightarrow> True | _ \<Rightarrow> False)"

definition parent_known :: "os_view \<Rightarrow> string \<Rightarrow> bool" where
  "parent_known W path =
     (case absolute_path W path of
        Inl _ \<Rightarrow> False
      | Inr p \<Rightarrow> (case stat W (path_Dir p) of Info info \<Rightarrow> fi_uid info \<noteq> None | _ \<Rightarrow> False))"

definition plain_path :: "string \<Rightarrow> bool" where
  "plain_path path \<longleftrightarrow> \<not> HasPrefix path ''file:'' \<and> \<not> Contains path ''?''"

definition no_failure :: "doctorCheck list \<Rightarrow> bool" where
  "no_failure checks \<longleftrightarrow> list_all (\<lambda>c. dc_Status c \<noteq> ''FAIL'') checks"

lemma no_failure_append: "no_failure (xs @ ys) \<longleftrightarrow> no_failure xs \<and> no_failure ys"
  by (simp add: no_failure_def)

lemma runDoctor_result:
  "snd (runDoctor E [''--db'', path] w) = None \<longleftrightarrow> no_failure (checkDatabasePath E path)"
  by (simp add: runDoctor_def Let_def flag_arg_def set_flag_def string_flag_def bool_flag_def no_failure_def
      filter_empty_conv list_all_iff)

text \<open>The file and its sidecars pass both ways of checking them, or neither.\<close>

definition sound_file :: "stat_result \<Rightarrow> bool" where
  "sound_file s = (case s of Info info \<Rightarrow> fi_regular info \<and> and (fi_perm info) 0x3F = 0 | StatFailed _ \<Rightarrow> False | NotExist _ \<Rightarrow> True)"

lemma sidecar_check:
  "dc_Status (checkSQLiteSidecar E path suffix) \<noteq> ''FAIL'' \<longleftrightarrow> sound_file (lstat (osv E) (path @ suffix))"
  by (simp add: checkSQLiteSidecar_def Let_def sound_file_def split: stat_result.split)

lemma journal_check: "dc_Status (checkReadOnlyJournalMode E path) \<noteq> ''FAIL''"
  by (simp add: checkReadOnlyJournalMode_def split: sum.split)

lemma file_info_check: "validateSQLiteFileInfo qt path info = None \<longleftrightarrow> sound_file (Info info)"
  by (simp add: validateSQLiteFileInfo_def sound_file_def)

lemma sidecars_check:
  "validateSQLiteSidecars qt ls path = None \<longleftrightarrow> sound_file (ls (path @ ''-wal'')) \<and> sound_file (ls (path @ ''-shm''))"
  unfolding validateSQLiteSidecars_def sqliteSidecarPaths_def validate_sidecars.simps
  by (simp add: validateSQLiteFileInfo_def sound_file_def split: stat_result.split)

lemma file_checks_ok:
  assumes "lstat (osv E) path = Info info"
  shows "no_failure (file_checks E path) \<longleftrightarrow>
    validateSQLiteFileInfo (oq (osv E)) path info = None \<and> validateSQLiteSidecars (oq (osv E)) (lstat (osv E)) path = None"
  using sidecar_check [of E path] journal_check [of E path] assms
  by (simp add: file_checks_def no_failure_def file_info_check sidecars_check) (simp add: sound_file_def)

lemma parent_checks_ok:
  assumes "absolute_path (osv E) path = Inr p" "stat (osv E) (path_Dir p) = Info info" "fi_uid info \<noteq> None"
  shows "validateSQLiteParent (osv E) path = None \<longleftrightarrow> fi_dir info \<and> no_failure (parent_checks E parent info)"
  using assms by (auto simp: validateSQLiteParent_def Let_def parent_checks_def no_failure_def split: if_splits)


text \<open>A path that the store takes for a URI passes \<open>doctor\<close> all the same.\<close>

lemma doctor_passes_options:
  assumes "no_failure (checkDatabasePath E ''a?b'')"
  shows "snd (runDoctor E [''--db'', ''a?b''] w) = None \<and> prepareSQLitePath (osv E) ''a?b'' \<noteq> None"
  using assms by (simp add: runDoctor_result prepareSQLitePath_def)

end
