(* ===== verification/Cli_Query.thy ===== *)
theory Cli_Query
  imports Cli
begin

text \<open>
  The commands that read the store (\<open>cmd/tracejutsu/main.go\<close>): \<open>events\<close>, \<open>event-summary\<close>, \<open>db-stats\<close>,
  \<open>incidents\<close>, \<open>triage\<close> and \<open>show\<close>, in their text and JSON forms.
\<close>

section \<open>What the queries meet\<close>

text \<open>
  The stored tables, and how each query of a command is answered; the evidence of an incident is asked
  for by its id.
\<close>

record query_env =
  stored :: database
  list_delivery :: delivery
  process_delivery :: delivery
  path_delivery :: delivery
  row_fault :: "string \<Rightarrow> go_error option"
  evidence_delivery :: "string \<Rightarrow> delivery"
  report_fault :: "string \<Rightarrow> go_error option"
  stats_refuses :: "string \<Rightarrow> go_error option"
  stats_pragmas :: pragmas

text \<open>\<open>flags.Parse\<close> with a number of arguments that must be left.\<close>

definition parsed ::
  "cli_env \<Rightarrow> flag_set \<Rightarrow> string list \<Rightarrow> nat \<Rightarrow> go_error \<Rightarrow> go_error + flag_set \<times> string list" where
  "parsed E fs args n usage =
     (case parse_flags (dur_option E) fs args of
        Some (fs', rest) \<Rightarrow> if length rest = n then Inr (fs', rest) else Inl usage
      | None \<Rightarrow> Inl usage)"

abbreviation db_flag :: "cli_env \<Rightarrow> string \<times> flag_value" where
  "db_flag E \<equiv> (''db'', FString (defaultDatabasePath E))"

section \<open>Events\<close>

text \<open>Every event on a line of JSON, until a line fails.\<close>

fun write_events :: "cli_env \<Rightarrow> event list \<Rightarrow> console \<Rightarrow> outcome_of" where
  "write_events E [] w = (w, None)"
| "write_events E (e # es) w =
     (case writeJSON E (EventJSON e) w of
        (w', Some err) \<Rightarrow> (w', Some (''write normalized event: '' @ err))
      | (w', None) \<Rightarrow> write_events E es w')"

definition runEvents :: "cli_env \<Rightarrow> query_env \<Rightarrow> string list \<Rightarrow> console \<Rightarrow> outcome_of" where
  "runEvents E D args =
     attempt (parsed E [db_flag E, (''limit'', FInt 50), (''type'', FString []), (''process'', FString []), (''pid'', FInt 0),
         (''container-id'', FString []), (''since'', FString []), (''until'', FString [])] args 0
       ''usage: tracejutsu events [--db path] [--limit count] [--type event_type] [--process name] [--pid pid] [--container-id id] [--since time] [--until time]'')
     (\<lambda>(fs, _).
     attempt (require (0 \<le> int_flag fs ''pid'') ''pid must be non-negative'') (\<lambda>_.
     attempt (parseOptionalTime E (string_flag fs ''since'') ''--since'') (\<lambda>sinceTime.
     attempt (parseOptionalTime E (string_flag fs ''until'') ''--until'') (\<lambda>untilTime.
     attempt (openExistingSQLite E (string_flag fs ''db'')) (\<lambda>_.
     attempt (ListEventsFiltered (lib E) (list_delivery D)
         \<lparr>ef_Limit = int_flag fs ''limit'', ef_EventType = string_flag fs ''type'', ef_ProcessName = string_flag fs ''process'',
          ef_PID = int_flag fs ''pid'', ef_ContainerID = string_flag fs ''container-id'', ef_Since = sinceTime,
          ef_Until = untilTime\<rparr> (stored D))
       (write_events E))))))"

definition process_line :: "EventProcessSummary \<Rightarrow> string" where
  "process_line p =
     (let executablePath = TerminalText (ps_ExecutablePath p) in
      ''  '' @ pad_left 8 (Itoa (int (ps_Count p))) @ ''  '' @ pad_right 24 (TerminalText (ps_ProcessName p)) @ ''  '' @
        (if executablePath = [] then ''-'' else executablePath) @ newline)"

definition value_line :: "EventValueSummary \<Rightarrow> string" where
  "value_line v = ''  '' @ pad_left 8 (Itoa (int (vs_Count v))) @ ''  '' @ TerminalText (vs_Value v) @ newline"

definition none_line :: string where
  "none_line = ''  none'' @ newline"

definition summary_pieces :: "string \<Rightarrow> EventProcessSummary list \<Rightarrow> EventValueSummary list \<Rightarrow> string list" where
  "summary_pieces eventType processes paths =
     [(if eventType = [] then ''event summary'' else ''event summary: type='' @ TerminalText eventType) @ newline,
      newline @ ''Top processes:'' @ newline] @
     (if processes = [] then [none_line] else map process_line processes) @
     [newline @ ''Top file paths:'' @ newline] @
     (if paths = [] then [none_line] else map value_line paths)"

definition runEventSummary :: "cli_env \<Rightarrow> query_env \<Rightarrow> string list \<Rightarrow> console \<Rightarrow> outcome_of" where
  "runEventSummary E D args =
     attempt (parsed E [db_flag E, (''type'', FString []), (''limit'', FInt 10), (''format'', FString formatText)] args 0
       ''usage: tracejutsu event-summary [--db path] [--type event_type] [--limit count] [--format text|json]'') (\<lambda>(fs, _).
     attempt (parseOutputFormat (string_flag fs ''format'')) (\<lambda>format.
     attempt (openExistingSQLite E (string_flag fs ''db'')) (\<lambda>_.
     attempt (TopEventProcesses (process_delivery D) (string_flag fs ''type'') (int_flag fs ''limit'') (stored D)) (\<lambda>processes.
     attempt (TopEventPaths (path_delivery D) (string_flag fs ''type'') (int_flag fs ''limit'') (stored D)) (\<lambda>paths w.
       if format = formatJSON then writeJSON E (SummaryJSON (string_flag fs ''type'') processes paths) w
       else (says (summary_pieces (string_flag fs ''type'') processes paths) w, None))))))"

section \<open>Statistics of the database\<close>

definition regularFileSize :: "cli_env \<Rightarrow> string \<Rightarrow> go_error + int" where
  "regularFileSize E path =
     (case stat (osv E) path of
        NotExist err \<Rightarrow> Inl (''inspect file '' @ oq (osv E) path @ '': '' @ err)
      | StatFailed err \<Rightarrow> Inl (''inspect file '' @ oq (osv E) path @ '': '' @ err)
      | Info info \<Rightarrow>
          if \<not> fi_regular info then Inl (''expected regular file: '' @ oq (osv E) path) else Inr (file_bytes E path))"

definition optionalRegularFileSize :: "cli_env \<Rightarrow> string \<Rightarrow> go_error + int" where
  "optionalRegularFileSize E path =
     (case stat (osv E) path of
        NotExist _ \<Rightarrow> Inr 0
      | StatFailed err \<Rightarrow> Inl (''inspect file '' @ oq (osv E) path @ '': '' @ err)
      | Info info \<Rightarrow>
          if \<not> fi_regular info then Inl (''expected regular file: '' @ oq (osv E) path) else Inr (file_bytes E path))"

definition named_number :: "string \<times> int \<Rightarrow> string" where
  "named_number nv = fst nv @ '': '' @ Itoa (snd nv) @ newline"

definition stats_pieces :: "db_stats_output \<Rightarrow> string list" where
  "stats_pieces d =
     (let s = do_Stats d in
      [''database stats'' @ newline, ''path: '' @ TerminalText (do_Path d) @ newline,
       ''journal_mode: '' @ TerminalText (ss_JournalMode s) @ newline] @
      map named_number
        [(''database_bytes'', DatabaseBytes d), (''wal_bytes'', WALBytes d), (''shm_bytes'', SHMBytes d),
         (''page_size'', PageSize s), (''page_count'', PageCount s), (''freelist_count'', FreelistCount s),
         (''approx_database_bytes'', ApproxDatabaseBytes s), (''events'', EventCount s), (''incidents'', IncidentCount s),
         (''incident_event_links'', IncidentEventCount s), (''llm_reports'', LLMReportCount s)])"

definition runDBStats :: "cli_env \<Rightarrow> query_env \<Rightarrow> string list \<Rightarrow> console \<Rightarrow> outcome_of" where
  "runDBStats E D args =
     attempt (parsed E [db_flag E, (''format'', FString formatText)] args 0
       ''usage: tracejutsu db-stats [--db path] [--format text|json]'') (\<lambda>(fs, _).
     attempt (parseOutputFormat (string_flag fs ''format'')) (\<lambda>format.
     (let path = string_flag fs ''db'' in
     attempt (require (path \<noteq> '':memory:'') ''db-stats requires a filesystem SQLite database'') (\<lambda>_.
     attempt (openExistingSQLite E path) (\<lambda>_.
     attempt (store_Stats (stats_refuses D) (stats_pragmas D) (stored D)) (\<lambda>stats.
     attempt (regularFileSize E path) (\<lambda>databaseBytes.
     attempt (optionalRegularFileSize E (path @ ''-wal'')) (\<lambda>walBytes.
     attempt (optionalRegularFileSize E (path @ ''-shm'')) (\<lambda>shmBytes w.
       (let d = \<lparr>do_Path = path, DatabaseBytes = databaseBytes, WALBytes = walBytes, SHMBytes = shmBytes, do_Stats = stats\<rparr>
        in if format = formatJSON then writeJSON E (DBStatsJSON d) w else (says (stats_pieces d) w, None)))))))))))"

section \<open>Incidents\<close>

definition incident_line :: "Incident \<Rightarrow> string" where
  "incident_line inc =
     TerminalText (IncidentID inc) @ ''  '' @ pad_right 8 (RiskLevel (inc_RiskScore inc)) @ '' score='' @
     pad_right 3 (Itoa (inc_RiskScore inc)) @ ''  '' @ format_seconds (StartTime inc) @ ''  '' @ TerminalText (Summary inc) @ newline"

definition runIncidents :: "cli_env \<Rightarrow> query_env \<Rightarrow> string list \<Rightarrow> console \<Rightarrow> outcome_of" where
  "runIncidents E D args =
     attempt (parsed E [db_flag E, (''limit'', FInt 50), (''llm-status'', FString []), (''since'', FString []),
         (''until'', FString []), (''format'', FString formatText)] args 0
       ''usage: tracejutsu incidents [--db path] [--limit count] [--llm-status status] [--since time] [--until time] [--format text|json]'')
     (\<lambda>(fs, _).
     attempt (parseOutputFormat (string_flag fs ''format'')) (\<lambda>format.
     attempt (parseOptionalTime E (string_flag fs ''since'') ''--since'') (\<lambda>sinceTime.
     attempt (parseOptionalTime E (string_flag fs ''until'') ''--until'') (\<lambda>untilTime.
     attempt (openExistingSQLite E (string_flag fs ''db'')) (\<lambda>_.
     attempt (ListIncidentsFiltered (lib E) (list_delivery D)
         \<lparr>if_Limit = int_flag fs ''limit'', if_MinScore = 0, if_LLMStatus = string_flag fs ''llm-status'',
          if_Since = sinceTime, if_Until = untilTime\<rparr> (stored D)) (\<lambda>incidents w.
       if format = formatJSON then writeJSON E (IncidentsJSON incidents) w
       else (says (map incident_line incidents) w, None)))))))"

section \<open>Triage\<close>

definition triage_list :: "string \<Rightarrow> string list \<Rightarrow> string list" where
  "triage_list title entries =
     (title @ '':'' @ newline) #
     (if entries = [] then [none_line] else map (\<lambda>entry. ''  '' @ TerminalText entry @ newline) entries)"

definition triageEventDetail :: "event \<Rightarrow> string" where
  "triageEventDetail e =
     (if EventType e = TypeExecve then
        (if ExecutablePath e \<noteq> [] then ExecutablePath e else Join '' '' (CommandLine e))
      else if EventType e = TypeConnect \<or> EventType e = TypeNetworkServer then
        (if RemoteAddr e = [] then []
         else if RemotePort e = 0 then RemoteAddr e
         else RemoteAddr e @ '':'' @ Itoa (RemotePort e))
      else if FilePath e \<noteq> [] then FilePath e
      else ExecutablePath e)"

definition formatTriageEvent :: "event \<Rightarrow> string" where
  "formatTriageEvent e =
     (let detail = triageEventDetail e in
      format_seconds (Timestamp e) @ ''  '' @ pad_right 16 (TerminalText (EventID e @ '' '' @ EventType e)) @ '' pid='' @
      Itoa (PID e) @ ''  '' @ TerminalText (ProcessName e) @ ''  '' @ TerminalText (if detail = [] then ''-'' else detail))"

text \<open>The first \<open>limit\<close> events of the evidence, and how many more there are.\<close>

definition evidence_pieces :: "int \<Rightarrow> event list \<Rightarrow> string list" where
  "evidence_pieces limit es =
     map (\<lambda>e. ''  '' @ formatTriageEvent e @ newline) (take (nat limit) es) @
     (if int (length es) > limit then [''  ... '' @ Itoa (int (length es) - limit) @ '' more'' @ newline] else [])"

definition evidence_of :: "cli_env \<Rightarrow> query_env \<Rightarrow> string \<Rightarrow> go_error + Incident \<times> event list" where
  "evidence_of E D incidentID =
     GetIncident (lib E) (row_fault D incidentID) (evidence_delivery D incidentID) incidentID (stored D)"

definition triage_head :: "TriageIncident \<Rightarrow> string list" where
  "triage_head entry =
     (let inc = ti_Incident entry in
      [''INCIDENT '' @ TerminalText (IncidentID inc) @ ''  '' @ map upper_char (RiskLevel (inc_RiskScore inc)) @ ''  score='' @
         Itoa (inc_RiskScore inc) @ ''  '' @ format_seconds (StartTime inc) @ ''  llm='' @ TerminalText (LLMStatus inc) @
         ''  evidence='' @ Itoa (int (EvidenceCount entry)) @ newline,
       ''summary: '' @ TerminalText (Summary inc) @ newline] @
      triage_list ''signals'' (inc_Signals inc) @ triage_list ''timeline'' (Timeline inc))"

definition next_line :: "string \<Rightarrow> string \<Rightarrow> string" where
  "next_line path incidentID =
     ''next: tracejutsu show --db '' @ TerminalText path @ '' '' @ TerminalText incidentID @ newline"

fun triage_text :: "cli_env \<Rightarrow> query_env \<Rightarrow> string \<Rightarrow> int \<Rightarrow> nat \<Rightarrow> TriageIncident list \<Rightarrow> console \<Rightarrow> outcome_of" where
  "triage_text E D path limit index [] w = (w, None)"
| "triage_text E D path limit index (entry # entries) w =
     (let incidentID = IncidentID (ti_Incident entry);
          w1 = says (triage_head entry) (if index > 0 then say newline w else w)
      in attempt
           (if limit > 0 \<and> EvidenceCount entry > 0
            then map_sum id (\<lambda>(_, linked). (''evidence:'' @ newline) # evidence_pieces limit linked) (evidence_of E D incidentID)
            else Inr [])
           (\<lambda>pieces w. triage_text E D path limit (Suc index) entries (say (next_line path incidentID) (says pieces w))) w1)"

fun triage_json :: "cli_env \<Rightarrow> query_env \<Rightarrow> int \<Rightarrow> TriageIncident list \<Rightarrow> go_error + (TriageIncident \<times> event list option) list" where
  "triage_json E D limit [] = Inr []"
| "triage_json E D limit (entry # entries) =
     sum_bind
       (if limit > 0 \<and> EvidenceCount entry > 0
        then map_sum id (\<lambda>(_, linked). Some (take (nat limit) linked)) (evidence_of E D (IncidentID (ti_Incident entry)))
        else Inr None)
       (\<lambda>events. sum_bind (triage_json E D limit entries) (\<lambda>rest. Inr ((entry, events) # rest)))"

definition runTriage :: "cli_env \<Rightarrow> query_env \<Rightarrow> string list \<Rightarrow> console \<Rightarrow> outcome_of" where
  "runTriage E D args =
     attempt (parsed E [db_flag E, (''limit'', FInt 10), (''min-score'', FInt 0), (''evidence-limit'', FInt 3),
         (''llm-status'', FString []), (''since'', FString []), (''until'', FString []), (''format'', FString formatText)] args 0
       ''usage: tracejutsu triage [--db path] [--limit count] [--min-score score] [--evidence-limit count] [--llm-status status] [--since time] [--until time] [--format text|json]'')
     (\<lambda>(fs, _). let evidenceLimit = int_flag fs ''evidence-limit'' in
     attempt (require (0 \<le> int_flag fs ''min-score'') ''minimum score must be non-negative'') (\<lambda>_.
     attempt (require (0 \<le> evidenceLimit) ''evidence limit must be non-negative'') (\<lambda>_.
     attempt (parseOutputFormat (string_flag fs ''format'')) (\<lambda>format.
     attempt (parseOptionalTime E (string_flag fs ''since'') ''--since'') (\<lambda>sinceTime.
     attempt (parseOptionalTime E (string_flag fs ''until'') ''--until'') (\<lambda>untilTime.
     attempt (openExistingSQLite E (string_flag fs ''db'')) (\<lambda>_.
     attempt (ListTriageIncidentsFiltered (lib E) (list_delivery D)
         \<lparr>if_Limit = int_flag fs ''limit'', if_MinScore = int_flag fs ''min-score'', if_LLMStatus = string_flag fs ''llm-status'',
          if_Since = sinceTime, if_Until = untilTime\<rparr> (stored D)) (\<lambda>entries w.
       if format = formatJSON then attempt (triage_json E D evidenceLimit entries) (\<lambda>output. writeJSON E (TriageJSON output)) w
       else let w1 = say (''triage incidents'' @ newline) w in
         if entries = [] then (say none_line w1, None)
         else triage_text E D (string_flag fs ''db'') evidenceLimit 0 entries w1))))))))"

section \<open>One incident\<close>

text \<open>A report that is not stored is no error.\<close>

definition shown_report :: "cli_env \<Rightarrow> query_env \<Rightarrow> string \<Rightarrow> go_error + LLMReport option" where
  "shown_report E D incidentID =
     (if report_fault D incidentID = None \<and> map_of (reports_table (stored D)) incidentID = None then Inr None
      else map_sum id Some (GetLLMReport (lib E) (report_fault D incidentID) incidentID (stored D)))"

definition show_text ::
  "cli_env \<Rightarrow> int \<Rightarrow> Incident \<Rightarrow> event list \<Rightarrow> LLMReport option \<Rightarrow> console \<Rightarrow> outcome_of" where
  "show_text E evidenceLimit inc linked llmReport w =
     (case report_Write (urls (lib E)) console_write w inc of
        (w1, Some err) \<Rightarrow> (w1, Some err)
      | (w1, None) \<Rightarrow>
          let w2 = say (newline @ ''Evidence events: '' @ Itoa (int (length linked)) @ newline) w1;
              w3 = (if evidenceLimit > 0 then says (evidence_pieces evidenceLimit linked) w2 else w2)
          in case llmReport of
               None \<Rightarrow> (w3, None)
             | Some r \<Rightarrow> report_WriteLLM (urls (lib E)) console_write (say newline w3) inc (lr_Report r))"

definition runShow :: "cli_env \<Rightarrow> query_env \<Rightarrow> string list \<Rightarrow> console \<Rightarrow> outcome_of" where
  "runShow E D args =
     attempt (parsed E [db_flag E, (''evidence-limit'', FInt 10), (''format'', FString formatText)] args 1
       ''usage: tracejutsu show [--db path] [--evidence-limit count] [--format text|json] <incident_id>'') (\<lambda>(fs, rest).
     attempt (require (0 \<le> int_flag fs ''evidence-limit'') ''evidence limit must be non-negative'') (\<lambda>_.
     attempt (parseOutputFormat (string_flag fs ''format'')) (\<lambda>format.
     attempt (openExistingSQLite E (string_flag fs ''db'')) (\<lambda>_.
     attempt (evidence_of E D (hd rest)) (\<lambda>(inc, linked).
     attempt (shown_report E D (IncidentID inc)) (\<lambda>llmReport w.
       if format = formatJSON then writeJSON E (ShowJSON inc linked llmReport) w
       else show_text E (int_flag fs ''evidence-limit'') inc linked llmReport w))))))"

end
