(* ===== verification/Cli_Llm.thy ===== *)
theory Cli_Llm
  imports Cli_Query
begin

text \<open>
  The command \<open>llm\<close> (\<open>cmd/tracejutsu/main.go\<close>): the analysis of one incident or of the pending ones in
  order of priority, each stored before it is shown.
\<close>

section \<open>The command\<close>

text \<open>The terminal, the store, and the requests that were sent.\<close>

record llm_run =
  run_console :: console
  run_store :: store_state
  run_requests :: "http_request list"

text \<open>
  How the client is made and what each analysis meets: the library with the server's answer and the
  time, by the number of the analysis.
\<close>

record llm_env =
  parse_url :: "string \<Rightarrow> go_error + url"
  print_url :: "url \<Rightarrow> string"
  meets :: "nat \<Rightarrow> llm_lib"
  now_at :: "nat \<Rightarrow> go_time"
  listing :: delivery
  incident_fault :: "go_error option"
  incident_delivery :: delivery

definition analyzeAndWriteLLM ::
  "cli_env \<Rightarrow> llm_env \<Rightarrow> HTTPClient \<Rightarrow> nat \<Rightarrow> Incident \<Rightarrow> llm_run \<Rightarrow> llm_run \<times> go_error option" where
  "analyzeAndWriteLLM E M client n inc R =
     (case llm_Analyze (meets M n) client inc of
        (Inl err, reqs) \<Rightarrow> (R\<lparr>run_requests := run_requests R @ reqs\<rparr>, Some err)
      | (Inr analysis, reqs) \<Rightarrow>
          (case SaveLLMReport (lib E) \<lparr>lr_IncidentID = IncidentID inc, CreatedAt = now_at M n, lr_Model = an_Model analysis,
               lr_Report = an_Report analysis, lr_RawResponse = RawResponse analysis\<rparr> (run_store R) of
             (Inl err, S) \<Rightarrow> (R\<lparr>run_requests := run_requests R @ reqs, run_store := S\<rparr>, Some err)
           | (Inr _, S) \<Rightarrow>
               (case report_WriteLLM (urls (lib E)) console_write (run_console R) inc (an_Report analysis) of
                  (w, failure) \<Rightarrow>
                    (R\<lparr>run_requests := run_requests R @ reqs, run_store := S, run_console := w\<rparr>, failure))))"

definition batch_failure_line :: "Incident \<Rightarrow> go_error \<Rightarrow> string" where
  "batch_failure_line inc err = ''llm '' @ TerminalText (IncidentID inc) @ '' failed: '' @ TerminalText err @ newline"

fun batch_loop ::
  "cli_env \<Rightarrow> llm_env \<Rightarrow> HTTPClient \<Rightarrow> nat \<Rightarrow> TriageIncident list \<Rightarrow> nat \<Rightarrow> nat \<Rightarrow> llm_run \<Rightarrow> llm_run \<times> nat \<times> nat" where
  "batch_loop E M client n [] completed failed R = (R, completed, failed)"
| "batch_loop E M client n (entry # entries) completed failed R =
     (let R0 = (if n > 0 then R\<lparr>run_console := say newline (run_console R)\<rparr> else R) in
      case analyzeAndWriteLLM E M client n (ti_Incident entry) R0 of
        (R', Some err) \<Rightarrow>
          batch_loop E M client (Suc n) entries completed (Suc failed)
            (R'\<lparr>run_console := say (batch_failure_line (ti_Incident entry) err) (run_console R')\<rparr>)
      | (R', None) \<Rightarrow> batch_loop E M client (Suc n) entries (Suc completed) failed R')"

definition batch_line :: "nat \<Rightarrow> nat \<Rightarrow> nat \<Rightarrow> string" where
  "batch_line processed completed failed =
     newline @ ''llm batch: processed='' @ Itoa (int processed) @ '' complete='' @ Itoa (int completed) @ '' failed='' @
       Itoa (int failed) @ newline"

text \<open>The incidents that a batch takes up.\<close>

definition pending :: "cli_env \<Rightarrow> llm_env \<Rightarrow> int \<Rightarrow> int \<Rightarrow> database \<Rightarrow> go_error + TriageIncident list" where
  "pending E M limit minScore d =
     ListTriageIncidentsFiltered (lib E) (listing M)
       \<lparr>if_Limit = limit, if_MinScore = minScore, if_LLMStatus = ''pending'', if_Since = 0, if_Until = 0\<rparr> d"

definition runLLMBatch ::
  "cli_env \<Rightarrow> llm_env \<Rightarrow> HTTPClient \<Rightarrow> int \<Rightarrow> int \<Rightarrow> llm_run \<Rightarrow> llm_run \<times> go_error option" where
  "runLLMBatch E M client limit minScore R =
     (case pending E M limit minScore (committed (run_store R)) of
        Inl err \<Rightarrow> (R, Some err)
      | Inr entries \<Rightarrow>
          (case batch_loop E M client 0 entries 0 0 R of
             (R', completed, failed) \<Rightarrow>
               (R'\<lparr>run_console := say (batch_line (length entries) completed failed) (run_console R')\<rparr>,
                if failed > 0 then Some (''llm batch failed for '' @ Itoa (int failed) @ '' incident(s)'') else None)))"

definition llm_flags :: "cli_env \<Rightarrow> duration \<Rightarrow> flag_set" where
  "llm_flags E timeout =
     (let d = LLM config_Default in
      [db_flag E, (''endpoint'', FString (lc_Endpoint d)), (''model'', FString (lc_Model d)), (''timeout'', FDuration timeout),
       (''allow-remote-endpoint'', FBool (lc_RemoteEndpointOptIn d)), (''preserve-raw-response'', FBool (lc_PreserveRawResponse d)),
       (''all-pending'', FBool False), (''min-score'', FInt 0), (''limit'', FInt 10)])"

text \<open>The checks before the database is opened.\<close>

definition llm_arguments :: "cli_env \<Rightarrow> string list \<Rightarrow> go_error + flag_set \<times> string list" where
  "llm_arguments E args =
     (case dur_of E (lc_Timeout (LLM config_Default)) of
        Inl err \<Rightarrow> Inl (''parse default LLM timeout: '' @ err)
      | Inr timeout \<Rightarrow>
          (case parse_flags (dur_option E) (llm_flags E timeout) args of
             None \<Rightarrow> Inl ''usage: tracejutsu llm [--db path] [--endpoint url] [--model name] [--timeout duration] [--allow-remote-endpoint] [--preserve-raw-response] [--all-pending --min-score score --limit count] [incident_id]''
           | Some (fs, rest) \<Rightarrow>
               if int_flag fs ''min-score'' < 0 then Inl ''minimum score must be non-negative''
               else if int_flag fs ''limit'' \<le> 0 then Inl ''limit must be positive''
               else if bool_flag fs ''all-pending'' \<and> rest \<noteq> [] then
                 Inl ''usage: tracejutsu llm --all-pending [--db path] [--endpoint url] [--model name] [--timeout duration] [--allow-remote-endpoint] [--preserve-raw-response] [--min-score score] [--limit count]''
               else if \<not> bool_flag fs ''all-pending'' \<and> length rest \<noteq> 1 then
                 Inl ''usage: tracejutsu llm [--db path] [--endpoint url] [--model name] [--timeout duration] [--allow-remote-endpoint] [--preserve-raw-response] <incident_id>''
               else Inr (fs, rest)))"

definition newLLMClient :: "cli_env \<Rightarrow> llm_env \<Rightarrow> flag_set \<Rightarrow> go_error + HTTPClient" where
  "newLLMClient E M fs =
     NewHTTPClient (oq (osv E)) (parse_url M) (print_url M)
       \<lparr>Endpoint = string_flag fs ''endpoint'', cfg_Model = string_flag fs ''model'', Timeout = int_flag fs ''timeout'',
        RemoteEndpointOptIn = bool_flag fs ''allow-remote-endpoint'',
        PreserveRawResponse = bool_flag fs ''preserve-raw-response'', APIKey = getenv E ''TRACEJUTSU_LLM_API_KEY'',
        TransportGiven = False\<rparr>"

definition runLLM :: "cli_env \<Rightarrow> llm_env \<Rightarrow> string list \<Rightarrow> llm_run \<Rightarrow> llm_run \<times> go_error option" where
  "runLLM E M args R =
     (case sum_bind (llm_arguments E args) (\<lambda>(fs, rest).
           sum_bind (openExistingSQLite E (string_flag fs ''db'')) (\<lambda>_.
           sum_bind (newLLMClient E M fs) (\<lambda>client. Inr (fs, rest, client)))) of
        Inl err \<Rightarrow> (R, Some err)
      | Inr (fs, rest, client) \<Rightarrow>
          if bool_flag fs ''all-pending''
          then runLLMBatch E M client (int_flag fs ''limit'') (int_flag fs ''min-score'') R
          else case GetIncident (lib E) (incident_fault M) (incident_delivery M) (hd rest) (committed (run_store R)) of
            Inl err \<Rightarrow> (R, Some err)
          | Inr (inc, _) \<Rightarrow> analyzeAndWriteLLM E M client 0 inc R)"

end
