(* ===== verification/Cli_Llm_Laws.thy ===== *)
theory Cli_Llm_Laws
  imports Cli_Llm Store_Laws Store_Query_Laws
begin

text \<open>
  A batch of analyses followed through the store: what it selects, what it changes, and what its count
  and its result say of every incident.
\<close>

section \<open>One analysis\<close>

text \<open>Only the incidents of \<open>ids\<close> and their reports differ.\<close>

definition changed_only :: "string set \<Rightarrow> database \<Rightarrow> database \<Rightarrow> bool" where
  "changed_only ids d d' \<longleftrightarrow>
     events_table d' = events_table d \<and> links_table d' = links_table d \<and>
     (\<forall>i. i \<notin> ids \<longrightarrow> map_of (incidents_table d') i = map_of (incidents_table d) i \<and>
       map_of (reports_table d') i = map_of (reports_table d) i)"

lemma changed_refl [simp]: "changed_only ids d d"
  by (simp add: changed_only_def)

lemma changed_trans: "changed_only A d d1 \<Longrightarrow> changed_only B d1 d2 \<Longrightarrow> changed_only (A \<union> B) d d2"
  by (simp add: changed_only_def)

text \<open>The incident has a stored report and says so.\<close>

definition report_done :: "database \<Rightarrow> string \<Rightarrow> bool" where
  "report_done d i \<longleftrightarrow>
     map_of (reports_table d) i \<noteq> None \<and>
     (\<exists>row. map_of (incidents_table d) i = Some row \<and> LLMStatus (ir_columns row) = ''complete'')"

definition report_saved :: "string \<Rightarrow> database \<Rightarrow> database \<Rightarrow> bool" where
  "report_saved i d d' \<longleftrightarrow> (\<exists>row d1. upsert_report i row d = Inr d1 \<and> mark_complete i d1 = (1, d'))"

lemma saved_changes:
  assumes "report_saved i d d'"
  shows "changed_only {i} d d'" "report_done d' i"
  using assms unfolding report_saved_def upsert_report_def mark_complete_def changed_only_def report_done_def
  by (auto simp: update_conv' split: if_split_asm option.splits)

definition settled :: "store_state \<Rightarrow> bool" where
  "settled S \<longleftrightarrow> current S = committed S \<and> db_ok (committed S)"

lemma SaveLLMReport_effect:
  assumes "settled S" "SaveLLMReport J r S = (x, S')"
  shows "settled S'"
    "case x of Inl _ \<Rightarrow> committed S' = committed S | Inr _ \<Rightarrow> report_saved (lr_IncidentID r) (committed S) (committed S')"
proof -
  have op: "run_op J (OpReport r) S = (x, S')" using assms(2) by simp
  note atomic = atomic_opD [OF atomic_run_op _ op]
  show "settled S'" using atomic assms(1) by (simp add: settled_def)
  show "case x of Inl _ \<Rightarrow> committed S' = committed S | Inr _ \<Rightarrow> report_saved (lr_IncidentID r) (committed S) (committed S')"
  proof (cases x)
    case Inl
    with atomic assms(1) show ?thesis by (simp add: settled_def)
  next
    case (Inr u)
    let ?i = "lr_IncidentID r"
    obtain S1 payload where S1: "next_fault S = (None, S1)"
      and body: "\<exists>S2 S3. save_report J r payload S1 = (Inr (), S2) \<and> next_fault S2 = (None, S3) \<and> S' = S3\<lparr>committed := current S3\<rparr>"
      using assms(2) Inr unfolding SaveLLMReport_def transaction_def
      by (auto split: option.splits sum.splits prod.splits)
    then obtain S2 S3 where S2: "save_report J r payload S1 = (Inr (), S2)" "next_fault S2 = (None, S3)"
      "S' = S3\<lparr>committed := current S3\<rparr>" by blast
    have start: "current S1 = committed S" using next_fault_frame [OF S1] assms(1) by (simp add: settled_def)
    have stored: "committed S' = current S2" using next_fault_frame [OF S2(2)] S2(3) by simp
    from S2(1) start have "\<exists>d1. upsert_report ?i (report_to_row J r payload) (committed S) = Inr d1 \<and>
        mark_complete ?i d1 = (1, current S2)"
      unfolding save_report_def Let_def then_do_def exec_def exec_count_def
      by (auto split: prod.splits option.splits sum.splits if_splits dest!: next_fault_frame)
    then show ?thesis by (auto simp: Inr report_saved_def stored)
  qed
qed

lemma SaveLLMReport_both:
  "settled S \<Longrightarrow> SaveLLMReport J r S = (x, S') \<Longrightarrow>
     settled S' \<and> (case x of Inl _ \<Rightarrow> committed S' = committed S
       | Inr _ \<Rightarrow> report_saved (lr_IncidentID r) (committed S) (committed S'))"
  using SaveLLMReport_effect by blast

lemma one_request: "llm_Analyze H client inc = (x, reqs) \<Longrightarrow> length reqs \<le> 1"
  unfolding llm_Analyze_def Let_def by (auto split: sum.splits prod.splits)

lemma quiet_write:
  "write_all console_write w ps = (w', e) \<Longrightarrow> write_faults w = [] \<Longrightarrow> write_faults w' = [] \<and> e = None"
  by (induction ps arbitrary: w) (auto simp: console_write_def)

lemma quiet_say: "write_faults w = [] \<Longrightarrow> write_faults (say p w) = []"
  by (simp add: say_def console_write_def)

lemma analyze_step:
  assumes "settled (run_store R)" "analyzeAndWriteLLM E M client n inc R = (R', e)"
  shows "settled (run_store R')"
    "committed (run_store R') = committed (run_store R) \<or>
       report_saved (IncidentID inc) (committed (run_store R)) (committed (run_store R'))"
    "e = None \<Longrightarrow> report_saved (IncidentID inc) (committed (run_store R)) (committed (run_store R'))"
    "length (run_requests R') \<le> Suc (length (run_requests R))"
    "write_faults (run_console R) = [] \<Longrightarrow> write_faults (run_console R') = [] \<and>
       (e \<noteq> None \<longrightarrow> committed (run_store R') = committed (run_store R))"
  using assms(2) unfolding analyzeAndWriteLLM_def
  by (auto split: prod.splits sum.splits simp: report_WriteLLM_def assms(1)
      dest!: SaveLLMReport_both [OF assms(1)] one_request dest: quiet_write)

section \<open>The loop\<close>

text \<open>
  What the loop does from a state: a flag for each entry, the counts, and what became of the database.
\<close>

definition entry_id :: "TriageIncident \<Rightarrow> string" where
  "entry_id entry = IncidentID (ti_Incident entry)"

definition loop_outcome ::
  "bool \<Rightarrow> database \<Rightarrow> database \<Rightarrow> TriageIncident list \<Rightarrow> bool list \<Rightarrow> bool" where
  "loop_outcome quiet d d' entries oks \<longleftrightarrow>
     length oks = length entries \<and> changed_only (entry_id ` set entries) d d' \<and>
     (\<forall>(entry, ok)\<in>set (zip entries oks). ok \<longrightarrow> report_done d' (entry_id entry)) \<and>
     (quiet \<longrightarrow> distinct (map entry_id entries) \<longrightarrow>
       (\<forall>(entry, ok)\<in>set (zip entries oks). \<not> ok \<longrightarrow> changed_only (entry_id ` set entries - {entry_id entry}) d d'))"

lemma saved_keeps_done: "report_saved i d d' \<Longrightarrow> report_done d j \<Longrightarrow> report_done d' j"
  using saved_changes [of i d d'] by (cases "j = i") (auto simp: changed_only_def report_done_def)

lemma outcome_Cons:
  assumes "d1 = d \<or> report_saved (entry_id entry) d d1" "ok \<Longrightarrow> report_saved (entry_id entry) d d1"
    and "quiet \<Longrightarrow> \<not> ok \<Longrightarrow> d1 = d" "loop_outcome quiet d1 d' entries oks"
    and keeps: "\<And>i. report_done d1 i \<Longrightarrow> report_done d' i"
  shows "loop_outcome quiet d d' (entry # entries) (ok # oks)"
proof -
  let ?i = "entry_id entry" and ?ids = "entry_id ` set entries"
  have first: "changed_only {?i} d d1" using assms(1) saved_changes(1) [of ?i d d1] by auto
  have rest: "changed_only ?ids d1 d'" using assms(4) by (simp add: loop_outcome_def)
  have all: "changed_only (insert ?i ?ids) d d'" using changed_trans [OF first rest] by simp
  have failed: "changed_only (insert ?i ?ids - {entry_id e}) d d'"
    if "quiet" "?i \<notin> ?ids" "distinct (map entry_id entries)" "(e, b) \<in> set (zip (entry # entries) (ok # oks))" "\<not> b" for e b
  proof (cases "(e, b) = (entry, ok)")
    case True
    with that assms(3) have "d1 = d" by simp
    with rest that True show ?thesis by simp
  next
    case False
    with that have e: "(e, b) \<in> set (zip entries oks)" by auto
    with that assms(4) have "changed_only (?ids - {entry_id e}) d1 d'" by (auto simp: loop_outcome_def)
    from changed_trans [OF first this] have "changed_only ({?i} \<union> (?ids - {entry_id e})) d d'" .
    moreover have "entry_id e \<noteq> ?i" using imageI [OF set_zip_leftD [OF e], of entry_id] that(2) by auto
    ultimately show ?thesis by (simp add: insert_Diff_if)
  qed
  have fine: "report_done d' (entry_id e)" if "(e, b) \<in> set (zip (entry # entries) (ok # oks))" b for e b
    using that assms(2,4) keeps saved_changes(2) [of ?i d d1] by (auto simp: loop_outcome_def)
  show ?thesis
    unfolding loop_outcome_def
  proof (intro conjI impI ballI)
    show "length (ok # oks) = length (entry # entries)" using assms(4) by (simp add: loop_outcome_def)
    show "changed_only (entry_id ` set (entry # entries)) d d'" using all by simp
    fix p assume p: "p \<in> set (zip (entry # entries) (ok # oks))"
    show "case p of (entry, ok) \<Rightarrow> ok \<longrightarrow> report_done d' (entry_id entry)"
      using fine [of "fst p" "snd p"] p unfolding prod.collapse split_beta by blast
    assume "quiet" "distinct (map entry_id (entry # entries))"
    with failed [of "fst p" "snd p"] p
    show "case p of (e, ok) \<Rightarrow> \<not> ok \<longrightarrow> changed_only (entry_id ` set (entry # entries) - {entry_id e}) d d'"
      unfolding prod.collapse split_beta by simp
  qed
qed

lemma loop_run:
  "settled (run_store R) \<Longrightarrow> batch_loop E M client n entries c f R = (R', c', f') \<Longrightarrow>
   settled (run_store R') \<and> (\<forall>i. report_done (committed (run_store R)) i \<longrightarrow> report_done (committed (run_store R')) i) \<and>
   length (run_requests R') \<le> length entries + length (run_requests R) \<and>
   (\<exists>oks. loop_outcome (write_faults (run_console R) = []) (committed (run_store R)) (committed (run_store R')) entries oks \<and>
      c' = c + count_list oks True \<and> f' = f + count_list oks False)"
proof (induction entries arbitrary: n c f R)
  case Nil
  then have "loop_outcome (write_faults (run_console R) = []) (committed (run_store R)) (committed (run_store R')) [] []"
    by (simp add: loop_outcome_def)
  with Nil show ?case by auto
next
  case (Cons entry entries)
  let ?quiet = "write_faults (run_console R) = []"
  define R0 where "R0 = (if n > 0 then R\<lparr>run_console := say newline (run_console R)\<rparr> else R)"
  have R0: "run_store R0 = run_store R" "run_requests R0 = run_requests R" "?quiet \<Longrightarrow> write_faults (run_console R0) = []"
    by (simp_all add: R0_def quiet_say)
  obtain S e where S: "analyzeAndWriteLLM E M client n (ti_Incident entry) R0 = (S, e)" by fastforce
  note step = analyze_step [OF _ S, unfolded R0, OF Cons.prems(1)]
  define T where "T = (case e of None \<Rightarrow> S
    | Some err \<Rightarrow> S\<lparr>run_console := say (batch_failure_line (ti_Incident entry) err) (run_console S)\<rparr>)"
  have T: "run_store T = run_store S" "run_requests T = run_requests S"
    "write_faults (run_console S) = [] \<Longrightarrow> write_faults (run_console T) = []"
    by (simp_all add: T_def quiet_say split: option.split)
  have loop: "batch_loop E M client (Suc n) entries (if e = None then Suc c else c) (if e = None then f else Suc f) T = (R', c', f')"
    using Cons.prems(2) S by (cases e) (simp_all add: R0_def [symmetric] T_def)
  from Cons.IH [OF _ this] step(1) T obtain oks where rest: "settled (run_store R')"
    "\<forall>i. report_done (committed (run_store S)) i \<longrightarrow> report_done (committed (run_store R')) i"
    "length (run_requests R') \<le> length entries + length (run_requests S)"
    "loop_outcome (write_faults (run_console T) = []) (committed (run_store S)) (committed (run_store R')) entries oks"
    "c' = (if e = None then Suc c else c) + count_list oks True" "f' = (if e = None then f else Suc f) + count_list oks False"
    by auto
  have quiet: "loop_outcome ?quiet (committed (run_store S)) (committed (run_store R')) entries oks"
    using rest(4) step(5) R0(3) T(3) by (auto simp: loop_outcome_def)
  have "loop_outcome ?quiet (committed (run_store R)) (committed (run_store R')) (entry # entries) ((e = None) # oks)"
    by (rule outcome_Cons [OF _ _ _ quiet]) (use step R0(3) rest(2) in \<open>auto simp: entry_id_def\<close>)
  moreover have "report_done (committed (run_store S)) i" if "report_done (committed (run_store R)) i" for i
    using step(2) that saved_keeps_done by auto
  ultimately show ?case
    using rest step(4) R0(2) by (intro conjI exI [of _ "(e = None) # oks"]) auto
qed

lemma batch_quiet:
  "batch_loop E M client n entries c f R = (R', c', f') \<Longrightarrow> write_faults (run_console R) = [] \<Longrightarrow>
     write_faults (run_console R') = []"
proof (induction entries arbitrary: n c f R)
  case (Cons entry entries)
  have step: "write_faults (run_console S) = []"
    if "analyzeAndWriteLLM E M client n (ti_Incident entry) R0 = (S, e)" "write_faults (run_console R0) = []" for R0 S e
    using that unfolding analyzeAndWriteLLM_def
    by (auto split: prod.splits sum.splits simp: report_WriteLLM_def dest: quiet_write)
  show ?case
    using Cons.prems
    by (auto simp: Let_def split: prod.splits option.splits intro!: Cons.IH quiet_say elim!: step)
qed simp

section \<open>The selection\<close>

definition entry_score :: "TriageIncident \<Rightarrow> int" where
  "entry_score entry = inc_RiskScore (ti_Incident entry)"

lemma scan_all_fields:
  "scan_all scan rows = Inr xs \<Longrightarrow> (\<And>row x. scan row = Inr x \<Longrightarrow> g x = h row) \<Longrightarrow> map g xs = map h rows"
  by (induction rows arbitrary: xs) (auto simp: sum_bind_def split: sum.splits)

lemma scan_fields:
  assumes "scanTriageIncident J d row = Inr entry"
  shows "entry_id entry = IncidentID (ir_columns row)" "entry_score entry = inc_RiskScore (ir_columns row)"
  using assms unfolding scanTriageIncident_def scanIncident_def Let_def sum_bind_def
  by (auto simp: entry_id_def entry_score_def split: sum.splits)

lemma sort_desc_set [simp]: "set (sort_desc key xs) = set xs"
  by (simp add: sort_desc_def)

lemma sort_desc_distinct: "distinct (map f xs) \<Longrightarrow> distinct (map f (sort_desc key xs))"
  by (simp add: sort_desc_def distinct_map)

lemma sort_desc_sorted: "sorted_wrt (\<lambda>x y. key y \<le> key x) (sort_desc key xs)"
  using sorted_sort_key [of key "rev xs"] by (simp add: sort_desc_def sorted_wrt_rev sorted_map)

text \<open>The incidents of a batch: pending, at or above the score, the highest scores first, within the limit.\<close>

definition selection :: "int \<Rightarrow> int \<Rightarrow> database \<Rightarrow> TriageIncident list \<Rightarrow> bool" where
  "selection limit minScore d entries \<longleftrightarrow>
     length entries \<le> nat (normalizeLimit limit) \<and> distinct (map entry_id entries) \<and>
     sorted_wrt (\<lambda>x y. entry_score y \<le> entry_score x) entries \<and>
     (\<forall>entry\<in>set entries. \<exists>row. map_of (incidents_table d) (entry_id entry) = Some row \<and>
        LLMStatus (ir_columns row) = ''pending'' \<and> (minScore \<le> 0 \<or> minScore \<le> inc_RiskScore (ir_columns row)))"

lemma pending_selection:
  assumes "pending E M limit minScore d = Inr entries" "db_ok d"
  shows "selection limit minScore d entries"
proof -
  define rows where "rows = limited limit (sort_desc (\<lambda>row. inc_RiskScore (ir_columns row)) (newest_first
    (filter (incident_selected \<lparr>if_Limit = limit, if_MinScore = minScore, if_LLMStatus = ''pending'', if_Since = 0, if_Until = 0\<rparr>)
      (map snd (incidents_table d)))))"
  let ?id = "\<lambda>row. IncidentID (ir_columns row)" and ?score = "\<lambda>row. inc_RiskScore (ir_columns row)"
  have scanned: "scan_all (scanTriageIncident (lib E) d) rows = Inr entries"
    using assms(1) unfolding pending_def ListTriageIncidentsFiltered_def run_query_def rows_def
    by (auto simp: sum_bind_def split: delivery.splits sum.splits)
  have ids: "map entry_id entries = map ?id rows" and scores: "map entry_score entries = map ?score rows"
    by (rule scan_all_fields [OF scanned], erule scan_fields)+
  have key: "fst p = ?id (snd p)" if "p \<in> set (incidents_table d)" for p
    using assms(2) that by (auto simp: db_ok_def)
  then have "map fst (incidents_table d) = map ?id (map snd (incidents_table d))" by simp
  with assms(2) have "distinct (map ?id (map snd (incidents_table d)))" by (simp add: db_ok_def)
  note distinct_map_filter [OF this]
  then have "distinct (map ?id rows)"
    unfolding rows_def limited_def newest_first_def take_map [symmetric]
    by (intro distinct_take sort_desc_distinct) (simp add: distinct_map)
  moreover have "sorted_wrt (\<lambda>x y. ?score y \<le> ?score x) rows"
    unfolding rows_def limited_def by (intro sorted_wrt_take sort_desc_sorted)
  then have "sorted_wrt (\<lambda>x y. y \<le> x) (map ?score rows)" by (simp add: sorted_wrt_map)
  then have "sorted_wrt (\<lambda>x y. entry_score y \<le> entry_score x) entries"
    by (simp add: scores [symmetric] sorted_wrt_map)
  moreover have "length entries \<le> nat (normalizeLimit limit)"
    using arg_cong [OF ids, of length] by (simp add: rows_def limited_def)
  moreover have "\<exists>row. map_of (incidents_table d) (entry_id entry) = Some row \<and>
        LLMStatus (ir_columns row) = ''pending'' \<and> (minScore \<le> 0 \<or> minScore \<le> ?score row)" if "entry \<in> set entries" for entry
  proof -
    from that have "entry_id entry \<in> set (map ?id rows)" by (simp add: ids [symmetric])
    then obtain row where row: "row \<in> set rows" "entry_id entry = ?id row" by auto
    then obtain p where p: "p \<in> set (incidents_table d)" "row = snd p"
      "incident_selected \<lparr>if_Limit = limit, if_MinScore = minScore, if_LLMStatus = ''pending'', if_Since = 0, if_Until = 0\<rparr> row"
      by (auto simp: rows_def limited_def newest_first_def dest!: in_set_takeD)
    then have "map_of (incidents_table d) (entry_id entry) = Some row"
      using key [OF p(1)] assms(2) row(2) by (auto simp: db_ok_def intro!: map_of_is_SomeI)
    with p(3) show ?thesis by (auto simp: incident_selected_def)
  qed
  ultimately show ?thesis by (simp add: selection_def ids)
qed

section \<open>A batch\<close>

text \<open>The last line of a terminal that takes all: what was taken up, completed and failed.\<close>

definition counts_shown :: "bool \<Rightarrow> console \<Rightarrow> bool list \<Rightarrow> bool" where
  "counts_shown quiet w oks \<longleftrightarrow>
     (quiet \<longrightarrow> last (printed w) = batch_line (length oks) (count_list oks True) (count_list oks False))"


end
