(* ===== verification/Cli_Live.thy ===== *)
theory Cli_Live
  imports Cli PersistQueue Pipeline
begin

text \<open>
  The commands that feed the pipeline (\<open>cmd/tracejutsu/main.go\<close>): \<open>demo\<close> over a fixture and \<open>run\<close> over live
  collectors. \<open>run\<close> is a loop over what its \<open>select\<close> receives, with the calls it makes on the two
  persistence queues as a record, and the deferred closing of the queues with the error it leaves.
\<close>

section \<open>Writing analyses\<close>

text \<open>
  The terminal, the store, and the records handed to the incident queue. Incidents go nowhere, straight
  into the database, or into the queue.
\<close>

record out_state =
  os_console :: console
  os_store :: store_state
  os_incidents :: "IncidentRecord list"

datatype persistence = NoDatabase | SavesDirectly | Queues

definition record_of :: "Pipeline.Analysis \<Rightarrow> IncidentRecord" where
  "record_of a = \<lparr>ir_Incident = an_Incident a, ir_Events = Some (an_Events a)\<rparr>"

definition persist_analysis ::
  "store_lib \<Rightarrow> persistence \<Rightarrow> Pipeline.Analysis \<Rightarrow> 'z out_state_scheme \<Rightarrow> 'z out_state_scheme \<times> go_error option" where
  "persist_analysis J persist a S =
     (case persist of
        NoDatabase \<Rightarrow> (S, None)
      | Queues \<Rightarrow> (S\<lparr>os_incidents := os_incidents S @ [record_of a]\<rparr>, None)
      | SavesDirectly \<Rightarrow>
          (case SaveIncidentWithEvents J (an_Incident a) (an_Events a) (os_store S) of
             (Inl err, T) \<Rightarrow> (S\<lparr>os_store := T\<rparr>, Some err)
           | (Inr _, T) \<Rightarrow> (S\<lparr>os_store := T\<rparr>, None)))"

fun writeAnalyses ::
  "store_lib \<Rightarrow> persistence \<Rightarrow> Pipeline.Analysis list \<Rightarrow> bool \<Rightarrow> 'z out_state_scheme \<Rightarrow>
    'z out_state_scheme \<times> bool \<times> go_error option" where
  "writeAnalyses J persist [] any S = (S, any, None)"
| "writeAnalyses J persist (a # as) any S =
     (case persist_analysis J persist a S of
        (S1, Some err) \<Rightarrow> (S1, any, Some err)
      | (S1, None) \<Rightarrow>
          let w = (if any then say newline (os_console S1) else os_console S1) in
          (case report_Write (urls J) console_write w (an_Incident a) of
             (w', Some err) \<Rightarrow> (S1\<lparr>os_console := w'\<rparr>, any, Some err)
           | (w', None) \<Rightarrow> writeAnalyses J persist as True (S1\<lparr>os_console := w'\<rparr>)))"

definition newProcessor :: "duration \<Rightarrow> Processor" where
  "newProcessor inactivityTimeout =
     New \<lparr>pl_CorrelationWindow = DefaultCorrelationWindow, pl_InactivityTimeout = inactivityTimeout,
       pl_MaxCandidates = DefaultMaxCandidates, pl_MaxEvents = DefaultMaxEventsPerCandidate,
       pl_MaxRetainedEvents = DefaultMaxRetainedEvents\<rparr>"

text \<open>The detector and the compressor of a processor, which a run of the program does not change.\<close>

record backend =
  det_of :: detector_fn
  cmp_of :: compressor_fn

section \<open>The command demo\<close>

definition defaultFixture :: string where
  "defaultFixture = ''testdata/events/web-download-execute-connect.json''"

text \<open>Every event through the processor, then the drain; \<open>None\<close> is a panic.\<close>

fun demo_loop ::
  "store_lib \<Rightarrow> persistence \<Rightarrow> backend \<Rightarrow> event list \<Rightarrow> Processor \<Rightarrow> bool \<Rightarrow> out_state \<Rightarrow>
    (out_state \<times> bool \<times> go_error option) option" where
  "demo_loop J persist B [] p any S =
     (case proc_Drain (det_of B) (cmp_of B) p of
        (Inl err, _) \<Rightarrow> Some (S, any, Some err)
      | (Inr analyses, _) \<Rightarrow> Some (writeAnalyses J persist analyses any S))"
| "demo_loop J persist B (e # es) p any S =
     (case proc_Add (det_of B) (cmp_of B) e p of
        None \<Rightarrow> None
      | Some (Inl err, _) \<Rightarrow> Some (S, any, Some err)
      | Some (Inr analyses, p') \<Rightarrow>
          (case writeAnalyses J persist analyses any S of
             (S', any', Some err) \<Rightarrow> Some (S', any', Some err)
           | (S', any', None) \<Rightarrow> demo_loop J persist B es p' any' S'))"

text \<open>The fixtures: opening one, and decoding what it holds.\<close>

record fixtures =
  open_fixture :: "string \<Rightarrow> go_error + string"
  decode_events :: "string \<Rightarrow> go_error + event list"

definition load_fixture :: "cli_env \<Rightarrow> fixtures \<Rightarrow> string \<Rightarrow> go_error + event list" where
  "load_fixture E F path =
     sum_bind (wrap (''open fixture '' @ oq (osv E) path @ '': '') (open_fixture F path)) (\<lambda>file.
       wrap (''load fixture '' @ oq (osv E) path @ '': '') (LoadJSON (decode_events F) file))"

text \<open>The database of the demonstration, with the events already in it.\<close>

definition demo_database :: "cli_env \<Rightarrow> string \<Rightarrow> event list \<Rightarrow> out_state \<Rightarrow> out_state \<times> go_error option" where
  "demo_database E path es S =
     (if path = [] then (S, None)
      else case open_sqlite E path of
        Inl err \<Rightarrow> (S, Some (withSQLitePathHint err path))
      | Inr _ \<Rightarrow>
          (case SaveEvents (lib E) es (os_store S) of
             (Inl err, T) \<Rightarrow> (S\<lparr>os_store := T\<rparr>, Some err)
           | (Inr _, T) \<Rightarrow> (S\<lparr>os_store := T\<rparr>, None)))"

definition demo_end :: "string \<Rightarrow> bool \<Rightarrow> console \<Rightarrow> console" where
  "demo_end path any w =
     says ((if any then [] else [''no suspicious incidents'' @ newline]) @
       (if path = [] then []
        else [newline @ ''stored normalized events and incidents: '' @ TerminalText path @ newline])) w"

definition runDemo ::
  "cli_env \<Rightarrow> fixtures \<Rightarrow> backend \<Rightarrow> string list \<Rightarrow> out_state \<Rightarrow> (out_state \<times> go_error option) option" where
  "runDemo E F B args S =
     (case parse_flags (dur_option E) [(''db'', FString [])] args of
        None \<Rightarrow> Some (S, Some ''usage: tracejutsu demo [--db path] [fixture.json]'')
      | Some (fs, rest) \<Rightarrow>
          if length rest > 1 then Some (S, Some ''usage: tracejutsu demo [--db path] [fixture.json]'')
          else
            let path = (if length rest = 1 then rest ! 0 else defaultFixture); db = string_flag fs ''db'' in
            (case load_fixture E F path of
               Inl err \<Rightarrow> Some (S, Some err)
             | Inr es \<Rightarrow>
                 (case demo_database E db es S of
                    (S1, Some err) \<Rightarrow> Some (S1, Some err)
                  | (S1, None) \<Rightarrow>
                      map_option (\<lambda>(S2, any, failure).
                          (case failure of
                             Some err \<Rightarrow> (S2, Some err)
                           | None \<Rightarrow> (S2\<lparr>os_console := demo_end db any (os_console S2)\<rparr>, None)))
                        (demo_loop (lib E) (if db = [] then NoDatabase else SavesDirectly) B es
                          (newProcessor DefaultInactivityTimeout) False S1))))"

section \<open>Runtime statistics\<close>

record queue_stats =
  qs_Received :: "64 word"
  qs_Enqueued :: "64 word"
  qs_Persisted :: "64 word"
  qs_Dropped :: "64 word"

definition no_stats :: queue_stats where
  "no_stats = \<lparr>qs_Received = 0, qs_Enqueued = 0, qs_Persisted = 0, qs_Dropped = 0\<rparr>"

text \<open>\<open>Stats\<close> of a queue.\<close>

definition queue_Stats :: "'a queue \<Rightarrow> queue_stats" where
  "queue_Stats s = \<lparr>qs_Received = q_received s, qs_Enqueued = q_enqueued s, qs_Persisted = q_persisted s,
     qs_Dropped = q_dropped s\<rparr>"

text \<open>What the providers answer: the children of the composite collector, and the queues if there are any.\<close>

record stats_view =
  sv_children :: "(collectorStats option \<times> string option) list"
  sv_events :: "queue_stats option"
  sv_incidents :: "queue_stats option"

abbreviation word_text :: "64 word \<Rightarrow> string" where
  "word_text n \<equiv> Itoa (uint n)"

definition collectorStatsLabel :: "CollectorStats list \<Rightarrow> (collectorStats \<Rightarrow> 64 word) \<Rightarrow> string" where
  "collectorStatsLabel details counter =
     (if details = [] then ''none''
      else Join '','' (map (\<lambda>d. st_Name d @ '':'' @ word_text (counter (st_Stats d))) details))"

definition labelled :: "(string \<times> 64 word) list \<Rightarrow> string" where
  "labelled numbers = concat (map (\<lambda>(label, n). '' '' @ label @ ''='' @ word_text n) numbers)"

definition live_stats_pieces :: "stats_view \<Rightarrow> Stats \<Rightarrow> 64 word \<Rightarrow> string list" where
  "live_stats_pieces V pipelineStats normalized =
     (let collector = composite_Stats (sv_children V); details = StatsByCollector (sv_children V);
          q = (case sv_events V of None \<Rightarrow> no_stats | Some s \<Rightarrow> s);
          i = (case sv_incidents V of None \<Rightarrow> no_stats | Some s \<Rightarrow> s)
      in [''runtime stats:'' @ labelled
            [(''normalized'', normalized), (''grouped'', GroupedCandidates pipelineStats),
             (''analyzed'', AnalyzedCandidates pipelineStats), (''incidents'', Incidents pipelineStats),
             (''ring_dropped'', RingBufferDropped collector), (''correlation_dropped'', CorrelationDropped collector),
             (''persist_received'', qs_Received q), (''persist_enqueued'', qs_Enqueued q), (''persisted'', qs_Persisted q),
             (''persist_dropped'', qs_Dropped q), (''incident_persist_received'', qs_Received i),
             (''incident_persist_enqueued'', qs_Enqueued i), (''incident_persisted'', qs_Persisted i),
             (''incident_persist_dropped'', qs_Dropped i)],
          '' collector_ring_dropped='' @ collectorStatsLabel details RingBufferDropped @
            '' collector_correlation_dropped='' @ collectorStatsLabel details CorrelationDropped,
          newline])"

text \<open>\<open>time.Duration.String\<close>: a unit below a second, else hours, minutes and seconds.\<close>

definition fraction_text :: "nat \<Rightarrow> nat \<Rightarrow> string" where
  "fraction_text prec n =
     (let ds = rev (dropWhile (\<lambda>c. c = CHR ''0'') (rev (digits prec n))) in if ds = [] then [] else CHR ''.'' # ds)"

definition micro_sign :: string where
  "micro_sign = encode_rune 0xB5"

definition duration_text :: "duration \<Rightarrow> string" where
  "duration_text d =
     (let u = nat \<bar>d\<bar>; seconds = u div 10 ^ 9; minutes = seconds div 60 in
      (if d < 0 then ''-'' else []) @
      (if u = 0 then ''0s''
       else if u < 10 ^ 3 then nat_decimal u @ ''ns''
       else if u < 10 ^ 6 then nat_decimal (u div 10 ^ 3) @ fraction_text 3 (u mod 10 ^ 3) @ micro_sign @ ''s''
       else if u < 10 ^ 9 then nat_decimal (u div 10 ^ 6) @ fraction_text 6 (u mod 10 ^ 6) @ ''ms''
       else (if minutes div 60 > 0 then nat_decimal (minutes div 60) @ ''h'' else []) @
         (if minutes > 0 then nat_decimal (minutes mod 60) @ ''m'' else []) @
         nat_decimal (seconds mod 60) @ fraction_text 9 (u mod 10 ^ 9) @ ''s''))"

definition statsIntervalLabel :: "duration \<Rightarrow> string" where
  "statsIntervalLabel interval = (if interval = 0 then ''disabled'' else duration_text interval)"

text \<open>Whether there is a ticker.\<close>

definition optionalTicker :: "duration \<Rightarrow> go_error + bool" where
  "optionalTicker interval =
     (if interval < 0 then Inl ''stats interval must be zero or positive''
      else if interval = 0 then Inr False
      else Inr True)"

section \<open>The loop of the command run\<close>

record live_state = out_state +
  lv_processor :: Processor
  lv_normalized :: "64 word"
  lv_enqueued :: "event list"

text \<open>
  What the \<open>select\<close> receives: an event, the end of the sink with the result of the collector's \<open>Run\<close>, a
  tick of the flush timer, the error of a queue, a tick of the statistics. The channel of an absent
  queue or ticker is nil and never ready.
\<close>

datatype live_input =
    FromSink event
  | SinkClosed "go_error option"
  | FlushTick go_time
  | EventQueueError go_error
  | IncidentQueueError go_error
  | StatsTick stats_view

definition ready :: "persistence \<Rightarrow> bool \<Rightarrow> live_input \<Rightarrow> bool" where
  "ready persist ticker input =
     (case input of
        EventQueueError _ \<Rightarrow> persist = Queues
      | IncidentQueueError _ \<Rightarrow> persist = Queues
      | StatsTick _ \<Rightarrow> ticker
      | _ \<Rightarrow> True)"

definition writeLiveEvent :: "cli_env \<Rightarrow> bool \<Rightarrow> event \<Rightarrow> console \<Rightarrow> outcome_of" where
  "writeLiveEvent E quiet e w =
     (if quiet then (w, None)
      else case writeJSON E (EventJSON e) w of
        (w', Some err) \<Rightarrow> (w', Some (''write normalized event: '' @ err))
      | (w', None) \<Rightarrow> (w', None))"

datatype live_next = Going live_state | Returns live_state "go_error option" | Panics

text \<open>Writing the outcome of the processor, with \<open>any\<close> false at first.\<close>

definition live_write ::
  "store_lib \<Rightarrow> persistence \<Rightarrow> (go_error + Pipeline.Analysis list) \<times> Processor \<Rightarrow> live_state \<Rightarrow> live_next" where
  "live_write J persist result S =
     (case result of
        (Inl err, p) \<Rightarrow> Returns (S\<lparr>lv_processor := p\<rparr>) (Some err)
      | (Inr analyses, p) \<Rightarrow>
          (case writeAnalyses J persist analyses False (S\<lparr>lv_processor := p\<rparr>) of
             (S', _, Some err) \<Rightarrow> Returns S' (Some err)
           | (S', _, None) \<Rightarrow> Going S'))"

definition live_step :: "cli_env \<Rightarrow> backend \<Rightarrow> persistence \<Rightarrow> bool \<Rightarrow> live_input \<Rightarrow> live_state \<Rightarrow> live_next" where
  "live_step E B persist quiet input S =
     (case input of
        FromSink e \<Rightarrow>
          let S1 = S\<lparr>lv_enqueued := (if persist = Queues then lv_enqueued S @ [e] else lv_enqueued S),
                     lv_normalized := lv_normalized S + 1\<rparr>
          in (case writeLiveEvent E quiet e (os_console S1) of
                (w, Some err) \<Rightarrow> Returns (S1\<lparr>os_console := w\<rparr>) (Some err)
              | (w, None) \<Rightarrow>
                  (case proc_Add (det_of B) (cmp_of B) e (lv_processor S1) of
                     None \<Rightarrow> Panics
                   | Some result \<Rightarrow> live_write (lib E) persist result (S1\<lparr>os_console := w\<rparr>)))
      | SinkClosed collectorError \<Rightarrow>
          (case live_write (lib E) persist (proc_Drain (det_of B) (cmp_of B) (lv_processor S)) S of
             Going S' \<Rightarrow> Returns S' collectorError
           | stopped \<Rightarrow> stopped)
      | FlushTick now \<Rightarrow> live_write (lib E) persist (proc_FlushInactive (det_of B) (cmp_of B) now (lv_processor S)) S
      | EventQueueError err \<Rightarrow> Returns S (Some err)
      | IncidentQueueError err \<Rightarrow> Returns S (Some err)
      | StatsTick V \<Rightarrow>
          Going (S\<lparr>os_console := says (live_stats_pieces V (p_stats (lv_processor S)) (lv_normalized S)) (os_console S)\<rparr>))"

fun live_loop :: "cli_env \<Rightarrow> backend \<Rightarrow> persistence \<Rightarrow> bool \<Rightarrow> bool \<Rightarrow> live_input list \<Rightarrow> live_state \<Rightarrow> live_next" where
  "live_loop E B persist ticker quiet [] S = Going S"
| "live_loop E B persist ticker quiet (i # is) S =
     (if \<not> ready persist ticker i then live_loop E B persist ticker quiet is S
      else case live_step E B persist quiet i S of
        Going S' \<Rightarrow> live_loop E B persist ticker quiet is S'
      | stopped \<Rightarrow> stopped)"

section \<open>The command run\<close>

definition live_flags :: "cli_env \<Rightarrow> flag_set" where
  "live_flags E =
     [(''db'', FString []), (''flush-after'', FDuration DefaultInactivityTimeout),
      (''stats-interval'', FDuration (10 * second)), (''event-buffer'', FInt 8192), (''persist-buffer'', FInt DefaultCapacity),
      (''persist-batch-size'', FInt DefaultBatchSize), (''ring-buffer-size'', FInt DefaultRingBufferSize),
      (''collectors'', FString (Join '','' DefaultCollectorNames)), (''file-write-min-bytes'', FInt 0),
      (''quiet-events'', FBool False)]"

definition live_usage :: string where
  "live_usage = ''usage: tracejutsu run [--db path] [--flush-after duration] [--stats-interval duration] [--event-buffer count] [--persist-buffer count] [--persist-batch-size count] [--ring-buffer-size bytes] [--collectors list] [--file-write-min-bytes bytes] [--quiet-events]''"

text \<open>The surroundings of the collectors: the page size, the host name and the process id.\<close>

record live_env =
  page_size_of :: int
  host_name :: "go_error + string"
  own_pid :: int

record live_setup =
  ls_flags :: flag_set
  ls_collectors :: "string list"
  ls_ticker :: bool
  ls_running :: "collector list"
  ls_persist :: persistence

definition live_config :: "flag_set \<Rightarrow> int \<Rightarrow> QueueConfig" where
  "live_config fs batchSize = \<lparr>Capacity = int_flag fs ''persist-buffer'', BatchSize = batchSize, SaveTimeout = 0\<rparr>"

text \<open>Everything before the loop that can fail, in its order.\<close>

definition live_prepare :: "cli_env \<Rightarrow> live_env \<Rightarrow> string list \<Rightarrow> go_error + live_setup" where
  "live_prepare E L args =
     (case parse_flags (dur_option E) (live_flags E) args of
        Some (fs, []) \<Rightarrow>
          sum_bind (require (0 < int_flag fs ''event-buffer'') ''event buffer size must be positive'') (\<lambda>_.
          sum_bind (require (0 < int_flag fs ''persist-buffer'') ''persist buffer size must be positive'') (\<lambda>_.
          sum_bind (require (0 < int_flag fs ''persist-batch-size'') ''persist batch size must be positive'') (\<lambda>_.
          sum_bind (require (0 < int_flag fs ''ring-buffer-size'') ''ring buffer size must be positive'') (\<lambda>_.
          sum_bind (ParseCollectorNames (oq (osv E)) (string_flag fs ''collectors'')) (\<lambda>names.
          sum_bind (optionalTicker (int_flag fs ''stats-interval'')) (\<lambda>ticker.
          sum_bind (wrap ''create runtime collector: '' (NewRuntimeCollectorWithConfig (oq (osv E)) (page_size_of L) (host_name L)
              \<lparr>RingBufferSize = int_flag fs ''ring-buffer-size'', Collectors = names,
               FileWriteMinBytes = int_flag fs ''file-write-min-bytes'', FileWriteIgnorePID = own_pid L\<rparr>)) (\<lambda>running.
          let db = string_flag fs ''db'';
              setup = (\<lambda>persist. \<lparr>ls_flags = fs, ls_collectors = names, ls_ticker = ticker, ls_running = running, ls_persist = persist\<rparr>)
          in if db = [] then Inr (setup NoDatabase)
             else sum_bind (map_sum (\<lambda>err. withSQLitePathHint err db) id (open_sqlite E db)) (\<lambda>_.
               sum_bind (NewWithConfig (oq (osv E)) False True (live_config fs (int_flag fs ''persist-batch-size''))) (\<lambda>_.
               sum_bind (NewIncidentQueueWithConfig (oq (osv E)) False (live_config fs 0)) (\<lambda>_.
                 Inr (setup Queues)))))))))))
      | _ \<Rightarrow> Inl live_usage)"

definition bool_text :: "bool \<Rightarrow> string" where
  "bool_text b = (if b then ''true'' else ''false'')"

definition live_banner :: "live_env \<Rightarrow> live_setup \<Rightarrow> string" where
  "live_banner L s =
     (let fs = ls_flags s in
      ''tracejutsu: collecting '' @ Join '','' (ls_collectors s) @ '' events; quiet_events='' @
      bool_text (bool_flag fs ''quiet-events'') @ '' stats_interval='' @ statsIntervalLabel (int_flag fs ''stats-interval'') @
      '' event_buffer='' @ Itoa (int_flag fs ''event-buffer'') @ '' persist_buffer='' @ Itoa (int_flag fs ''persist-buffer'') @
      '' persist_batch_size='' @ Itoa (int_flag fs ''persist-batch-size'') @ '' ring_buffer_size='' @
      Itoa (int_flag fs ''ring-buffer-size'') @ '' file_write_min_bytes='' @ Itoa (int_flag fs ''file-write-min-bytes'') @
      '' file_write_ignore_pid='' @ Itoa (own_pid L) @ ''; press Ctrl-C to stop'' @ newline)"

text \<open>
  The deferred function: the queues close, the incident queue first, their errors count only if there is
  none yet, and the last statistics are printed.
\<close>

record closing =
  incident_close :: "go_error option"
  event_close :: "go_error option"
  last_stats :: stats_view

definition live_finish :: "persistence \<Rightarrow> closing \<Rightarrow> live_state \<Rightarrow> go_error option \<Rightarrow> live_state \<times> go_error option" where
  "live_finish persist C S err =
     (let err1 = (if persist = Queues \<and> err = None then incident_close C else err);
          err2 = (if persist = Queues \<and> err1 = None then event_close C else err1)
      in (S\<lparr>os_console := says (live_stats_pieces (last_stats C) (p_stats (lv_processor S)) (lv_normalized S)) (os_console S)\<rparr>,
          err2))"

definition live_start :: "cli_env \<Rightarrow> live_env \<Rightarrow> live_setup \<Rightarrow> out_state \<Rightarrow> live_state" where
  "live_start E L s O' =
     \<lparr>os_console = say (live_banner L s) (os_console O'), os_store = os_store O', os_incidents = os_incidents O',
      lv_processor = newProcessor (int_flag (ls_flags s) ''flush-after''), lv_normalized = 0, lv_enqueued = []\<rparr>"

text \<open>A run that has not ended yet is \<open>Going\<close>.\<close>

definition runLive ::
  "cli_env \<Rightarrow> live_env \<Rightarrow> backend \<Rightarrow> closing \<Rightarrow> live_input list \<Rightarrow> string list \<Rightarrow> out_state \<Rightarrow> go_error + live_next" where
  "runLive E L B C inputs args O' =
     (case live_prepare E L args of
        Inl err \<Rightarrow> Inl err
      | Inr s \<Rightarrow>
          Inr (case live_loop E B (ls_persist s) (ls_ticker s) (bool_flag (ls_flags s) ''quiet-events'') inputs (live_start E L s O') of
             Returns S err \<Rightarrow> (case live_finish (ls_persist s) C S err of (S', err') \<Rightarrow> Returns S' err')
           | other \<Rightarrow> other))"

end
