(* ===== verification/Cli_Live_Laws.thy ===== *)
theory Cli_Live_Laws
  imports Cli_Live
begin

text \<open>
  A live run accounts for every event it takes from the collectors, hands every incident to the incident
  queue, and returns once its sink is closed or a queue has failed.
\<close>

section \<open>The processor under any step\<close>

abbreviation basic_of :: "(event list \<Rightarrow> event list) \<Rightarrow> (rat \<Rightarrow> string) \<Rightarrow> backend" where
  "basic_of srt ff \<equiv> \<lparr>det_of = Analyze srt, cmp_of = Compress srt ff\<rparr>"

text \<open>The events \<open>es\<close> went into the processor and the groups \<open>out\<close> came out of it.\<close>

definition grouped ::
  "(event list \<Rightarrow> event list) \<Rightarrow> (rat \<Rightarrow> string) \<Rightarrow> event list \<Rightarrow> Group list \<Rightarrow> Processor \<Rightarrow> bool" where
  "grouped srt ff es out p \<longleftrightarrow>
     sg_inv (p_grouper p) \<and>
     groups_total out + sg_total (p_grouper p) = length es \<and>
     groups_events out + sg_events (p_grouper p) \<subseteq># mset es \<and>
     list_all group_homogeneous out \<and>
     p_stats p = \<lparr>GroupedCandidates = of_nat (length out), AnalyzedCandidates = of_nat (length out),
       Incidents = of_nat (length (reported (Analyze srt) (Compress srt ff) out))\<rparr>"

lemma grouped_New: "grouped srt ff [] [] (New cfg)"
  by (simp add: grouped_def New_def sg_inv_New reported_def groups_total_def groups_events_def)
    (simp add: NewStreamGrouper_def Let_def sg_total_def sg_events_def)

lemma grouped_analyze:
  assumes "grouped srt ff es out p" "sg_inv g" "list_all group_homogeneous xs"
    and "groups_total xs + sg_total g = sg_total (p_grouper p) + length new"
    and "groups_events xs + sg_events g \<subseteq># sg_events (p_grouper p) + mset new"
    and "proc_analyze (Analyze srt) (Compress srt ff) xs (p\<lparr>p_grouper := g\<rparr>) = (r, p')"
  shows "r = Inr (reported (Analyze srt) (Compress srt ff) xs) \<and> p_grouper p' = g \<and>
    grouped srt ff (es @ new) (out @ xs) p'"
proof -
  have ne: "\<forall>g\<in>set xs. Events g \<noteq> []"
    using assms(3) by (intro homogeneous_nonempty) (simp add: list_all_iff)
  have "groups_events (out @ xs) + sg_events g \<subseteq># groups_events out + (sg_events (p_grouper p) + mset new)"
    using subset_mset.add_left_mono [OF assms(5), of "groups_events out"] by (simp add: group_simps add.assoc)
  also have "\<dots> \<subseteq># mset (es @ new)"
    using subset_mset.add_right_mono [of _ _ "mset new"] assms(1) by (fastforce simp: grouped_def add.assoc)
  finally have events: "groups_events (out @ xs) + sg_events g \<subseteq># mset (es @ new)" .
  have total: "groups_total (out @ xs) + sg_total g = length (es @ new)"
    using assms(1,4) by (simp add: grouped_def group_simps)
  show ?thesis
    using assms(1-3,6) events total basic.proc_analyze_ok [OF ne, of srt ff "p\<lparr>p_grouper := g\<rparr>"]
    by (auto simp: grouped_def counted_def reported_append)
qed

lemma moved_parts:
  assumes "grouped srt ff es out p" "moved (p_grouper p) xs g"
  shows "list_all group_homogeneous xs" "groups_total xs + sg_total g = sg_total (p_grouper p) + length []"
    "groups_events xs + sg_events g \<subseteq># sg_events (p_grouper p) + mset []"
  using assms moved_total [OF assms(2)] moved_events [OF assms(2)] moved_homogeneous [OF assms(2)]
  by (auto simp: grouped_def sg_inv_def list_all_iff)

lemma Add_grouped:
  assumes "grouped srt ff es out p"
  shows "\<exists>xs p'. proc_Add (Analyze srt) (Compress srt ff) e p = Some (Inr (reported (Analyze srt) (Compress srt ff) xs), p') \<and>
    grouped srt ff (es @ [e]) (out @ xs) p'"
proof -
  have "sg_inv (p_grouper p)" using assms by (simp add: grouped_def)
  from stream_Add_ok [OF this, of e] obtain xs g where
    g: "stream_Add e (p_grouper p) = Some (xs, g)" "add_ok e (p_grouper p) xs g" by blast
  obtain r p' where r: "proc_analyze (Analyze srt) (Compress srt ff) xs (p\<lparr>p_grouper := g\<rparr>) = (r, p')" by fastforce
  have "r = Inr (reported (Analyze srt) (Compress srt ff) xs) \<and> p_grouper p' = g \<and> grouped srt ff (es @ [e]) (out @ xs) p'"
    by (rule grouped_analyze [OF assms _ _ _ _ r]) (use g(2) in \<open>auto simp: add_ok_def list_all_iff\<close>)
  with r g(1) show ?thesis by (auto simp: proc_Add_def)
qed

lemma Flush_grouped:
  assumes "grouped srt ff es out p"
  shows "\<exists>xs p'. proc_FlushInactive (Analyze srt) (Compress srt ff) now p = (Inr (reported (Analyze srt) (Compress srt ff) xs), p') \<and>
    grouped srt ff es (out @ xs) p'"
proof -
  obtain xs g where g: "FlushInactive now (p_grouper p) = (xs, g)" by fastforce
  from assms have "sg_inv (p_grouper p)" by (simp add: grouped_def)
  note core = FlushInactive_core [OF this g]
  obtain r p' where r: "proc_analyze (Analyze srt) (Compress srt ff) xs (p\<lparr>p_grouper := g\<rparr>) = (r, p')" by fastforce
  note moved = moved_parts [OF assms]
  have "r = Inr (reported (Analyze srt) (Compress srt ff) xs) \<and> p_grouper p' = g \<and> grouped srt ff (es @ []) (out @ xs) p'"
    by (rule grouped_analyze [OF assms _ _ _ _ r]) (use core moved in auto)
  with r g show ?thesis by (auto simp: proc_FlushInactive_def)
qed

lemma Drain_grouped:
  assumes "grouped srt ff es out p"
  shows "\<exists>xs p'. proc_Drain (Analyze srt) (Compress srt ff) p = (Inr (reported (Analyze srt) (Compress srt ff) xs), p') \<and>
    grouped srt ff es (out @ xs) p' \<and> sg_total (p_grouper p') = 0"
proof -
  obtain xs g where g: "stream_Drain (p_grouper p) = (xs, g)" by fastforce
  then have m: "moved (p_grouper p) xs g" "sg_inv g" "sg_total g = 0"
    using assms by (auto simp: stream_Drain_def moved_def grouped_def sg_inv_def sg_core_def sg_total_def config_ok_def)
  obtain r p' where r: "proc_analyze (Analyze srt) (Compress srt ff) xs (p\<lparr>p_grouper := g\<rparr>) = (r, p')" by fastforce
  note moved = moved_parts [OF assms m(1)]
  have "r = Inr (reported (Analyze srt) (Compress srt ff) xs) \<and> p_grouper p' = g \<and> grouped srt ff (es @ []) (out @ xs) p'"
    by (rule grouped_analyze [OF assms m(2) _ _ _ r]) (use moved in auto)
  with r g m(3) show ?thesis by (auto simp: proc_Drain_def)
qed

section \<open>Writing\<close>

text \<open>What reaches the incident queue: the analyses in order, all of them unless an error cut them short.\<close>

definition handed :: "persistence \<Rightarrow> Pipeline.Analysis list \<Rightarrow> IncidentRecord list" where
  "handed persist as = (if persist = Queues then map record_of as else [])"

lemma handed_append: "handed persist (as @ bs) = handed persist as @ handed persist bs"
  by (simp add: handed_def)

lemma handed_Nil [simp]: "handed persist [] = []"
  by (simp add: handed_def)

lemma persist_frame:
  assumes "persist_analysis J persist a S = (S', e)"
  shows "lv_processor S' = lv_processor S" "lv_normalized S' = lv_normalized S" "lv_enqueued S' = lv_enqueued S"
    "e = None \<Longrightarrow> os_incidents S' = os_incidents S @ handed persist [a]"
    "e \<noteq> None \<Longrightarrow> os_incidents S' = os_incidents S"
  using assms by (auto simp: persist_analysis_def handed_def split: persistence.splits sum.splits prod.splits)

lemma write_frame:
  "writeAnalyses J persist as any S = (S', any', e) \<Longrightarrow>
     lv_processor S' = lv_processor S \<and> lv_normalized S' = lv_normalized S \<and> lv_enqueued S' = lv_enqueued S \<and>
     (\<exists>k. os_incidents S' = os_incidents S @ handed persist (take k as) \<and> (e = None \<longrightarrow> take k as = as))"
proof (induction as arbitrary: any S)
  case (Cons a as)
  obtain S1 e1 where S1: "persist_analysis J persist a S = (S1, e1)" by fastforce
  show ?case
  proof (cases e1)
    case (Some err)
    with Cons.prems S1 have "S' = S1" "e = Some err" by auto
    with persist_frame [OF S1] Some show ?thesis by (auto intro!: exI [of _ 0])
  next
    case None
    obtain w e2 where w: "report_Write (urls J) console_write (if any then say newline (os_console S1) else os_console S1)
      (an_Incident a) = (w, e2)" by fastforce
    note frame = persist_frame [OF S1]
    show ?thesis
    proof (cases e2)
      case (Some err)
      with Cons.prems S1 None w have "S' = S1\<lparr>os_console := w\<rparr>" "e = Some err" by (auto simp: Let_def)
      with frame None show ?thesis by (auto intro!: exI [of _ 1])
    next
      case more: None
      with Cons.prems S1 None w have "writeAnalyses J persist as True (S1\<lparr>os_console := w\<rparr>) = (S', any', e)"
        by (auto simp: Let_def)
      from Cons.IH [OF this] obtain k where "lv_processor S' = lv_processor S1" "lv_normalized S' = lv_normalized S1"
        "lv_enqueued S' = lv_enqueued S1" "os_incidents S' = os_incidents S1 @ handed persist (take k as)"
        "e = None \<longrightarrow> take k as = as" by auto
      with frame None show ?thesis by (auto simp: handed_append [symmetric] intro!: exI [of _ "Suc k"])
    qed
  qed
qed (auto intro!: exI [of _ 0])

section \<open>The loop\<close>

fun sink_events :: "live_input list \<Rightarrow> event list" where
  "sink_events [] = []"
| "sink_events (FromSink e # is) = e # sink_events is"
| "sink_events (_ # is) = sink_events is"

lemma sink_events_Cons: "sink_events (i # is) = sink_events [i] @ sink_events is"
  by (cases i) simp_all

text \<open>The inputs that end a run.\<close>

definition stops :: "persistence \<Rightarrow> live_input \<Rightarrow> bool" where
  "stops persist input =
     (case input of
        SinkClosed _ \<Rightarrow> True
      | EventQueueError _ \<Rightarrow> persist = Queues
      | IncidentQueueError _ \<Rightarrow> persist = Queues
      | _ \<Rightarrow> False)"

text \<open>Every event that was taken is counted and handed to the event queue, if there is one.\<close>

definition taken :: "persistence \<Rightarrow> event list \<Rightarrow> live_state \<Rightarrow> bool" where
  "taken persist es S \<longleftrightarrow> lv_normalized S = of_nat (length es) \<and> lv_enqueued S = (if persist = Queues then es else [])"

text \<open>
  A run in good order: every event went through the processor, and every analysis to the incident queue.
  \<open>base\<close> is what the queue was given before.
\<close>

definition live_ok ::
  "persistence \<Rightarrow> (event list \<Rightarrow> event list) \<Rightarrow> (rat \<Rightarrow> string) \<Rightarrow> IncidentRecord list \<Rightarrow> event list \<Rightarrow> Group list \<Rightarrow> live_state \<Rightarrow> bool"
  where
  "live_ok persist srt ff base es out S \<longleftrightarrow>
     taken persist es S \<and> grouped srt ff es out (lv_processor S) \<and>
     os_incidents S = base @ handed persist (reported (Analyze srt) (Compress srt ff) out)"

text \<open>A run that an error stopped: the last event may be missing from the processor, the last analyses from the queue.\<close>

definition live_stopped ::
  "persistence \<Rightarrow> (event list \<Rightarrow> event list) \<Rightarrow> (rat \<Rightarrow> string) \<Rightarrow> IncidentRecord list \<Rightarrow> event list \<Rightarrow> live_state \<Rightarrow> bool" where
  "live_stopped persist srt ff base es S \<longleftrightarrow>
     taken persist es S \<and>
     (\<exists>k out j. length es \<le> Suc k \<and> grouped srt ff (take k es) out (lv_processor S) \<and>
        os_incidents S = base @ handed persist (take j (reported (Analyze srt) (Compress srt ff) out)))"

definition live_complete ::
  "persistence \<Rightarrow> (event list \<Rightarrow> event list) \<Rightarrow> (rat \<Rightarrow> string) \<Rightarrow> IncidentRecord list \<Rightarrow> event list \<Rightarrow> live_state \<Rightarrow> bool" where
  "live_complete persist srt ff base es S \<longleftrightarrow>
     (\<exists>out. live_ok persist srt ff base es out S \<and> groups_total out = length es)"

lemma ok_stopped: "live_ok persist srt ff base es out S \<Longrightarrow> live_stopped persist srt ff base es S"
  unfolding live_ok_def live_stopped_def
  by (intro conjI exI [of _ "length es"] exI [of _ out] exI [of _ "length (reported (Analyze srt) (Compress srt ff) out)"]) auto

lemma live_write_ok:
  assumes "taken persist es S" "grouped srt ff es (out @ xs) p"
    and "os_incidents S = base @ handed persist (reported (Analyze srt) (Compress srt ff) out)"
  shows "case live_write J persist (Inr (reported (Analyze srt) (Compress srt ff) xs), p) S of
      Going S' \<Rightarrow> live_ok persist srt ff base es (out @ xs) S' \<and> lv_processor S' = p
    | Returns S' err \<Rightarrow> err \<noteq> None \<and> live_stopped persist srt ff base es S'
    | Panics \<Rightarrow> False"
proof -
  let ?R = "reported (Analyze srt) (Compress srt ff)"
  obtain S' any e where S': "writeAnalyses J persist (?R xs) False (S\<lparr>lv_processor := p\<rparr>) = (S', any, e)" by (metis prod_cases3)
  from write_frame [OF this] obtain k where k: "lv_processor S' = p" "lv_normalized S' = lv_normalized S"
    "lv_enqueued S' = lv_enqueued S" "os_incidents S' = os_incidents S @ handed persist (take k (?R xs))"
    "e = None \<longrightarrow> take k (?R xs) = ?R xs" by auto
  then have t: "taken persist es S'" using assms(1) by (simp add: taken_def)
  have part: "os_incidents S' = base @ handed persist (take (length (?R out) + k) (?R (out @ xs)))"
    using k(4) assms(3) by (simp add: reported_append handed_append)
  show ?thesis
  proof (cases e)
    case None
    then have "os_incidents S' = base @ handed persist (?R (out @ xs))"
      using k assms(3) by (simp add: reported_append handed_append)
    with t k(1) assms(2) None S' show ?thesis by (simp add: live_write_def live_ok_def)
  next
    case (Some err)
    have "live_stopped persist srt ff base es S'"
      unfolding live_stopped_def
      by (rule conjI [OF t], rule exI [of _ "length es"], rule exI [of _ "out @ xs"], rule exI [of _ "length (?R out) + k"])
        (use part k(1) assms(2) in simp)
    with Some S' show ?thesis by (simp add: live_write_def)
  qed
qed

text \<open>What one input does to a run in good order.\<close>

definition step_ok ::
  "persistence \<Rightarrow> (event list \<Rightarrow> event list) \<Rightarrow> (rat \<Rightarrow> string) \<Rightarrow> IncidentRecord list \<Rightarrow> event list \<Rightarrow> live_next \<Rightarrow> bool" where
  "step_ok persist srt ff base es result \<longleftrightarrow>
     (case result of
        Going S \<Rightarrow> \<exists>out. live_ok persist srt ff base es out S
      | Returns S err \<Rightarrow> live_stopped persist srt ff base es S \<and> (err = None \<longrightarrow> live_complete persist srt ff base es S)
      | Panics \<Rightarrow> False)"

lemma live_step_ok:
  assumes ok: "live_ok persist srt ff base es out S" and ready: "ready persist ticker i"
  shows "step_ok persist srt ff base (es @ sink_events [i]) (live_step E (basic_of srt ff) persist quiet i S) \<and>
    (stops persist i \<longrightarrow> (\<forall>S'. live_step E (basic_of srt ff) persist quiet i S \<noteq> Going S'))"
proof -
  from ok have t: "taken persist es S" and g: "grouped srt ff es out (lv_processor S)"
    and inc: "os_incidents S = base @ handed persist (reported (Analyze srt) (Compress srt ff) out)"
    by (simp_all add: live_ok_def)
  show ?thesis
  proof (cases i)
    case (FromSink e)
    let ?S = "S\<lparr>lv_enqueued := (if persist = Queues then lv_enqueued S @ [e] else lv_enqueued S),
      lv_normalized := lv_normalized S + 1\<rparr>"
    obtain w err where w: "writeLiveEvent E quiet e (os_console S) = (w, err)" by fastforce
    have t': "taken persist (es @ [e]) (?S\<lparr>os_console := w\<rparr>)" using t by (simp add: taken_def)
    show ?thesis
    proof (cases err)
      case (Some msg)
      have "live_stopped persist srt ff base (es @ [e]) (?S\<lparr>os_console := w\<rparr>)"
        unfolding live_stopped_def
        by (rule conjI [OF t'], rule exI [of _ "length es"], rule exI [of _ out],
            rule exI [of _ "length (reported (Analyze srt) (Compress srt ff) out)"]) (use g inc in simp)
      with w Some FromSink show ?thesis by (simp add: live_step_def Let_def step_ok_def stops_def)
    next
      case None
      from Add_grouped [OF g, of e] obtain xs p where p:
        "proc_Add (Analyze srt) (Compress srt ff) e (lv_processor S) = Some (Inr (reported (Analyze srt) (Compress srt ff) xs), p)"
        "grouped srt ff (es @ [e]) (out @ xs) p" by blast
      define T where "T = ?S\<lparr>os_console := w\<rparr>"
      have "os_incidents T = base @ handed persist (reported (Analyze srt) (Compress srt ff) out)"
        using inc by (simp add: T_def)
      note written = live_write_ok [OF t' [folded T_def] p(2) this, of "lib E"]
      have step: "live_step E (basic_of srt ff) persist quiet i S =
          live_write (lib E) persist (Inr (reported (Analyze srt) (Compress srt ff) xs), p) T"
        using p(1) w None by (simp add: live_step_def Let_def FromSink T_def)
      from written show ?thesis
        unfolding step by (auto simp: step_ok_def stops_def FromSink split: live_next.splits)
    qed
  next
    case (SinkClosed r)
    from Drain_grouped [OF g] obtain xs p where p:
      "proc_Drain (Analyze srt) (Compress srt ff) (lv_processor S) = (Inr (reported (Analyze srt) (Compress srt ff) xs), p)"
      "grouped srt ff es (out @ xs) p" "sg_total (p_grouper p) = 0" by blast
    have all: "groups_total (out @ xs) = length es" using p(2,3) by (simp add: grouped_def)
    from live_write_ok [OF t p(2) inc, of "lib E"] p(1) SinkClosed all show ?thesis
      by (auto simp: live_step_def step_ok_def stops_def live_complete_def intro: ok_stopped split: live_next.splits)
  next
    case (FlushTick now)
    from Flush_grouped [OF g, of now] obtain xs p where p:
      "proc_FlushInactive (Analyze srt) (Compress srt ff) now (lv_processor S) = (Inr (reported (Analyze srt) (Compress srt ff) xs), p)"
      "grouped srt ff es (out @ xs) p" by blast
    from live_write_ok [OF t p(2) inc, of "lib E"] p(1) FlushTick show ?thesis
      by (auto simp: live_step_def step_ok_def stops_def split: live_next.splits)
  next
    case (StatsTick V)
    have "live_ok persist srt ff base es out
        (S\<lparr>os_console := says (live_stats_pieces V (p_stats (lv_processor S)) (lv_normalized S)) (os_console S)\<rparr>)"
      using ok by (simp add: live_ok_def taken_def)
    with StatsTick show ?thesis by (auto simp: live_step_def step_ok_def stops_def)
  qed (use ok_stopped [OF ok] in \<open>auto simp: live_step_def step_ok_def\<close>)
qed

lemma live_loop_ok:
  "live_ok persist srt ff base es out S \<Longrightarrow>
    (\<exists>n\<le>length inputs. step_ok persist srt ff base (es @ sink_events (take n inputs))
        (live_loop E (basic_of srt ff) persist ticker quiet inputs S)) \<and>
    (\<forall>S'. live_loop E (basic_of srt ff) persist ticker quiet inputs S = Going S' \<longrightarrow>
       (\<exists>out. live_ok persist srt ff base (es @ sink_events inputs) out S') \<and> \<not> list_ex (stops persist) inputs)"
proof (induction inputs arbitrary: es out S)
  case Nil
  then show ?case by (auto simp: step_ok_def)
next
  case (Cons i inputs)
  show ?case
  proof (cases "ready persist ticker i")
    case False
    then have none: "sink_events [i] = []" "\<not> stops persist i"
      by (auto simp: ready_def stops_def split: live_input.splits)
    from Cons.IH [OF Cons.prems] obtain n where n: "n \<le> length inputs"
      "step_ok persist srt ff base (es @ sink_events (take n inputs)) (live_loop E (basic_of srt ff) persist ticker quiet inputs S)"
      by blast
    have "sink_events (take (Suc n) (i # inputs)) = sink_events (take n inputs)"
      using sink_events_Cons [of i "take n inputs"] none by simp
    with n False have "\<exists>n\<le>length (i # inputs). step_ok persist srt ff base (es @ sink_events (take n (i # inputs)))
        (live_loop E (basic_of srt ff) persist ticker quiet (i # inputs) S)" by (intro exI [of _ "Suc n"]) simp
    with Cons.IH [OF Cons.prems] False none sink_events_Cons [of i inputs] show ?thesis by auto
  next
    case True
    note step = live_step_ok [OF Cons.prems True, of E quiet]
    show ?thesis
    proof (cases "live_step E (basic_of srt ff) persist quiet i S")
      case (Going S')
      with step obtain out' where ok: "live_ok persist srt ff base (es @ sink_events [i]) out' S'" "\<not> stops persist i"
        by (auto simp: step_ok_def)
      from Cons.IH [OF ok(1)] obtain n where "n \<le> length inputs"
        "step_ok persist srt ff base (es @ sink_events (take (Suc n) (i # inputs)))
          (live_loop E (basic_of srt ff) persist ticker quiet inputs S')"
        by (auto simp: sink_events_Cons [of i "take _ inputs"])
      with Cons.IH [OF ok(1)] Going True ok(2) show ?thesis
        by (auto simp: sink_events_Cons [of i inputs] intro!: exI [of _ "Suc n"])
    qed (use step True in \<open>auto intro!: exI [of _ 1]\<close>)
  qed
qed

section \<open>The command\<close>

lemma start_ok: "live_ok persist srt ff (os_incidents O') [] [] (live_start E L s O')"
  by (simp add: live_ok_def taken_def live_start_def newProcessor_def grouped_New reported_def)

lemma console_irrelevant:
  "live_stopped persist srt ff base es (S\<lparr>os_console := w\<rparr>) = live_stopped persist srt ff base es S"
  "live_complete persist srt ff base es (S\<lparr>os_console := w\<rparr>) = live_complete persist srt ff base es S"
  by (simp_all add: live_stopped_def live_complete_def live_ok_def taken_def)

lemma finish_frame:
  assumes "live_finish persist C S err = (S', err')"
  shows "live_stopped persist srt ff base es S \<Longrightarrow> live_stopped persist srt ff base es S'"
    "live_complete persist srt ff base es S \<Longrightarrow> live_complete persist srt ff base es S'"
    "err' = None \<Longrightarrow> err = None \<and> (persist = Queues \<longrightarrow> incident_close C = None \<and> event_close C = None)"
  using assms by (auto simp: live_finish_def Let_def console_irrelevant split: if_splits)

text \<open>What a run amounts to, going on or ended.\<close>

definition run_accounted ::
  "persistence \<Rightarrow> (event list \<Rightarrow> event list) \<Rightarrow> (rat \<Rightarrow> string) \<Rightarrow> closing \<Rightarrow> IncidentRecord list \<Rightarrow> live_input list \<Rightarrow> live_next \<Rightarrow> bool" where
  "run_accounted persist srt ff C base inputs result \<longleftrightarrow>
     (case result of
        Panics \<Rightarrow> False
      | Going S \<Rightarrow> \<exists>out. live_ok persist srt ff base (sink_events inputs) out S
      | Returns S err \<Rightarrow>
          \<exists>n\<le>length inputs. live_stopped persist srt ff base (sink_events (take n inputs)) S \<and>
            (err = None \<longrightarrow> live_complete persist srt ff base (sink_events (take n inputs)) S \<and>
              (persist = Queues \<longrightarrow> incident_close C = None \<and> event_close C = None)))"

lemma runLive_cases:
  assumes "live_prepare E L args = Inr s"
  shows "\<exists>result. runLive E L (basic_of srt ff) C inputs args O' = Inr result \<and>
    run_accounted (ls_persist s) srt ff C (os_incidents O') inputs result \<and>
    ((\<exists>S. result = Going S) \<longrightarrow> \<not> list_ex (stops (ls_persist s)) inputs)"
proof -
  let ?loop = "live_loop E (basic_of srt ff) (ls_persist s) (ls_ticker s) (bool_flag (ls_flags s) ''quiet-events'') inputs
    (live_start E L s O')"
  note loop = live_loop_ok [OF start_ok [of "ls_persist s" srt ff O' E L s], where inputs = inputs and E = E
      and ticker = "ls_ticker s" and quiet = "bool_flag (ls_flags s) ''quiet-events''"]
  show ?thesis
  proof (cases ?loop)
    case (Going S)
    with loop assms show ?thesis by (auto simp: runLive_def run_accounted_def)
  next
    case (Returns S err)
    obtain S' err' where f: "live_finish (ls_persist s) C S err = (S', err')" by fastforce
    from loop Returns obtain n where n: "n \<le> length inputs"
      "live_stopped (ls_persist s) srt ff (os_incidents O') (sink_events (take n inputs)) S"
      "err = None \<longrightarrow> live_complete (ls_persist s) srt ff (os_incidents O') (sink_events (take n inputs)) S"
      by (auto simp: step_ok_def)
    note finish = finish_frame [OF f]
    have "run_accounted (ls_persist s) srt ff C (os_incidents O') inputs (Returns S' err')"
      using n finish by (auto simp: run_accounted_def)
    with Returns f assms show ?thesis by (simp add: runLive_def)
  next
    case Panics
    with loop show ?thesis by (auto simp: step_ok_def)
  qed
qed



end
