(* ===== verification/Cli_Main.thy ===== *)
theory Cli_Main
  imports Cli_Llm Cli_Live
begin

text \<open>
  The entry of the program (\<open>run\<close> and \<open>main\<close> of \<open>cmd/tracejutsu/main.go\<close>): the choice of the command, the
  usage text, and the exit status with the error on the second terminal.
\<close>

definition usage_lines :: "string list" where
  "usage_lines =
     [''tracejutsu: local-first runtime security analyst'',
      [],
      ''Usage:'',
      ''  tracejutsu init [--db path]                       Create a private SQLite state database'',
      ''  tracejutsu doctor [--db path] [--service]         Check local setup and database health'',
      ''  tracejutsu demo [--db path] [fixture.json]       Run the fake-event incident pipeline'',
      ''  tracejutsu run [--db path] [--flush-after time] [--stats-interval time] [--event-buffer count] [--persist-buffer count] [--persist-batch-size count] [--ring-buffer-size bytes] [--collectors list] [--file-write-min-bytes bytes] [--quiet-events]'',
      ''                                                       Stream live runtime events and detect incidents (Linux amd64/arm64, root)'',
      ''  tracejutsu events [--db path] [--limit count] [--type event_type] [--process name] [--pid pid] [--container-id id] [--since time] [--until time]'',
      ''                                                       List stored normalized events'',
      ''  tracejutsu event-summary [--db path] [--type event_type] [--limit count] [--format text|json]'',
      ''                                                       Summarize stored event volume by process and file path'',
      ''  tracejutsu db-stats [--db path] [--format text|json]'',
      ''                                                       Show SQLite table counts and file sizes'',
      ''  tracejutsu incidents [--db path] [--limit count] [--llm-status status] [--since time] [--until time] [--format text|json]'',
      ''                                                       List stored incidents'',
      ''  tracejutsu triage [--db path] [--limit count] [--min-score score] [--evidence-limit count] [--llm-status status] [--since time] [--until time] [--format text|json]'',
      ''                                                       Review prioritized incidents and evidence'',
      ''  tracejutsu show [--db path] [--evidence-limit count] [--format text|json] <incident_id>'',
      ''                                                       Show a stored incident'',
      ''  tracejutsu llm [--db path] <incident_id>         Analyze a stored incident with a local LLM'',
      ''  tracejutsu llm [--db path] --all-pending [--min-score score] [--limit count]'',
      ''                                                       Analyze pending incidents with a local LLM'',
      ''  tracejutsu rules [--format text|json]'',
      ''                                                       List deterministic rules'',
      ''  tracejutsu config               Print local-first default config'',
      ''  tracejutsu version              Print build version metadata'']"

definition writeUsage :: "console \<Rightarrow> console" where
  "writeUsage w = say (Join newline usage_lines @ newline) w"

text \<open>Everything a command may meet, by command.\<close>

record app =
  ap_env :: cli_env
  ap_query :: query_env
  ap_llm :: llm_env
  ap_fixtures :: fixtures
  ap_backend :: backend
  ap_live :: live_env
  ap_closing :: closing
  ap_inputs :: "live_input list"
  buildVersion :: string
  buildCommit :: string
  buildDate :: string

text \<open>A command ends with the terminal, the store and its error; a live run may go on, and the processor may panic.\<close>

datatype app_result = Exited console store_state "go_error option" | StillRunning live_state | Panicked

definition ends_with :: "store_state \<Rightarrow> outcome_of \<Rightarrow> app_result" where
  "ends_with S r = Exited (fst r) S (snd r)"

definition no_incidents :: "console \<Rightarrow> store_state \<Rightarrow> out_state" where
  "no_incidents w S = \<lparr>os_console = w, os_store = S, os_incidents = []\<rparr>"

definition demo_result :: "(out_state \<times> go_error option) option \<Rightarrow> app_result" where
  "demo_result r = (case r of None \<Rightarrow> Panicked | Some (O', err) \<Rightarrow> Exited (os_console O') (os_store O') err)"

definition live_result :: "console \<Rightarrow> store_state \<Rightarrow> go_error + live_next \<Rightarrow> app_result" where
  "live_result w S r =
     (case r of
        Inl err \<Rightarrow> Exited w S (Some err)
      | Inr (Returns L err) \<Rightarrow> Exited (os_console L) (os_store L) err
      | Inr (Going L) \<Rightarrow> StillRunning L
      | Inr Panics \<Rightarrow> Panicked)"

definition llm_result :: "llm_run \<times> go_error option \<Rightarrow> app_result" where
  "llm_result r = Exited (run_console (fst r)) (run_store (fst r)) (snd r)"

definition run :: "app \<Rightarrow> string list \<Rightarrow> console \<Rightarrow> store_state \<Rightarrow> app_result" where
  "run A args w S =
     (let E = ap_env A; D = (ap_query A)\<lparr>stored := committed S\<rparr> in
      case args of
        [] \<Rightarrow> Exited (writeUsage w) S None
      | command # rest \<Rightarrow>
          if command \<in> {''--help'', ''-h'', ''help''} then Exited (writeUsage w) S None
          else if command = ''init'' then ends_with S (runInit E rest w)
          else if command = ''doctor'' then ends_with S (runDoctor E rest w)
          else if command = ''demo'' then demo_result (runDemo E (ap_fixtures A) (ap_backend A) rest (no_incidents w S))
          else if command = ''run'' then
            live_result w S (runLive E (ap_live A) (ap_backend A) (ap_closing A) (ap_inputs A) rest (no_incidents w S))
          else if command = ''rules'' then ends_with S (runRules E rest w)
          else if command = ''config'' then ends_with S (runConfig E w)
          else if command = ''version'' then
            ends_with S (runVersion (buildVersion A) (buildCommit A) (buildDate A) rest w)
          else if command = ''events'' then ends_with S (runEvents E D rest w)
          else if command = ''event-summary'' then ends_with S (runEventSummary E D rest w)
          else if command = ''db-stats'' then ends_with S (runDBStats E D rest w)
          else if command = ''incidents'' then ends_with S (runIncidents E D rest w)
          else if command = ''triage'' then ends_with S (runTriage E D rest w)
          else if command = ''show'' then ends_with S (runShow E D rest w)
          else if command = ''llm'' then
            llm_result (runLLM E (ap_llm A) rest \<lparr>run_console = w, run_store = S, run_requests = []\<rparr>)
          else Exited (writeUsage w) S (Some (''unknown command '' @ oq (osv E) command)))"

text \<open>The exit status of the process and what it writes to the standard error.\<close>

definition main_exit :: "go_error option \<Rightarrow> nat \<times> string list" where
  "main_exit failure =
     (case failure of None \<Rightarrow> (0, []) | Some err \<Rightarrow> (1, [''error: '' @ TerminalText err @ newline]))"

end
