(* ===== verification/Cli_Safety.thy ===== *)
theory Cli_Safety
  imports Cli_Main Report_Laws Collector_Laws
begin

text \<open>
  What the whole program writes to the terminal: text without control characters and direction
  overrides, or the JSON of the encoder.
\<close>

section \<open>Pieces\<close>

definition json_piece :: "cli_env \<Rightarrow> string \<Rightarrow> bool" where
  "json_piece E p \<longleftrightarrow> (\<exists>j s. encode E j = Inr s \<and> (p = s \<or> p = s @ newline))"

text \<open>A step writes safe pieces only.\<close>

definition adds :: "cli_env \<Rightarrow> console \<Rightarrow> console \<Rightarrow> bool" where
  "adds E w w' \<longleftrightarrow> (\<exists>ps. printed w' = printed w @ ps \<and> (\<forall>p\<in>set ps. plain_piece p \<or> json_piece E p))"

lemma adds_refl [intro, simp]: "adds E w w"
  by (auto simp: adds_def intro: exI [of _ "[]"])

lemma adds_trans [trans]: "adds E w w1 \<Longrightarrow> adds E w1 w2 \<Longrightarrow> adds E w w2"
  by (auto simp: adds_def)

lemma adds_write:
  assumes "plain_piece p \<or> json_piece E p"
  shows "adds E w (fst (console_write w p))"
  using assms by (auto simp: adds_def console_write_def split: list.split option.split)

lemma adds_say: "plain_piece p \<Longrightarrow> adds E w (say p w)"
  by (simp add: say_def adds_write)

lemma adds_says: "\<forall>p\<in>set ps. plain_piece p \<Longrightarrow> adds E w (says ps w)"
proof (induction ps arbitrary: w)
  case (Cons p ps)
  then have "adds E w (say p w)" "adds E (say p w) (says ps (say p w))" by (auto intro: adds_say)
  then show ?case by (auto simp: says_def intro: adds_trans)
qed (simp add: says_def)

lemma adds_writeJSON: "adds E w (fst (writeJSON E j w))"
proof (cases "encode E j")
  case (Inr s)
  then have "json_piece E s" by (auto simp: json_piece_def)
  with Inr show ?thesis by (auto simp: writeJSON_def attempt_def intro: adds_write)
qed (simp add: writeJSON_def attempt_def)

lemma adds_attempt: "(\<And>x w. adds E w (fst (k x w))) \<Longrightarrow> adds E w (fst (attempt r k w))"
  by (auto simp: attempt_def split: sum.split)

text \<open>The terminal as a writer of reports.\<close>

interpretation terminal: report_writer console_write "adds E" for E
  by unfold_locales (auto intro: adds_trans adds_write)

lemmas adds_report = terminal.report and adds_analysis = terminal.analysis

text \<open>Assembling a piece.\<close>

lemma plain_append: "plain_piece s \<Longrightarrow> plain_piece t \<Longrightarrow> plain_piece (s @ t)"
  by (auto simp: plain_piece_def dest: lines_append)

lemma plain_shown: "list_all shown s \<Longrightarrow> plain_piece s"
  by (auto simp: plain_piece_def dest: lines_shown)

lemma plain_nl: "plain_piece newline"
  using lines_newline by (auto simp: plain_piece_def)

lemma plain_Terminal: "plain_piece (TerminalText s)"
  using lines_Terminal by (auto simp: plain_piece_def)

lemma shown_spaces: "list_all shown (replicate n CHR '' '')"
  by (simp add: list_all_iff shown_def)

lemma plain_pad: "plain_piece s \<Longrightarrow> plain_piece (pad_right n s)" "plain_piece s \<Longrightarrow> plain_piece (pad_left n s)"
  by (simp_all add: pad_right_def pad_left_def plain_append plain_shown [OF shown_spaces])

lemma plain_if: "plain_piece s \<Longrightarrow> plain_piece t \<Longrightarrow> plain_piece (if b then s else t)"
  by simp

lemma plain_Join: "plain_piece sep \<Longrightarrow> \<forall>s\<in>set ss. plain_piece s \<Longrightarrow> plain_piece (Join sep ss)"
proof (induction sep ss rule: Join.induct)
  case (1 sep)
  show ?case by (simp add: plain_shown)
qed (auto intro: plain_append)

lemma plain_concat: "\<forall>s\<in>set ss. plain_piece s \<Longrightarrow> plain_piece (concat ss)"
proof (induction ss)
  case Nil
  show ?case by (simp add: plain_shown)
qed (auto intro: plain_append)

lemmas plain_rules = plain_nl plain_Terminal plain_pad plain_shown [OF shown_Itoa] plain_shown [OF shown_date]
  plain_shown [OF shown_risk(1)] plain_shown [OF shown_risk(2)] plain_shown [OF shown_decimal] plain_append plain_if

section \<open>The queries\<close>

lemma plain_lines:
  "plain_piece (rule_line d)" "plain_piece (process_line p)" "plain_piece (value_line v)"
  "plain_piece none_line" "plain_piece (incident_line inc)" "plain_piece (formatTriageEvent e)" "plain_piece (next_line path i)"
  unfolding rule_line_def process_line_def value_line_def none_line_def incident_line_def formatTriageEvent_def
    next_line_def Let_def
  by (intro plain_rules; (rule plain_shown; simp add: shown_def)?)+


lemma adds_write_events: "adds E w (fst (write_events E es w))"
proof (induction es arbitrary: w)
  case (Cons e es)
  obtain w1 failure where j: "writeJSON E (EventJSON e) w = (w1, failure)" by fastforce
  with adds_writeJSON [of E w "EventJSON e"] have "adds E w w1" by simp
  with Cons.IH [of w1] j show ?case by (auto split: option.split intro: adds_trans)
qed simp

lemma plain_summary: "\<forall>p\<in>set (summary_pieces t ps vs). plain_piece p"
proof -
  have "plain_piece ((if t = [] then ''event summary'' else ''event summary: type='' @ TerminalText t) @ newline)"
    by (intro plain_rules; (rule plain_shown; simp add: shown_def)?)
  moreover have "plain_piece (newline @ ''Top processes:'' @ newline)" "plain_piece (newline @ ''Top file paths:'' @ newline)"
    by (intro plain_rules; (rule plain_shown; simp add: shown_def)?)+
  moreover have "\<forall>p\<in>set (if ps = [] then [none_line] else map process_line ps). plain_piece p"
    "\<forall>p\<in>set (if vs = [] then [none_line] else map value_line vs). plain_piece p" by (simp_all add: plain_lines)
  ultimately show ?thesis by (simp only: summary_pieces_def set_append ball_Un list.set ball_simps)
qed

lemma plain_named: "list_all shown name \<Longrightarrow> plain_piece (named_number (name, n))"
  unfolding named_number_def fst_conv snd_conv
  by (intro plain_rules; (rule plain_shown; simp add: shown_def)?)

lemma plain_stats: "\<forall>p\<in>set (stats_pieces d). plain_piece p"
proof -
  have "plain_piece (''database stats'' @ newline)" "plain_piece (''path: '' @ TerminalText p @ newline)"
    "plain_piece (''journal_mode: '' @ TerminalText m @ newline)" for p m
    by (intro plain_rules; (rule plain_shown; simp add: shown_def)?)+
  then show ?thesis by (auto simp: stats_pieces_def Let_def shown_def intro!: plain_named)
qed

lemma plain_entries: "list_all shown title \<Longrightarrow> \<forall>p\<in>set (triage_list title lines). plain_piece p"
proof -
  have line: "plain_piece (''  '' @ TerminalText entry @ newline)" for entry
    by (intro plain_rules; (rule plain_shown; simp add: shown_def)?)
  assume "list_all shown title"
  then have "plain_piece title" by (rule plain_shown)
  moreover have "plain_piece ('':'' @ newline)" by (intro plain_rules) (rule plain_shown, simp add: shown_def)
  ultimately have "plain_piece (title @ '':'' @ newline)" by (rule plain_append)
  with line show ?thesis by (auto simp: triage_list_def plain_lines)
qed

lemma plain_evidence: "\<forall>p\<in>set (evidence_pieces limit es). plain_piece p"
proof -
  have "plain_piece (''  '' @ formatTriageEvent e @ newline)" "plain_piece (''  ... '' @ Itoa n @ '' more'' @ newline)" for e n
    by (intro plain_rules plain_lines; (rule plain_shown; simp add: shown_def)?)+
  then show ?thesis by (auto simp: evidence_pieces_def)
qed

lemma plain_triage_head: "\<forall>p\<in>set (triage_head entry). plain_piece p"
proof -
  have "plain_piece (''INCIDENT '' @ TerminalText a @ ''  '' @ map upper_char (RiskLevel b) @ ''  score='' @
      Itoa c @ ''  '' @ format_seconds d @ ''  llm='' @ TerminalText e @ ''  evidence='' @ Itoa f @ newline)"
    "plain_piece (''summary: '' @ TerminalText a @ newline)" for a b c d e f
    by (intro plain_rules; (rule plain_shown; simp add: shown_def)?)+
  moreover have "\<forall>p\<in>set (triage_list ''signals'' ls). plain_piece p" "\<forall>p\<in>set (triage_list ''timeline'' ls). plain_piece p" for ls
    by (rule plain_entries; simp add: shown_def)+
  ultimately show ?thesis by (simp only: triage_head_def Let_def set_append ball_Un list.set ball_simps) blast
qed

lemma adds_triage: "adds E w (fst (triage_text E D path limit index rows w))"
proof (induction rows arbitrary: index w)
  case (Cons entry rows)
  define w1 where "w1 = (if index > 0 then say newline w else w)"
  have "adds E w w1" by (simp add: w1_def adds_say plain_nl)
  moreover have "adds E w1 (says (triage_head entry) w1)" by (rule adds_says [OF plain_triage_head])
  ultimately have head: "adds E w (says (triage_head entry) w1)" by (rule adds_trans)
  define r where "r = (if limit > 0 \<and> EvidenceCount entry > 0
    then map_sum id (\<lambda>(_, linked). (''evidence:'' @ newline) # evidence_pieces limit linked)
      (evidence_of E D (IncidentID (ti_Incident entry))) else Inr [])"
  have r: "\<forall>p\<in>set pieces. plain_piece p" if "r = Inr pieces" for pieces
  proof -
    have "plain_piece (''evidence:'' @ newline)" by (intro plain_rules) (rule plain_shown, simp add: shown_def)
    with that plain_evidence show ?thesis
      by (cases "evidence_of E D (IncidentID (ti_Incident entry))") (auto simp: r_def split: if_splits)
  qed
  have eq: "triage_text E D path limit index (entry # rows) w = attempt r
      (\<lambda>pieces w. triage_text E D path limit (Suc index) rows
         (say (next_line path (IncidentID (ti_Incident entry))) (says pieces w))) (says (triage_head entry) w1)"
    by (simp add: r_def w1_def Let_def)
  show ?case
  proof (cases r)
    case (Inr pieces)
    let ?u = "says pieces (says (triage_head entry) w1)"
    note head
    also have "adds E (says (triage_head entry) w1) ?u" by (rule adds_says [OF r [OF Inr]])
    also have "adds E ?u (say (next_line path (IncidentID (ti_Incident entry))) ?u)" by (rule adds_say [OF plain_lines(7)])
    also note Cons.IH
    finally show ?thesis unfolding eq Inr by (simp add: attempt_def)
  next
    case (Inl err)
    show ?thesis using head unfolding eq Inl by (simp add: attempt_def)
  qed
qed simp

lemma adds_show: "adds E w (fst (show_text E limit inc linked r w))"
proof -
  obtain w1 failure where w1: "report_Write (urls (lib E)) console_write w inc = (w1, failure)" by fastforce
  with adds_report [of E w "urls (lib E)" inc] have "adds E w w1" by simp
  define w2 where "w2 = say (newline @ ''Evidence events: '' @ Itoa (int (length linked)) @ newline) w1"
  define w3 where "w3 = (if limit > 0 then says (evidence_pieces limit linked) w2 else w2)"
  note \<open>adds E w w1\<close>
  also have "adds E w1 w2" unfolding w2_def
    by (intro adds_say plain_rules) (rule plain_shown, simp add: shown_def)
  also have "adds E w2 w3" by (simp add: w3_def adds_says [OF plain_evidence])
  finally have w3: "adds E w w3" .
  have shown: "adds E w (fst (report_WriteLLM (urls (lib E)) console_write (say newline w3) inc rep))" for rep
    using w3 adds_say [OF plain_nl] adds_analysis by (blast intro: adds_trans)
  have "show_text E limit inc linked r w = (case failure of Some err \<Rightarrow> (w1, Some err)
    | None \<Rightarrow> (case r of None \<Rightarrow> (w3, None)
        | Some rep \<Rightarrow> report_WriteLLM (urls (lib E)) console_write (say newline w3) inc (lr_Report rep)))"
    by (simp only: show_text_def w1 prod.case w2_def w3_def Let_def)
  then show ?thesis using \<open>adds E w w1\<close> w3 shown by (simp split: option.split)
qed

lemma adds_attempt_pair:
  "(\<And>x y w. adds E w (fst (k x y w))) \<Longrightarrow> adds E w (fst (attempt r (\<lambda>(x, y). k x y) w))"
  by (rule adds_attempt) (simp split: prod.split)

lemma adds_if: "adds E w (fst r) \<Longrightarrow> adds E w (fst r') \<Longrightarrow> adds E w (fst (if b then r else r'))"
  by simp

lemmas adds_rules = adds_attempt adds_writeJSON adds_refl adds_write_events adds_triage adds_show

lemma adds_queries:
  "adds E w (fst (runEvents E D args w))" "adds E w (fst (runEventSummary E D args w))"
  "adds E w (fst (runDBStats E D args w))" "adds E w (fst (runIncidents E D args w))"
  "adds E w (fst (runTriage E D args w))" "adds E w (fst (runShow E D args w))"
proof -
  have lines: "\<forall>p\<in>set (map incident_line incs). plain_piece p" for incs by (simp add: plain_lines)
  have triage: "adds E w (say (''triage incidents'' @ newline) w)" for w
    by (intro adds_say plain_rules) (rule plain_shown, simp add: shown_def)
  show "adds E w (fst (runEvents E D args w))"
    unfolding runEvents_def by (intro adds_rules; clarsimp; intro adds_rules)
  show "adds E w (fst (runEventSummary E D args w))"
    unfolding runEventSummary_def
    by (rule adds_attempt; clarsimp; intro adds_rules; simp add: adds_writeJSON adds_says [OF plain_summary])
  show "adds E w (fst (runDBStats E D args w))"
    unfolding runDBStats_def Let_def
    by (rule adds_attempt; clarsimp; intro adds_rules; simp add: adds_writeJSON adds_says [OF plain_stats])
  show "adds E w (fst (runIncidents E D args w))"
    unfolding runIncidents_def
    by (rule adds_attempt; clarsimp; intro adds_rules; simp add: adds_writeJSON adds_says [OF lines])
  show "adds E w (fst (runTriage E D args w))"
    unfolding runTriage_def Let_def
    by (intro adds_attempt_pair adds_if adds_rules; (unfold fst_conv)?)
      (rule adds_trans [OF triage adds_say [OF plain_lines(4)]] adds_trans [OF triage adds_triage])+
  show "adds E w (fst (runShow E D args w))"
    unfolding runShow_def
    by (rule adds_attempt; clarsimp; intro adds_rules; clarsimp; intro adds_rules; simp add: adds_rules)
qed

section \<open>Setup and doctor\<close>

definition named_check :: "doctorCheck \<Rightarrow> bool" where
  "named_check c \<longleftrightarrow> list_all shown (dc_Status c) \<and> list_all shown (dc_Name c)"

lemma plain_doctor: "named_check c \<Longrightarrow> plain_piece (doctor_line c)"
proof -
  assume "named_check c"
  then have "plain_piece (dc_Status c)" "plain_piece (dc_Name c)" by (auto simp: named_check_def intro: plain_shown)
  moreover have "plain_piece '' ''" by (rule plain_shown) (simp add: shown_def)
  ultimately show ?thesis unfolding doctor_line_def by (intro plain_rules)
qed

lemma checks_named:
  "\<forall>c\<in>set (checkDatabasePath E path). named_check c" "named_check (checkSystemdService E)"
proof -
  have sidecars: "named_check (checkSQLiteSidecar E path ''-wal'')" "named_check (checkSQLiteSidecar E path ''-shm'')"
    by (simp_all add: checkSQLiteSidecar_def named_check_def shown_def Let_def split: stat_result.split)
  have journal: "named_check (checkReadOnlyJournalMode E path)"
    by (simp add: checkReadOnlyJournalMode_def named_check_def shown_def split: sum.split)
  have "\<forall>c\<in>set (parent_checks E parent info). named_check c" for parent info
    by (auto simp: parent_checks_def named_check_def shown_def split: option.splits if_splits)
  moreover have "\<forall>c\<in>set (file_checks E path). named_check c"
    using sidecars journal by (simp add: file_checks_def named_check_def [of "check a b c" for a b c] shown_def split: stat_result.split)
  ultimately show "\<forall>c\<in>set (checkDatabasePath E path). named_check c"
    by (auto simp: checkDatabasePath_def Let_def named_check_def [of "check a b c" for a b c] shown_def
        split: sum.split stat_result.split)
  show "named_check (checkSystemdService E)"
    by (simp add: checkSystemdService_def named_check_def shown_def Let_def split: prod.split option.split)
qed

lemma adds_setup:
  "adds E w (fst (runInit E args w))" "adds E w (fst (runVersion v c d args w))" "adds E w (fst (runRules E args w))"
  "adds E w (fst (runConfig E w))" "adds E w (fst (runDoctor E args w))" "adds E w (writeUsage w)"
proof -
  have "plain_piece (''initialized tracejutsu database: '' @ TerminalText path @ newline)"
    "plain_piece (''tracejutsu '' @ TerminalText v @ newline)" "plain_piece (''commit: '' @ TerminalText v @ newline)"
    "plain_piece (''build_date: '' @ TerminalText v @ newline)" "plain_piece (''tracejutsu doctor'' @ newline)" for path v
    by (intro plain_rules; (rule plain_shown; simp add: shown_def)?)+
  note texts = this
  show "adds E w (fst (runInit E args w))"
    unfolding runInit_def Let_def
    by (auto split: option.split list.split intro!: adds_attempt adds_say [OF texts(1), simplified])
  have "\<forall>p\<in>set [''tracejutsu '' @ TerminalText v @ newline, ''commit: '' @ TerminalText c @ newline,
      ''build_date: '' @ TerminalText d @ newline]. plain_piece p"
    using texts(2-4) by (simp only: list.set ball_simps)
  then show "adds E w (fst (runVersion v c d args w))"
    unfolding runVersion_def by (intro adds_if; unfold fst_conv) (auto intro: adds_says)
  have "\<forall>p\<in>set (map rule_line RuleDefinitions). plain_piece p" by (simp add: plain_lines)
  then show "adds E w (fst (runRules E args w))"
    unfolding runRules_def
    by (auto split: option.split list.split intro!: adds_attempt adds_writeJSON adds_says)
  show "adds E w (fst (runConfig E w))"
  proof (cases "encode E (ConfigJSON config_Default)")
    case (Inr s)
    then have "json_piece E (s @ newline)" by (auto simp: json_piece_def)
    with Inr show ?thesis by (simp add: runConfig_def say_def adds_write)
  qed (simp add: runConfig_def)
  have "named_check (check ''OK'' n s)" if "n \<in> {''os'', ''arch'', ''db_path''}" for n s
    using that by (auto simp: named_check_def shown_def)
  note named = this
  have start: "adds E w (say (''tracejutsu doctor'' @ newline) w)" by (rule adds_say [OF texts(5)])
  have "adds E w (says (map doctor_line checks) (say (''tracejutsu doctor'' @ newline) w))"
    if "\<forall>c\<in>set checks. named_check c" for checks
    by (rule adds_trans [OF start], rule adds_says) (use that in \<open>auto intro: plain_doctor\<close>)
  moreover have "\<forall>c\<in>set ([check ''OK'' ''os'' (goos E), check ''OK'' ''arch'' (goarch E), check ''OK'' ''db_path'' path] @
      checkDatabasePath E path @ (if service then [checkSystemdService E] else [])). named_check c" for path service
    using named checks_named by auto
  ultimately show "adds E w (fst (runDoctor E args w))"
    unfolding runDoctor_def Let_def by (simp only: fst_conv split: option.split list.split prod.split) blast
  have "\<forall>s\<in>set usage_lines. list_all shown s" by (simp add: usage_lines_def shown_def)
  then show "adds E w (writeUsage w)"
    unfolding writeUsage_def by (intro adds_say plain_append plain_Join plain_nl) (auto intro: plain_shown)
qed

section \<open>Analyses of a language model\<close>

lemma adds_llm_step: "adds E (run_console R) (run_console (fst (analyzeAndWriteLLM E M client n inc R)))"
  using adds_analysis
  by (auto simp: analyzeAndWriteLLM_def split: sum.split prod.split) (metis adds_analysis fst_conv)

lemma plain_batch: "plain_piece (batch_failure_line inc err)" "plain_piece (batch_line a b c)"
  unfolding batch_failure_line_def batch_line_def
  by (intro plain_rules; (rule plain_shown; simp add: shown_def)?)+

lemma adds_batch: "adds E (run_console R) (run_console (fst (batch_loop E M client n rows c f R)))"
proof (induction rows arbitrary: n c f R)
  case (Cons row rows)
  define R0 where "R0 = (if n > 0 then R\<lparr>run_console := say newline (run_console R)\<rparr> else R)"
  obtain R1 failure where R1: "analyzeAndWriteLLM E M client n (ti_Incident row) R0 = (R1, failure)" by fastforce
  have "adds E (run_console R) (run_console R0)" by (simp add: R0_def adds_say plain_nl)
  also have "adds E (run_console R0) (run_console R1)" using adds_llm_step [of E R0 M client n] R1 by (metis fst_conv)
  finally have r1: "adds E (run_console R) (run_console R1)" .
  have fail: "adds E (run_console R1) (say (batch_failure_line inc err) (run_console R1))" for inc err
    by (rule adds_say [OF plain_batch(1)])
  show ?case
  proof (cases failure)
    case None
    with r1 Cons.IH show ?thesis by (auto simp: R0_def [symmetric] R1 Let_def intro: adds_trans)
  next
    case (Some err)
    let ?R2 = "R1\<lparr>run_console := say (batch_failure_line (ti_Incident row) err) (run_console R1)\<rparr>"
    have "adds E (run_console R) (run_console ?R2)" using adds_trans [OF r1 fail] by simp
    from adds_trans [OF this Cons.IH] Some show ?thesis by (simp add: R0_def [symmetric] R1 Let_def)
  qed
qed simp

lemma adds_llm: "adds E (run_console R) (run_console (fst (runLLM E M args R)))"
proof -
  have "adds E (run_console R) (run_console (fst (runLLMBatch E M client limit score R)))" for client limit score
  proof (cases "pending E M limit score (committed (run_store R))")
    case (Inr rows)
    obtain R1 c f where R1: "batch_loop E M client 0 rows 0 0 R = (R1, c, f)" by (metis prod_cases3)
    with adds_batch [of E R M client 0 rows 0 0] have "adds E (run_console R) (run_console R1)" by simp
    also have "adds E (run_console R1) (say (batch_line (length rows) c f) (run_console R1))"
      by (rule adds_say [OF plain_batch(2)])
    finally show ?thesis by (simp add: runLLMBatch_def Inr R1)
  qed (simp add: runLLMBatch_def)
  then show ?thesis using adds_llm_step [of E R M] by (simp add: runLLM_def split: sum.split prod.split)
qed

section \<open>The pipeline commands\<close>

lemma persist_console: "os_console (fst (persist_analysis J persist a S)) = os_console S"
  by (simp add: persist_analysis_def split: persistence.split prod.split sum.split)

lemma adds_analyses:
  assumes "writeAnalyses J persist as any S = (S', any', failure)"
  shows "adds E (os_console S) (os_console S')"
  using assms
proof (induction as arbitrary: any S)
  case (Cons a as)
  obtain S1 failure1 where p: "persist_analysis J persist a S = (S1, failure1)" by fastforce
  then have c: "os_console S1 = os_console S" using persist_console [of J persist a S] by simp
  define w where "w = (if any then say newline (os_console S1) else os_console S1)"
  obtain w' failure2 where r: "report_Write (urls J) console_write w (an_Incident a) = (w', failure2)" by fastforce
  have "adds E (os_console S) w" by (simp add: w_def c adds_say plain_nl)
  also have "adds E w w'" using adds_report [of E w "urls J" "an_Incident a"] r by simp
  finally have w': "adds E (os_console S) w'" .
  show ?case
  proof (cases failure1)
    case None
    show ?thesis
    proof (cases failure2)
      case None
      with \<open>failure1 = None\<close> Cons.prems have "writeAnalyses J persist as True (S1\<lparr>os_console := w'\<rparr>) = (S', any', failure)"
        by (simp add: p w_def [symmetric] r Let_def)
      from Cons.IH [OF this] w' show ?thesis by (auto intro: adds_trans)
    next
      case (Some err)
      with None Cons.prems w' show ?thesis by (auto simp: p w_def [symmetric] r Let_def)
    qed
  next
    case (Some err)
    with Cons.prems c show ?thesis by (auto simp: p)
  qed
qed simp

lemma adds_demo_loop:
  "demo_loop J persist B es p any S = Some (S', any', failure) \<Longrightarrow> adds E (os_console S) (os_console S')"
proof (induction es arbitrary: p any S)
  case Nil
  then show ?case by (auto split: prod.splits sum.splits intro: adds_analyses)
next
  case (Cons e es)
  from Cons.prems show ?case
    by (auto split: option.splits prod.splits sum.splits intro: adds_analyses Cons.IH adds_trans [OF adds_analyses])
qed

lemma adds_demo_end: "adds E w (demo_end path any w)"
proof -
  have "plain_piece (''no suspicious incidents'' @ newline)"
    "plain_piece (newline @ ''stored normalized events and incidents: '' @ TerminalText path @ newline)"
    by (intro plain_rules; (rule plain_shown; simp add: shown_def)?)+
  then show ?thesis unfolding demo_end_def by (intro adds_says) (simp only: set_append ball_Un list.set ball_simps simp_thms split: if_split)
qed

lemma adds_demo:
  assumes "runDemo E F B args S = Some (S', failure)"
  shows "adds E (os_console S) (os_console S')"
proof -
  have db: "os_console (fst (demo_database E path es S)) = os_console S" for path es
    by (simp add: demo_database_def split: sum.split prod.split)
  have "adds E (os_console S) (os_console S')"
    if "demo_database E path es S = (S1, None)" "demo_loop J persist B es p any S1 = Some (S2, any', failure')"
      "S' = (case failure' of Some _ \<Rightarrow> S2 | None \<Rightarrow> S2\<lparr>os_console := demo_end path any' (os_console S2)\<rparr>)"
    for path es S1 J persist p any S2 any' failure'
    using adds_demo_loop [OF that(2), of E] db [of path es] that(1,3)
    by (auto intro: adds_trans [OF _ adds_demo_end] split: option.splits)
  note loop = this
  have early: "adds E (os_console S) (os_console S1)" if "demo_database E path es S = (S1, failure1)" for path es S1 failure1
    using db [of path es] that by simp
  from assms show ?thesis
    unfolding runDemo_def Let_def
    by (auto split: option.splits list.splits if_splits sum.splits prod.splits intro: early dest: loop)
qed

text \<open>A view of the collectors has the names that the collectors have.\<close>

definition named_view :: "stats_view \<Rightarrow> bool" where
  "named_view V \<longleftrightarrow> list_all (\<lambda>(_, name). case name of None \<Rightarrow> True | Some n \<Rightarrow> n \<in> set BehaviorCoreCollectorNames) (sv_children V)"

lemma shown_names: "n \<in> set BehaviorCoreCollectorNames \<Longrightarrow> list_all shown n"
  by (auto simp: BehaviorCoreCollectorNames_def shown_def)

lemma plain_label:
  assumes "named_view V"
  shows "plain_piece (collectorStatsLabel (StatsByCollector (sv_children V)) counter)"
proof -
  have names: "plain_piece (st_Name d)" if "d \<in> set (StatsByCollector (sv_children V))" for d
  proof -
    from that obtain i s name where d: "(i, s, name) \<in> set (zip [0..<length (sv_children V)] (sv_children V))"
      "st_Name d = (case name of Some n \<Rightarrow> n | None \<Rightarrow> ''collector_'' @ Itoa (int i))"
      by (auto simp: StatsByCollector_def split: option.splits)
    then have "(s, name) \<in> set (sv_children V)" by (auto dest: set_zip_rightD)
    with assms have "name = None \<or> the name \<in> set BehaviorCoreCollectorNames"
      by (cases name) (auto simp: named_view_def list_all_iff)
    then have "name = None \<or> list_all shown (the name)" by (auto intro: shown_names)
    moreover have "plain_piece (''collector_'' @ Itoa k)" for k
      by (intro plain_rules) (rule plain_shown, simp add: shown_def)
    ultimately show ?thesis unfolding d(2) by (cases name) (auto intro: plain_shown)
  qed
  have sep: "plain_piece '',''" "plain_piece '':''" "plain_piece ''none''"
    by (rule plain_shown; simp add: shown_def)+
  then have "plain_piece (st_Name d @ '':'' @ word_text k)" if "d \<in> set (StatsByCollector (sv_children V))" for d k
    by (intro plain_append names [OF that] plain_shown [OF shown_Itoa])
  then have "\<forall>p\<in>set (map (\<lambda>d. st_Name d @ '':'' @ word_text (counter (st_Stats d))) (StatsByCollector (sv_children V))). plain_piece p"
    by (simp only: set_map ball_simps) blast
  with sep show ?thesis
    unfolding collectorStatsLabel_def by (intro plain_if plain_Join)
qed

lemma plain_live_stats:
  assumes V: "named_view V"
  shows "\<forall>p\<in>set (live_stats_pieces V s n). plain_piece p"
proof -
  have labels: "plain_piece (labelled numbers)" if "\<forall>(label, _)\<in>set numbers. list_all shown label" for numbers
  proof -
    have "plain_piece ('' '' @ label @ ''='' @ word_text k)" if "(label, k) \<in> set numbers" for label k
    proof -
      from that \<open>\<forall>(label, _)\<in>set numbers. list_all shown label\<close> have "plain_piece label" by (auto intro: plain_shown)
      moreover have "plain_piece '' ''" "plain_piece ''=''" by (rule plain_shown; simp add: shown_def)+
      ultimately show ?thesis by (intro plain_rules)
    qed
    then have "\<forall>p\<in>set (map (\<lambda>(label, k). '' '' @ label @ ''='' @ word_text k) numbers). plain_piece p"
      by (simp only: set_map ball_simps) (auto simp only: prod.case)
    then show ?thesis unfolding labelled_def by (rule plain_concat)
  qed
  have "plain_piece ('' collector_ring_dropped='' @ collectorStatsLabel (StatsByCollector (sv_children V)) RingBufferDropped @
      '' collector_correlation_dropped='' @ collectorStatsLabel (StatsByCollector (sv_children V)) CorrelationDropped)"
    by (intro plain_append plain_label V; (rule plain_shown; simp add: shown_def)?)
  moreover have "plain_piece (''runtime stats:'' @ labelled numbers)" if "\<forall>(label, _)\<in>set numbers. list_all shown label" for numbers
    by (rule plain_append [OF _ labels [OF that]]) (rule plain_shown, simp add: shown_def)
  note start = this
  ultimately show ?thesis
    unfolding live_stats_pieces_def Let_def
    by (simp only: list.set ball_simps simp_thms plain_nl) (rule start, simp add: shown_def)
qed

section \<open>The live loop\<close>

definition next_adds :: "cli_env \<Rightarrow> console \<Rightarrow> live_next \<Rightarrow> bool" where
  "next_adds E w r = (case r of Going S \<Rightarrow> adds E w (os_console S) | Returns S _ \<Rightarrow> adds E w (os_console S) | Panics \<Rightarrow> True)"

lemma next_adds_trans: "adds E w w1 \<Longrightarrow> next_adds E w1 r \<Longrightarrow> next_adds E w r"
  by (auto simp: next_adds_def split: live_next.splits intro: adds_trans)

lemma adds_live_write: "next_adds E (os_console S) (live_write J persist result S)"
proof (cases result)
  case (Pair r p)
  show ?thesis
  proof (cases r)
    case (Inr as)
    obtain S' any failure where w: "writeAnalyses J persist as False (S\<lparr>lv_processor := p\<rparr>) = (S', any, failure)"
      by (metis prod_cases3)
    from adds_analyses [OF w, of E] show ?thesis
      by (simp add: live_write_def Pair Inr w next_adds_def split: option.split)
  qed (simp add: live_write_def Pair next_adds_def)
qed

definition named_input :: "live_input \<Rightarrow> bool" where
  "named_input i = (case i of StatsTick V \<Rightarrow> named_view V | _ \<Rightarrow> True)"

lemma adds_live_step:
  assumes "named_input i"
  shows "next_adds E (os_console S) (live_step E B persist quiet i S)"
proof (cases i)
  case (FromSink e)
  define S1 where "S1 = S\<lparr>lv_enqueued := (if persist = Queues then lv_enqueued S @ [e] else lv_enqueued S),
    lv_normalized := lv_normalized S + 1\<rparr>"
  obtain w failure where w: "writeLiveEvent E quiet e (os_console S1) = (w, failure)" by fastforce
  moreover have "os_console S1 = os_console S" by (simp add: S1_def)
  ultimately have a: "adds E (os_console S) w"
    using adds_writeJSON [of E "os_console S" "EventJSON e"]
    by (auto simp: writeLiveEvent_def split: if_splits prod.splits option.splits)
  have "next_adds E w (live_write (lib E) persist result (S1\<lparr>os_console := w\<rparr>))" for result
    using adds_live_write [of E "S1\<lparr>os_console := w\<rparr>"] by simp
  note went_on = next_adds_trans [OF a this]
  have "live_step E B persist quiet (FromSink e) S = (case failure of
      Some err \<Rightarrow> Returns (S1\<lparr>os_console := w\<rparr>) (Some err)
    | None \<Rightarrow> (case proc_Add (det_of B) (cmp_of B) e (lv_processor S1) of
        None \<Rightarrow> Panics | Some result \<Rightarrow> live_write (lib E) persist result (S1\<lparr>os_console := w\<rparr>)))"
    by (simp only: live_step_def live_input.case S1_def [symmetric] Let_def w prod.case)
  with a went_on FromSink show ?thesis by (auto simp: next_adds_def split: option.split)
next
  case (SinkClosed r)
  let ?r = "live_write (lib E) persist (proc_Drain (det_of B) (cmp_of B) (lv_processor S)) S"
  show ?thesis using adds_live_write [of E S "lib E" persist "proc_Drain (det_of B) (cmp_of B) (lv_processor S)"]
    by (cases ?r) (simp_all add: live_step_def SinkClosed next_adds_def)
next
  case (StatsTick V)
  with assms have "named_view V" by (simp add: named_input_def)
  from plain_live_stats [OF this] show ?thesis by (simp add: live_step_def StatsTick next_adds_def adds_says)
qed (simp_all add: live_step_def adds_live_write, simp_all add: next_adds_def)

lemma adds_live_loop:
  "list_all named_input inputs \<Longrightarrow> next_adds E (os_console S) (live_loop E B persist ticker quiet inputs S)"
proof (induction inputs arbitrary: S)
  case (Cons i inputs)
  then have step: "next_adds E (os_console S) (live_step E B persist quiet i S)" by (simp add: adds_live_step)
  show ?case
  proof (cases "live_step E B persist quiet i S")
    case (Going S')
    with step have "adds E (os_console S) (os_console S')" by (simp add: next_adds_def)
    with Cons Going show ?thesis by (auto intro: next_adds_trans)
  qed (use step Cons in auto)
qed (simp add: next_adds_def)

lemma plain_micro: "plain_piece micro_sign"
proof -
  have r: "runes (micro_sign @ s) = 0xB5 # runes s" for s
    unfolding micro_sign_def by (rule runes_encode) (simp add: valid_rune_def)
  have "closed_text micro_sign" using r r [of "[]"] by (simp add: closed_text_def)
  moreover have "runes micro_sign = [0xB5]" using r [of "[]"] by simp
  ultimately show ?thesis by (auto simp: plain_piece_def lines_of_def unsafe_rune_def IsControl_def)
qed

lemma plain_duration: "plain_piece (duration_text d)"
proof -
  have "list_all shown ds \<Longrightarrow> list_all shown (rev (dropWhile P (rev ds)))" for ds P
    by (auto simp: list_all_iff dest: set_dropWhileD)
  then have "list_all shown (fraction_text k n)" for k n
    by (simp add: fraction_text_def Let_def shown_digits) (simp add: shown_def)
  then have fraction: "plain_piece (fraction_text k n)" for k n by (rule plain_shown)
  show ?thesis
    unfolding duration_text_def Let_def
    by (intro plain_rules fraction plain_micro; (rule plain_shown; simp add: shown_def)?)
qed

lemma adds_banner:
  assumes "live_prepare E L args = Inr s"
  shows "plain_piece (live_banner L s)"
proof -
  from assms obtain fs where "ParseCollectorNames (oq (osv E)) (string_flag fs ''collectors'') = Inr (ls_collectors s)"
    by (auto simp: live_prepare_def Let_def sum_bind_def split: option.splits list.splits sum.splits if_splits)
  from Parse_good [OF this] have "\<forall>n\<in>set (ls_collectors s). plain_piece n"
    by (auto simp: good_names_def intro!: plain_shown shown_names)
  moreover have "plain_piece '',''" by (rule plain_shown) (simp add: shown_def)
  ultimately have names: "plain_piece (Join '','' (ls_collectors s))" by (intro plain_Join)
  have bool: "plain_piece (bool_text b)" for b by (rule plain_shown) (simp add: bool_text_def shown_def)
  have label: "plain_piece (statsIntervalLabel d)" for d
    unfolding statsIntervalLabel_def by (intro plain_if plain_duration) (rule plain_shown, simp add: shown_def)
  show ?thesis
    unfolding live_banner_def Let_def
    by (intro plain_rules names bool label; (rule plain_shown; simp add: shown_def)?)
qed

lemma adds_live:
  assumes "runLive E L B C inputs args S = Inr r" "list_all named_input inputs" "named_view (last_stats C)"
  shows "next_adds E (os_console S) r"
proof -
  from assms(1) obtain s where s: "live_prepare E L args = Inr s" by (auto simp: runLive_def split: sum.splits)
  let ?S = "live_start E L s S"
  have start: "adds E (os_console S) (os_console ?S)" by (simp add: live_start_def adds_say [OF adds_banner [OF s]])
  define l where "l = live_loop E B (ls_persist s) (ls_ticker s) (bool_flag (ls_flags s) ''quiet-events'') inputs ?S"
  have loop: "next_adds E (os_console S) l"
    unfolding l_def by (rule next_adds_trans [OF start adds_live_loop [OF assms(2)]])
  have r: "r = (case l of Returns T err \<Rightarrow> (case live_finish (ls_persist s) C T err of (T', err') \<Rightarrow> Returns T' err') | other \<Rightarrow> other)"
    using assms(1) by (simp add: runLive_def s l_def [symmetric])
  show ?thesis
  proof (cases l)
    case (Returns T err)
    have "adds E (os_console T) (says (live_stats_pieces (last_stats C) (p_stats (lv_processor T)) (lv_normalized T)) (os_console T))"
      by (rule adds_says [OF plain_live_stats [OF assms(3)]])
    with loop Returns show ?thesis
      by (auto simp: r live_finish_def Let_def next_adds_def intro: adds_trans)
  qed (use loop r in simp_all)
qed

section \<open>The program\<close>

definition collectors_named :: "app \<Rightarrow> bool" where
  "collectors_named A \<longleftrightarrow> list_all named_input (ap_inputs A) \<and> named_view (last_stats (ap_closing A))"

definition terminal_safe :: "app \<Rightarrow> console \<Rightarrow> app_result \<Rightarrow> bool" where
  "terminal_safe A w r \<longleftrightarrow>
     (case r of
        Exited w' _ failure \<Rightarrow> adds (ap_env A) w w' \<and> list_all plain_piece (snd (main_exit failure))
      | StillRunning S \<Rightarrow> adds (ap_env A) w (os_console S)
      | Panicked \<Rightarrow> True)"

lemma plain_exit: "list_all plain_piece (snd (main_exit failure))"
proof -
  have "plain_piece (''error: '' @ TerminalText err @ newline)" for err
    by (intro plain_rules; (rule plain_shown; simp add: shown_def)?)
  then show ?thesis by (cases failure) (simp_all only: main_exit_def option.case snd_conv list.pred_inject simp_thms)
qed

lemma terminal_safe_ends: "adds (ap_env A) w (fst r) \<Longrightarrow> terminal_safe A w (ends_with S r)"
  by (simp add: terminal_safe_def ends_with_def plain_exit)

lemma terminal_safe_exit: "adds (ap_env A) w w' \<Longrightarrow> terminal_safe A w (Exited w' S failure)"
  by (simp add: terminal_safe_def plain_exit)

lemma terminal_safe_demo: "terminal_safe A w (demo_result (runDemo (ap_env A) F B args (no_incidents w S)))"
  by (auto simp: terminal_safe_def demo_result_def no_incidents_def plain_exit split: option.split dest!: adds_demo)

lemma terminal_safe_live:
  assumes "collectors_named A"
  shows "terminal_safe A w (live_result w S (runLive (ap_env A) L B (ap_closing A) (ap_inputs A) args (no_incidents w S)))"
proof (cases "runLive (ap_env A) L B (ap_closing A) (ap_inputs A) args (no_incidents w S)")
  case (Inr r)
  from adds_live [OF this] assms have "next_adds (ap_env A) w r" by (simp add: collectors_named_def no_incidents_def)
  then show ?thesis
    by (cases r) (simp_all add: Inr live_result_def terminal_safe_def next_adds_def plain_exit)
qed (simp add: live_result_def terminal_safe_def plain_exit)

lemma terminal_safe_llm:
  "terminal_safe A w (llm_result (runLLM (ap_env A) M args \<lparr>run_console = w, run_store = S, run_requests = []\<rparr>))"
  using adds_llm [of "ap_env A" "\<lparr>run_console = w, run_store = S, run_requests = []\<rparr>" M args]
  by (simp add: llm_result_def terminal_safe_def plain_exit)


definition sample_view :: stats_view where
  "sample_view = \<lparr>sv_children = [(Some \<lparr>RingBufferDropped = 2, CorrelationDropped = 0\<rparr>, Some ''execve'')],
     sv_events = None, sv_incidents = None\<rparr>"

definition sample_closing :: closing where
  "sample_closing = \<lparr>incident_close = None, event_close = None, last_stats = sample_view\<rparr>"


end
